(* ===== verification/Prelude.thy ===== *)
theory Prelude
  imports Main "HOL-Library.Word" "HOL-Library.Signed_Division" "HOL-Library.Sublist"
begin

text \<open>
  Shared vocabulary of the development.

  A Go function that can return an error, panic or loop is modelled by the type \<open>outcome\<close>:
  \<open>Ret\<close> is a normal return, \<open>Fail\<close> a non-nil \<open>error\<close>, \<open>Panic\<close> a run-time panic (nil
  dereference, failed type assertion, integer division by zero, index out of range) and
  \<open>Diverge\<close> a loop that has used up its fuel. A Go error carries its text (some callers search it
  for substrings) and the two classes of the Kubernetes API errors that the code tests for
  (\<open>apierrors.IsNotFound\<close>, \<open>apierrors.IsConflict\<close>); \<open>fmt.Errorf\<close> with \<open>%v\<close> drops the class.

  Effects are threaded explicitly: \<open>('w, 'a) go\<close> is a computation over a world \<open>'w\<close>. The world is
  left abstract in the component theories, and the services behind it (the Kubernetes API server,
  the NATS connection, the clock, restic) are passed as arguments.
\<close>

section \<open>Errors and outcomes\<close>

datatype ekind = EPlain | ENotFound | EConflict

record gerr =
  err_kind :: ekind
  err_text :: string

definition Errorf :: "string \<Rightarrow> gerr" where
  "Errorf s = \<lparr>err_kind = EPlain, err_text = s\<rparr>"

definition IsNotFound :: "gerr \<Rightarrow> bool" where
  "IsNotFound e \<longleftrightarrow> err_kind e = ENotFound"

definition IsConflict :: "gerr \<Rightarrow> bool" where
  "IsConflict e \<longleftrightarrow> err_kind e = EConflict"

datatype 'a outcome = Ret 'a | Fail gerr | Panic string | Diverge

type_synonym ('w, 'a) go = "'w \<Rightarrow> 'a outcome \<times> 'w"

named_theorems go_simps \<open>equations of the outcome monad, for symbolic execution of handlers\<close>

lemma Errorf_sel [simp]: "err_kind (Errorf s) = EPlain" "err_text (Errorf s) = s"
  by (simp_all add: Errorf_def)

lemma Errorf_class [simp]: "\<not> IsNotFound (Errorf s)" "\<not> IsConflict (Errorf s)"
  by (simp_all add: IsNotFound_def IsConflict_def)

lemma Errorf_inject [simp]: "Errorf s = Errorf t \<longleftrightarrow> s = t"
  by (simp add: Errorf_def)

section \<open>Sequencing of pure outcomes\<close>

fun bindO :: "'a outcome \<Rightarrow> ('a \<Rightarrow> 'b outcome) \<Rightarrow> 'b outcome" where
  "bindO (Ret x) f = f x"
| "bindO (Fail e) f = Fail e"
| "bindO (Panic p) f = Panic p"
| "bindO Diverge f = Diverge"

lemma bindO_Ret_iff:
  "bindO m f = Ret y \<longleftrightarrow> (\<exists>x. m = Ret x \<and> f x = Ret y)"
  by (cases m) auto

lemma bindO_assoc: "bindO (bindO m f) g = bindO m (\<lambda>x. bindO (f x) g)"
  by (cases m) simp_all

section \<open>Sequencing of effectful outcomes\<close>

definition ret :: "'a \<Rightarrow> ('w, 'a) go" where
  "ret x = (\<lambda>w. (Ret x, w))"

definition raise :: "gerr \<Rightarrow> ('w, 'a) go" where
  "raise e = (\<lambda>w. (Fail e, w))"

definition panicG :: "string \<Rightarrow> ('w, 'a) go" where
  "panicG p = (\<lambda>w. (Panic p, w))"

definition liftO :: "'a outcome \<Rightarrow> ('w, 'a) go" where
  "liftO r = (\<lambda>w. (r, w))"

text \<open>
  \<open>tryG m f h\<close> is \<open>v, err := m(); if err != nil { h(err) } else { f(v) }\<close>; a panic is not an
  error and is passed on. \<open>bindG\<close> returns the error unchanged.
\<close>

definition tryG :: "('w, 'a) go \<Rightarrow> ('a \<Rightarrow> ('w, 'b) go) \<Rightarrow> (gerr \<Rightarrow> ('w, 'b) go) \<Rightarrow> ('w, 'b) go" where
  "tryG m f h = (\<lambda>w. case m w of
      (Ret x, w') \<Rightarrow> f x w'
    | (Fail e, w') \<Rightarrow> h e w'
    | (Panic p, w') \<Rightarrow> (Panic p, w')
    | (Diverge, w') \<Rightarrow> (Diverge, w'))"

definition bindG :: "('w, 'a) go \<Rightarrow> ('a \<Rightarrow> ('w, 'b) go) \<Rightarrow> ('w, 'b) go" where
  "bindG m f = tryG m f raise"

text \<open>\<open>recoverG\<close> is a deferred \<open>recover()\<close>: it turns a panic into a normal return.\<close>

definition recoverG :: "('w, 'a) go \<Rightarrow> (string \<Rightarrow> ('w, 'a) go) \<Rightarrow> ('w, 'a) go" where
  "recoverG m h = (\<lambda>w. case m w of (Panic p, w') \<Rightarrow> h p w' | r \<Rightarrow> r)"

definition derefG :: "string \<Rightarrow> 'a option \<Rightarrow> ('w, 'a) go" where
  "derefG what p = (case p of None \<Rightarrow> panicG what | Some x \<Rightarrow> ret x)"

text \<open>
  The primitive computations leave the world alone, so each is \<open>Pair\<close> of its outcome; the
  simplifier works with that form.
\<close>

lemma ret_Pair [simp, go_simps]: "ret x = Pair (Ret x)"
  and raise_Pair [simp, go_simps]: "raise e = Pair (Fail e)"
  and panicG_Pair [simp, go_simps]: "panicG p = Pair (Panic p)"
  and liftO_Pair [simp, go_simps]: "liftO r = Pair r"
  by (simp_all add: ret_def raise_def panicG_def liftO_def)

lemma derefG_simps [simp, go_simps]:
  "derefG what None = panicG what" "derefG what (Some x) = ret x"
  by (simp_all add: derefG_def)

lemma tryG_Ret [go_simps]: "m w = (Ret x, w') \<Longrightarrow> tryG m f h w = f x w'"
  and tryG_Fail [go_simps]: "m w = (Fail e, w') \<Longrightarrow> tryG m f h w = h e w'"
  and tryG_Panic [go_simps]: "m w = (Panic p, w') \<Longrightarrow> tryG m f h w = (Panic p, w')"
  and tryG_Diverge [go_simps]: "m w = (Diverge, w') \<Longrightarrow> tryG m f h w = (Diverge, w')"
  by (simp_all add: tryG_def)

lemma bindG_Ret [go_simps]: "m w = (Ret x, w') \<Longrightarrow> bindG m f w = f x w'"
  and bindG_Fail [go_simps]: "m w = (Fail e, w') \<Longrightarrow> bindG m f w = (Fail e, w')"
  and bindG_Panic [go_simps]: "m w = (Panic p, w') \<Longrightarrow> bindG m f w = (Panic p, w')"
  and bindG_Diverge [go_simps]: "m w = (Diverge, w') \<Longrightarrow> bindG m f w = (Diverge, w')"
  by (simp_all add: bindG_def tryG_def)

lemma bindG_Pair [simp]:
  "bindG (Pair (Ret x)) f = f x"
  "bindG (Pair (Fail e)) f = Pair (Fail e)"
  "bindG (Pair (Panic p)) f = Pair (Panic p)"
  "bindG (Pair Diverge) f = Pair Diverge"
  by (rule ext, simp add: bindG_def tryG_def)+

lemma tryG_Pair [simp]:
  "tryG (Pair (Ret x)) f h = f x"
  "tryG (Pair (Fail e)) f h = h e"
  "tryG (Pair (Panic p)) f h = Pair (Panic p)"
  "tryG (Pair Diverge) f h = Pair Diverge"
  by (rule ext, simp add: tryG_def)+

lemma recoverG_Pair [simp]:
  "recoverG (Pair (Ret x)) h' = Pair (Ret x)"
  "recoverG (Pair (Fail e)) h' = Pair (Fail e)"
  "recoverG (Pair (Panic p)) h' = h' p"
  by (rule ext, simp add: recoverG_def)+

lemma bindG_apply:
  "bindG m f w = (case m w of
      (Ret x, w') \<Rightarrow> f x w'
    | (Fail e, w') \<Rightarrow> (Fail e, w')
    | (Panic p, w') \<Rightarrow> (Panic p, w')
    | (Diverge, w') \<Rightarrow> (Diverge, w'))"
  by (simp add: bindG_def tryG_def split: prod.split outcome.split)

lemma bindG_Ret_iff:
  "bindG m f w = (Ret y, w'') \<longleftrightarrow> (\<exists>x w'. m w = (Ret x, w') \<and> f x w' = (Ret y, w''))"
  by (auto simp: bindG_apply split: outcome.splits prod.splits)

lemma bindG_assoc: "bindG (bindG m f) g = bindG m (\<lambda>x. bindG (f x) g)"
  by (rule ext) (simp add: bindG_apply split: outcome.split prod.split)

text \<open>A Go \<open>for range\<close> loop whose body may fail: the first failure stops it.\<close>

fun forG :: "('a \<Rightarrow> ('w, unit) go) \<Rightarrow> 'a list \<Rightarrow> ('w, unit) go" where
  "forG f [] = ret ()"
| "forG f (x # xs) = bindG (f x) (\<lambda>_. forG f xs)"

lemma forG_append: "forG f (xs @ ys) = bindG (forG f xs) (\<lambda>_. forG f ys)"
  by (induction xs) (simp_all add: bindG_assoc)

section \<open>Machine integers of the source\<close>

text \<open>
  Go's \<open>int\<close> and \<open>int64\<close> are 64-bit two's complement: \<open>i64\<close> is the wrap-around of an
  arithmetic result, \<open>sdiv\<close> the truncating division of the language. \<open>uint64\<close> is \<open>64 word\<close>.
\<close>

type_synonym u64 = "64 word"

definition i64 :: "int \<Rightarrow> int" where
  "i64 x = signed_take_bit 63 x"

definition i64_range :: "int \<Rightarrow> bool" where
  "i64_range x \<longleftrightarrow> - (2 ^ 63) \<le> x \<and> x < 2 ^ 63"

lemma i64_id [simp]: "i64_range x \<Longrightarrow> i64 x = x"
  by (simp add: i64_range_def i64_def signed_take_bit_int_eq_self)

lemma i64_range_i64 [simp]: "i64_range (i64 x)"
  using signed_take_bit_int_greater_eq_minus_exp[of 63 x] signed_take_bit_int_less_exp[of 63 x]
  by (simp add: i64_range_def i64_def)

lemma i64_small [simp]: "- 9223372036854775808 \<le> x \<Longrightarrow> x < 9223372036854775808 \<Longrightarrow> i64 x = x"
  by (simp add: i64_range_def)

section \<open>Maps of the source\<close>

text \<open>
  A Go \<open>map[string]string\<close> is an association list with distinct keys: ranging over it visits the
  entries in an unspecified order, which here is the order of the list.
\<close>

type_synonym smap = "(string \<times> string) list"

definition mget :: "smap \<Rightarrow> string \<Rightarrow> string" where
  "mget m k = (case map_of m k of None \<Rightarrow> [] | Some v \<Rightarrow> v)"

fun mput :: "('k \<times> 'v) list \<Rightarrow> 'k \<Rightarrow> 'v \<Rightarrow> ('k \<times> 'v) list" where
  "mput [] k v = [(k, v)]"
| "mput ((k', v') # m) k v = (if k' = k then (k, v) # m else (k', v') # mput m k v)"

definition mdel :: "('k \<times> 'v) list \<Rightarrow> 'k \<Rightarrow> ('k \<times> 'v) list" where
  "mdel m k = filter (\<lambda>p. fst p \<noteq> k) m"

lemma map_of_mput [simp]: "map_of (mput m k v) = (map_of m)(k \<mapsto> v)"
  by (induction m) auto

lemma map_of_mdel [simp]: "map_of (mdel m k) = (map_of m)(k := None)"
  by (rule ext, induction m) (auto simp: mdel_def)

lemma keys_mput: "fst ` set (mput m k v) = insert k (fst ` set m)"
  by (induction m k v rule: mput.induct) auto

lemma keys_mdel: "fst ` set (mdel m k) = fst ` set m - {k}"
  by (auto simp: mdel_def)

lemma distinct_mput [intro]: "distinct (map fst m) \<Longrightarrow> distinct (map fst (mput m k v))"
  by (induction m k v rule: mput.induct) (auto simp: keys_mput)

lemma distinct_mdel [intro]: "distinct (map fst m) \<Longrightarrow> distinct (map fst (mdel m k))"
  by (simp add: mdel_def distinct_map_filter)

lemma set_mput_subset: "set (mput m k v) \<subseteq> insert (k, v) (set m)"
  by (induction m k v rule: mput.induct) auto

lemma set_mdel [simp]: "set (mdel m k) = {p \<in> set m. fst p \<noteq> k}"
  by (auto simp: mdel_def)

lemma mget_mput [simp]: "mget (mput m k v) k' = (if k' = k then v else mget m k')"
  by (simp add: mget_def)

end
