(* ===== verification/GoStrings.thy ===== *)
theory GoStrings
  imports Prelude
begin

text \<open>
  The parts of Go's \<open>strings\<close>, \<open>strconv\<close>, \<open>unicode/utf8\<close> and \<open>encoding/base64\<close> that the program
  uses. A Go string is a sequence of bytes: a \<open>char list\<close>. The rune-wise functions decode UTF-8 the
  way the language does (an ill-formed byte is the rune U+FFFD of width 1).
\<close>

section \<open>Searching and cutting\<close>

definition HasPrefix :: "string \<Rightarrow> string \<Rightarrow> bool" where
  "HasPrefix s p = prefix p s"

definition HasSuffix :: "string \<Rightarrow> string \<Rightarrow> bool" where
  "HasSuffix s p = suffix p s"

definition TrimPrefix :: "string \<Rightarrow> string \<Rightarrow> string" where
  "TrimPrefix s p = (if HasPrefix s p then drop (length p) s else s)"

text \<open>\<open>strings.Index\<close>: \<open>None\<close> is its -1.\<close>

fun index_of :: "string \<Rightarrow> string \<Rightarrow> nat option" where
  "index_of [] p = (if p = [] then Some 0 else None)"
| "index_of (c # s) p = (if prefix p (c # s) then Some 0 else map_option Suc (index_of s p))"

definition Contains :: "string \<Rightarrow> string \<Rightarrow> bool" where
  "Contains s p = (index_of s p \<noteq> None)"

lemma index_of_Some_bound: "index_of s p = Some i \<Longrightarrow> i + length p \<le> length s"
proof (induction s arbitrary: i)
  case (Cons c s)
  show ?case
    using Cons.prems Cons.IH by (auto split: if_splits dest: prefix_length_le)
qed (auto split: if_splits)

lemma index_of_Some_split:
  "index_of s p = Some i \<Longrightarrow> s = take i s @ p @ drop (i + length p) s"
proof (induction s arbitrary: i)
  case (Cons c s)
  then show ?case by (auto split: if_splits elim!: prefixE)
qed (auto split: if_splits)

lemma index_of_sublist: "(\<exists>i. index_of s p = Some i) \<longleftrightarrow> (\<exists>a b. s = a @ p @ b)"
proof
  assume "\<exists>i. index_of s p = Some i"
  then show "\<exists>a b. s = a @ p @ b" using index_of_Some_split by blast
next
  assume "\<exists>a b. s = a @ p @ b"
  then obtain a b where "s = a @ p @ b" by blast
  then show "\<exists>i. index_of s p = Some i"
  proof (induction a arbitrary: s)
    case Nil
    then have "prefix p s" by simp
    then show ?case by (cases s) auto
  next
    case (Cons c a)
    then show ?case by (auto split: if_splits)
  qed
qed

lemma Contains_iff: "Contains s p \<longleftrightarrow> (\<exists>a b. s = a @ p @ b)"
  using index_of_sublist[of s p] by (simp add: Contains_def)

lemma index_of_append_fresh:
  "c \<notin> set a \<Longrightarrow> index_of (a @ c # b) [c] = Some (length a)"
  by (induction a) auto

lemma index_of_None_char: "c \<notin> set s \<Longrightarrow> index_of s [c] = None"
  by (induction s) auto

section \<open>Splitting and joining\<close>

text \<open>\<open>strings.Split\<close> for a non-empty separator (the program never splits on the empty string).\<close>

function split_ne :: "string \<Rightarrow> string \<Rightarrow> string list" where
  "split_ne s sep = (case index_of s sep of
      None \<Rightarrow> [s]
    | Some i \<Rightarrow> if sep = [] then [s] else take i s # split_ne (drop (i + length sep) s) sep)"
  by auto
termination
proof (relation "measure (\<lambda>(s, _). length s)")
  fix s sep :: string and i
  assume "index_of s sep = Some i" and "sep \<noteq> []"
  then show "((drop (i + length sep) s, sep), s, sep) \<in> measure (\<lambda>(s, _). length s)"
    using index_of_Some_bound[of s sep i] by (cases sep) auto
qed simp

declare split_ne.simps [simp del]

definition Split :: "string \<Rightarrow> string \<Rightarrow> string list" where
  "Split s sep = split_ne s sep"

text \<open>\<open>strings.SplitN(s, sep, 2)\<close>.\<close>

definition SplitN2 :: "string \<Rightarrow> string \<Rightarrow> string list" where
  "SplitN2 s sep = (case index_of s sep of
      None \<Rightarrow> [s] | Some i \<Rightarrow> [take i s, drop (i + length sep) s])"

fun Join :: "string list \<Rightarrow> string \<Rightarrow> string" where
  "Join [] sep = []"
| "Join [x] sep = x"
| "Join (x # y # ys) sep = x @ sep @ Join (y # ys) sep"

lemma Join_Cons: "ys \<noteq> [] \<Longrightarrow> Join (x # ys) sep = x @ sep @ Join ys sep"
  by (cases ys) auto

lemma split_ne_not_Nil [simp]: "split_ne s sep \<noteq> []"
  by (subst split_ne.simps) (auto split: option.split)

lemma Split_not_Nil [simp]: "Split s sep \<noteq> []"
  by (simp add: Split_def)

lemma Join_split_ne: "Join (split_ne s sep) sep = s"
proof (induction s sep rule: split_ne.induct)
  case (1 s sep)
  show ?case
  proof (cases "index_of s sep")
    case None
    then show ?thesis by (subst split_ne.simps) simp
  next
    case (Some i)
    then show ?thesis
      using 1[OF Some] index_of_Some_split[OF Some]
      by (subst split_ne.simps) (auto simp: Join_Cons)
  qed
qed

lemma Join_Split [simp]: "Join (Split s sep) sep = s"
  by (simp add: Split_def Join_split_ne)

lemma Split_fresh [simp]: "c \<notin> set s \<Longrightarrow> Split s [c] = [s]"
  unfolding Split_def by (subst split_ne.simps) (simp add: index_of_None_char)

lemma Split_append_char:
  "c \<notin> set a \<Longrightarrow> Split (a @ c # b) [c] = a # Split b [c]"
  unfolding Split_def by (subst split_ne.simps) (simp add: index_of_append_fresh)

lemma Split_no_sep: "x \<in> set (Split s [c]) \<Longrightarrow> c \<notin> set x"
  unfolding Split_def
proof (induction s "[c]" rule: split_ne.induct)
  case (1 s)
  show ?case
  proof (cases "index_of s [c]")
    case None
    then have "c \<notin> set s"
      using index_of_sublist[of s "[c]"] by (auto simp: in_set_conv_decomp)
    then show ?thesis using None 1(2) by (subst (asm) split_ne.simps) auto
  next
    case (Some i)
    have "c \<notin> set (take i s)"
      using Some
    proof (induction s arbitrary: i)
      case (Cons d s)
      then show ?case by (cases i) (auto split: if_splits)
    qed simp
    then show ?thesis
      using Some 1(1)[OF Some] 1(2) by (subst (asm) (2) split_ne.simps) auto
  qed
qed

section \<open>Replacing\<close>

text \<open>\<open>strings.Replace(s, old, new, 1)\<close> and \<open>strings.ReplaceAll\<close> for a non-empty \<open>old\<close>.\<close>

definition Replace1 :: "string \<Rightarrow> string \<Rightarrow> string \<Rightarrow> string" where
  "Replace1 s old new = (case index_of s old of
      None \<Rightarrow> s | Some i \<Rightarrow> take i s @ new @ drop (i + length old) s)"

definition ReplaceAll :: "string \<Rightarrow> string \<Rightarrow> string \<Rightarrow> string" where
  "ReplaceAll s old new = Join (Split s old) new"

section \<open>Trimming\<close>

definition TrimLeftSet :: "string \<Rightarrow> string \<Rightarrow> string" where
  "TrimLeftSet s cs = dropWhile (\<lambda>c. c \<in> set cs) s"

text \<open>\<open>strings.TrimRight\<close> for an ASCII cut set.\<close>

definition TrimRight :: "string \<Rightarrow> string \<Rightarrow> string" where
  "TrimRight s cs = rev (dropWhile (\<lambda>c. c \<in> set cs) (rev s))"

definition TrimSet :: "string \<Rightarrow> string \<Rightarrow> string" where
  "TrimSet s cs = TrimRight (TrimLeftSet s cs) cs"

lemma dropWhile_idem: "dropWhile P (dropWhile P xs) = dropWhile P xs"
  by (induction xs) auto

lemma TrimRight_idem [simp]: "TrimRight (TrimRight s cs) cs = TrimRight s cs"
  by (simp add: TrimRight_def dropWhile_idem)

lemma TrimRight_last: "TrimRight s cs = [] \<or> last (TrimRight s cs) \<notin> set cs"
  unfolding TrimRight_def by (metis (no_types, lifting) hd_dropWhile last_rev rev_is_Nil_conv)

lemma TrimRight_id: "s = [] \<or> last s \<notin> set cs \<Longrightarrow> TrimRight s cs = s"
  unfolding TrimRight_def by (cases s rule: rev_cases) auto

lemma TrimRight_snoc: "c \<in> set cs \<Longrightarrow> TrimRight (s @ [c]) cs = TrimRight s cs"
  by (simp add: TrimRight_def)

lemma TrimRight_prefix: "prefix (TrimRight s cs) s"
proof -
  have "suffix (dropWhile (\<lambda>c. c \<in> set cs) (rev s)) (rev s)" by (rule suffix_dropWhile)
  then show ?thesis unfolding TrimRight_def by (simp add: suffix_to_prefix)
qed

section \<open>UTF-8\<close>

type_synonym rune = nat

definition cont_byte :: "nat \<Rightarrow> bool" where
  "cont_byte b \<longleftrightarrow> 128 \<le> b \<and> b \<le> 191"

text \<open>
  \<open>utf8.DecodeRuneInString\<close> on a non-empty string: the rune and its width. The second byte's range
  depends on the first one, which excludes overlong forms, surrogates and values above U+10FFFF.
\<close>

definition decode_rune :: "string \<Rightarrow> rune \<times> nat" where
  "decode_rune s = (case map of_char s of
      [] \<Rightarrow> (65533, 0)
    | b0 # r \<Rightarrow>
      if b0 < 128 then (b0, 1)
      else if 194 \<le> b0 \<and> b0 \<le> 223 then
        (case r of b1 # _ \<Rightarrow>
           if cont_byte b1 then ((b0 - 192) * 64 + (b1 - 128), 2) else (65533, 1)
         | [] \<Rightarrow> (65533, 1))
      else if 224 \<le> b0 \<and> b0 \<le> 239 then
        (case r of b1 # b2 # _ \<Rightarrow>
           if (if b0 = 224 then 160 else 128) \<le> b1 \<and> b1 \<le> (if b0 = 237 then 159 else 191)
              \<and> cont_byte b2
           then ((b0 - 224) * 4096 + (b1 - 128) * 64 + (b2 - 128), 3) else (65533, 1)
         | _ \<Rightarrow> (65533, 1))
      else if 240 \<le> b0 \<and> b0 \<le> 244 then
        (case r of b1 # b2 # b3 # _ \<Rightarrow>
           if (if b0 = 240 then 144 else 128) \<le> b1 \<and> b1 \<le> (if b0 = 244 then 143 else 191)
              \<and> cont_byte b2 \<and> cont_byte b3
           then ((b0 - 240) * 262144 + (b1 - 128) * 4096 + (b2 - 128) * 64 + (b3 - 128), 4)
           else (65533, 1)
         | _ \<Rightarrow> (65533, 1))
      else (65533, 1))"

lemma decode_rune_width:
  "s \<noteq> [] \<Longrightarrow> 1 \<le> snd (decode_rune s) \<and> snd (decode_rune s) \<le> 4"
  by (cases s) (auto simp: decode_rune_def split: list.split)

lemma decode_rune_ascii: "of_char c < (128::nat) \<Longrightarrow> decode_rune (c # s) = (of_char c, 1)"
  by (simp add: decode_rune_def)

text \<open>\<open>for _, r := range s\<close>.\<close>

function runes :: "string \<Rightarrow> rune list" where
  "runes [] = []"
| "runes (c # s) = (let (r, n) = decode_rune (c # s) in r # runes (drop n (c # s)))"
  by pat_completeness auto
termination
proof (relation "measure length")
  fix c s x r n
  assume "x = decode_rune (c # s)" and "(r, n) = x"
  then have "n = snd (decode_rune (c # s))" by (metis snd_conv)
  then have "1 \<le> n" using decode_rune_width[of "c # s"] by simp
  then show "(drop n (c # s), c # s) \<in> measure length" by (cases n) auto
qed simp

text \<open>\<open>utf8.DecodeLastRuneInString\<close>: the longest of the last four byte suffixes that decodes as one
  whole rune, or the last byte alone.\<close>

definition decode_last_rune :: "string \<Rightarrow> rune \<times> nat" where
  "decode_last_rune s =
    (case filter (\<lambda>k. k \<le> length s \<and> snd (decode_rune (drop (length s - k) s)) = k) [4, 3, 2] of
       k # _ \<Rightarrow> (fst (decode_rune (drop (length s - k) s)), k)
     | [] \<Rightarrow> (case s of [] \<Rightarrow> (65533, 0) | _ \<Rightarrow> (fst (decode_rune [last s]), 1)))"

text \<open>\<open>unicode.IsSpace\<close>.\<close>

definition IsSpace :: "rune \<Rightarrow> bool" where
  "IsSpace r \<longleftrightarrow> r \<in> {9, 10, 11, 12, 13, 32, 133, 160, 5760, 8232, 8233, 8239, 8287, 12288}
     \<or> (8192 \<le> r \<and> r \<le> 8202)"

function trim_space_left :: "string \<Rightarrow> string" where
  "trim_space_left [] = []"
| "trim_space_left (c # s) = (let (r, n) = decode_rune (c # s) in
     if IsSpace r then trim_space_left (drop n (c # s)) else c # s)"
  by pat_completeness auto
termination
proof (relation "measure length")
  fix c s x r n
  assume "x = decode_rune (c # s)" and "(r, n) = x"
  then have "n = snd (decode_rune (c # s))" by (metis snd_conv)
  then have "1 \<le> n" using decode_rune_width[of "c # s"] by simp
  then show "(drop n (c # s), c # s) \<in> measure length" by (cases n) auto
qed simp

lemma decode_last_rune_width: "s \<noteq> [] \<Longrightarrow> 1 \<le> snd (decode_last_rune s)"
  by (auto simp: decode_last_rune_def split: list.split)

function trim_space_right :: "string \<Rightarrow> string" where
  "trim_space_right s = (if s = [] then [] else let (r, n) = decode_last_rune s in
     if IsSpace r then trim_space_right (take (length s - n) s) else s)"
  by pat_completeness auto
termination
proof (relation "measure length")
  fix s x r n
  assume ne: "s \<noteq> []" and "x = decode_last_rune s" and "(r, n) = x"
  then have "n = snd (decode_last_rune s)" by (metis snd_conv)
  then have "1 \<le> n" using decode_last_rune_width[OF ne] by simp
  then show "(take (length s - n) s, s) \<in> measure length" using ne by (cases s) auto
qed simp

declare trim_space_right.simps [simp del]

definition TrimSpace :: "string \<Rightarrow> string" where
  "TrimSpace s = trim_space_right (trim_space_left s)"

text \<open>\<open>strings.ToLower\<close> on ASCII letters (the program lowers ASCII event names; a non-ASCII letter,
  which Go would also lower, is kept, and no such string is one of the names compared with).\<close>

definition ToLower :: "string \<Rightarrow> string" where
  "ToLower s = map (\<lambda>c. if 65 \<le> (of_char c :: nat) \<and> (of_char c :: nat) \<le> 90
                         then char_of (of_char c + 32 :: nat) else c) s"

end
