(* ===== verification/StrConv.thy ===== *)
theory StrConv
  imports GoStrings
begin

text \<open>
  Go's \<open>strconv\<close>, the integer verbs of \<open>fmt\<close> and \<open>encoding/base64\<close>, as far as the program uses
  them: decimal printing and parsing with the range check of 64-bit integers, \<open>%.2d\<close>, \<open>%q\<close> on
  printable text, and standard base64 with padding.
\<close>

section \<open>Decimal integers\<close>

definition digit_char :: "nat \<Rightarrow> char" where
  "digit_char d = char_of (48 + d)"

function nat_digits :: "nat \<Rightarrow> string" where
  "nat_digits n = (if n < 10 then [digit_char n] else nat_digits (n div 10) @ [digit_char (n mod 10)])"
  by auto
termination by (relation "measure id") auto

declare nat_digits.simps [simp del]

text \<open>\<open>strconv.Itoa\<close>, \<open>strconv.FormatInt(_, 10)\<close> and \<open>%d\<close>.\<close>

definition Itoa :: "int \<Rightarrow> string" where
  "Itoa i = (if i < 0 then CHR ''-'' # nat_digits (nat (- i)) else nat_digits (nat i))"

text \<open>\<open>%.2d\<close>: at least two digits, the sign not counted.\<close>

definition fmt_2d :: "int \<Rightarrow> string" where
  "fmt_2d i = (let ds = nat_digits (nat \<bar>i\<bar>); ds' = (if length ds < 2 then CHR ''0'' # ds else ds)
               in if i < 0 then CHR ''-'' # ds' else ds')"

definition digit_val :: "char \<Rightarrow> nat option" where
  "digit_val c = (let n = of_char c in if 48 \<le> n \<and> n \<le> 57 then Some (n - 48) else None)"

fun parse_nat :: "nat \<Rightarrow> string \<Rightarrow> nat option" where
  "parse_nat acc [] = Some acc"
| "parse_nat acc (c # s) = (case digit_val c of None \<Rightarrow> None | Some d \<Rightarrow> parse_nat (10 * acc + d) s)"

datatype num_error = ErrSyntax | ErrRange

text \<open>\<open>strconv.ParseInt(s, 10, 64)\<close>: an optional sign and at least one digit, nothing else.\<close>

definition parse_int :: "string \<Rightarrow> num_error + int" where
  "parse_int s = (let (neg, ds) = (case s of
        c # r \<Rightarrow> if c = CHR ''-'' then (True, r) else if c = CHR ''+'' then (False, r) else (False, s)
      | [] \<Rightarrow> (False, [])) in
    if ds = [] then Inl ErrSyntax
    else case parse_nat 0 ds of
      None \<Rightarrow> Inl ErrSyntax
    | Some n \<Rightarrow> let v = (if neg then - int n else int n) in
        if i64_range v then Inr v else Inl ErrRange)"

text \<open>
  \<open>%q\<close>. Control characters, the quote and the backslash are escaped; the bytes of a multi-byte
  rune are kept, as Go does for printable runes.
\<close>

definition hex_char :: "nat \<Rightarrow> char" where
  "hex_char d = (if d < 10 then char_of (48 + d) else char_of (87 + d))"

definition quote_char :: "char \<Rightarrow> string" where
  "quote_char c = (let n = of_char c :: nat in
     if n = 34 then [char_of (92::nat), c] else if n = 92 then [c, c]
     else if n = 7 then [char_of (92::nat), CHR ''a''] else if n = 8 then [char_of (92::nat), CHR ''b'']
     else if n = 12 then [char_of (92::nat), CHR ''f''] else if n = 10 then [char_of (92::nat), CHR ''n'']
     else if n = 13 then [char_of (92::nat), CHR ''r''] else if n = 9 then [char_of (92::nat), CHR ''t'']
     else if n = 11 then [char_of (92::nat), CHR ''v'']
     else if n < 32 \<or> n = 127 then [char_of (92::nat), CHR ''x'', hex_char (n div 16), hex_char (n mod 16)]
     else [c])"

definition quote_string :: "string \<Rightarrow> string" where
  "quote_string s = char_of (34::nat) # concat (map quote_char s) @ [char_of (34::nat)]"

definition num_error_text :: "string \<Rightarrow> string \<Rightarrow> num_error \<Rightarrow> string" where
  "num_error_text fn s e = ''strconv.'' @ fn @ '': parsing '' @ quote_string s @
     (case e of ErrSyntax \<Rightarrow> '': invalid syntax'' | ErrRange \<Rightarrow> '': value out of range'')"

definition Atoi :: "string \<Rightarrow> int outcome" where
  "Atoi s = (case parse_int s of Inr v \<Rightarrow> Ret v | Inl e \<Rightarrow> Fail (Errorf (num_error_text ''Atoi'' s e)))"

definition ParseInt :: "string \<Rightarrow> int outcome" where
  "ParseInt s = (case parse_int s of Inr v \<Rightarrow> Ret v | Inl e \<Rightarrow> Fail (Errorf (num_error_text ''ParseInt'' s e)))"

lemma of_char_digit_char [simp]: "d < 10 \<Longrightarrow> of_char (digit_char d) = (48 + d :: nat)"
  by (simp add: digit_char_def)

lemma digit_val_digit_char [simp]: "d < 10 \<Longrightarrow> digit_val (digit_char d) = Some d"
  by (simp add: digit_val_def)

lemma digit_val_less: "digit_val c = Some d \<Longrightarrow> d < 10"
  by (auto simp: digit_val_def Let_def split: if_splits)

lemma nat_digits_not_Nil [simp]: "nat_digits n \<noteq> []"
  by (subst nat_digits.simps) simp

lemma parse_nat_append:
  "parse_nat acc (s @ t) = (case parse_nat acc s of None \<Rightarrow> None | Some a \<Rightarrow> parse_nat a t)"
  by (induction acc s rule: parse_nat.induct) (auto split: option.split)

lemma parse_nat_digits_0: "parse_nat 0 (nat_digits n) = Some n"
proof (induction n rule: nat_digits.induct)
  case (1 n)
  show ?case
  proof (cases "n < 10")
    case True
    then show ?thesis by (subst nat_digits.simps) simp
  next
    case False
    then show ?thesis using 1[OF False] by (subst nat_digits.simps) (simp add: parse_nat_append)
  qed
qed

lemma nat_digits_char:
  "c \<in> set (nat_digits n) \<Longrightarrow> \<exists>d < 10. c = digit_char d"
proof (induction n rule: nat_digits.induct)
  case (1 n)
  show ?case
  proof (cases "n < 10")
    case True
    then show ?thesis using 1(2) by (subst (asm) nat_digits.simps) auto
  next
    case False
    then have "c \<in> set (nat_digits (n div 10)) \<or> c = digit_char (n mod 10)"
      using 1(2) by (subst (asm) nat_digits.simps) auto
    then show ?thesis using 1(1)[OF False] by (auto intro: exI[of _ "n mod 10"])
  qed
qed

lemma nat_digits_no_sep: "\<not> (48 \<le> (of_char c :: nat) \<and> (of_char c :: nat) \<le> 57) \<Longrightarrow> c \<notin> set (nat_digits n)"
proof
  assume h: "\<not> (48 \<le> (of_char c :: nat) \<and> (of_char c :: nat) \<le> 57)" and "c \<in> set (nat_digits n)"
  then obtain d where "d < 10" and c: "c = digit_char d" using nat_digits_char by blast
  then show False using h by simp
qed

lemma nat_digits_hd: "hd (nat_digits n) \<noteq> CHR ''-'' \<and> hd (nat_digits n) \<noteq> CHR ''+''"
proof -
  have "hd (nat_digits n) \<in> set (nat_digits n)" by simp
  moreover have "CHR ''-'' \<notin> set (nat_digits n)" and "CHR ''+'' \<notin> set (nat_digits n)"
    by (simp_all add: nat_digits_no_sep)
  ultimately show ?thesis by metis
qed

lemma parse_int_Itoa: "i64_range i \<Longrightarrow> parse_int (Itoa i) = Inr i"
proof (cases "i < 0")
  case True
  assume "i64_range i"
  then show ?thesis using True by (simp add: parse_int_def Itoa_def parse_nat_digits_0)
next
  case False
  assume r: "i64_range i"
  obtain c r' where ds: "nat_digits (nat i) = c # r'" by (cases "nat_digits (nat i)") auto
  then have "c \<noteq> CHR ''-''" "c \<noteq> CHR ''+''" using nat_digits_hd[of "nat i"] by auto
  then show ?thesis
    using False r parse_nat_digits_0[of "nat i"] by (simp add: parse_int_def Itoa_def ds)
qed

lemma Atoi_Itoa [simp]: "i64_range i \<Longrightarrow> Atoi (Itoa i) = Ret i"
  and ParseInt_Itoa [simp]: "i64_range i \<Longrightarrow> ParseInt (Itoa i) = Ret i"
  by (simp_all add: Atoi_def ParseInt_def parse_int_Itoa)

lemma parse_int_range: "parse_int s = Inr v \<Longrightarrow> i64_range v"
  by (auto simp: parse_int_def Let_def split: if_splits option.splits prod.splits)

lemma Atoi_range: "Atoi s = Ret v \<Longrightarrow> i64_range v"
  by (auto simp: Atoi_def split: sum.splits intro: parse_int_range)

lemma Itoa_small: "0 \<le> i \<Longrightarrow> i < 10 \<Longrightarrow> Itoa i = [digit_char (nat i)]"
  by (simp add: Itoa_def nat_digits.simps)

section \<open>Base64\<close>

definition b64_char :: "nat \<Rightarrow> char" where
  "b64_char n = (if n < 26 then char_of (65 + n) else if n < 52 then char_of (71 + n)
     else if n < 62 then char_of (n - 4) else if n = 62 then CHR ''+'' else CHR ''/'')"

definition b64_val :: "char \<Rightarrow> nat option" where
  "b64_val c = (let n = of_char c :: nat in
     if 65 \<le> n \<and> n \<le> 90 then Some (n - 65) else if 97 \<le> n \<and> n \<le> 122 then Some (n - 71)
     else if 48 \<le> n \<and> n \<le> 57 then Some (n + 4) else if n = 43 then Some 62
     else if n = 47 then Some 63 else None)"

text \<open>\<open>base64.StdEncoding.EncodeToString\<close>.\<close>

fun b64_encode :: "nat list \<Rightarrow> string" where
  "b64_encode [] = []"
| "b64_encode [a] = [b64_char (a div 4), b64_char (a mod 4 * 16), CHR ''='', CHR ''='']"
| "b64_encode [a, b] = [b64_char (a div 4), b64_char (a mod 4 * 16 + b div 16),
                         b64_char (b mod 16 * 4), CHR ''='']"
| "b64_encode (a # b # c # r) = b64_char (a div 4) # b64_char (a mod 4 * 16 + b div 16) #
     b64_char (b mod 16 * 4 + c div 64) # b64_char (c mod 64) # b64_encode r"

text \<open>
  \<open>base64.StdEncoding.DecodeString\<close>: carriage returns and line feeds are skipped, padding is
  required at the end of the input and the unused bits of the last digit are not checked.
\<close>

fun b64_decode :: "string \<Rightarrow> nat list option" where
  "b64_decode [] = Some []"
| "b64_decode (w # x # y # z # r) =
    (case (b64_val w, b64_val x) of
       (Some a, Some b) \<Rightarrow>
         if z = CHR ''='' \<and> r = [] then
           (if y = CHR ''='' then Some [a * 4 + b div 16]
            else case b64_val y of
                   Some c \<Rightarrow> Some [a * 4 + b div 16, b mod 16 * 16 + c div 4]
                 | None \<Rightarrow> None)
         else (case (b64_val y, b64_val z, b64_decode r) of
                 (Some c, Some d, Some t) \<Rightarrow>
                   Some ((a * 4 + b div 16) # (b mod 16 * 16 + c div 4) # (c mod 4 * 64 + d) # t)
               | _ \<Rightarrow> None)
     | _ \<Rightarrow> None)"
| "b64_decode _ = None"

definition Base64encode :: "string \<Rightarrow> string" where
  "Base64encode s = b64_encode (map of_char s)"

definition Base64decode :: "string \<Rightarrow> string option" where
  "Base64decode s = map_option (map char_of)
     (b64_decode (filter (\<lambda>c. of_char c \<noteq> (10::nat) \<and> of_char c \<noteq> (13::nat)) s))"

lemma b64_val_char [simp]: "n < 64 \<Longrightarrow> b64_val (b64_char n) = Some n"
  by (auto simp: b64_val_def b64_char_def Let_def)

lemma b64_char_not_pad [simp]: "n < 64 \<Longrightarrow> b64_char n \<noteq> CHR ''=''"
proof
  assume "n < 64" and "b64_char n = CHR ''=''"
  then have "b64_val (CHR ''='') = Some n" using b64_val_char by metis
  then show False by (simp add: b64_val_def)
qed

lemma b64_decode_encode: "\<forall>x \<in> set bs. x < 256 \<Longrightarrow> b64_decode (b64_encode bs) = Some bs"
proof (induction bs rule: b64_encode.induct)
  case (4 a b c r)
  then have "a div 4 < 64" "a mod 4 * 16 + b div 16 < 64" "b mod 16 * 4 + c div 64 < 64" "c mod 64 < 64"
    by auto
  then show ?case using 4 by auto
qed auto

lemma b64_char_no_newline: "n < 64 \<Longrightarrow> of_char (b64_char n) \<noteq> (10::nat) \<and> of_char (b64_char n) \<noteq> (13::nat)"
  by (auto simp: b64_char_def)

lemma b64_encode_no_newline:
  "\<forall>x \<in> set bs. x < 256 \<Longrightarrow> c \<in> set (b64_encode bs) \<Longrightarrow> of_char c \<noteq> (10::nat) \<and> of_char c \<noteq> (13::nat)"
proof (induction bs arbitrary: c rule: b64_encode.induct)
  case (4 a b c' r)
  then have "a div 4 < 64" "a mod 4 * 16 + b div 16 < 64" "b mod 16 * 4 + c' div 64 < 64" "c' mod 64 < 64"
    by auto
  then show ?case using 4 b64_char_no_newline by auto
next
  case (2 a)
  then have "a div 4 < 64" "a mod 4 * 16 < 64" by auto
  then show ?case using 2 b64_char_no_newline by auto
next
  case (3 a b)
  then have "a div 4 < 64" "a mod 4 * 16 + b div 16 < 64" "b mod 16 * 4 < 64" by auto
  then show ?case using 3 b64_char_no_newline by auto
qed simp

lemma Base64_roundtrip [simp]: "Base64decode (Base64encode s) = Some s"
proof -
  have r: "\<forall>x \<in> set (map of_char s). x < (256::nat)" by auto
  have "filter (\<lambda>c. of_char c \<noteq> (10::nat) \<and> of_char c \<noteq> (13::nat)) (b64_encode (map of_char s))
        = b64_encode (map of_char s)"
    using b64_encode_no_newline[OF r] by (intro filter_True) auto
  then show ?thesis
    unfolding Base64decode_def Base64encode_def by (simp add: b64_decode_encode[OF r] comp_def)
qed

lemma Base64encode_Nil_iff [simp]: "Base64encode s = [] \<longleftrightarrow> s = []"
  by (cases "map of_char s :: nat list" rule: b64_encode.cases) (auto simp: Base64encode_def)

end
