(* ===== verification/Json.thy ===== *)
theory Json
  imports StrConv
begin

text \<open>
  \<open>encoding/json\<close>: the values the program stores in the string maps of its custom resources are
  JSON texts. This theory has the grammar of \<open>json.Unmarshal\<close> (white space, escapes, surrogate
  pairs, replacement of ill-formed UTF-8, numbers kept as their literal), the output of the
  encoder (with its HTML escaping), the decoding into \<open>map[string]string\<close> and into struct fields,
  and the round trip between them. The recursive descent takes fuel; the length of the input is
  enough, because every nested value consumes at least one byte. The texts of the package's errors
  are not modelled: every failure carries \<open>json_error\<close>.
\<close>

datatype json = JNull | JBool bool | JNum string | JStr string | JArr "json list"
  | JObj "(string \<times> json) list"

definition json_error :: gerr where
  "json_error = Errorf ''json: cannot unmarshal''"

abbreviation dquote :: char where "dquote \<equiv> CHR 0x22"
abbreviation bslash :: char where "bslash \<equiv> CHR 0x5C"

section \<open>Encoding\<close>

definition encode_rune :: "rune \<Rightarrow> string" where
  "encode_rune r = map char_of (
     if r < 128 then [r]
     else if r < 2048 then [192 + r div 64, 128 + r mod 64]
     else if r < 65536 then [224 + r div 4096, 128 + r div 64 mod 64, 128 + r mod 64]
     else [240 + r div 262144, 128 + r div 4096 mod 64, 128 + r div 64 mod 64, 128 + r mod 64])"

definition u_escape :: "nat \<Rightarrow> string" where
  "u_escape n = [bslash, CHR ''u'', hex_char (n div 4096 mod 16), hex_char (n div 256 mod 16),
                 hex_char (n div 16 mod 16), hex_char (n mod 16)]"

definition escape_ascii :: "char \<Rightarrow> string" where
  "escape_ascii c = (let n = of_char c :: nat in
     if c = dquote \<or> c = bslash then [bslash, c]
     else if n = 8 then [bslash, CHR ''b''] else if n = 12 then [bslash, CHR ''f'']
     else if n = 10 then [bslash, CHR ''n''] else if n = 13 then [bslash, CHR ''r'']
     else if n = 9 then [bslash, CHR ''t'']
     else if n < 32 \<or> c = CHR ''<'' \<or> c = CHR ''>'' \<or> c = CHR ''&'' then u_escape n
     else [c])"

function escape_string :: "string \<Rightarrow> string" where
  "escape_string [] = []"
| "escape_string (c # s) =
    (if of_char c < (128::nat) then escape_ascii c @ escape_string s
     else let (r, n) = decode_rune (c # s) in
       (if n = 1 then u_escape 65533 else if r = 8232 \<or> r = 8233 then u_escape r
        else take n (c # s)) @ escape_string (drop n (c # s)))"
  by pat_completeness auto
termination
proof (relation "measure length")
  fix c s x r n
  assume "x = decode_rune (c # s)" and "(r, n) = x"
  then have "n = snd (decode_rune (c # s))" by (metis snd_conv)
  then have "1 \<le> n" using decode_rune_width[of "c # s"] by simp
  then show "(drop n (c # s), c # s) \<in> measure length" by (cases n) auto
qed auto

fun jrender :: "json \<Rightarrow> string" where
  "jrender JNull = ''null''"
| "jrender (JBool b) = (if b then ''true'' else ''false'')"
| "jrender (JNum n) = n"
| "jrender (JStr s) = dquote # escape_string s @ [dquote]"
| "jrender (JArr xs) = CHR ''['' # Join (map jrender xs) '','' @ '']''"
| "jrender (JObj kvs) = CHR ''{'' #
     Join (map (\<lambda>kv. dquote # escape_string (fst kv) @ [dquote] @ '':'' @ jrender (snd kv)) kvs) '','' @ ''}''"

text \<open>\<open>util.ToJSON\<close> ends the text with a newline, as \<open>json.Encoder\<close> does.\<close>

definition ToJSON :: "json \<Rightarrow> string" where
  "ToJSON j = jrender j @ [CHR 0x0A]"

section \<open>Decoding\<close>

definition is_ws :: "char \<Rightarrow> bool" where
  "is_ws c \<longleftrightarrow> c = CHR '' '' \<or> c = CHR 0x09 \<or> c = CHR 0x0A \<or> c = CHR 0x0D"

definition skip_ws :: "string \<Rightarrow> string" where
  "skip_ws s = dropWhile is_ws s"

definition hex_val :: "char \<Rightarrow> nat option" where
  "hex_val c = (let n = of_char c :: nat in
     if 48 \<le> n \<and> n \<le> 57 then Some (n - 48) else if 97 \<le> n \<and> n \<le> 102 then Some (n - 87)
     else if 65 \<le> n \<and> n \<le> 70 then Some (n - 55) else None)"

fun hex4 :: "string \<Rightarrow> nat option" where
  "hex4 (a # b # c # d # _) = (case (hex_val a, hex_val b, hex_val c, hex_val d) of
     (Some x, Some y, Some z, Some w) \<Rightarrow> Some (x * 4096 + y * 256 + z * 16 + w) | _ \<Rightarrow> None)"
| "hex4 _ = None"

definition esc_val :: "char \<Rightarrow> char option" where
  "esc_val e = (if e = dquote \<or> e = bslash \<or> e = CHR ''/'' then Some e
     else if e = CHR ''b'' then Some (CHR 0x08) else if e = CHR ''f'' then Some (CHR 0x0C)
     else if e = CHR ''n'' then Some (CHR 0x0A) else if e = CHR ''r'' then Some (CHR 0x0D)
     else if e = CHR ''t'' then Some (CHR 0x09) else None)"

definition low_surrogate :: "string \<Rightarrow> nat option" where
  "low_surrogate s = (case s of a # b # r \<Rightarrow>
       (if a = bslash \<and> b = CHR ''u'' then
          (case hex4 r of Some u \<Rightarrow> if 56320 \<le> u \<and> u < 57344 then Some u else None | None \<Rightarrow> None)
        else None)
     | _ \<Rightarrow> None)"

definition prepend :: "string \<Rightarrow> (string \<times> string) option \<Rightarrow> (string \<times> string) option" where
  "prepend a r = map_option (\<lambda>(x, y). (a @ x, y)) r"

text \<open>The rest of a string literal after its opening quote: its contents and what follows it.\<close>

function jstr_dec :: "string \<Rightarrow> (string \<times> string) option" where
  "jstr_dec [] = None"
| "jstr_dec (c # s) =
    (if c = dquote then Some ([], s)
     else if c = bslash then (case s of
         [] \<Rightarrow> None
       | e # r \<Rightarrow>
         if e = CHR ''u'' then (case hex4 r of
             None \<Rightarrow> None
           | Some u \<Rightarrow>
             if 55296 \<le> u \<and> u < 56320 then (case low_surrogate (drop 4 r) of
                 Some l \<Rightarrow> prepend (encode_rune (65536 + (u - 55296) * 1024 + (l - 56320)))
                             (jstr_dec (drop 10 r))
               | None \<Rightarrow> prepend (encode_rune 65533) (jstr_dec (drop 4 r)))
             else if 56320 \<le> u \<and> u < 57344 then prepend (encode_rune 65533) (jstr_dec (drop 4 r))
             else prepend (encode_rune u) (jstr_dec (drop 4 r)))
         else (case esc_val e of None \<Rightarrow> None | Some b \<Rightarrow> prepend [b] (jstr_dec r)))
     else if of_char c < (32::nat) then None
     else if of_char c < (128::nat) then prepend [c] (jstr_dec s)
     else let (r, n) = decode_rune (c # s) in prepend (encode_rune r) (jstr_dec (drop n (c # s))))"
  by pat_completeness auto
termination
proof (relation "measure length")
  fix c s x r n
  assume "x = decode_rune (c # s)" and "(r, n) = x"
  then have "n = snd (decode_rune (c # s))" by (metis snd_conv)
  then have "1 \<le> n" using decode_rune_width[of "c # s"] by simp
  then show "(drop n (c # s), c # s) \<in> measure length" by (cases n) auto
qed auto

definition is_digit :: "char \<Rightarrow> bool" where
  "is_digit c \<longleftrightarrow> digit_val c \<noteq> None"

definition span_digits :: "string \<Rightarrow> string \<times> string" where
  "span_digits s = (takeWhile is_digit s, dropWhile is_digit s)"

text \<open>A number literal and what follows it.\<close>

definition scan_frac :: "string \<Rightarrow> (string \<times> string) option" where
  "scan_frac s = (case s of
      c # r \<Rightarrow> if c = CHR ''.'' then
          (let (d, r') = span_digits r in if d = [] then None else Some (c # d, r'))
        else Some ([], s)
    | [] \<Rightarrow> Some ([], []))"

definition scan_exp :: "string \<Rightarrow> (string \<times> string) option" where
  "scan_exp s = (case s of
      c # r \<Rightarrow> if c = CHR ''e'' \<or> c = CHR ''E'' then
          (let (sg, r1) = (case r of x # r1 \<Rightarrow> if x = CHR ''+'' \<or> x = CHR ''-'' then ([x], r1) else ([], r)
                           | [] \<Rightarrow> ([], []));
               (d, r2) = span_digits r1
           in if d = [] then None else Some (c # sg @ d, r2))
        else Some ([], s)
    | [] \<Rightarrow> Some ([], []))"

definition scan_int :: "string \<Rightarrow> (string \<times> string) option" where
  "scan_int s = (let (d, r) = span_digits s in
     if d = [] then None
     else if hd d = CHR ''0'' then Some ([CHR ''0''], tl d @ r) else Some (d, r))"

definition scan_number :: "string \<Rightarrow> (string \<times> string) option" where
  "scan_number s =
    (let (sg, s1) = (case s of c # r \<Rightarrow> if c = CHR ''-'' then ([c], r) else ([], s) | [] \<Rightarrow> ([], [])) in
     case scan_int s1 of None \<Rightarrow> None
     | Some (i, s2) \<Rightarrow> (case scan_frac s2 of None \<Rightarrow> None
       | Some (f, s3) \<Rightarrow> (case scan_exp s3 of None \<Rightarrow> None
         | Some (e, s4) \<Rightarrow> Some (sg @ i @ f @ e, s4))))"

fun pvalue :: "nat \<Rightarrow> string \<Rightarrow> (json \<times> string) option"
and parr :: "nat \<Rightarrow> string \<Rightarrow> (json list \<times> string) option"
and pobj :: "nat \<Rightarrow> string \<Rightarrow> ((string \<times> json) list \<times> string) option" where
  "pvalue 0 s = None"
| "pvalue (Suc n) s = (case skip_ws s of
      [] \<Rightarrow> None
    | c # r \<Rightarrow>
      if c = CHR ''{'' then
        (if prefix ''}'' (skip_ws r) then Some (JObj [], drop 1 (skip_ws r))
         else map_option (\<lambda>(kvs, t). (JObj kvs, t)) (pobj n r))
      else if c = CHR ''['' then
        (if prefix '']'' (skip_ws r) then Some (JArr [], drop 1 (skip_ws r))
         else map_option (\<lambda>(xs, t). (JArr xs, t)) (parr n r))
      else if c = dquote then map_option (\<lambda>(x, t). (JStr x, t)) (jstr_dec r)
      else if prefix ''null'' (c # r) then Some (JNull, drop 4 (c # r))
      else if prefix ''true'' (c # r) then Some (JBool True, drop 4 (c # r))
      else if prefix ''false'' (c # r) then Some (JBool False, drop 5 (c # r))
      else map_option (\<lambda>(x, t). (JNum x, t)) (scan_number (c # r)))"
| "parr 0 s = None"
| "parr (Suc n) s = (case pvalue n s of
      None \<Rightarrow> None
    | Some (v, t) \<Rightarrow> (case skip_ws t of
        [] \<Rightarrow> None
      | c # r \<Rightarrow> if c = CHR '']'' then Some ([v], r)
          else if c = CHR '','' then map_option (\<lambda>(vs, u). (v # vs, u)) (parr n r)
          else None))"
| "pobj 0 s = None"
| "pobj (Suc n) s = (case skip_ws s of
      [] \<Rightarrow> None
    | q # k \<Rightarrow> if q \<noteq> dquote then None else (case jstr_dec k of
        None \<Rightarrow> None
      | Some (key, t) \<Rightarrow> (case skip_ws t of
          [] \<Rightarrow> None
        | col # u \<Rightarrow> if col \<noteq> CHR '':'' then None else (case pvalue n u of
            None \<Rightarrow> None
          | Some (v, w) \<Rightarrow> (case skip_ws w of
              [] \<Rightarrow> None
            | c # r \<Rightarrow> if c = CHR ''}'' then Some ([(key, v)], r)
                else if c = CHR '','' then map_option (\<lambda>(kvs, x). ((key, v) # kvs, x)) (pobj n r)
                else None)))))"

text \<open>The whole input is one value. Each level of the descent takes at most two units of fuel per
  byte consumed.\<close>

definition json_parse :: "string \<Rightarrow> json option" where
  "json_parse s = (case pvalue (2 * length s + 2) s of
      Some (j, r) \<Rightarrow> if skip_ws r = [] then Some j else None
    | None \<Rightarrow> None)"

section \<open>Decoding into Go values\<close>

text \<open>Into a \<open>map[string]string\<close>: \<open>null\<close> is the nil map, a \<open>null\<close> member the empty string.\<close>

fun json_strings :: "smap \<Rightarrow> (string \<times> json) list \<Rightarrow> smap option" where
  "json_strings m [] = Some m"
| "json_strings m ((k, JStr v) # r) = json_strings (mput m k v) r"
| "json_strings m ((k, JNull) # r) = json_strings (mput m k []) r"
| "json_strings m (_ # r) = None"

definition Unmarshal_map :: "string \<Rightarrow> smap option outcome" where
  "Unmarshal_map s = (case json_parse s of
      None \<Rightarrow> Fail json_error
    | Some JNull \<Rightarrow> Ret None
    | Some (JObj kvs) \<Rightarrow> (case json_strings [] kvs of Some m \<Rightarrow> Ret (Some m) | None \<Rightarrow> Fail json_error)
    | Some _ \<Rightarrow> Fail json_error)"

text \<open>
  A struct field: the members whose name matches without regard to case, the last one winning,
  \<open>null\<close> leaving the field as it was, a member of another type being an error.
\<close>

fun dec_field :: "(json \<Rightarrow> 'a option) \<Rightarrow> 'a \<Rightarrow> string \<Rightarrow> (string \<times> json) list \<Rightarrow> 'a outcome" where
  "dec_field conv d f [] = Ret d"
| "dec_field conv d f ((k, v) # r) =
    (if ToLower k = ToLower f \<and> v \<noteq> JNull
     then (case conv v of None \<Rightarrow> Fail json_error | Some x \<Rightarrow> dec_field conv x f r)
     else dec_field conv d f r)"

fun as_bool :: "json \<Rightarrow> bool option" where
  "as_bool (JBool b) = Some b" | "as_bool _ = None"

fun as_string :: "json \<Rightarrow> string option" where
  "as_string (JStr s) = Some s" | "as_string _ = None"

fun as_int64 :: "json \<Rightarrow> int option" where
  "as_int64 (JNum n) = (case parse_int n of Inr v \<Rightarrow> Some v | Inl _ \<Rightarrow> None)" | "as_int64 _ = None"

fun smap_json :: "smap \<Rightarrow> json" where
  "smap_json m = JObj (map (\<lambda>(k, v). (k, JStr v)) m)"

section \<open>Decoding what was encoded\<close>

definition ascii :: "string \<Rightarrow> bool" where
  "ascii s \<longleftrightarrow> (\<forall>c \<in> set s. of_char c < (128::nat))"

lemma ascii_simps [simp]:
  "ascii []" "ascii (c # s) \<longleftrightarrow> of_char c < (128::nat) \<and> ascii s" "ascii (s @ t) \<longleftrightarrow> ascii s \<and> ascii t"
  by (auto simp: ascii_def)

lemma prepend_Some [simp]: "prepend a (Some (x, y)) = Some (a @ x, y)"
  by (simp add: prepend_def)

lemma hex_val_char [simp]: "d < 16 \<Longrightarrow> hex_val (hex_char d) = Some d"
  by (auto simp: hex_val_def hex_char_def Let_def)

lemma hex4_u: "n < 128 \<Longrightarrow>
  hex4 (hex_char (n div 4096 mod 16) # hex_char (n div 256 mod 16) # hex_char (n div 16 mod 16) # hex_char (n mod 16) # t)
    = Some n"
  by simp

lemma char_eq_nat: "c = d \<longleftrightarrow> of_char c = (of_char d :: nat)"
  by (metis of_char_eq_iff)

lemma jstr_dec_plain:
  "c \<noteq> dquote \<Longrightarrow> c \<noteq> bslash \<Longrightarrow> 32 \<le> (of_char c :: nat) \<Longrightarrow> of_char c < (128::nat) \<Longrightarrow>
   jstr_dec (c # t) = prepend [c] (jstr_dec t)"
  by simp

lemma jstr_dec_short:
  "e \<noteq> CHR ''u'' \<Longrightarrow> esc_val e = Some b \<Longrightarrow> jstr_dec (bslash # e # t) = prepend [b] (jstr_dec t)"
  by simp

lemma jstr_dec_u:
  "n < 128 \<Longrightarrow> jstr_dec (u_escape n @ t) = prepend [char_of n] (jstr_dec t)"
  using hex4_u[of n t] by (simp add: u_escape_def encode_rune_def)

lemma jstr_dec_escape_char:
  assumes "of_char c < (128::nat)"
  shows "jstr_dec (escape_ascii c @ t) = prepend [c] (jstr_dec t)"
proof -
  let ?n = "of_char c :: nat"
  have u: "jstr_dec (u_escape ?n @ t) = prepend [c] (jstr_dec t)"
    using jstr_dec_u[OF assms, of t] by simp
  have s: "e \<noteq> CHR ''u'' \<Longrightarrow> esc_val e = Some c \<Longrightarrow> jstr_dec ([bslash, e] @ t) = prepend [c] (jstr_dec t)" for e
    using jstr_dec_short[of e c t] by simp
  have "c = dquote \<or> c = bslash \<or> c = CHR 0x08 \<or> c = CHR 0x0C \<or> c = CHR 0x0A \<or> c = CHR 0x0D
      \<or> c = CHR 0x09 \<or> escape_ascii c = u_escape ?n
      \<or> (escape_ascii c = [c] \<and> c \<noteq> dquote \<and> c \<noteq> bslash \<and> 32 \<le> ?n)"
    by (auto simp: escape_ascii_def Let_def char_eq_nat)
  then consider "c = dquote" | "c = bslash" | "c = CHR 0x08" | "c = CHR 0x0C" | "c = CHR 0x0A" | "c = CHR 0x0D"
    | "c = CHR 0x09" | "escape_ascii c = u_escape ?n"
    | "escape_ascii c = [c]" "c \<noteq> dquote" "c \<noteq> bslash" "32 \<le> ?n"
    by blast
  then show ?thesis
  proof cases
    case 8
    then show ?thesis using u by simp
  next
    case 9
    then show ?thesis using assms jstr_dec_plain[of c t] by simp
  qed (simp_all add: escape_ascii_def esc_val_def)
qed

lemma jstr_dec_escape: "ascii s \<Longrightarrow> jstr_dec (escape_string s @ dquote # rest) = Some (s, rest)"
proof (induction s)
  case (Cons c s)
  then have "of_char c < (128::nat)" by simp
  then show ?case using Cons jstr_dec_escape_char[of c "escape_string s @ dquote # rest"] by simp
qed simp

text \<open>Number literals end at a character that cannot continue them.\<close>

definition num_end :: "string \<Rightarrow> bool" where
  "num_end s \<longleftrightarrow> (case s of [] \<Rightarrow> True
     | c # _ \<Rightarrow> \<not> is_digit c \<and> c \<noteq> CHR ''.'' \<and> c \<noteq> CHR ''e'' \<and> c \<noteq> CHR ''E'')"

lemma nat_digits_is_digit: "c \<in> set (nat_digits n) \<Longrightarrow> is_digit c"
  using nat_digits_char[of c n] by (auto simp: is_digit_def)

lemma nat_digits_hd0: "hd (nat_digits n) = digit_char 0 \<Longrightarrow> n = 0"
proof (induction n rule: nat_digits.induct)
  case (1 n)
  show ?case
  proof (cases "n < 10")
    case True
    then have "digit_char n = digit_char 0" using 1(2) by (subst (asm) nat_digits.simps) simp
    then have "digit_val (digit_char n) = digit_val (digit_char 0)" by simp
    then show ?thesis using True by simp
  next
    case False
    then have "hd (nat_digits (n div 10)) = digit_char 0"
      using 1(2) by (subst (asm) nat_digits.simps) simp
    then show ?thesis using 1(1)[OF False] False by simp
  qed
qed

lemma span_digits_nat: "num_end rest \<Longrightarrow> span_digits (nat_digits n @ rest) = (nat_digits n, rest)"
  by (cases rest) (auto simp: span_digits_def num_end_def takeWhile_append dropWhile_append
       dest: nat_digits_is_digit intro: takeWhile_eq_all_conv[THEN iffD2])

lemma scan_int_nat: "num_end rest \<Longrightarrow> scan_int (nat_digits n @ rest) = Some (nat_digits n, rest)"
proof -
  assume r: "num_end rest"
  have z: "hd (nat_digits n) = CHR ''0'' \<Longrightarrow> nat_digits n = [CHR ''0'']"
  proof -
    have d: "digit_char 0 = CHR ''0''" by (simp add: char_eq_nat)
    assume "hd (nat_digits n) = CHR ''0''"
    then have "n = 0" using nat_digits_hd0[of n] d by simp
    then show ?thesis using d by (simp add: nat_digits.simps[of 0])
  qed
  then show ?thesis by (auto simp: scan_int_def span_digits_nat[OF r])
qed

lemma num_end_frac_exp: "num_end rest \<Longrightarrow> scan_frac rest = Some ([], rest) \<and> scan_exp rest = Some ([], rest)"
  by (cases rest) (auto simp: num_end_def scan_frac_def scan_exp_def)

lemma scan_number_Itoa: "num_end rest \<Longrightarrow> scan_number (Itoa i @ rest) = Some (Itoa i, rest)"
proof (cases "i < 0")
  case True
  assume "num_end rest"
  then show ?thesis using True
    by (simp add: scan_number_def Itoa_def scan_int_nat num_end_frac_exp)
next
  case False
  assume r: "num_end rest"
  obtain c t where ds: "nat_digits (nat i) = c # t" by (cases "nat_digits (nat i)") auto
  then have "c \<noteq> CHR ''-''" using nat_digits_hd[of "nat i"] by auto
  then show ?thesis using False r scan_int_nat[OF r, of "nat i"]
    by (simp add: scan_number_def Itoa_def ds num_end_frac_exp)
qed

fun json_ok :: "json \<Rightarrow> bool" where
  "json_ok JNull = True"
| "json_ok (JBool b) = True"
| "json_ok (JNum n) = (\<exists>i. n = Itoa i)"
| "json_ok (JStr s) = ascii s"
| "json_ok (JArr xs) = (\<forall>x \<in> set xs. json_ok x)"
| "json_ok (JObj kvs) = (\<forall>kv \<in> set kvs. ascii (fst kv) \<and> json_ok (snd kv))"

fun jsize :: "json \<Rightarrow> nat" where
  "jsize (JArr xs) = Suc (sum_list (map (\<lambda>x. Suc (jsize x)) xs))"
| "jsize (JObj kvs) = Suc (sum_list (map (\<lambda>kv. Suc (jsize (snd kv))) kvs))"
| "jsize _ = 1"

definition jmember :: "string \<times> json \<Rightarrow> string" where
  "jmember kv = dquote # escape_string (fst kv) @ [dquote] @ '':'' @ jrender (snd kv)"

lemma jrender_hd:
  "json_ok j \<Longrightarrow> \<exists>c t. jrender j = c # t \<and> \<not> is_ws c \<and> c \<noteq> CHR '']'' \<and> c \<noteq> CHR ''}''"
proof (cases j)
  case (JNum n)
  assume "json_ok j"
  then obtain i where i: "n = Itoa i" using JNum by auto
  have "is_digit c \<Longrightarrow> \<not> is_ws c \<and> c \<noteq> CHR '']'' \<and> c \<noteq> CHR ''}''" for c
    by (auto simp: is_digit_def digit_val_def is_ws_def Let_def)
  moreover obtain c t where "nat_digits (nat i) = c # t" by (cases "nat_digits (nat i)") auto
  moreover from this have "is_digit c" using nat_digits_is_digit[of c "nat i"] by simp
  ultimately show ?thesis using JNum i by (auto simp: Itoa_def is_ws_def)
qed (auto simp: is_ws_def)

lemma skip_ws_jrender: "json_ok j \<Longrightarrow> skip_ws (jrender j @ r) = jrender j @ r"
  using jrender_hd[of j] by (auto simp: skip_ws_def)

lemma num_end_simps [simp]:
  "num_end []" "num_end (CHR '','' # s)" "num_end (CHR '']'' # s)" "num_end (CHR ''}'' # s)"
  "num_end (CHR 0x0A # s)"
  by (simp_all add: num_end_def is_digit_def digit_val_def)

lemma skip_ws_simps [simp]:
  "skip_ws (CHR '','' # s) = CHR '','' # s" "skip_ws (CHR '']'' # s) = CHR '']'' # s"
  "skip_ws (CHR ''}'' # s) = CHR ''}'' # s" "skip_ws (CHR '':'' # s) = CHR '':'' # s"
  "skip_ws (CHR ''{'' # s) = CHR ''{'' # s" "skip_ws (CHR ''['' # s) = CHR ''['' # s"
  "skip_ws (dquote # s) = dquote # s" "skip_ws [] = []"
  by (simp_all add: skip_ws_def is_ws_def)

lemma parr_render:
  assumes "xs \<noteq> []" and "\<And>x n r. x \<in> set xs \<Longrightarrow> jsize x \<le> n \<Longrightarrow> num_end r \<Longrightarrow> pvalue n (jrender x @ r) = Some (x, r)"
    and "sum_list (map (\<lambda>x. Suc (jsize x)) xs) \<le> n"
  shows "parr n (Join (map jrender xs) '','' @ CHR '']'' # rest) = Some (xs, rest)"
  using assms
proof (induction xs arbitrary: n)
  case (Cons x xs)
  obtain m where n: "n = Suc m" using Cons.prems(3) by (cases n) auto
  have m: "jsize x \<le> m" "sum_list (map (\<lambda>x. Suc (jsize x)) xs) \<le> m" using Cons.prems(3) n by auto
  show ?case
  proof (cases "xs = []")
    case True
    then show ?thesis using Cons.prems(2)[of x m] m n by simp
  next
    case False
    then have "parr m (Join (map jrender xs) '','' @ CHR '']'' # rest) = Some (xs, rest)"
      using Cons.IH[of m] Cons.prems(2) m by simp
    then show ?thesis using Cons.prems(2)[of x m] m n False by (simp add: Join_Cons)
  qed
qed simp

lemma pobj_render:
  assumes "kvs \<noteq> []" and "\<forall>kv \<in> set kvs. ascii (fst kv)"
    and "\<And>kv n r. kv \<in> set kvs \<Longrightarrow> jsize (snd kv) \<le> n \<Longrightarrow> num_end r \<Longrightarrow>
           pvalue n (jrender (snd kv) @ r) = Some (snd kv, r)"
    and "sum_list (map (\<lambda>kv. Suc (jsize (snd kv))) kvs) \<le> n"
  shows "pobj n (Join (map jmember kvs) '','' @ CHR ''}'' # rest) = Some (kvs, rest)"
  using assms
proof (induction kvs arbitrary: n)
  case (Cons kv kvs)
  obtain m where n: "n = Suc m" using Cons.prems(4) by (cases n) auto
  have m: "jsize (snd kv) \<le> m" "sum_list (map (\<lambda>kv. Suc (jsize (snd kv))) kvs) \<le> m"
    using Cons.prems(4) n by auto
  have k: "jstr_dec (escape_string (fst kv) @ dquote # t) = Some (fst kv, t)" for t
    using Cons.prems(2) jstr_dec_escape by simp
  show ?case
  proof (cases "kvs = []")
    case True
    then show ?thesis using Cons.prems(3)[of kv m] m n by (simp add: jmember_def k)
  next
    case False
    then have "pobj m (Join (map jmember kvs) '','' @ CHR ''}'' # rest) = Some (kvs, rest)"
      using Cons.IH[of m] Cons.prems(2,3) m by simp
    then show ?thesis using Cons.prems(3)[of kv m] m n False by (simp add: Join_Cons jmember_def[of kv] k)
  qed
qed simp

lemma jrender_JObj: "jrender (JObj kvs) = CHR ''{'' # Join (map jmember kvs) '','' @ ''}''"
  by (simp add: jmember_def[abs_def])

lemma Itoa_hd: "\<exists>c t. Itoa i = c # t \<and> (c = CHR ''-'' \<or> is_digit c)"
proof -
  obtain c t where "nat_digits (nat i) = c # t" by (cases "nat_digits (nat i)") auto
  moreover from this have "is_digit c" using nat_digits_is_digit[of c "nat i"] by simp
  ultimately show ?thesis by (auto simp: Itoa_def)
qed

lemma pvalue_number: "num_end r \<Longrightarrow> pvalue (Suc n) (Itoa i @ r) = Some (JNum (Itoa i), r)"
proof -
  assume r: "num_end r"
  obtain c t where c: "Itoa i = c # t" "c = CHR ''-'' \<or> is_digit c" using Itoa_hd by blast
  have ne: "\<not> is_ws c \<and> c \<notin> {CHR ''{'', CHR ''['', dquote, CHR ''n'', CHR ''t'', CHR ''f''}"
    using c(2) by (auto simp: is_digit_def digit_val_def is_ws_def Let_def)
  then have "skip_ws (c # t @ r) = c # t @ r" by (simp add: skip_ws_def)
  then show ?thesis using ne scan_number_Itoa[OF r, of i] c by auto
qed

lemma pvalue_render:
  "json_ok j \<Longrightarrow> jsize j \<le> n \<Longrightarrow> num_end r \<Longrightarrow> pvalue n (jrender j @ r) = Some (j, r)"
proof (induction j arbitrary: n r rule: jrender.induct)
  case 1
  then show ?case by (cases n) (auto simp: skip_ws_def is_ws_def)
next
  case (2 b)
  then show ?case by (cases n) (auto simp: skip_ws_def is_ws_def)
next
  case (3 x)
  then show ?case using pvalue_number by (cases n) auto
next
  case (4 s)
  then show ?case by (cases n) (auto simp: jstr_dec_escape)
next
  case (5 xs)
  then obtain m where n: "n = Suc m" by (cases n) auto
  show ?case
  proof (cases "xs = []")
    case True
    then show ?thesis using n by simp
  next
    case False
    then obtain x ys where xs: "xs = x # ys" by (cases xs) auto
    then obtain c t where "jrender x = c # t" "\<not> is_ws c" "c \<noteq> CHR '']''"
      using jrender_hd[of x] 5(2) by auto
    moreover from this have "\<exists>u. Join (map jrender xs) '','' = c # u"
      using xs by (cases ys) auto
    ultimately have "\<not> prefix '']'' (skip_ws (Join (map jrender xs) '','' @ CHR '']'' # r))"
      by (auto simp: skip_ws_def)
    moreover have "parr m (Join (map jrender xs) '','' @ CHR '']'' # r) = Some (xs, r)"
      using 5 n False by (intro parr_render) auto
    ultimately show ?thesis using n by simp
  qed
next
  case (6 kvs)
  then obtain m where n: "n = Suc m" by (cases n) auto
  show ?case
  proof (cases "kvs = []")
    case True
    then show ?thesis using n by simp
  next
    case False
    then obtain kv ys where kvs: "kvs = kv # ys" by (cases kvs) auto
    then have "\<exists>u. Join (map jmember kvs) '','' = dquote # u"
      by (cases ys) (auto simp: jmember_def)
    then have "\<not> prefix ''}'' (skip_ws (Join (map jmember kvs) '','' @ CHR ''}'' # r))" by auto
    moreover have "pobj m (Join (map jmember kvs) '','' @ CHR ''}'' # r) = Some (kvs, r)"
      using 6 n False by (intro pobj_render) auto
    ultimately show ?thesis using n by (simp add: jrender_JObj del: jrender.simps)
  qed
qed

lemma length_Join: "xs \<noteq> [] \<Longrightarrow> Suc (length (Join xs '','')) = sum_list (map (\<lambda>x. Suc (length x)) xs)"
proof (induction xs)
  case (Cons x xs)
  then show ?case by (cases xs) (auto simp: Join_Cons)
qed simp

lemma jsize_length: "json_ok j \<Longrightarrow> jsize j \<le> length (jrender j)"
proof (induction j rule: jrender.induct)
  case (3 n)
  then obtain i where "n = Itoa i" by auto
  then show ?case using Itoa_hd[of i] by auto
next
  case (5 xs)
  have "sum_list (map (\<lambda>x. Suc (jsize x)) xs) \<le> sum_list (map (\<lambda>x. Suc (length (jrender x))) xs)"
    using 5 by (intro sum_list_mono) auto
  then show ?case using length_Join[of "map jrender xs"] by (cases "xs = []") (auto simp: comp_def)
next
  case (6 kvs)
  have "sum_list (map (\<lambda>kv. Suc (jsize (snd kv))) kvs) \<le> sum_list (map (\<lambda>kv. Suc (length (jmember kv))) kvs)"
    using 6 by (intro sum_list_mono) (force simp: jmember_def)
  then show ?case using length_Join[of "map jmember kvs"]
    by (cases "kvs = []") (auto simp: comp_def jrender_JObj simp del: jrender.simps)
qed auto

lemma json_parse_render: "json_ok j \<Longrightarrow> json_parse (jrender j) = Some j"
  using pvalue_render[of j "2 * length (jrender j) + 2" "[]"] jsize_length[of j]
  by (simp add: json_parse_def)

lemma json_parse_ToJSON: "json_ok j \<Longrightarrow> json_parse (ToJSON j) = Some j"
  using pvalue_render[of j "2 * length (ToJSON j) + 2" "[CHR 0x0A]"] jsize_length[of j]
  by (simp add: json_parse_def ToJSON_def skip_ws_def is_ws_def)

end
