(* ===== verification/ApiTypes.thy ===== *)
theory ApiTypes
  imports Json
begin

text \<open>
  The constants of \<open>pkg/constant/constant.go\<close> and the custom resources of
  \<open>pkg/apis/sys.bytetrade.io/v1\<close>: \<open>Backup\<close> (a backup plan), \<open>Snapshot\<close> (one run of a plan) and
  \<open>Restore\<close>. Pointers are options, a \<open>map[string]string\<close> that can be nil is a \<open>gomap\<close>, a
  \<open>metav1.Time\<close> is a number of nanoseconds since the epoch.
\<close>

section \<open>Constants\<close>

datatype Phase = New | Pending | Running | Failed | Completed | Canceled | Rejected | Deleted

fun phase_String :: "Phase \<Rightarrow> string" where
  "phase_String New = ''New''"
| "phase_String Pending = ''Pending''"
| "phase_String Running = ''Running''"
| "phase_String Failed = ''Failed''"
| "phase_String Completed = ''Completed''"
| "phase_String Canceled = ''Canceled''"
| "phase_String Rejected = ''Rejected''"
| "phase_String Deleted = ''Deleted''"

lemma phase_String_inject [simp]: "phase_String p = phase_String q \<longleftrightarrow> p = q"
  by (cases p; cases q) simp_all

datatype BackupLocation = BackupLocationSpace | BackupLocationAwsS3 | BackupLocationTencentCloud
  | BackupLocationFileSystem | BackupLocationSpaceAlias | BackupLocationAwsS3Alias
  | BackupLocationCosAlias | BackupLocationFileSystemAlias | BackupLocationUnKnownAlias

fun location_String :: "BackupLocation \<Rightarrow> string" where
  "location_String BackupLocationSpace = ''space''"
| "location_String BackupLocationAwsS3 = ''awss3''"
| "location_String BackupLocationTencentCloud = ''tencentcloud''"
| "location_String BackupLocationFileSystem = ''filesystem''"
| "location_String BackupLocationSpaceAlias = ''Olares Space''"
| "location_String BackupLocationAwsS3Alias = ''AWS S3''"
| "location_String BackupLocationCosAlias = ''TencentCloud COS''"
| "location_String BackupLocationFileSystemAlias = ''Local''"
| "location_String BackupLocationUnKnownAlias = ''Unknown''"

definition LocationTypeSpaceTag :: string where "LocationTypeSpaceTag = ''did:key:''"
definition LocationTypeAwsS3Tag :: string where "LocationTypeAwsS3Tag = ''amazonaws.com''"
definition LocationTypeTencentCloudTag :: string where "LocationTypeTencentCloudTag = ''myqcloud.com''"
definition DefaultStoragePrefix :: string where "DefaultStoragePrefix = ''olares-backups/''"
definition CachePath :: string where "CachePath = ''/appcache''"
definition ExternalPath :: string where "ExternalPath = ''/shares''"
definition FreeSpaceStorage :: u64 where "FreeSpaceStorage = 2147483648"

abbreviation FullyBackup :: string where "FullyBackup \<equiv> ''fully''"
abbreviation IncrementalBackup :: string where "IncrementalBackup \<equiv> ''incremental''"
abbreviation UnKnownBackup :: string where "UnKnownBackup \<equiv> ''unknown''"
abbreviation BackupTypeFile :: string where "BackupTypeFile \<equiv> ''file''"
abbreviation BackupTypeApp :: string where "BackupTypeApp \<equiv> ''app''"
abbreviation BackupPause :: string where "BackupPause \<equiv> ''pause''"
abbreviation BackupResume :: string where "BackupResume \<equiv> ''resume''"
abbreviation BackupCancel :: string where "BackupCancel \<equiv> ''cancel''"
abbreviation RestoreTypeSnapshot :: string where "RestoreTypeSnapshot \<equiv> ''snapshot''"
abbreviation RestoreTypeUrl :: string where "RestoreTypeUrl \<equiv> ''url''"

definition MessageBackupServerRestart :: string where
  "MessageBackupServerRestart = ''Backup task terminated due to service restart.''"
definition MessageTaskCanceled :: string where "MessageTaskCanceled = ''Task canceled.''"
definition MessageTaskExists :: string where
  "MessageTaskExists = ''A snapshot task is currently running or queued.''"
definition MessageTokenExpired :: string where
  "MessageTokenExpired = ''Access token expired. Please re-connect to your Olares Space in LarePass.''"
definition MessagePlanLevelFreeUser :: string where
  "MessagePlanLevelFreeUser = ''Your current plan on Olares Space doesn't include the backup service. Upgrade now to enable it. Alternatively, you can connect and back up to your own AWS S3, Tencent COS, or a local disk.''"
definition MessagePlanLevelBackupSpaceForbidden :: string where
  "MessagePlanLevelBackupSpaceForbidden = ''Insufficient storage in Olares Space.''"
definition MessageBackupUrlIncorrect :: string where
  "MessageBackupUrlIncorrect = ''Unable to locate the configuration file. Please provide the correct storage path.''"

section \<open>Maps that may be nil\<close>

type_synonym gomap = "smap option"

definition entries :: "gomap \<Rightarrow> smap" where
  "entries m = (case m of None \<Rightarrow> [] | Some l \<Rightarrow> l)"

definition lookup :: "gomap \<Rightarrow> string \<Rightarrow> string option" where
  "lookup m k = map_of (entries m) k"

definition lookup0 :: "gomap \<Rightarrow> string \<Rightarrow> string" where
  "lookup0 m k = mget (entries m) k"

lemma entries_simps [simp]: "entries None = []" "entries (Some l) = l"
  by (simp_all add: entries_def)

lemma lookup_simps [simp]:
  "lookup None k = None" "lookup (Some (mput l k v)) k' = (if k' = k then Some v else lookup (Some l) k')"
  by (simp_all add: lookup_def)

section \<open>Custom resources\<close>

type_synonym timestamp = int

record objmeta =
  om_Name :: string
  om_Labels :: smap
  om_ResourceVersion :: string
  om_CreationTimestamp :: timestamp

record BackupPolicy =
  bp_Enabled :: bool
  bp_SnapshotFrequency :: string
  bp_TimesOfDay :: string
  bp_TimespanOfDay :: string
  bp_DayOfWeek :: int
  bp_DateOfMonth :: int

record BackupSpec =
  bs_Name :: string
  bs_Owner :: string
  bs_Location :: gomap
  bs_BackupPolicy :: "BackupPolicy option"
  bs_BackupType :: gomap
  bs_Size :: "u64 option"
  bs_RestoreSize :: "u64 option"
  bs_CreateAt :: "timestamp option"
  bs_Notified :: bool
  bs_Deleted :: bool
  bs_Extra :: gomap

record Backup =
  bk_meta :: objmeta
  bk_Spec :: BackupSpec

record SnapshotSpec =
  ss_BackupId :: string
  ss_Location :: string
  ss_SnapshotType :: "int option"
  ss_SnapshotId :: "string option"
  ss_Size :: "u64 option"
  ss_CreateAt :: "timestamp option"
  ss_StartAt :: "timestamp option"
  ss_EndAt :: "timestamp option"
  ss_Progress :: int
  ss_Phase :: "string option"
  ss_Message :: "string option"
  ss_ResticPhase :: "string option"
  ss_ResticMessage :: "string option"
  ss_Extra :: gomap

record Snapshot =
  sn_meta :: objmeta
  sn_Spec :: SnapshotSpec

record RestoreSpec =
  rs_Owner :: string
  rs_RestoreType :: gomap
  rs_CreateAt :: "timestamp option"
  rs_StartAt :: "timestamp option"
  rs_EndAt :: "timestamp option"
  rs_Size :: "u64 option"
  rs_Progress :: int
  rs_Phase :: "string option"
  rs_Message :: "string option"
  rs_ResticPhase :: "string option"
  rs_ResticMessage :: "string option"
  rs_Extra :: gomap

record Restore =
  re_meta :: objmeta
  re_Spec :: RestoreSpec

abbreviation bk_Name :: "Backup \<Rightarrow> string" where "bk_Name b \<equiv> om_Name (bk_meta b)"
abbreviation sn_Name :: "Snapshot \<Rightarrow> string" where "sn_Name s \<equiv> om_Name (sn_meta s)"
abbreviation re_Name :: "Restore \<Rightarrow> string" where "re_Name r \<equiv> om_Name (re_meta r)"

section \<open>Sorting of listings\<close>

text \<open>
  The listings are ordered by \<open>sort.Slice\<close> with \<open>!items[i].Before(items[j])\<close>, newest first. On at
  most twelve items \<open>sort.Slice\<close> is this insertion sort (an item moves left while the comparison
  holds, so an equal one overtakes); on longer lists only the order of equal timestamps can differ.
\<close>

fun insert_desc :: "('a \<Rightarrow> int) \<Rightarrow> 'a \<Rightarrow> 'a list \<Rightarrow> 'a list" where
  "insert_desc t x [] = [x]"
| "insert_desc t x (y # ys) = (if t y \<le> t x then x # y # ys else y # insert_desc t x ys)"

definition sort_desc :: "('a \<Rightarrow> int) \<Rightarrow> 'a list \<Rightarrow> 'a list" where
  "sort_desc t xs = fold (insert_desc t) xs []"

lemma set_insert_desc [simp]: "set (insert_desc t x ys) = insert x (set ys)"
  by (induction ys) auto

lemma length_insert_desc [simp]: "length (insert_desc t x ys) = Suc (length ys)"
  by (induction ys) auto

lemma insert_desc_sorted:
  "sorted_wrt (\<lambda>a b. t b \<le> t a) ys \<Longrightarrow> sorted_wrt (\<lambda>a b. t b \<le> t a) (insert_desc t x ys)"
  by (induction ys) auto

lemma fold_insert_desc_set: "set (fold (insert_desc t) xs acc) = set xs \<union> set acc"
  by (induction xs arbitrary: acc) auto

lemma fold_insert_desc_length: "length (fold (insert_desc t) xs acc) = length xs + length acc"
  by (induction xs arbitrary: acc) auto

lemma fold_insert_desc_sorted:
  "sorted_wrt (\<lambda>a b. t b \<le> t a) acc \<Longrightarrow> sorted_wrt (\<lambda>a b. t b \<le> t a) (fold (insert_desc t) xs acc)"
proof (induction xs arbitrary: acc)
  case (Cons x xs)
  show ?case using Cons.IH[OF insert_desc_sorted[OF Cons.prems, of x]] by simp
qed simp

lemma sort_desc_set [simp]: "set (sort_desc t xs) = set xs"
  and sort_desc_length [simp]: "length (sort_desc t xs) = length xs"
  and sort_desc_sorted: "sorted_wrt (\<lambda>a b. t b \<le> t a) (sort_desc t xs)"
  by (simp_all add: sort_desc_def fold_insert_desc_set fold_insert_desc_length fold_insert_desc_sorted)

lemma sort_desc_Nil_iff [simp]: "sort_desc t xs = [] \<longleftrightarrow> xs = []"
  using sort_desc_length[of t xs] by (metis length_0_conv)

end
