(* ===== verification/Utils.thy ===== *)
theory Utils
  imports Json
begin

text \<open>
  The string, list and clock helpers of \<open>pkg/util\<close> and \<open>pkg/util/string\<close>: list search, prefix and
  suffix cutting, name checks, the split of a repository path into plan name and plan id, and the
  translation of a schedule into a cron expression.
\<close>

section \<open>Lists (pkg/util/util.go)\<close>

fun ListContains :: "'a list \<Rightarrow> 'a \<Rightarrow> bool" where
  "ListContains [] v = False"
| "ListContains (item # items) v = (if v = item then True else ListContains items v)"

fun ListMatchContains :: "string list \<Rightarrow> string \<Rightarrow> bool" where
  "ListMatchContains [] v = False"
| "ListMatchContains (item # items) v = (if Contains v item then True else ListMatchContains items v)"

fun TrimArrayPrefix :: "string list \<Rightarrow> string \<Rightarrow> string list" where
  "TrimArrayPrefix [] p = []"
| "TrimArrayPrefix (v # r) p =
    (if HasPrefix v p then TrimPrefix v p # TrimArrayPrefix r p else TrimArrayPrefix r p)"

definition CombineArray :: "'a list list \<Rightarrow> 'a list" where
  "CombineArray args = fold (\<lambda>arg result. result @ arg) args []"

lemma ListContains_iff [simp]: "ListContains items v \<longleftrightarrow> v \<in> set items"
  by (induction items) auto

lemma ListMatchContains_iff [simp]: "ListMatchContains items v \<longleftrightarrow> (\<exists>i \<in> set items. Contains v i)"
  by (induction items) auto

lemma TrimArrayPrefix_eq: "TrimArrayPrefix xs p = [drop (length p) v. v \<leftarrow> xs, prefix p v]"
  by (induction xs) (auto simp: HasPrefix_def TrimPrefix_def)

section \<open>Strings (pkg/util/util.go, pkg/util/string/string.go)\<close>

definition TrimLineBreak :: "string \<Rightarrow> string" where
  "TrimLineBreak s = TrimRight s [CHR 0x0D, CHR 0x0A]"

definition ParseToInt64 :: "string \<Rightarrow> int" where
  "ParseToInt64 v = (case ParseInt v of Ret i \<Rightarrow> i | _ \<Rightarrow> 0)"

definition GetSuffix :: "string \<Rightarrow> string \<Rightarrow> string outcome" where
  "GetSuffix c s = (let r = Split c s in
     if length r \<noteq> 2 then Fail (Errorf (''get suffix invalid, context: '' @ c)) else Ret (r ! 1))"

definition ReplacePathPrefix :: "string \<Rightarrow> string \<Rightarrow> string \<Rightarrow> string" where
  "ReplacePathPrefix s prefix1 prefix2 =
    (if index_of s prefix1 \<noteq> None then Replace1 s prefix1 ''/Files''
     else Replace1 s prefix2 ''/Files.External'')"

text \<open>\<open>os.Getenv\<close> is the parameter \<open>env\<close>: an unset variable is the empty string.\<close>

definition GetEnvOrDefault :: "(string \<Rightarrow> string) \<Rightarrow> string \<Rightarrow> string \<Rightarrow> string" where
  "GetEnvOrDefault env key defaultValue =
    (let value = env key in if value \<noteq> [] then value else defaultValue)"

definition EnvOrDefault :: "(string \<Rightarrow> string) \<Rightarrow> string \<Rightarrow> string \<Rightarrow> string" where
  "EnvOrDefault env name def =
    (let v = env name in if v = [] \<and> def \<noteq> [] then def else TrimRight v ''/'')"

definition Default :: "string \<Rightarrow> string \<Rightarrow> string" where
  "Default v def = (if [] = v \<and> [] = def then [] else if v \<noteq> [] then v else def)"

definition IsOnlyWhitespace :: "string \<Rightarrow> bool" where
  "IsOnlyWhitespace s = list_all IsSpace (runes s)"

definition IsReservedName :: "string \<Rightarrow> bool" where
  "IsReservedName name = ListContains [''.'', ''..''] name"

definition illegal_chars :: "rune list" where
  "illegal_chars = map of_char [bslash, CHR ''/'', CHR ''@'', CHR ''!'', CHR ''#'']"

definition s3_illegal_chars :: "rune list" where
  "s3_illegal_chars = map of_char [bslash, CHR ''/'', CHR ''{'', CHR ''}'', CHR ''^'', CHR ''%'',
     CHR 0x60, CHR '']'', CHR ''['', dquote, CHR ''<'', CHR ''>'', CHR ''#'', CHR ''|'', CHR ''?'',
     CHR ''*'', CHR ''@'', CHR 0x27]"

text \<open>The pair \<open>(false, 0)\<close> of the source is \<open>None\<close>.\<close>

fun first_illegal :: "rune list \<Rightarrow> rune list \<Rightarrow> rune option" where
  "first_illegal illegal [] = None"
| "first_illegal illegal (r # rs) = (if ListContains illegal r then Some r else first_illegal illegal rs)"

definition ContainsIllegalChars :: "string \<Rightarrow> rune option" where
  "ContainsIllegalChars name = first_illegal illegal_chars (runes name)"

definition ContainsS3IllegalChars :: "string \<Rightarrow> rune option" where
  "ContainsS3IllegalChars name = first_illegal s3_illegal_chars (runes name)"

lemma first_illegal_None: "first_illegal ill rs = None \<longleftrightarrow> set rs \<inter> set ill = {}"
  by (induction rs) auto

text \<open>Not \<open>strings.TrimSuffix\<close>: the text before the first occurrence of \<open>suffix\<close>, or nothing.\<close>

definition TrimSuffix :: "string \<Rightarrow> string \<Rightarrow> string" where
  "TrimSuffix s suf = (case index_of s suf of None \<Rightarrow> [] | Some idx \<Rightarrow> take idx s)"

subsection \<open>Repository names: \<open>name-uuid\<close>\<close>

definition is_hex :: "char \<Rightarrow> bool" where
  "is_hex c \<longleftrightarrow> hex_val c \<noteq> None"

text \<open>\<open>[0-9a-fA-F]{8}-[0-9a-fA-F]{4}-[0-9a-fA-F]{4}-[0-9a-fA-F]{4}-[0-9a-fA-F]{12}\<close>\<close>

definition is_uuid :: "string \<Rightarrow> bool" where
  "is_uuid s \<longleftrightarrow> map length (Split s ''-'') = [8, 4, 4, 4, 12]
     \<and> list_all is_hex (concat (Split s ''-''))"

text \<open>
  \<open>SplitPath\<close> matches \<open>^(.*?)-(uuid)$\<close> after trailing slashes are dropped. The second group has
  36 bytes and is anchored at the end, so there is only one way to match; \<open>.\<close> excludes a newline.
\<close>

definition SplitPath :: "string \<Rightarrow> (string \<times> string) outcome" where
  "SplitPath str0 = (let str = TrimRight str0 ''/''; n = length str;
       uuid = drop (n - 36) str; pre = take (n - 37) str in
     if 37 \<le> n \<and> str ! (n - 37) = CHR ''-'' \<and> is_uuid uuid \<and> CHR 0x0A \<notin> set pre
     then Ret (pre, uuid)
     else Fail (Errorf (''path '' @ str @ '' is not valid'')))"

lemma is_uuid_length: "is_uuid s \<Longrightarrow> length s = 36"
proof -
  assume "is_uuid s"
  then have l: "map length (Split s ''-'') = [8, 4, 4, 4, 12]" by (simp add: is_uuid_def)
  then obtain a b c d e where s: "Split s ''-'' = [a, b, c, d, e]" and
    n: "length a = 8" "length b = 4" "length c = 4" "length d = 4" "length e = 12"
    by (auto simp: map_eq_Cons_conv)
  have "s = Join [a, b, c, d, e] ''-''" using s Join_Split[of s "''-''"] by simp
  then show ?thesis using n by simp
qed

lemma is_uuid_last: "is_uuid s \<Longrightarrow> last s \<noteq> CHR ''/''"
proof -
  assume u: "is_uuid s"
  then have l: "map length (Split s ''-'') = [8, 4, 4, 4, 12]" and h: "list_all is_hex (concat (Split s ''-''))"
    by (simp_all add: is_uuid_def)
  then obtain a b c d e where s: "Split s ''-'' = [a, b, c, d, e]" and n: "length e = 12"
    by (auto simp: map_eq_Cons_conv)
  have "s = Join [a, b, c, d, e] ''-''" using s Join_Split[of s "''-''"] by simp
  then have "last s = last e" using n by (auto simp: last_append)
  moreover have "last e \<in> set e" using n by (intro last_in_set) auto
  then have "is_hex (last e)" using h s by (auto simp: list_all_iff)
  ultimately show ?thesis by (auto simp: is_hex_def hex_val_def)
qed

lemma SplitPath_join:
  assumes "is_uuid u" and "CHR 0x0A \<notin> set name"
  shows "SplitPath (name @ ''-'' @ u) = Ret (name, u)"
proof -
  have n: "length u = 36" and u: "u \<noteq> []" using is_uuid_length[OF assms(1)] by auto
  then have "TrimRight (name @ ''-'' @ u) ''/'' = name @ ''-'' @ u"
    using is_uuid_last[OF assms(1)] by (intro TrimRight_id) auto
  then show ?thesis using assms n by (simp add: SplitPath_def Let_def nth_append)
qed

lemma SplitPath_Ret:
  "SplitPath s = Ret (name, u) \<Longrightarrow> TrimRight s ''/'' = name @ ''-'' @ u \<and> is_uuid u"
proof -
  let ?t = "TrimRight s ''/''" let ?n = "length ?t"
  assume "SplitPath s = Ret (name, u)"
  then have c: "37 \<le> ?n" "?t ! (?n - 37) = CHR ''-''" "is_uuid u"
    and e: "name = take (?n - 37) ?t" "u = drop (?n - 36) ?t"
    by (auto simp: SplitPath_def Let_def split: if_splits)
  have "drop (?n - 37) ?t = ?t ! (?n - 37) # drop (Suc (?n - 37)) ?t"
    using c(1) by (intro Cons_nth_drop_Suc[symmetric]) auto
  moreover have "Suc (?n - 37) = ?n - 36" using c(1) by linarith
  ultimately have "drop (?n - 37) ?t = CHR ''-'' # u" using c e by simp
  then show ?thesis using c e append_take_drop_id[of "?n - 37" ?t] by simp
qed

section \<open>Schedules\<close>

definition errf :: "string \<Rightarrow> 'a outcome" where
  "errf s = Fail (Errorf s)"

definition ParseToCron :: "string \<Rightarrow> string \<Rightarrow> int \<Rightarrow> int \<Rightarrow> string outcome" where
  "ParseToCron frequency timesOfDay dayOfWeek dateOfMonth =
    (let splitTimes = Split timesOfDay '':'' in
     if length splitTimes \<noteq> 2 then errf (''invalid times of day: '' @ quote_string timesOfDay)
     else let hour = splitTimes ! 0; minute = splitTimes ! 1 in
     bindO (Atoi hour) (\<lambda>hourInt.
     bindO (Atoi minute) (\<lambda>minuteInt.
       if hourInt < 0 \<or> hourInt > 24 then errf (''invalid hour '' @ quote_string hour)
       else if minuteInt < 0 \<or> minuteInt > 59 then errf (''invalid minute '' @ quote_string minute)
       else let minuteHour = minute @ '' '' @ hour;
            cron = (if frequency = ''@hourly'' then ''*/'' @ Itoa minuteInt @ '' * * * *''
                    else if frequency = ''@daily'' then minuteHour @ '' * * *''
                    else if frequency = ''@weekly'' then minuteHour @ '' * * '' @ Itoa (i64 (dayOfWeek - 1))
                    else if frequency = ''@monthly'' then minuteHour @ '' '' @ Itoa dateOfMonth @ '' * *''
                    else if frequency = ''@yearly'' then minuteHour @ '' 1 1 *''
                    else [])
       in if cron = [] then errf (''invalid frequency: '' @ quote_string frequency @
                                  '' or times of day: '' @ quote_string timesOfDay)
          else Ret cron)))"

text \<open>
  \<open>ParseTimestampToLocal\<close>. \<open>zone\<close> is the local time zone (seconds east of UTC at an instant,
  given in seconds) and \<open>now\<close> the current time. \<open>time.UnixMilli\<close> gives a local time, whose
  \<open>Hour\<close> and \<open>Minute\<close> already apply the zone.
\<close>

definition ParseTimestampToLocal :: "(int \<Rightarrow> int) \<Rightarrow> int \<Rightarrow> string \<Rightarrow> string outcome" where
  "ParseTimestampToLocal zone now value = bindO (ParseInt value) (\<lambda>v.
     let t = v div 1000; utcTime = t + zone now; wall = utcTime + zone utcTime in
     Ret (fmt_2d (wall mod 86400 div 3600) @ '':'' @ fmt_2d (wall mod 3600 div 60)))"

definition ParseToNextUnixTime :: "string \<Rightarrow> int" where
  "ParseToNextUnixTime frequency =
    (if frequency = ''@daily'' then 86400 else if frequency = ''@weekly'' then 604800
     else if frequency = ''@monthly'' then 2592000 else 0)"

definition IsTimestampNearingExpiration :: "int \<Rightarrow> int \<Rightarrow> bool" where
  "IsTimestampNearingExpiration nowMilli targetTimestamp =
    (i64 (targetTimestamp - 15 * 1000) < nowMilli)"

lemma Itoa_no_colon: "CHR '':'' \<notin> set (Itoa i)"
  by (simp add: Itoa_def nat_digits_no_sep)

lemma Split_times: "Split (Itoa h @ '':'' @ Itoa m) '':'' = [Itoa h, Itoa m]"
  using Split_append_char[OF Itoa_no_colon, of h "Itoa m"] Split_fresh[OF Itoa_no_colon, of m] by simp

section \<open>Properties\<close>

definition cron_frequencies :: "string list" where
  "cron_frequencies = [''@hourly'', ''@daily'', ''@weekly'', ''@monthly'', ''@yearly'']"

text \<open>\<open>ParseToCron\<close> accepts exactly the five known frequencies with a time that splits at one
  colon into two decimal numbers, the hour from 0 to 24 and the minute from 0 to 59; everything
  else is an error, never a panic.\<close>

theorem ParseToCron_accepts:
  "((\<exists>c. ParseToCron f t dow dm = Ret c) \<longleftrightarrow>
     f \<in> set cron_frequencies \<and> (\<exists>hs ms h m. Split t '':'' = [hs, ms] \<and> Atoi hs = Ret h \<and> Atoi ms = Ret m
        \<and> 0 \<le> h \<and> h \<le> 24 \<and> 0 \<le> m \<and> m \<le> 59))
   \<and> ((\<nexists>c. ParseToCron f t dow dm = Ret c) \<longleftrightarrow> (\<exists>e. ParseToCron f t dow dm = Fail e))"
proof -
  have atoi: "(\<exists>v. Atoi s = Ret v) \<or> (\<exists>e. Atoi s = Fail e)" for s
    by (simp add: Atoi_def split: sum.split)
  have "(\<exists>c. ParseToCron f t dow dm = Ret c) \<and> f \<in> set cron_frequencies
      \<and> (\<exists>hs ms h m. Split t '':'' = [hs, ms] \<and> Atoi hs = Ret h \<and> Atoi ms = Ret m \<and> 0 \<le> h \<and> h \<le> 24 \<and> 0 \<le> m \<and> m \<le> 59)
    \<or> (\<exists>e. ParseToCron f t dow dm = Fail e) \<and> \<not> (f \<in> set cron_frequencies
      \<and> (\<exists>hs ms h m. Split t '':'' = [hs, ms] \<and> Atoi hs = Ret h \<and> Atoi ms = Ret m \<and> 0 \<le> h \<and> h \<le> 24 \<and> 0 \<le> m \<and> m \<le> 59))"
  proof (cases "length (Split t '':'') = 2")
    case False
    then show ?thesis by (auto simp: ParseToCron_def errf_def Let_def)
  next
    case True
    then obtain hs ms where s: "Split t '':'' = [hs, ms]" by (auto simp: numeral_2_eq_2 length_Suc_conv)
    show ?thesis
      using atoi[of hs] atoi[of ms]
      by (elim disjE exE) (auto simp: ParseToCron_def errf_def Let_def s cron_frequencies_def)
  qed
  then show ?thesis by auto
qed

text \<open>The expression built: minute and hour of the policy, the day of the week counted from 0 for
  Sunday while the policy counts from 1, the day of the month as it is. The hourly form puts the
  minute in the step field, so an hourly plan at minute 0 gets the step 0, and the hour 24 is copied
  into the hour field; neither is a valid cron expression.\<close>

theorem ParseToCron_text:
  assumes "0 \<le> h" "h \<le> 24" "0 \<le> m" "m \<le> 59" "1 \<le> dow" "dow \<le> 7"
  shows "ParseToCron ''@daily'' (Itoa h @ '':'' @ Itoa m) dow dm = Ret (Itoa m @ '' '' @ Itoa h @ '' * * *'')
    \<and> ParseToCron ''@weekly'' (Itoa h @ '':'' @ Itoa m) dow dm = Ret (Itoa m @ '' '' @ Itoa h @ '' * * '' @ Itoa (dow - 1))
    \<and> ParseToCron ''@monthly'' (Itoa h @ '':'' @ Itoa m) dow dm = Ret (Itoa m @ '' '' @ Itoa h @ '' '' @ Itoa dm @ '' * *'')
    \<and> ParseToCron ''@hourly'' (Itoa h @ '':'' @ Itoa m) dow dm = Ret (''*/'' @ Itoa m @ '' * * * *'')"
proof -
  have r: "i64_range h" "i64_range m" using assms by (simp_all add: i64_range_def)
  show ?thesis
    unfolding ParseToCron_def Split_times Let_def using assms by (simp add: Atoi_Itoa[OF r(1)] Atoi_Itoa[OF r(2)])
qed

theorem ParseToCron_text_witness:
  "ParseToCron ''@hourly'' (Itoa 1 @ '':'' @ Itoa 0) 1 1 = Ret ''*/0 * * * *''
   \<and> ParseToCron ''@daily'' (Itoa 24 @ '':'' @ Itoa 0) 1 1 = Ret ''0 24 * * *''"
proof -
  have "Itoa 0 = ''0''" "Itoa 24 = ''24''"
    by (simp_all add: Itoa_def nat_digits.simps digit_char_def char_eq_nat)
  then show ?thesis
    using ParseToCron_text[of 1 0 1 1] ParseToCron_text[of 24 0 1 1] by simp
qed

text \<open>A repository path splits into plan name and plan id exactly when, trailing slashes dropped,
  it is a name, a dash and a UUID, with no newline in the name; the split is the inverse of joining.\<close>

theorem SplitPath_iff:
  "SplitPath s = Ret (name, u) \<longleftrightarrow>
     TrimRight s ''/'' = name @ ''-'' @ u \<and> is_uuid u \<and> CHR 0x0A \<notin> set name"
proof
  assume r: "SplitPath s = Ret (name, u)"
  then have "CHR 0x0A \<notin> set name" by (auto simp: SplitPath_def Let_def split: if_splits)
  then show "TrimRight s ''/'' = name @ ''-'' @ u \<and> is_uuid u \<and> CHR 0x0A \<notin> set name"
    using SplitPath_Ret[OF r] by simp
next
  assume a: "TrimRight s ''/'' = name @ ''-'' @ u \<and> is_uuid u \<and> CHR 0x0A \<notin> set name"
  have "SplitPath s = SplitPath (TrimRight s ''/'')" by (simp add: SplitPath_def)
  then show "SplitPath s = Ret (name, u)" using a SplitPath_join by simp
qed

text \<open>In UTC \<open>ParseTimestampToLocal\<close> gives the hour and the minute of the timestamp. In a zone with
  another offset it is wrong: the offset is added to a local time, whose hour and minute apply it a
  second time.\<close>

theorem ParseTimestampToLocal_zone:
  assumes "i64_range v"
  shows "ParseTimestampToLocal (\<lambda>_. z) now (Itoa v) =
    (let s = v div 1000 + 2 * z in Ret (fmt_2d (s mod 86400 div 3600) @ '':'' @ fmt_2d (s mod 3600 div 60)))"
  using assms by (simp add: ParseTimestampToLocal_def Let_def add.commute)

theorem ParseTimestampToLocal_zone_witness:
  "ParseTimestampToLocal (\<lambda>_. 0) 0 (Itoa 5400000) = Ret (fmt_2d 1 @ '':'' @ fmt_2d 30)
   \<and> ParseTimestampToLocal (\<lambda>_. 3600) 0 (Itoa 5400000) = Ret (fmt_2d 3 @ '':'' @ fmt_2d 30)"
proof -
  have "i64_range 5400000" by (simp add: i64_range_def)
  note z = ParseTimestampToLocal_zone[OF this, of _ 0]
  show ?thesis using z[of 0] z[of 3600] by (simp add: Let_def)
qed

end
