(* ===== verification/SyncMap.thy ===== *)
theory SyncMap
  imports StrConv
begin

text \<open>
  \<open>sync.Map\<close> and the cache built on it (\<open>pkg/cache/cache.go\<close>). A \<open>sync.Map\<close> is an association
  list with distinct keys; ranging over it is going through the list. The contract of a keyed store
  is a locale, interpreted on the cache of the program and, in the worker, on the task table.
\<close>

section \<open>The contract of a keyed store\<close>

locale keyed_store =
  fixes load :: "'k \<Rightarrow> 's \<Rightarrow> 'v option"
    and put :: "'k \<Rightarrow> 'v \<Rightarrow> 's \<Rightarrow> 's"
    and remove :: "'k \<Rightarrow> 's \<Rightarrow> 's"
  assumes load_put: "load k (put k' v s) = (if k = k' then Some v else load k s)"
    and load_remove: "load k (remove k' s) = (if k = k' then None else load k s)"
begin

lemma load_put_same [simp]: "load k (put k v s) = Some v"
  by (simp add: load_put)

lemma load_remove_same [simp]: "load k (remove k s) = None"
  by (simp add: load_remove)

lemma put_remove_frame: "k' \<noteq> k \<Longrightarrow> load k' (remove k (put k v s)) = load k' s"
  by (simp add: load_put load_remove)

text \<open>A store followed by the removal of the same key leaves no trace when the key was absent.\<close>

lemma put_remove_undo: "load k s = None \<Longrightarrow> load k' (remove k (put k v s)) = load k' s"
  by (simp add: load_put load_remove)

lemma put_put: "load k' (put k v2 (put k v1 s)) = load k' (put k v2 s)"
  by (simp add: load_put)

end

section \<open>The cache\<close>

datatype cache_value = CInt int | CString string | CBool bool

record Cache =
  store :: "(string \<times> cache_value) list"

definition cache_New :: Cache where
  "cache_New = \<lparr>store = []\<rparr>"

definition cache_Set :: "string \<Rightarrow> cache_value \<Rightarrow> Cache \<Rightarrow> Cache" where
  "cache_Set k v c = c\<lparr>store := mput (store c) k v\<rparr>"

definition cache_Get :: "string \<Rightarrow> Cache \<Rightarrow> cache_value option" where
  "cache_Get k c = map_of (store c) k"

text \<open>The loaded result is true when the value was present, false when it was stored.\<close>

definition cache_GetOrSet :: "string \<Rightarrow> cache_value \<Rightarrow> Cache \<Rightarrow> (cache_value \<times> bool) \<times> Cache" where
  "cache_GetOrSet k v c = (case cache_Get k c of
      Some x \<Rightarrow> ((x, True), c) | None \<Rightarrow> ((v, False), cache_Set k v c))"

definition cache_Delete :: "string \<Rightarrow> Cache \<Rightarrow> Cache" where
  "cache_Delete k c = c\<lparr>store := mdel (store c) k\<rparr>"

text \<open>\<open>Range\<close> stops at the first entry for which the callback returns false.\<close>

fun range_store :: "('k \<Rightarrow> 'v \<Rightarrow> 's \<Rightarrow> bool \<times> 's) \<Rightarrow> ('k \<times> 'v) list \<Rightarrow> 's \<Rightarrow> 's" where
  "range_store f [] s = s"
| "range_store f ((k, v) # r) s = (case f k v s of (go_on, s') \<Rightarrow> if go_on then range_store f r s' else s')"

definition cache_Range :: "(string \<Rightarrow> cache_value \<Rightarrow> 's \<Rightarrow> bool \<times> 's) \<Rightarrow> Cache \<Rightarrow> 's \<Rightarrow> 's" where
  "cache_Range f c s = range_store f (store c) s"

definition cache_Clean :: "Cache \<Rightarrow> Cache" where
  "cache_Clean c = cache_Range (\<lambda>k v c'. (True, cache_Delete k c')) c c"

text \<open>A failed type assertion, or no value, gives the zero value and false.\<close>

definition cache_GetMustInt :: "string \<Rightarrow> Cache \<Rightarrow> int \<times> bool" where
  "cache_GetMustInt k c = (case cache_Get k c of Some (CInt i) \<Rightarrow> (i, True) | _ \<Rightarrow> (0, False))"

definition cache_GetMustString :: "string \<Rightarrow> Cache \<Rightarrow> string \<times> bool" where
  "cache_GetMustString k c = (case cache_Get k c of Some (CString s) \<Rightarrow> (s, True) | _ \<Rightarrow> ([], False))"

definition cache_GetMustBool :: "string \<Rightarrow> Cache \<Rightarrow> bool \<times> bool" where
  "cache_GetMustBool k c = (case cache_Get k c of Some (CBool b) \<Rightarrow> (b, True) | _ \<Rightarrow> (False, False))"

interpretation cache: keyed_store cache_Get cache_Set cache_Delete
  by unfold_locales (auto simp: cache_Get_def cache_Set_def cache_Delete_def)

lemma range_delete:
  "range_store (\<lambda>k v c'. (True, cache_Delete k c')) es c =
     c\<lparr>store := filter (\<lambda>p. fst p \<notin> fst ` set es) (store c)\<rparr>"
proof (induction es arbitrary: c)
  case (Cons e es)
  obtain k v where e: "e = (k, v)" by (cases e)
  have "store (cache_Delete k c) = filter (\<lambda>p. fst p \<noteq> k) (store c)"
    by (simp add: cache_Delete_def mdel_def)
  moreover have "(cache_Delete k c)\<lparr>store := x\<rparr> = c\<lparr>store := x\<rparr>" for x
    by (simp add: cache_Delete_def)
  ultimately show ?case using Cons.IH[of "cache_Delete k c"] by (simp add: e)
qed simp

lemma cache_Clean_empty: "store (cache_Clean c) = []"
  by (auto simp: cache_Clean_def cache_Range_def range_delete filter_empty_conv)

end
