(* ===== verification/Kube.thy ===== *)
theory Kube
  imports ApiTypes Utils
begin

text \<open>
  The services behind the handlers. The Kubernetes API server (through the generated client), the
  clock, the UUID generator and the digest are fields of the record \<open>kube\<close>; the state they act on is
  the abstract world \<open>'w\<close>. A call under a context with a deadline is one field: that the context is
  over shows as an error of the call. The \<open>goto RETRY\<close> loops of the handlers are \<open>retry_conflict\<close>,
  with fuel; the number of conflicts the server answers with, plus one, is enough.
\<close>

section \<open>The services\<close>

record 'w kube =
  k_client :: "('w, unit) go"
  k_dynamic :: "('w, unit) go"
  k_now :: "'w \<Rightarrow> timestamp"
  k_uuid :: "'w \<Rightarrow> string \<times> 'w"
  k_md5 :: "string \<Rightarrow> string"
  k_fuel :: nat
  k_app_installed :: "string \<Rightarrow> ('w, unit) go"
  k_backup_get :: "string \<Rightarrow> ('w, Backup) go"
  k_backup_list :: "string \<Rightarrow> string \<Rightarrow> ('w, Backup list) go"
  k_backup_update :: "Backup \<Rightarrow> ('w, unit) go"
  k_backup_apply :: "Backup \<Rightarrow> ('w, unit) go"
  k_backup_delete :: "string \<Rightarrow> ('w, unit) go"
  k_snapshot_get :: "string \<Rightarrow> ('w, Snapshot) go"
  k_snapshot_list :: "string \<Rightarrow> string \<Rightarrow> ('w, Snapshot list) go"
  k_snapshot_update :: "Snapshot \<Rightarrow> ('w, unit) go"
  k_snapshot_create :: "Snapshot \<Rightarrow> ('w, Snapshot) go"
  k_snapshot_delete_collection :: "string \<Rightarrow> ('w, unit) go"
  k_restore_get :: "string \<Rightarrow> ('w, Restore) go"
  k_restore_list :: "string \<Rightarrow> ('w, Restore list) go"
  k_restore_update :: "Restore \<Rightarrow> ('w, unit) go"
  k_restore_create :: "Restore \<Rightarrow> ('w, Restore) go"
  k_restore_delete :: "string \<Rightarrow> ('w, unit) go"
  k_retry :: "nat \<Rightarrow> ('w, unit) go \<Rightarrow> ('w, unit) go"
  k_retry_string :: "nat \<Rightarrow> ('w, string) go \<Rightarrow> ('w, string) go"

section \<open>The conflict loop\<close>

fun retry_conflict :: "nat \<Rightarrow> ('w, unit) go \<Rightarrow> ('w, unit) go" where
  "retry_conflict 0 m = (\<lambda>w. (Diverge, w))"
| "retry_conflict (Suc n) m =
    tryG m ret (\<lambda>e. if IsConflict e then retry_conflict n m else raise e)"

text \<open>The world after \<open>n\<close> attempts that were all answered with a conflict, if they were.\<close>

fun conflicts :: "('w, unit) go \<Rightarrow> nat \<Rightarrow> 'w \<Rightarrow> 'w option" where
  "conflicts m 0 w = Some w"
| "conflicts m (Suc n) w = (case m w of
      (Fail e, w') \<Rightarrow> if IsConflict e then conflicts m n w' else None
    | _ \<Rightarrow> None)"

definition final_answer :: "unit outcome \<Rightarrow> bool" where
  "final_answer r \<longleftrightarrow> (case r of Fail e \<Rightarrow> \<not> IsConflict e | _ \<Rightarrow> True)"

lemma retry_conflict_conflicts:
  "conflicts m k w = Some w' \<Longrightarrow> retry_conflict (k + n) m w = retry_conflict n m w'"
  by (induction m k w rule: conflicts.induct)
     (auto simp: tryG_def split: outcome.splits prod.splits if_splits)

lemma retry_conflict_enough:
  assumes "conflicts m k w = Some w'" and "m w' = (r, w'')" and "final_answer r" and "k < fuel"
  shows "retry_conflict fuel m w = (r, w'')"
proof -
  obtain n where "fuel = k + Suc n" using assms(4) less_iff_Suc_add by auto
  then show ?thesis
    using retry_conflict_conflicts[OF assms(1), of "Suc n"] assms(2,3)
    by (auto simp: tryG_def final_answer_def split: outcome.splits)
qed

lemma retry_conflict_stuck:
  assumes "\<And>n. \<exists>w'. conflicts m n w = Some w'"
  shows "fst (retry_conflict fuel m w) = Diverge"
proof -
  obtain w' where "conflicts m fuel w = Some w'" using assms by blast
  then show ?thesis using retry_conflict_conflicts[of m fuel w w' 0] by simp
qed

lemma conflicts_loop:
  assumes "m w = (Fail e, w)" and "IsConflict e"
  shows "conflicts m n w = Some w"
  using assms by (induction n) auto

text \<open>What \<open>retry_conflict\<close> returns is never a conflict error.\<close>

lemma retry_conflict_not_conflict:
  "retry_conflict n m w = (Fail e, w') \<Longrightarrow> \<not> IsConflict e"
  by (induction n m arbitrary: w rule: retry_conflict.induct)
     (auto simp: tryG_def split: outcome.splits prod.splits if_splits)

section \<open>The contract of the writers\<close>

text \<open>
  The private \<open>update\<close> and \<open>delete\<close> of the three handlers share one shape: get a client, send the
  object, send the same object again while the server answers with a conflict, and wrap any other
  error. The locale states that shape and has its consequences once; each handler interprets it on
  its own definition.
\<close>

locale api_writer =
  fixes client :: "('w, unit) go"
    and send :: "'o \<Rightarrow> ('w, unit) go"
    and fuel :: nat
    and label :: string
    and commit :: "'o \<Rightarrow> ('w, unit) go"
  assumes commit_shape: "commit obj w = bindG client (\<lambda>_.
      tryG (retry_conflict fuel (send obj)) ret (\<lambda>e. raise (Errorf (label @ err_text e)))) w"
begin

lemma commit_no_client: "client w = (Fail e, w') \<Longrightarrow> commit obj w = (Fail e, w')"
  by (simp add: commit_shape go_simps)

lemma commit_settles:
  assumes "client w = (Ret (), w1)" and "conflicts (send obj) k w1 = Some w2"
    and "send obj w2 = (r, w3)" and "final_answer r" and "k < fuel"
  shows "commit obj w = (case r of Fail e \<Rightarrow> Fail (Errorf (label @ err_text e)) | _ \<Rightarrow> r, w3)"
  using retry_conflict_enough[OF assms(2,3,4,5)] assms(1)
  by (cases r) (simp_all add: commit_shape go_simps)

lemma commit_stale:
  assumes "client w = (Ret (), w1)" and "send obj w1 = (Fail e, w1)" and "IsConflict e"
  shows "fst (commit obj w) = Diverge"
proof -
  have "\<And>n. \<exists>w'. conflicts (send obj) n w1 = Some w'" using conflicts_loop[of "send obj" w1 e] assms(2,3) by blast
  from retry_conflict_stuck[OF this] have "fst (retry_conflict fuel (send obj) w1) = Diverge" .
  then obtain w2 where "retry_conflict fuel (send obj) w1 = (Diverge, w2)" by (metis prod.collapse)
  then show ?thesis using assms(1) by (simp add: commit_shape go_simps)
qed

lemma commit_never_conflict:
  assumes "commit obj w = (Fail e, w')" and "client w = (Ret (), w1)"
  shows "\<not> IsConflict e"
  using assms by (auto simp: commit_shape go_simps tryG_def split: outcome.splits prod.splits)

end

section \<open>An API server in memory\<close>

text \<open>
  A concrete server, for instances of the theorems: objects are kept by name, every write gives an
  object a new resource version, and an update with another resource version than the stored one is
  a conflict.
\<close>

record store =
  st_backups :: "Backup list"
  st_snapshots :: "Snapshot list"
  st_restores :: "Restore list"
  st_clock :: timestamp
  st_next :: nat

definition api_notfound :: gerr where
  "api_notfound = \<lparr>err_kind = ENotFound, err_text = ''not found''\<rparr>"

definition api_conflict :: gerr where
  "api_conflict = \<lparr>err_kind = EConflict, err_text = ''the object has been modified''\<rparr>"

definition find_by :: "('a \<Rightarrow> string) \<Rightarrow> string \<Rightarrow> 'a list \<Rightarrow> 'a option" where
  "find_by nm n xs = find (\<lambda>x. nm x = n) xs"

definition replace_by :: "('a \<Rightarrow> string) \<Rightarrow> 'a \<Rightarrow> 'a list \<Rightarrow> 'a list" where
  "replace_by nm y xs = map (\<lambda>x. if nm x = nm y then y else x) xs"

definition label_match :: "string \<Rightarrow> objmeta \<Rightarrow> bool" where
  "label_match sel m = (case Split sel ''='' of
      [k, v] \<Rightarrow> map_of (om_Labels m) k = Some v
    | _ \<Rightarrow> True)"

definition mem_get :: "('w \<Rightarrow> 'a list) \<Rightarrow> ('a \<Rightarrow> string) \<Rightarrow> string \<Rightarrow> ('w, 'a) go" where
  "mem_get sel nm n = (\<lambda>w. (case find_by nm n (sel w) of None \<Rightarrow> Fail api_notfound | Some x \<Rightarrow> Ret x, w))"

definition bump :: "store \<Rightarrow> objmeta \<Rightarrow> objmeta" where
  "bump w m = m\<lparr>om_ResourceVersion := nat_digits (st_next w)\<rparr>"

definition mem_update :: "(store \<Rightarrow> 'a list) \<Rightarrow> (('a list \<Rightarrow> 'a list) \<Rightarrow> store \<Rightarrow> store) \<Rightarrow> ('a \<Rightarrow> objmeta) \<Rightarrow>
    ((objmeta \<Rightarrow> objmeta) \<Rightarrow> 'a \<Rightarrow> 'a) \<Rightarrow> 'a \<Rightarrow> (store, unit) go" where
  "mem_update sel upd meta set_meta x = (\<lambda>w.
     case find_by (om_Name \<circ> meta) (om_Name (meta x)) (sel w) of
       None \<Rightarrow> (Fail api_notfound, w)
     | Some old \<Rightarrow>
         if om_ResourceVersion (meta old) \<noteq> om_ResourceVersion (meta x) then (Fail api_conflict, w)
         else (Ret (), upd (replace_by (om_Name \<circ> meta) (set_meta (bump w) x)) (w\<lparr>st_next := Suc (st_next w)\<rparr>)))"

definition mem_api :: "store kube" where
  "mem_api = \<lparr>
    k_client = ret (), k_dynamic = ret (),
    k_now = st_clock,
    k_uuid = (\<lambda>w. (''id-'' @ nat_digits (st_next w), w\<lparr>st_next := Suc (st_next w)\<rparr>)),
    k_md5 = (\<lambda>s. s), k_fuel = 5,
    k_app_installed = (\<lambda>n. ret ()),
    k_backup_get = mem_get st_backups bk_Name,
    k_backup_list = (\<lambda>l f w. (Ret (filter (\<lambda>b. label_match l (bk_meta b)) (st_backups w)), w)),
    k_backup_update = mem_update st_backups st_backups_update bk_meta bk_meta_update,
    k_backup_apply = (\<lambda>b w. (Ret (), w\<lparr>st_backups := filter (\<lambda>x. bk_Name x \<noteq> bk_Name b) (st_backups w) @ [b]\<rparr>)),
    k_backup_delete = (\<lambda>n w. (Ret (), w\<lparr>st_backups := filter (\<lambda>x. bk_Name x \<noteq> n) (st_backups w)\<rparr>)),
    k_snapshot_get = mem_get st_snapshots sn_Name,
    k_snapshot_list = (\<lambda>l f w. (Ret (filter (\<lambda>b. label_match l (sn_meta b)) (st_snapshots w)), w)),
    k_snapshot_update = mem_update st_snapshots st_snapshots_update sn_meta sn_meta_update,
    k_snapshot_create = (\<lambda>s w. (Ret s, w\<lparr>st_snapshots := st_snapshots w @ [s]\<rparr>)),
    k_snapshot_delete_collection = (\<lambda>l w. (Ret (), w\<lparr>st_snapshots := filter (\<lambda>s. \<not> label_match l (sn_meta s)) (st_snapshots w)\<rparr>)),
    k_restore_get = mem_get st_restores re_Name,
    k_restore_list = (\<lambda>l w. (Ret (filter (\<lambda>b. label_match l (re_meta b)) (st_restores w)), w)),
    k_restore_update = mem_update st_restores st_restores_update re_meta re_meta_update,
    k_restore_create = (\<lambda>s w. (Ret s, w\<lparr>st_restores := st_restores w @ [s]\<rparr>)),
    k_restore_delete = (\<lambda>n w. (Ret (), w\<lparr>st_restores := filter (\<lambda>x. re_Name x \<noteq> n) (st_restores w)\<rparr>)),
    k_retry = (\<lambda>n m. m), k_retry_string = (\<lambda>n m. m) \<rparr>"

end
