(* ===== verification/Helpers.thy ===== *)
theory Helpers
  imports Kube
begin

text \<open>
  The pure helpers of \<open>pkg/handlers/helper.go\<close> and the data of \<open>pkg/handlers/model.go\<close>: what is read
  from the string maps of the resources (JSON texts), the names shown for locations, types and
  frequencies, and what is read from the tags of a restic snapshot. A Go map is ranged over in an
  unspecified order; the functions that range over one take the order of the association list.
\<close>

section \<open>Notification state of a snapshot\<close>

record SnapshotNotifyState =
  ns_Prepare :: bool
  ns_Progress :: bool
  ns_Result :: bool

definition notify_json :: "SnapshotNotifyState \<Rightarrow> json" where
  "notify_json s = JObj [(''prepare'', JBool (ns_Prepare s)), (''progress'', JBool (ns_Progress s)),
                         (''result'', JBool (ns_Result s))]"

text \<open>Decoding into a \<open>*SnapshotNotifyState\<close>: the text \<open>null\<close> gives the nil pointer.\<close>

definition Unmarshal_notify :: "string \<Rightarrow> SnapshotNotifyState option outcome" where
  "Unmarshal_notify s = (case json_parse s of
      Some JNull \<Rightarrow> Ret None
    | Some (JObj kvs) \<Rightarrow>
        bindO (dec_field as_bool False ''prepare'' kvs) (\<lambda>p.
        bindO (dec_field as_bool False ''progress'' kvs) (\<lambda>g.
        bindO (dec_field as_bool False ''result'' kvs) (\<lambda>r.
          Ret (Some \<lparr>ns_Prepare = p, ns_Progress = g, ns_Result = r\<rparr>))))
    | _ \<Rightarrow> Fail json_error)"

definition nil_deref :: string where
  "nil_deref = ''invalid memory address or nil pointer dereference''"

definition CheckSnapshotNotifyState :: "Snapshot \<Rightarrow> string \<Rightarrow> bool outcome" where
  "CheckSnapshotNotifyState snapshot field =
    (case ss_Extra (sn_Spec snapshot) of
       None \<Rightarrow> errf (''snapshot '' @ sn_Name snapshot @ '' extra is nil'')
     | Some extra \<Rightarrow> (case map_of extra ''push'' of
         None \<Rightarrow> errf (''snapshot '' @ sn_Name snapshot @ '' extra push is nil'')
       | Some notifyState \<Rightarrow> bindO (Unmarshal_notify notifyState) (\<lambda>p.
           if field \<in> {''progress'', ''result'', ''prepare''} then
             (case p of None \<Rightarrow> Panic nil_deref
              | Some s \<Rightarrow> Ret (if field = ''progress'' then ns_Progress s
                               else if field = ''result'' then ns_Result s else ns_Prepare s))
           else errf ''field not found'')))"

lemma Unmarshal_notify_ToJSON [simp]: "Unmarshal_notify (ToJSON (notify_json s)) = Ret (Some s)"
proof -
  have "json_parse (ToJSON (notify_json s)) = Some (notify_json s)"
    by (rule json_parse_ToJSON) (simp add: notify_json_def)
  then show ?thesis by (simp add: Unmarshal_notify_def notify_json_def ToLower_def)
qed

section \<open>Snapshot types, locations and sizes\<close>

definition ParseSnapshotTypeText :: "int option \<Rightarrow> string outcome" where
  "ParseSnapshotTypeText snapshotType = (case snapshotType of
      None \<Rightarrow> Panic nil_deref
    | Some t \<Rightarrow> Ret (if t = 0 then FullyBackup else if t = 1 then IncrementalBackup else UnKnownBackup))"

definition ParseSnapshotType :: "string \<Rightarrow> int option" where
  "ParseSnapshotType snapshotType =
    Some (if snapshotType = FullyBackup then 0 else if snapshotType = IncrementalBackup then 1 else 2)"

text \<open>\<open>cases.Title\<close> of \<open>golang.org/x/text\<close> is the argument \<open>title\<close>.\<close>

definition ParseSnapshotTypeTitle :: "(string \<Rightarrow> string) \<Rightarrow> int option \<Rightarrow> string" where
  "ParseSnapshotTypeTitle title snapshotType = (case snapshotType of
      None \<Rightarrow> title UnKnownBackup
    | Some t \<Rightarrow> if t < 0 \<or> t > 1 then title UnKnownBackup
                else if t = 0 then title FullyBackup else title IncrementalBackup)"

definition ParseBackupSnapshotFrequency :: "(string \<Rightarrow> string) \<Rightarrow> string \<Rightarrow> string" where
  "ParseBackupSnapshotFrequency title str = title (ReplaceAll str ''@'' [])"

definition ParseBackupLocation :: "string \<Rightarrow> string" where
  "ParseBackupLocation l =
    (if l = location_String BackupLocationSpace then location_String BackupLocationSpaceAlias
     else if l = location_String BackupLocationAwsS3 then location_String BackupLocationAwsS3Alias
     else if l = location_String BackupLocationTencentCloud then location_String BackupLocationCosAlias
     else if l = location_String BackupLocationFileSystem then location_String BackupLocationFileSystemAlias
     else location_String BackupLocationUnKnownAlias)"

definition ParseLocationConfig :: "gomap \<Rightarrow> string" where
  "ParseLocationConfig locationConfig = (case locationConfig of
      None \<Rightarrow> ParseBackupLocation []
    | Some m \<Rightarrow> ParseBackupLocation (fold (\<lambda>(l, _) _. l) m []))"

definition ParseSnapshotSize :: "u64 option \<Rightarrow> string" where
  "ParseSnapshotSize sz = (case sz of None \<Rightarrow> ''0'' | Some s \<Rightarrow> Itoa (uint s))"

lemma ParseSnapshotType_Text:
  "t \<in> {FullyBackup, IncrementalBackup, UnKnownBackup} \<Longrightarrow>
   ParseSnapshotTypeText (ParseSnapshotType t) = Ret t"
  by (auto simp: ParseSnapshotTypeText_def ParseSnapshotType_def)

section \<open>Reading the string maps\<close>

text \<open>\<open>json.Unmarshal\<close> into a map; a value that does not decode leaves \<open>p\<close> as it was.\<close>

definition path_step :: "string \<times> string \<Rightarrow> string \<Rightarrow> string" where
  "path_step kv p = (if fst kv \<noteq> ''file'' then p
     else (case Unmarshal_map (snd kv) of Ret m \<Rightarrow> lookup0 m ''path'' | _ \<Rightarrow> p))"

definition GetBackupPath :: "Backup \<Rightarrow> string" where
  "GetBackupPath backup = fold path_step (entries (bs_BackupType (bk_Spec backup))) []"

definition GetRestorePath :: "Restore \<Rightarrow> string" where
  "GetRestorePath restore = fold path_step (entries (rs_RestoreType (re_Spec restore))) []"

definition cloud_locations :: "string list" where
  "cloud_locations = map location_String [BackupLocationSpace, BackupLocationAwsS3, BackupLocationTencentCloud]"

text \<open>The loop returns after its first entry. Writing to a nil map panics.\<close>

definition GetBackupLocationConfig :: "Backup \<Rightarrow> gomap outcome" where
  "GetBackupLocationConfig backup = (case entries (bs_Location (bk_Spec backup)) of
      [] \<Rightarrow> Ret None
    | (k, v) # _ \<Rightarrow> bindO (Unmarshal_map v) (\<lambda>locationConfig.
        if ListContains cloud_locations k \<and> lookup locationConfig ''name'' = None
        then errf (''location '' @ k @ '' config name not exsits, config: '' @ v)
        else if k = location_String BackupLocationFileSystem \<and> lookup locationConfig ''path'' = None
        then errf (''location '' @ k @ '' config path not exsits, config: '' @ v)
        else (case locationConfig of
            None \<Rightarrow> Panic ''assignment to entry in nil map''
          | Some m \<Rightarrow> Ret (Some (mput m ''location'' k)))))"

fun type_path_loop :: "smap \<Rightarrow> string" where
  "type_path_loop [] = []"
| "type_path_loop ((k, v) # r) = (if k \<noteq> ''file'' then type_path_loop r
     else (case Unmarshal_map v of Ret m \<Rightarrow> lookup0 m ''path'' | _ \<Rightarrow> []))"

definition ParseBackupTypePath :: "gomap \<Rightarrow> string" where
  "ParseBackupTypePath backupType = (case backupType of None \<Rightarrow> [] | Some m \<Rightarrow> type_path_loop m)"

definition GetBackupType :: "Backup \<Rightarrow> string" where
  "GetBackupType backup = (case entries (bs_BackupType (bk_Spec backup)) of [] \<Rightarrow> [] | (k, _) # _ \<Rightarrow> k)"

definition GetRestoreType :: "Restore \<Rightarrow> string outcome" where
  "GetRestoreType restore = (let data = rs_RestoreType (re_Spec restore) in
     if lookup data BackupTypeFile \<noteq> None then Ret BackupTypeFile
     else if lookup data BackupTypeApp \<noteq> None then Ret BackupTypeApp
     else errf ''restore from backup type invalid'')"

definition GetBackupAppName :: "Backup \<Rightarrow> string" where
  "GetBackupAppName backup = (case lookup (bs_BackupType (bk_Spec backup)) ''app'' of
      None \<Rightarrow> []
    | Some app \<Rightarrow> (case Unmarshal_map app of Ret m \<Rightarrow> lookup0 m ''name'' | _ \<Rightarrow> []))"

text \<open>Here the value is decoded into \<open>map[string]interface{}\<close>, and a name that is not a string
  fails the type assertion; a later member of the same name replaces an earlier one.\<close>

definition GetRestoreAppName :: "Restore \<Rightarrow> string outcome" where
  "GetRestoreAppName restore = (case lookup (rs_RestoreType (re_Spec restore)) ''app'' of
      None \<Rightarrow> Ret []
    | Some app \<Rightarrow> (case json_parse app of
        Some (JObj kvs) \<Rightarrow> (case map_of (rev kvs) ''name'' of
            None \<Rightarrow> Ret []
          | Some (JStr s) \<Rightarrow> Ret s
          | Some _ \<Rightarrow> Panic ''interface conversion'')
      | _ \<Rightarrow> Ret []))"

section \<open>The restore type\<close>

record RestoreBackupUrlDetail =
  ud_CloudName :: string
  ud_RegionId :: string
  ud_Bucket :: string
  ud_Prefix :: string
  ud_OlaresSuffix :: string
  ud_FilesystemPath :: string

record RestoreType =
  rt_Name :: string
  rt_Owner :: string
  rt_Type :: string
  rt_Path :: string
  rt_SubPath :: string
  rt_SubPathTimestamp :: int
  rt_BackupId :: string
  rt_BackupName :: string
  rt_BackupPath :: string
  rt_Password :: string
  rt_SnapshotId :: string
  rt_SnapshotTime :: string
  rt_ResticSnapshotId :: string
  rt_ClusterId :: string
  rt_Location :: string
  rt_Endpoint :: string
  rt_TotalBytesProcessed :: int
  rt_BackupUrl :: "RestoreBackupUrlDetail option"

definition url_detail_json :: "RestoreBackupUrlDetail \<Rightarrow> json" where
  "url_detail_json d = JObj [(''cloudName'', JStr (ud_CloudName d)), (''regionId'', JStr (ud_RegionId d)),
     (''bucket'', JStr (ud_Bucket d)), (''prefix'', JStr (ud_Prefix d)),
     (''suffix'', JStr (ud_OlaresSuffix d)), (''fsPath'', JStr (ud_FilesystemPath d))]"

definition restore_type_json :: "RestoreType \<Rightarrow> json" where
  "restore_type_json r = JObj [(''name'', JStr (rt_Name r)), (''owner'', JStr (rt_Owner r)),
     (''type'', JStr (rt_Type r)), (''path'', JStr (rt_Path r)), (''subPath'', JStr (rt_SubPath r)),
     (''subPathTimestamp'', JNum (Itoa (rt_SubPathTimestamp r))), (''backupId'', JStr (rt_BackupId r)),
     (''backupName'', JStr (rt_BackupName r)), (''backupPath'', JStr (rt_BackupPath r)),
     (''p'', JStr (rt_Password r)), (''snapshotId'', JStr (rt_SnapshotId r)),
     (''snapshotTime'', JStr (rt_SnapshotTime r)), (''resticSnapshotId'', JStr (rt_ResticSnapshotId r)),
     (''clusterId'', JStr (rt_ClusterId r)), (''location'', JStr (rt_Location r)),
     (''endpoint'', JStr (rt_Endpoint r)),
     (''totalBytesProcessed'', JNum (Itoa (rt_TotalBytesProcessed r))),
     (''backupUrl'', case rt_BackupUrl r of None \<Rightarrow> JNull | Some d \<Rightarrow> url_detail_json d)]"

definition dec_url_detail :: "json \<Rightarrow> RestoreBackupUrlDetail option" where
  "dec_url_detail j = (case j of JObj kvs \<Rightarrow>
     (case bindO (dec_field as_string [] ''cloudName'' kvs) (\<lambda>c.
           bindO (dec_field as_string [] ''regionId'' kvs) (\<lambda>r.
           bindO (dec_field as_string [] ''bucket'' kvs) (\<lambda>b.
           bindO (dec_field as_string [] ''prefix'' kvs) (\<lambda>p.
           bindO (dec_field as_string [] ''suffix'' kvs) (\<lambda>s.
           bindO (dec_field as_string [] ''fsPath'' kvs) (\<lambda>f.
             Ret \<lparr>ud_CloudName = c, ud_RegionId = r, ud_Bucket = b, ud_Prefix = p,
                  ud_OlaresSuffix = s, ud_FilesystemPath = f\<rparr>)))))) of
        Ret d \<Rightarrow> Some d | _ \<Rightarrow> None)
     | _ \<Rightarrow> None)"

definition str_field :: "(string \<times> json) list \<Rightarrow> string \<Rightarrow> string outcome" where
  "str_field kvs f = dec_field as_string [] f kvs"

definition dec_restore_type :: "(string \<times> json) list \<Rightarrow> RestoreType outcome" where
  "dec_restore_type kvs =
    bindO (str_field kvs ''name'') (\<lambda>nm. bindO (str_field kvs ''owner'') (\<lambda>ow.
    bindO (str_field kvs ''type'') (\<lambda>ty. bindO (str_field kvs ''path'') (\<lambda>pa.
    bindO (str_field kvs ''subPath'') (\<lambda>sp.
    bindO (dec_field as_int64 0 ''subPathTimestamp'' kvs) (\<lambda>spt.
    bindO (str_field kvs ''backupId'') (\<lambda>bi. bindO (str_field kvs ''backupName'') (\<lambda>bn.
    bindO (str_field kvs ''backupPath'') (\<lambda>bp. bindO (str_field kvs ''p'') (\<lambda>pw.
    bindO (str_field kvs ''snapshotId'') (\<lambda>si. bindO (str_field kvs ''snapshotTime'') (\<lambda>st.
    bindO (str_field kvs ''resticSnapshotId'') (\<lambda>rsi. bindO (str_field kvs ''clusterId'') (\<lambda>ci.
    bindO (str_field kvs ''location'') (\<lambda>lo. bindO (str_field kvs ''endpoint'') (\<lambda>en.
    bindO (dec_field as_int64 0 ''totalBytesProcessed'' kvs) (\<lambda>tb.
    bindO (dec_field (map_option Some \<circ> dec_url_detail) None ''backupUrl'' kvs) (\<lambda>bu.
      Ret \<lparr>rt_Name = nm, rt_Owner = ow, rt_Type = ty, rt_Path = pa, rt_SubPath = sp,
           rt_SubPathTimestamp = spt, rt_BackupId = bi, rt_BackupName = bn, rt_BackupPath = bp,
           rt_Password = pw, rt_SnapshotId = si, rt_SnapshotTime = st, rt_ResticSnapshotId = rsi,
           rt_ClusterId = ci, rt_Location = lo, rt_Endpoint = en, rt_TotalBytesProcessed = tb,
           rt_BackupUrl = bu\<rparr>))))))))))))))))))"

definition Unmarshal_restore_type :: "string \<Rightarrow> RestoreType option outcome" where
  "Unmarshal_restore_type s = (case json_parse s of
      Some JNull \<Rightarrow> Ret None
    | Some (JObj kvs) \<Rightarrow> bindO (dec_restore_type kvs) (\<lambda>r. Ret (Some r))
    | _ \<Rightarrow> Fail json_error)"

definition ParseRestoreType :: "string \<Rightarrow> Restore \<Rightarrow> RestoreType option outcome" where
  "ParseRestoreType backupType restore = (case lookup (rs_RestoreType (re_Spec restore)) backupType of
      None \<Rightarrow> errf ''restore type data not found''
    | Some v \<Rightarrow> Unmarshal_restore_type v)"

definition ParseBackupNameFromRestore :: "Restore option \<Rightarrow> string outcome" where
  "ParseBackupNameFromRestore restore = (case restore of
      None \<Rightarrow> Ret []
    | Some r \<Rightarrow> (case lookup (rs_RestoreType (re_Spec r)) BackupTypeFile of
        None \<Rightarrow> Ret []
      | Some data \<Rightarrow> (case Unmarshal_restore_type data of
          Ret (Some t) \<Rightarrow> Ret (rt_BackupName t)
        | Ret None \<Rightarrow> Panic nil_deref
        | _ \<Rightarrow> Ret [])))"

definition restore_type_ok :: "RestoreType \<Rightarrow> bool" where
  "restore_type_ok r \<longleftrightarrow> list_all ascii [rt_Name r, rt_Owner r, rt_Type r, rt_Path r, rt_SubPath r,
      rt_BackupId r, rt_BackupName r, rt_BackupPath r, rt_Password r, rt_SnapshotId r, rt_SnapshotTime r,
      rt_ResticSnapshotId r, rt_ClusterId r, rt_Location r, rt_Endpoint r]
    \<and> i64_range (rt_SubPathTimestamp r) \<and> i64_range (rt_TotalBytesProcessed r)
    \<and> (case rt_BackupUrl r of None \<Rightarrow> True | Some d \<Rightarrow>
         list_all ascii [ud_CloudName d, ud_RegionId d, ud_Bucket d, ud_Prefix d, ud_OlaresSuffix d,
                         ud_FilesystemPath d])"

lemma dec_url_detail_json [simp]: "dec_url_detail (url_detail_json d) = Some d"
  by (simp add: dec_url_detail_def url_detail_json_def ToLower_def)

lemma url_detail_not_null [simp]: "url_detail_json d \<noteq> JNull"
  by (simp add: url_detail_json_def)

lemma Unmarshal_restore_type_ToJSON:
  assumes "restore_type_ok r"
  shows "Unmarshal_restore_type (ToJSON (restore_type_json r)) = Ret (Some r)"
proof -
  have "json_parse (ToJSON (restore_type_json r)) = Some (restore_type_json r)"
    using assms by (intro json_parse_ToJSON)
      (auto simp: restore_type_json_def restore_type_ok_def url_detail_json_def split: option.splits)
  moreover obtain kvs where kvs: "restore_type_json r = JObj kvs" by (simp add: restore_type_json_def)
  moreover have "dec_restore_type kvs = Ret r"
    using assms kvs by (cases "rt_BackupUrl r")
      (auto simp: restore_type_json_def dec_restore_type_def str_field_def ToLower_def
        restore_type_ok_def parse_int_Itoa)
  ultimately show ?thesis by (simp add: Unmarshal_restore_type_def)
qed

section \<open>Tags of a restic snapshot\<close>

text \<open>The value of the first tag \<open>key=value\<close> with the key.\<close>

fun find_tag :: "string \<Rightarrow> string list \<Rightarrow> string option" where
  "find_tag key [] = None"
| "find_tag key (tag # tags) = (case index_of tag ''='' of
      Some e \<Rightarrow> if take e tag = key then Some (drop (e + 1) tag) else find_tag key tags
    | None \<Rightarrow> find_tag key tags)"

definition GetBackupTypeFromTags :: "string list \<Rightarrow> string" where
  "GetBackupTypeFromTags tags = (case find_tag ''backup-type'' tags of None \<Rightarrow> BackupTypeFile | Some v \<Rightarrow> v)"

definition decode_tag :: "string option \<Rightarrow> string" where
  "decode_tag v = (case v of None \<Rightarrow> [] | Some x \<Rightarrow>
     if x = [] then [] else (case Base64decode x of None \<Rightarrow> [] | Some t \<Rightarrow> t))"

definition GetBackupTypeAppName :: "string list \<Rightarrow> string" where
  "GetBackupTypeAppName tags = decode_tag (find_tag ''backup-app-type-name'' tags)"

definition GetBackupTypeFilePath :: "string list \<Rightarrow> string" where
  "GetBackupTypeFilePath tags = decode_tag (find_tag ''backup-path'' tags)"

lemma find_tag_Cons:
  "CHR ''='' \<notin> set k \<Longrightarrow> find_tag key ((k @ ''='' @ v) # tags) = (if k = key then Some v else find_tag key tags)"
  by (simp add: index_of_append_fresh)

lemma decode_tag_encode [simp]: "decode_tag (Some (Base64encode s)) = s"
  by (simp add: decode_tag_def)

end
