(* ===== verification/BackupHandler.thy ===== *)
theory BackupHandler
  imports Helpers
begin

text \<open>
  \<open>pkg/handlers/handler_backup.go\<close>: the backup plans. Every writer goes through \<open>backup_update\<close> or
  \<open>backup_delete\<close>, which interpret the contract \<open>api_writer\<close>. A method that changes the object it
  is given sends the changed object. \<open>DeleteBackup\<close> also talks to Olares Space and is modelled with
  the integration service.
\<close>

section \<open>The writers\<close>

definition backup_update :: "('w, 'm) kube_scheme \<Rightarrow> Backup \<Rightarrow> ('w, unit) go" where
  "backup_update k backup = bindG (k_client k) (\<lambda>_.
     tryG (retry_conflict (k_fuel k) (k_backup_update k backup)) ret
       (\<lambda>e. raise (Errorf (''update backup error: '' @ err_text e))))"

definition backup_delete :: "('w, 'm) kube_scheme \<Rightarrow> Backup \<Rightarrow> ('w, unit) go" where
  "backup_delete k backup = bindG (k_client k) (\<lambda>_.
     tryG (retry_conflict (k_fuel k) (k_backup_delete k (bk_Name backup))) ret
       (\<lambda>e. raise (Errorf (''delete backup error: '' @ err_text e))))"

interpretation backup_upd: api_writer "k_client k" "k_backup_update k" "k_fuel k"
  "''update backup error: ''" "backup_update k" for k
  by unfold_locales (simp add: backup_update_def)

interpretation backup_del: api_writer "k_client k" "\<lambda>b. k_backup_delete k (bk_Name b)" "k_fuel k"
  "''delete backup error: ''" "backup_delete k" for k
  by unfold_locales (simp add: backup_delete_def)

section \<open>Reading\<close>

definition CheckAppInstalled :: "('w, 'm) kube_scheme \<Rightarrow> string \<Rightarrow> ('w, bool) go" where
  "CheckAppInstalled k appName = tryG (k_dynamic k)
     (\<lambda>_. tryG (k_app_installed k appName) (\<lambda>_. ret True) (\<lambda>_. ret False)) (\<lambda>_. ret False)"

definition backup_GetById :: "('w, 'm) kube_scheme \<Rightarrow> string \<Rightarrow> ('w, Backup) go" where
  "backup_GetById k name = bindG (k_client k) (\<lambda>_. k_backup_get k name)"

definition NewNotFound :: "string \<Rightarrow> string \<Rightarrow> gerr" where
  "NewNotFound resource name = \<lparr>err_kind = ENotFound,
     err_text = resource @ ''.sys.bytetrade.io '' @ quote_string name @ '' not found''\<rparr>"

definition backup_GetByLabel :: "('w, 'm) kube_scheme \<Rightarrow> string \<Rightarrow> ('w, Backup) go" where
  "backup_GetByLabel k label = bindG (k_client k) (\<lambda>_. bindG (k_backup_list k label []) (\<lambda>items.
     case items of [] \<Rightarrow> raise (NewNotFound ''Backup'' label) | b # _ \<Rightarrow> ret b))"

definition ListBackups :: "('w, 'm) kube_scheme \<Rightarrow> string \<Rightarrow> string \<Rightarrow> ('w, Backup list) go" where
  "ListBackups k labelSelector fieldSelector = bindG (k_client k) (\<lambda>_.
     bindG (k_backup_list k labelSelector fieldSelector) (\<lambda>items.
       if items = [] then raise (Errorf ''backups not exists'')
       else let filtered = filter (\<lambda>b. \<not> bs_Deleted (bk_Spec b)) items in
         if filtered = [] then raise (Errorf ''no active backups exist'')
         else ret (sort_desc (\<lambda>b. om_CreationTimestamp (bk_meta b)) filtered)))"

definition GetBackupIdForLabels :: "Backup list \<Rightarrow> string list" where
  "GetBackupIdForLabels backups = map (\<lambda>b. ''backup-id='' @ bk_Name b) backups"

section \<open>Changing a plan\<close>

definition UpdateBackupPolicy :: "('w, 'm) kube_scheme \<Rightarrow> Backup \<Rightarrow> ('w, unit) go" where
  "UpdateBackupPolicy k backup = backup_update k backup"

definition set_bk_spec :: "(BackupSpec \<Rightarrow> BackupSpec) \<Rightarrow> Backup \<Rightarrow> Backup" where
  "set_bk_spec f b = b\<lparr>bk_Spec := f (bk_Spec b)\<rparr>"

definition backup_Delete :: "('w, 'm) kube_scheme \<Rightarrow> Backup \<Rightarrow> ('w, unit) go" where
  "backup_Delete k backup = backup_update k (set_bk_spec (\<lambda>s. s\<lparr>bs_Deleted := True\<rparr>) backup)"

definition Enabled :: "('w, 'm) kube_scheme \<Rightarrow> Backup \<Rightarrow> string \<Rightarrow> ('w, unit) go" where
  "Enabled k backup data = (case bs_BackupPolicy (bk_Spec backup) of
      None \<Rightarrow> panicG nil_deref
    | Some p \<Rightarrow> backup_update k
        (set_bk_spec (\<lambda>s. s\<lparr>bs_BackupPolicy := Some (p\<lparr>bp_Enabled := (data = BackupResume)\<rparr>)\<rparr>) backup))"

definition UpdateNotifyState :: "('w, 'm) kube_scheme \<Rightarrow> string \<Rightarrow> bool \<Rightarrow> ('w, unit) go" where
  "UpdateNotifyState k backupId notified = bindG (backup_GetById k backupId) (\<lambda>backup.
     backup_update k (set_bk_spec (\<lambda>s. s\<lparr>bs_Notified := notified\<rparr>) backup))"

definition size_updated :: "timestamp \<Rightarrow> string" where
  "size_updated now = Itoa (now div 1000000000)"

definition UpdateTotalSize ::
  "('w, 'm) kube_scheme \<Rightarrow> Backup \<Rightarrow> u64 \<Rightarrow> u64 \<Rightarrow> string \<Rightarrow> string \<Rightarrow> ('w, unit) go" where
  "UpdateTotalSize k backup totalSize restoreSize newLocation newLocationData = (\<lambda>w.
     let extra = mput (entries (bs_Extra (bk_Spec backup))) ''size_updated'' (size_updated (k_now k w));
         b1 = set_bk_spec (\<lambda>s. s\<lparr>bs_Size := Some totalSize, bs_RestoreSize := Some restoreSize,
                                   bs_Notified := False, bs_Extra := Some extra\<rparr>) backup
     in if newLocation = [] then backup_update k b1 w
        else (case bs_Location (bk_Spec backup) of
            None \<Rightarrow> (Panic ''assignment to entry in nil map'', w)
          | Some l \<Rightarrow> backup_update k
              (set_bk_spec (\<lambda>s. s\<lparr>bs_Location := Some (mput l newLocation newLocationData)\<rparr>) b1) w))"

section \<open>Creating a plan\<close>

definition backup_labels ::
  "(string \<Rightarrow> string) \<Rightarrow> string \<Rightarrow> string \<Rightarrow> string \<Rightarrow> string \<Rightarrow> string \<Rightarrow> BackupPolicy \<Rightarrow> smap" where
  "backup_labels md5 owner backupName backupPath backupType backupAppTypeName policy =
    [(''owner'', owner), (''name'', md5 backupName), (''policy'', md5 (bp_TimesOfDay policy)),
     (''type'', backupType)] @
    (if backupType = BackupTypeFile then [(''path'', md5 backupPath)]
     else [(''appTypeName'', backupAppTypeName)])"

fun apply_loop :: "('w, 'm) kube_scheme \<Rightarrow> nat \<Rightarrow> Backup \<Rightarrow> ('w, Backup) go" where
  "apply_loop k 0 backup = (\<lambda>w. (Diverge, w))"
| "apply_loop k (Suc n) backup = bindG (k_dynamic k) (\<lambda>_. tryG (k_backup_apply k backup)
     (\<lambda>_. ret backup) (\<lambda>e. if IsConflict e then apply_loop k n backup else raise e))"

definition backup_Create :: "('w, 'm) kube_scheme \<Rightarrow> string \<Rightarrow> string \<Rightarrow> string \<Rightarrow> string \<Rightarrow> string \<Rightarrow>
    BackupSpec \<Rightarrow> ('w, Backup) go" where
  "backup_Create k owner backupName0 backupPath backupType backupAppTypeName backupSpec = (\<lambda>w0.
     let backupName = TrimSpace backupName0; (backupId, w) = k_uuid k w0 in
     (case bs_BackupPolicy backupSpec of
        None \<Rightarrow> (Panic nil_deref, w)
      | Some policy \<Rightarrow> apply_loop k (k_fuel k)
          \<lparr>bk_meta = \<lparr>om_Name = backupId,
              om_Labels = backup_labels (k_md5 k) owner backupName backupPath backupType backupAppTypeName policy,
              om_ResourceVersion = [], om_CreationTimestamp = 0\<rparr>,
           bk_Spec = backupSpec\<rparr> w))"

section \<open>Lemmas\<close>

lemma set_bk_spec_simps [simp]:
  "bk_meta (set_bk_spec f b) = bk_meta b" "bk_Spec (set_bk_spec f b) = f (bk_Spec b)"
  by (simp_all add: set_bk_spec_def)

lemma ListBackups_Ret:
  assumes "k_client k w = (Ret (), w1)" and "k_backup_list k l f w1 = (Ret items, w2)"
    and "\<exists>b \<in> set items. \<not> bs_Deleted (bk_Spec b)"
  shows "ListBackups k l f w =
    (Ret (sort_desc (\<lambda>b. om_CreationTimestamp (bk_meta b)) (filter (\<lambda>b. \<not> bs_Deleted (bk_Spec b)) items)), w2)"
proof -
  have "items \<noteq> []" "filter (\<lambda>b. \<not> bs_Deleted (bk_Spec b)) items \<noteq> []"
    using assms(3) by (auto simp: filter_empty_conv)
  then show ?thesis using assms(1,2) by (simp add: ListBackups_def go_simps)
qed

lemma ListBackups_RetD:
  assumes "ListBackups k l f w = (Ret bs, w')"
  obtains w1 items where "k_client k w = (Ret (), w1)" and "k_backup_list k l f w1 = (Ret items, w')"
    and "bs = sort_desc (\<lambda>b. om_CreationTimestamp (bk_meta b)) (filter (\<lambda>b. \<not> bs_Deleted (bk_Spec b)) items)"
    and "bs \<noteq> []"
  using assms by (auto simp: ListBackups_def bindG_Ret_iff Let_def split: if_splits)

section \<open>Properties\<close>

text \<open>C29: \<open>ListBackups\<close> answers, whenever it answers, with exactly the plans the server returned that
  are not marked deleted, newest first, and never with an empty list.\<close>

theorem ListBackups_active_newest_first:
  assumes "ListBackups k l f w = (Ret bs, w')"
  shows "\<exists>w1 items. k_client k w = (Ret (), w1) \<and> k_backup_list k l f w1 = (Ret items, w')
    \<and> set bs = {b \<in> set items. \<not> bs_Deleted (bk_Spec b)}
    \<and> length bs = length (filter (\<lambda>b. \<not> bs_Deleted (bk_Spec b)) items) \<and> bs \<noteq> []
    \<and> sorted_wrt (\<lambda>a b. om_CreationTimestamp (bk_meta b) \<le> om_CreationTimestamp (bk_meta a)) bs"
proof -
  obtain w1 items where *: "k_client k w = (Ret (), w1)" "k_backup_list k l f w1 = (Ret items, w')"
    "bs = sort_desc (\<lambda>b. om_CreationTimestamp (bk_meta b)) (filter (\<lambda>b. \<not> bs_Deleted (bk_Spec b)) items)" "bs \<noteq> []"
    using ListBackups_RetD[OF assms] .
  show ?thesis
    by (intro exI[of _ w1] exI[of _ items] conjI) (use * in \<open>auto intro: sort_desc_sorted\<close>)
qed

definition sample_spec :: BackupSpec where
  "sample_spec = \<lparr>bs_Name = ''docs'', bs_Owner = ''alice'', bs_Location = Some [], bs_BackupPolicy = None,
     bs_BackupType = Some [], bs_Size = None, bs_RestoreSize = None, bs_CreateAt = None,
     bs_Notified = False, bs_Deleted = False, bs_Extra = None\<rparr>"

definition sample_backup :: "string \<Rightarrow> timestamp \<Rightarrow> bool \<Rightarrow> Backup" where
  "sample_backup name t del = \<lparr>bk_meta = \<lparr>om_Name = name, om_Labels = [], om_ResourceVersion = ''1'',
     om_CreationTimestamp = t\<rparr>, bk_Spec = sample_spec\<lparr>bs_Deleted := del\<rparr>\<rparr>"

definition sample_store :: store where
  "sample_store = \<lparr>st_backups = [sample_backup ''b1'' 10 False, sample_backup ''b2'' 20 True, sample_backup ''b3'' 30 False],
     st_snapshots = [], st_restores = [], st_clock = 5000000000, st_next = 7\<rparr>"

theorem ListBackups_active_newest_first_witness:
  "set [sample_backup ''b3'' 30 False, sample_backup ''b1'' 10 False] =
     {b \<in> set (st_backups sample_store). \<not> bs_Deleted (bk_Spec b)}"
proof -
  have r: "ListBackups mem_api [] [] sample_store =
      (Ret [sample_backup ''b3'' 30 False, sample_backup ''b1'' 10 False], sample_store)"
    by (simp add: ListBackups_def mem_api_def sample_store_def go_simps label_match_def Let_def
          sample_backup_def sort_desc_def)
  obtain w1 items where *: "k_client mem_api sample_store = (Ret (), w1)"
    "k_backup_list mem_api [] [] w1 = (Ret items, sample_store)"
    "set [sample_backup ''b3'' 30 False, sample_backup ''b1'' 10 False] = {b \<in> set items. \<not> bs_Deleted (bk_Spec b)}"
    using ListBackups_active_newest_first[OF r] by blast
  have "items = st_backups sample_store"
    using *(1,2) by (simp add: mem_api_def label_match_def)
  then show ?thesis using *(3) by (simp only:)
qed

text \<open>The \<open>goto RETRY\<close> loop of the writers returns as soon as the server's answer is not a
  conflict: with fuel above the number of conflicts the result is that answer (an error gets the
  handler's prefix), and a conflict is never what the caller sees.\<close>

theorem backup_update_settles:
  assumes "k_client k w = (Ret (), w1)" and "conflicts (k_backup_update k b) n w1 = Some w2"
    and "k_backup_update k b w2 = (r, w3)" and "final_answer r" and "n < k_fuel k"
  shows "backup_update k b w =
    (case r of Fail e \<Rightarrow> Fail (Errorf (''update backup error: '' @ err_text e)) | _ \<Rightarrow> r, w3)"
  by (rule backup_upd.commit_settles[OF assms])

theorem backup_update_settles_witness:
  "fst (backup_update mem_api (sample_backup ''nope'' 1 False) sample_store) =
     Fail (Errorf (''update backup error: '' @ ''not found''))"
proof -
  have u: "k_backup_update mem_api (sample_backup ''nope'' 1 False) sample_store = (Fail api_notfound, sample_store)"
    by (simp add: mem_api_def mem_update_def find_by_def sample_store_def sample_backup_def)
  have c: "k_client mem_api sample_store = (Ret (), sample_store)" by (simp add: mem_api_def)
  show ?thesis
    using backup_update_settles[OF c _ u, of 0]
    by (simp add: final_answer_def IsConflict_def api_notfound_def mem_api_def)
qed

text \<open>C40: the loop sends the same object again, with the resource version it was read with. So when
  the server refuses it as stale and nothing else changes, the loop never ends, whatever the fuel
  (in the program, until the context of the call expires after a minute).\<close>

theorem stale_backup_update_never_returns:
  assumes "k_client k w = (Ret (), w1)" and "k_backup_update k b w1 = (Fail e, w1)" and "IsConflict e"
  shows "fst (backup_update (k\<lparr>k_fuel := n\<rparr>) b w) = Diverge"
  using backup_upd.commit_stale[of "k\<lparr>k_fuel := n\<rparr>" w w1 b e] assms by simp

theorem stale_backup_update_never_returns_witness:
  "fst (backup_update (mem_api\<lparr>k_fuel := 1000\<rparr>)
     ((sample_backup ''b1'' 10 False)\<lparr>bk_meta := (bk_meta (sample_backup ''b1'' 10 False))\<lparr>om_ResourceVersion := ''0''\<rparr>\<rparr>)
     sample_store) = Diverge"
proof -
  let ?b = "(sample_backup ''b1'' 10 False)\<lparr>bk_meta := (bk_meta (sample_backup ''b1'' 10 False))\<lparr>om_ResourceVersion := ''0''\<rparr>\<rparr>"
  have u: "k_backup_update mem_api ?b sample_store = (Fail api_conflict, sample_store)"
    by (simp add: mem_api_def mem_update_def find_by_def sample_store_def sample_backup_def)
  have c: "k_client mem_api sample_store = (Ret (), sample_store)" by (simp add: mem_api_def)
  show ?thesis
    by (rule stale_backup_update_never_returns[OF c u]) (simp add: IsConflict_def api_conflict_def)
qed

end
