(* ===== verification/SnapshotHandler.thy ===== *)
theory SnapshotHandler
  imports BackupHandler "HOL-Library.Multiset"
begin

text \<open>
  \<open>pkg/handlers/handler_snapshot.go\<close>: the snapshots of a plan and the cron schedule that creates
  them. The cron library is the record \<open>cron_lib\<close> over an abstract state; what the schedule
  functions need of it is stated as \<open>cron_laws\<close>.
\<close>

section \<open>The writer\<close>

definition snapshot_update :: "('w, 'm) kube_scheme \<Rightarrow> Snapshot \<Rightarrow> ('w, unit) go" where
  "snapshot_update k snapshot = bindG (k_client k) (\<lambda>_.
     tryG (retry_conflict (k_fuel k) (k_snapshot_update k snapshot)) ret
       (\<lambda>e. raise (Errorf (''update snapshot error: '' @ err_text e))))"

interpretation snapshot_upd: api_writer "k_client k" "k_snapshot_update k" "k_fuel k"
  "''update snapshot error: ''" "snapshot_update k" for k
  by unfold_locales (simp add: snapshot_update_def)

definition set_sn_spec :: "(SnapshotSpec \<Rightarrow> SnapshotSpec) \<Rightarrow> Snapshot \<Rightarrow> Snapshot" where
  "set_sn_spec f s = s\<lparr>sn_Spec := f (sn_Spec s)\<rparr>"

lemma set_sn_spec_simps [simp]:
  "sn_meta (set_sn_spec f s) = sn_meta s" "sn_Spec (set_sn_spec f s) = f (sn_Spec s)"
  by (simp_all add: set_sn_spec_def)

section \<open>Reading\<close>

definition snapshot_GetById :: "('w, 'm) kube_scheme \<Rightarrow> string \<Rightarrow> ('w, Snapshot) go" where
  "snapshot_GetById k snapshotId = bindG (k_client k) (\<lambda>_. k_snapshot_get k snapshotId)"

text \<open>The nil list of the source (no snapshot found) is \<open>None\<close>.\<close>

definition ListSnapshots :: "('w, 'm) kube_scheme \<Rightarrow> string \<Rightarrow> string \<Rightarrow> ('w, Snapshot list option) go" where
  "ListSnapshots k labelSelector fieldSelector = bindG (k_client k) (\<lambda>_.
     bindG (k_snapshot_list k labelSelector fieldSelector) (\<lambda>items.
       if items = [] then ret None
       else ret (Some (sort_desc (\<lambda>s. om_CreationTimestamp (sn_meta s)) items))))"

text \<open>The loops over a list of snapshots: whether one of them is in a phase. A nil phase panics.\<close>

fun phase_scan :: "Phase \<Rightarrow> Snapshot list \<Rightarrow> bool outcome" where
  "phase_scan p [] = Ret False"
| "phase_scan p (s # r) = (case ss_Phase (sn_Spec s) of
      None \<Rightarrow> Panic nil_deref
    | Some ph \<Rightarrow> if ListContains [phase_String p] ph then Ret True else phase_scan p r)"

definition backup_selector :: "string \<Rightarrow> string" where
  "backup_selector backupId = ''backup-id='' @ backupId"

definition GetRunningSnapshot :: "('w, 'm) kube_scheme \<Rightarrow> string \<Rightarrow> ('w, bool) go" where
  "GetRunningSnapshot k backupId = bindG (ListSnapshots k (backup_selector backupId) []) (\<lambda>snapshots.
     case snapshots of None \<Rightarrow> ret False | Some items \<Rightarrow> liftO (phase_scan Running items))"

definition GetSnapshotType :: "('w, 'm) kube_scheme \<Rightarrow> string \<Rightarrow> ('w, string) go" where
  "GetSnapshotType k backupId = bindG (ListSnapshots k (backup_selector backupId) []) (\<lambda>snapshots.
     case snapshots of None \<Rightarrow> ret FullyBackup
     | Some items \<Rightarrow> liftO (bindO (phase_scan Completed items)
         (\<lambda>found. Ret (if found then IncrementalBackup else FullyBackup))))"

section \<open>Changing a snapshot\<close>

definition snapshot_UpdateProgress :: "('w, 'm) kube_scheme \<Rightarrow> string \<Rightarrow> int \<Rightarrow> ('w, unit) go" where
  "snapshot_UpdateProgress k snapshotId percent = bindG (snapshot_GetById k snapshotId) (\<lambda>snapshot.
     case ss_Phase (sn_Spec snapshot) of
       None \<Rightarrow> panicG nil_deref
     | Some ph \<Rightarrow>
         if ph \<noteq> phase_String Running
         then raise (Errorf (''snapshot '' @ snapshotId @ '' is not Running, phase: '' @ ph))
         else snapshot_update k (set_sn_spec (\<lambda>s. s\<lparr>ss_Progress := percent\<rparr>) snapshot))"

definition DeleteSnapshots :: "('w, 'm) kube_scheme \<Rightarrow> string \<Rightarrow> ('w, unit) go" where
  "DeleteSnapshots k backupId = bindG (k_client k) (\<lambda>_. k_snapshot_delete_collection k (backup_selector backupId))"

definition UpdateNotifyResultState :: "('w, 'm) kube_scheme \<Rightarrow> Snapshot \<Rightarrow> ('w, unit) go" where
  "UpdateNotifyResultState k snapshot = (case ss_Extra (sn_Spec snapshot) of
      None \<Rightarrow> raise (Errorf (''snapshot '' @ sn_Name snapshot @ '' extra is nil''))
    | Some extra \<Rightarrow> (case map_of extra ''push'' of
        None \<Rightarrow> raise (Errorf (''snapshot '' @ sn_Name snapshot @ '' extra push is nil''))
      | Some notifyState \<Rightarrow> bindG (liftO (Unmarshal_notify notifyState)) (\<lambda>p.
          case p of
            None \<Rightarrow> panicG nil_deref
          | Some s \<Rightarrow> snapshot_update k (set_sn_spec (\<lambda>sp. sp\<lparr>ss_Extra :=
              Some (mput extra ''push'' (ToJSON (notify_json (s\<lparr>ns_Result := True\<rparr>))))\<rparr>) snapshot))))"

definition phase_change :: "timestamp \<Rightarrow> string \<Rightarrow> string \<Rightarrow> SnapshotSpec \<Rightarrow> SnapshotSpec" where
  "phase_change now phase msg s =
    (if phase = phase_String Running then s\<lparr>ss_StartAt := Some now\<rparr> else s\<lparr>ss_EndAt := Some now\<rparr>)
    \<lparr>ss_Phase := Some phase, ss_Message := Some msg\<rparr>"

definition snapshot_UpdatePhase :: "('w, 'm) kube_scheme \<Rightarrow> string \<Rightarrow> string \<Rightarrow> string \<Rightarrow> ('w, unit) go" where
  "snapshot_UpdatePhase k snapshotId phase msg = bindG (snapshot_GetById k snapshotId) (\<lambda>snapshot w.
     snapshot_update k (set_sn_spec (phase_change (k_now k w) phase msg) snapshot) w)"

definition UpdateBackupResult :: "('w, 'm) kube_scheme \<Rightarrow> Snapshot \<Rightarrow> ('w, unit) go" where
  "UpdateBackupResult k snapshot = snapshot_update k snapshot"

definition new_snapshot :: "string \<Rightarrow> timestamp \<Rightarrow> Backup \<Rightarrow> string \<Rightarrow> Snapshot" where
  "new_snapshot name createAt backup location =
    \<lparr>sn_meta = \<lparr>om_Name = name,
        om_Labels = [(''backup-id'', bk_Name backup), (''type'', GetBackupType backup)],
        om_ResourceVersion = [], om_CreationTimestamp = 0\<rparr>,
     sn_Spec = \<lparr>ss_BackupId = bk_Name backup, ss_Location = location,
        ss_SnapshotType = ParseSnapshotType UnKnownBackup, ss_SnapshotId = None, ss_Size = None,
        ss_CreateAt = Some createAt, ss_StartAt = Some createAt, ss_EndAt = None, ss_Progress = 0,
        ss_Phase = Some (phase_String Pending), ss_Message = None, ss_ResticPhase = None,
        ss_ResticMessage = None,
        ss_Extra = Some [(''push'', ToJSON (notify_json
           \<lparr>ns_Prepare = False, ns_Progress = False, ns_Result = False\<rparr>))]\<rparr>\<rparr>"

definition snapshot_Create :: "('w, 'm) kube_scheme \<Rightarrow> Backup \<Rightarrow> string \<Rightarrow> ('w, Snapshot) go" where
  "snapshot_Create k backup location = bindG (k_client k) (\<lambda>_ w.
     let createAt = k_now k w; (name, w1) = k_uuid k w in
     k_snapshot_create k (new_snapshot name createAt backup location) w1)"

section \<open>The schedule\<close>

text \<open>
  An entry of the cron library: its id, and the job (\<open>backupJob\<close>), which is the name of the plan and
  the plan captured by the closure. \<open>c_add\<close> fails when the schedule does not parse.
\<close>

record backupJob =
  bj_name :: string
  bj_backup :: Backup

record 'c cron_lib =
  c_entries :: "'c \<Rightarrow> (nat \<times> backupJob) list"
  c_remove :: "nat \<Rightarrow> 'c \<Rightarrow> 'c"
  c_add :: "string \<Rightarrow> backupJob \<Rightarrow> 'c \<Rightarrow> unit outcome \<times> 'c"

definition cron_laws :: "'c cron_lib \<Rightarrow> bool" where
  "cron_laws lib \<longleftrightarrow>
    (\<forall>i c. c_entries lib (c_remove lib i c) = filter (\<lambda>e. fst e \<noteq> i) (c_entries lib c)) \<and>
    (\<forall>s j c c'. c_add lib s j c = (Ret (), c') \<longrightarrow>
        (\<exists>i. i \<notin> fst ` set (c_entries lib c) \<and> mset (c_entries lib c') = add_mset (i, j) (mset (c_entries lib c)))) \<and>
    (\<forall>s j c e c'. c_add lib s j c = (Fail e, c') \<longrightarrow> c_entries lib c' = c_entries lib c)"

fun remove_named :: "'c cron_lib \<Rightarrow> string \<Rightarrow> (nat \<times> backupJob) list \<Rightarrow> 'c \<Rightarrow> 'c" where
  "remove_named lib name [] c = c"
| "remove_named lib name ((i, j) # es) c =
    remove_named lib name es (if bj_name j = name then c_remove lib i c else c)"

definition RemoveFromSchedule :: "'c cron_lib \<Rightarrow> Backup \<Rightarrow> 'c \<Rightarrow> 'c" where
  "RemoveFromSchedule lib backup c = remove_named lib (bk_Name backup) (c_entries lib c) c"

definition CreateSchedule :: "'c cron_lib \<Rightarrow> Backup \<Rightarrow> string \<Rightarrow> ('c, unit) go" where
  "CreateSchedule lib backup schedule = (\<lambda>c.
     c_add lib schedule \<lparr>bj_name = bk_Name backup, bj_backup = backup\<rparr>
       (remove_named lib (bk_Name backup) (c_entries lib c) c))"

text \<open>What an entry does when its time comes (an error of \<open>Create\<close> is only logged).\<close>

definition run_job :: "('w, 'm) kube_scheme \<Rightarrow> backupJob \<Rightarrow> ('w, unit) go" where
  "run_job k j = (let location = (case entries (bs_Location (bk_Spec (bj_backup j))) of
       [] \<Rightarrow> [] | (l, _) # _ \<Rightarrow> l) in
     tryG (snapshot_Create k (bj_backup j) location) (\<lambda>_. ret ()) (\<lambda>_. ret ()))"

section \<open>Lemmas\<close>

lemma phase_scan_Ret:
  "\<forall>s \<in> set items. ss_Phase (sn_Spec s) \<noteq> None \<Longrightarrow>
   phase_scan p items = Ret (\<exists>s \<in> set items. ss_Phase (sn_Spec s) = Some (phase_String p))"
  by (induction items) auto

lemma ListSnapshots_Ret:
  assumes "k_client k w = (Ret (), w1)" and "k_snapshot_list k l f w1 = (Ret items, w2)"
  shows "ListSnapshots k l f w = (Ret (if items = [] then None
      else Some (sort_desc (\<lambda>s. om_CreationTimestamp (sn_meta s)) items)), w2)"
  using assms by (simp add: ListSnapshots_def go_simps)

lemma remove_named_entries:
  assumes "cron_laws lib"
  shows "c_entries lib (remove_named lib name es c) =
     filter (\<lambda>e. \<not> (\<exists>j. (fst e, j) \<in> set es \<and> bj_name j = name)) (c_entries lib c)"
  using assms
proof (induction lib name es c rule: remove_named.induct)
  case (2 lib name i j es c)
  have r: "\<And>i c. c_entries lib (c_remove lib i c) = filter (\<lambda>e. fst e \<noteq> i) (c_entries lib c)"
    using 2(2) by (simp add: cron_laws_def)
  show ?case
    using 2(1)[OF 2(2)] by (auto simp: r intro!: filter_cong)
qed simp

lemma remove_named_all:
  assumes "cron_laws lib" and "distinct (map fst (c_entries lib c))"
  shows "c_entries lib (remove_named lib name (c_entries lib c) c) =
     filter (\<lambda>e. bj_name (snd e) \<noteq> name) (c_entries lib c)"
proof -
  have "(\<exists>j. (fst e, j) \<in> set (c_entries lib c) \<and> bj_name j = name) \<longleftrightarrow> bj_name (snd e) = name"
    if "e \<in> set (c_entries lib c)" for e
    using that assms(2) by (metis eq_key_imp_eq_value prod.collapse)
  then show ?thesis unfolding remove_named_entries[OF assms(1)] by (intro filter_cong) auto
qed

lemma notify_fresh:
  "CheckSnapshotNotifyState (new_snapshot name t b l) f =
    (if f \<in> {''progress'', ''result'', ''prepare''} then Ret False else errf ''field not found'')"
  by (simp add: CheckSnapshotNotifyState_def new_snapshot_def)

lemma UpdateNotifyResultState_writes:
  assumes "UpdateNotifyResultState k s w = (Ret (), w')"
  obtains s' extra where "snapshot_update k s' w = (Ret (), w')" "sn_meta s' = sn_meta s"
    "s' = set_sn_spec (\<lambda>sp. sp\<lparr>ss_Extra := Some extra\<rparr>) s"
    "CheckSnapshotNotifyState s' ''result'' = Ret True"
    "CheckSnapshotNotifyState s' ''prepare'' = CheckSnapshotNotifyState s ''prepare''"
    "CheckSnapshotNotifyState s' ''progress'' = CheckSnapshotNotifyState s ''progress''"
proof -
  obtain extra st n where e: "ss_Extra (sn_Spec s) = Some extra" "map_of extra ''push'' = Some st"
    "Unmarshal_notify st = Ret (Some n)"
    and u: "snapshot_update k (set_sn_spec (\<lambda>sp. sp\<lparr>ss_Extra :=
              Some (mput extra ''push'' (ToJSON (notify_json (n\<lparr>ns_Result := True\<rparr>))))\<rparr>) s) w = (Ret (), w')"
    using assms by (auto simp: UpdateNotifyResultState_def bindG_Ret_iff split: option.splits)
  show thesis
    by (rule that, rule u, simp, rule refl) (use e in \<open>simp_all add: CheckSnapshotNotifyState_def\<close>)
qed

section \<open>Properties\<close>

text \<open>The progress of a snapshot is written only while the snapshot is Running, and then nothing
  else of it changes; in any other phase the call is an error and nothing is sent to the server.\<close>

theorem progress_only_while_running:
  assumes "snapshot_GetById k i w = (Ret s, w1)"
  shows "snapshot_UpdateProgress k i pct w =
    (if ss_Phase (sn_Spec s) = Some (phase_String Running)
     then snapshot_update k (s\<lparr>sn_Spec := (sn_Spec s)\<lparr>ss_Progress := pct\<rparr>\<rparr>) w1
     else (case ss_Phase (sn_Spec s) of
         None \<Rightarrow> Panic nil_deref
       | Some ph \<Rightarrow> Fail (Errorf (''snapshot '' @ i @ '' is not Running, phase: '' @ ph)), w1))"
  using assms by (auto simp: snapshot_UpdateProgress_def go_simps set_sn_spec_def split: option.splits)

definition sample_snapshot :: "string \<Rightarrow> Phase \<Rightarrow> Snapshot" where
  "sample_snapshot name ph = set_sn_spec (\<lambda>s. s\<lparr>ss_Phase := Some (phase_String ph)\<rparr>)
     (new_snapshot name 1 (sample_backup ''b1'' 10 False) ''space'')"

definition snap_store :: "Snapshot list \<Rightarrow> store" where
  "snap_store ss = sample_store\<lparr>st_snapshots := ss\<rparr>"

theorem progress_only_while_running_witness:
  "snapshot_UpdateProgress mem_api ''s1'' 40 (snap_store [sample_snapshot ''s1'' Failed]) =
     (Fail (Errorf ''snapshot s1 is not Running, phase: Failed''), snap_store [sample_snapshot ''s1'' Failed])"
proof -
  have g: "snapshot_GetById mem_api ''s1'' (snap_store [sample_snapshot ''s1'' Failed]) =
      (Ret (sample_snapshot ''s1'' Failed), snap_store [sample_snapshot ''s1'' Failed])"
    by (simp add: snapshot_GetById_def mem_api_def go_simps mem_get_def find_by_def snap_store_def
          sample_snapshot_def new_snapshot_def)
  show ?thesis
    using progress_only_while_running[OF g, of 40] by (simp add: sample_snapshot_def)
qed

text \<open>C11: the next snapshot of a plan is incremental exactly when some snapshot of the plan (by label)
  is Completed, and a full one otherwise.\<close>

theorem incremental_iff_completed:
  assumes "k_client k w = (Ret (), w1)" and "k_snapshot_list k (backup_selector b) [] w1 = (Ret items, w2)"
    and "\<And>s. s \<in> set items \<Longrightarrow> ss_Phase (sn_Spec s) \<noteq> None"
  shows "GetSnapshotType k b w =
    (Ret (if \<exists>s \<in> set items. ss_Phase (sn_Spec s) = Some (phase_String Completed)
          then IncrementalBackup else FullyBackup), w2)"
proof -
  have "\<forall>s \<in> set (sort_desc (\<lambda>s. om_CreationTimestamp (sn_meta s)) items). ss_Phase (sn_Spec s) \<noteq> None"
    using assms(3) by simp
  note scan = phase_scan_Ret[OF this, of Completed, simplified]
  show ?thesis
    using ListSnapshots_Ret[OF assms(1,2)] scan
    by (cases "items = []") (simp_all add: GetSnapshotType_def go_simps)
qed

theorem incremental_iff_completed_witness:
  "fst (GetSnapshotType mem_api ''b1'' (snap_store [sample_snapshot ''s1'' Failed, sample_snapshot ''s2'' Completed])) =
     Ret IncrementalBackup"
proof -
  let ?w = "snap_store [sample_snapshot ''s1'' Failed, sample_snapshot ''s2'' Completed]"
  have sel: "Split (backup_selector ''b1'') ''='' = [''backup-id'', ''b1'']"
    using Split_append_char[of "CHR ''=''" "''backup-id''" "''b1''"] Split_fresh[of "CHR ''=''" "''b1''"]
    by (simp add: backup_selector_def)
  have l: "k_snapshot_list mem_api (backup_selector ''b1'') [] ?w = (Ret (st_snapshots ?w), ?w)"
    by (simp add: mem_api_def label_match_def sel snap_store_def sample_snapshot_def new_snapshot_def sample_backup_def)
  have c: "k_client mem_api ?w = (Ret (), ?w)" by (simp add: mem_api_def)
  have p: "\<And>s. s \<in> set (st_snapshots ?w) \<Longrightarrow> ss_Phase (sn_Spec s) \<noteq> None"
    by (auto simp: snap_store_def sample_snapshot_def)
  show ?thesis
    using incremental_iff_completed[OF c l p] by (simp add: snap_store_def sample_snapshot_def)
qed

text \<open>A successful \<open>CreateSchedule\<close> leaves exactly one cron entry of the plan, the new one, and
  the entries of other plans as they were; after \<open>RemoveFromSchedule\<close> the plan has none.\<close>

theorem schedule_exactly_one:
  assumes "cron_laws lib" and "distinct (map fst (c_entries lib c))"
    and "CreateSchedule lib b sched c = (Ret (), c')"
  shows "filter (\<lambda>e. bj_name (snd e) = bk_Name b) (c_entries lib c') \<noteq> []
    \<and> (\<forall>e \<in> set (c_entries lib c'). bj_name (snd e) = bk_Name b \<longrightarrow> snd e = \<lparr>bj_name = bk_Name b, bj_backup = b\<rparr>)
    \<and> size (filter_mset (\<lambda>e. bj_name (snd e) = bk_Name b) (mset (c_entries lib c'))) = 1
    \<and> filter_mset (\<lambda>e. bj_name (snd e) \<noteq> bk_Name b) (mset (c_entries lib c'))
       = filter_mset (\<lambda>e. bj_name (snd e) \<noteq> bk_Name b) (mset (c_entries lib c))
    \<and> (\<forall>e \<in> set (c_entries lib (RemoveFromSchedule lib b c)). bj_name (snd e) \<noteq> bk_Name b)"
proof -
  let ?c = "remove_named lib (bk_Name b) (c_entries lib c) c"
  let ?j = "\<lparr>bj_name = bk_Name b, bj_backup = b\<rparr>"
  let ?own = "\<lambda>e. bj_name (snd e) = bk_Name b"
  have rest: "c_entries lib ?c = filter (\<lambda>e. \<not> ?own e) (c_entries lib c)"
    by (rule remove_named_all[OF assms(1,2)])
  obtain i where m: "mset (c_entries lib c') = add_mset (i, ?j) (mset (c_entries lib ?c))"
    using assms(1,3) unfolding cron_laws_def CreateSchedule_def by blast
  have none: "filter_mset ?own (mset (c_entries lib ?c)) = {#}"
    unfolding rest by (simp flip: mset_filter)
  have own: "filter_mset ?own (mset (c_entries lib c')) = {#(i, ?j)#}" unfolding m by (simp add: none)
  then have one: "filter ?own (c_entries lib c') \<noteq> []"
    by (metis add_mset_not_empty mset.simps(1) mset_filter)
  have all: "snd e = ?j" if "e \<in> set (c_entries lib c')" "?own e" for e
  proof -
    have "e \<in># filter_mset ?own (mset (c_entries lib c'))" using that by simp
    then show ?thesis unfolding own by simp
  qed
  have others: "filter_mset (\<lambda>e. \<not> ?own e) (mset (c_entries lib c')) = filter_mset (\<lambda>e. \<not> ?own e) (mset (c_entries lib c))"
    unfolding m by (simp add: rest flip: mset_filter)
  show ?thesis using one all own others rest by (auto simp: RemoveFromSchedule_def)
qed

definition list_cron :: "(nat \<times> (nat \<times> backupJob) list) cron_lib" where
  "list_cron = \<lparr>c_entries = snd, c_remove = (\<lambda>i (n, es). (n, filter (\<lambda>e. fst e \<noteq> i) es)),
     c_add = (\<lambda>s j (n, es). if s = [] then (Fail (Errorf ''empty spec string''), (n, es))
        else let i = Suc (fold (\<lambda>e m. max (fst e) m) es n) in (Ret (), (i, es @ [(i, j)])))\<rparr>"

lemma fold_max_bound: "e \<in> set es \<Longrightarrow> fst e \<le> fold (\<lambda>e m. max (fst e) m) es (n::nat)"
  "n \<le> fold (\<lambda>e m. max (fst e) m) es n"
proof (induction es arbitrary: n)
  case (Cons a es)
  { case 1
    then show ?case
      using Cons.IH(1)[of "max (fst a) n"] Cons.IH(2)[of "max (fst a) n"] by auto }
  { case 2
    show ?case using Cons.IH(2)[of "max (fst a) n"] by auto }
qed auto

lemma list_cron_laws: "cron_laws list_cron"
proof -
  have "Suc (fold (\<lambda>e m. max (fst e) m) es n) \<notin> fst ` set es" for es :: "(nat \<times> backupJob) list" and n
    using fold_max_bound(1)[of _ es n] by force
  then show ?thesis
    by (auto simp: cron_laws_def list_cron_def Let_def split: if_splits)
qed

theorem schedule_exactly_one_witness:
  "size (filter_mset (\<lambda>e. bj_name (snd e) = ''b1'') (mset (c_entries list_cron
     (snd (CreateSchedule list_cron (sample_backup ''b1'' 1 False) ''0 1 * * *''
        (1, [(1, \<lparr>bj_name = ''b1'', bj_backup = sample_backup ''b1'' 1 False\<rparr>)])))))) = 1"
proof -
  let ?c = "(1, [(1, \<lparr>bj_name = ''b1'', bj_backup = sample_backup ''b1'' 1 False\<rparr>)])"
  have d: "distinct (map fst (c_entries list_cron ?c))" by (simp add: list_cron_def)
  have r: "CreateSchedule list_cron (sample_backup ''b1'' 1 False) ''0 1 * * *'' ?c =
      (Ret (), snd (CreateSchedule list_cron (sample_backup ''b1'' 1 False) ''0 1 * * *'' ?c))"
    by (simp add: CreateSchedule_def list_cron_def Let_def)
  show ?thesis
    using schedule_exactly_one[OF list_cron_laws d r] by (simp add: sample_backup_def)
qed

text \<open>Marking the result as pushed. When the stored push state decodes, the object sent to the
  server reads back as pushed for \<open>result\<close>, and as before for \<open>prepare\<close> and \<open>progress\<close>; when it is
  missing or does not decode, nothing is sent.\<close>

theorem notify_result_roundtrip:
  assumes "UpdateNotifyResultState k s w = (Ret (), w')"
  shows "\<exists>s'. snapshot_update k s' w = (Ret (), w') \<and> sn_meta s' = sn_meta s
    \<and> CheckSnapshotNotifyState s' ''result'' = Ret True
    \<and> CheckSnapshotNotifyState s' ''prepare'' = CheckSnapshotNotifyState s ''prepare''
    \<and> CheckSnapshotNotifyState s' ''progress'' = CheckSnapshotNotifyState s ''progress''"
  using UpdateNotifyResultState_writes[OF assms] by metis

theorem notify_result_roundtrip_witness:
  "\<exists>s'. CheckSnapshotNotifyState s' ''result'' = Ret True \<and> sn_Name s' = ''s1''"
proof -
  let ?w = "snap_store [sample_snapshot ''s1'' Completed]"
  have "UpdateNotifyResultState mem_api (sample_snapshot ''s1'' Completed) ?w =
      (Ret (), snd (UpdateNotifyResultState mem_api (sample_snapshot ''s1'' Completed) ?w))"
    by (simp add: UpdateNotifyResultState_def sample_snapshot_def new_snapshot_def snapshot_update_def mem_api_def
          go_simps mem_update_def find_by_def snap_store_def eval_nat_numeral)
  from notify_result_roundtrip[OF this] show ?thesis
    by (auto simp: sample_snapshot_def new_snapshot_def)
qed

end
