(* ===== verification/RestoreHandler.thy ===== *)
theory RestoreHandler
  imports SnapshotHandler
begin

text \<open>\<open>pkg/handlers/handler_restore.go\<close>: the restores.\<close>

definition restore_update :: "('w, 'm) kube_scheme \<Rightarrow> Restore \<Rightarrow> ('w, unit) go" where
  "restore_update k restore = bindG (k_client k) (\<lambda>_.
     tryG (retry_conflict (k_fuel k) (k_restore_update k restore)) ret
       (\<lambda>e. raise (Errorf (''update restore error: '' @ err_text e))))"

interpretation restore_upd: api_writer "k_client k" "k_restore_update k" "k_fuel k"
  "''update restore error: ''" "restore_update k" for k
  by unfold_locales (simp add: restore_update_def)

definition set_re_spec :: "(RestoreSpec \<Rightarrow> RestoreSpec) \<Rightarrow> Restore \<Rightarrow> Restore" where
  "set_re_spec f r = r\<lparr>re_Spec := f (re_Spec r)\<rparr>"

lemma set_re_spec_simps [simp]:
  "re_meta (set_re_spec f s) = re_meta s" "re_Spec (set_re_spec f s) = f (re_Spec s)"
  by (simp_all add: set_re_spec_def)

definition GetRestore :: "('w, 'm) kube_scheme \<Rightarrow> string \<Rightarrow> ('w, Restore) go" where
  "GetRestore k restoreId = bindG (k_client k) (\<lambda>_. k_restore_get k restoreId)"

definition restore_GetById :: "('w, 'm) kube_scheme \<Rightarrow> string \<Rightarrow> ('w, Restore) go" where
  "restore_GetById k name = bindG (k_client k) (\<lambda>_. k_restore_get k name)"

definition restore_UpdateProgress :: "('w, 'm) kube_scheme \<Rightarrow> string \<Rightarrow> int \<Rightarrow> ('w, unit) go" where
  "restore_UpdateProgress k restoreId percent = bindG (restore_GetById k restoreId) (\<lambda>restore.
     case rs_Phase (re_Spec restore) of
       None \<Rightarrow> panicG nil_deref
     | Some ph \<Rightarrow>
         if ph \<noteq> phase_String Running
         then raise (Errorf (''restore '' @ restoreId @ '' is not Running, phase: '' @ ph))
         else restore_update k (set_re_spec (\<lambda>s. s\<lparr>rs_Progress := percent\<rparr>) restore))"

text \<open>\<open>Update\<close> reads the object again and replaces its whole spec by the one given.\<close>

definition restore_Update :: "('w, 'm) kube_scheme \<Rightarrow> string \<Rightarrow> RestoreSpec \<Rightarrow> ('w, unit) go" where
  "restore_Update k restoreId restoreSpec = bindG (k_client k) (\<lambda>_. bindG (GetRestore k restoreId) (\<lambda>r.
     tryG (retry_conflict (k_fuel k) (k_restore_update k (r\<lparr>re_Spec := restoreSpec\<rparr>))) ret
       (\<lambda>e. raise (Errorf (''update restore error: '' @ err_text e)))))"

definition restore_UpdatePhase :: "('w, 'm) kube_scheme \<Rightarrow> string \<Rightarrow> string \<Rightarrow> ('w, unit) go" where
  "restore_UpdatePhase k restoreId phase = bindG (restore_GetById k restoreId) (\<lambda>restore w.
     let s = re_Spec restore;
         s1 = (if phase = phase_String Running then s\<lparr>rs_StartAt := Some (k_now k w)\<rparr> else s)
     in restore_Update k restoreId (s1\<lparr>rs_Phase := Some phase\<rparr>) w)"

definition restore_Delete :: "('w, 'm) kube_scheme \<Rightarrow> string \<Rightarrow> ('w, unit) go" where
  "restore_Delete k restoreId = bindG (k_client k) (\<lambda>_. bindG (GetRestore k restoreId) (\<lambda>_.
     tryG (retry_conflict (k_fuel k) (k_restore_delete k restoreId)) ret
       (\<lambda>e. raise (Errorf (''delete restore error: '' @ err_text e)))))"

definition DeleteRestore :: "('w, 'm) kube_scheme \<Rightarrow> string \<Rightarrow> ('w, unit) go" where
  "DeleteRestore k restoreId = restore_Delete k restoreId"

definition ListRestores :: "('w, 'm) kube_scheme \<Rightarrow> string \<Rightarrow> ('w, Restore list) go" where
  "ListRestores k owner = bindG (k_client k) (\<lambda>_. bindG (k_restore_list k (''owner='' @ owner)) (\<lambda>items.
     if items = [] then raise (Errorf ''restores not exists'')
     else ret (sort_desc (\<lambda>r. om_CreationTimestamp (re_meta r)) items)))"

definition new_restore :: "string \<Rightarrow> timestamp \<Rightarrow> string \<Rightarrow> RestoreType \<Rightarrow> Restore" where
  "new_restore name createAt restoreTypeName restoreType =
    \<lparr>re_meta = \<lparr>om_Name = name,
        om_Labels = [(''owner'', rt_Owner restoreType), (''type'', restoreTypeName)],
        om_ResourceVersion = [], om_CreationTimestamp = 0\<rparr>,
     re_Spec = \<lparr>rs_Owner = rt_Owner restoreType,
        rs_RestoreType = Some [(restoreTypeName, ToJSON (restore_type_json restoreType))],
        rs_CreateAt = Some createAt, rs_StartAt = Some createAt, rs_EndAt = None, rs_Size = None,
        rs_Progress = 0, rs_Phase = Some (phase_String Pending), rs_Message = None,
        rs_ResticPhase = None, rs_ResticMessage = None, rs_Extra = None\<rparr>\<rparr>"

definition CreateRestore :: "('w, 'm) kube_scheme \<Rightarrow> string \<Rightarrow> RestoreType \<Rightarrow> ('w, Restore) go" where
  "CreateRestore k restoreTypeName restoreType = bindG (k_client k) (\<lambda>_ w.
     let createAt = k_now k w; (name, w1) = k_uuid k w in
     k_restore_create k (new_restore name createAt restoreTypeName restoreType) w1)"

definition updateRestoreFailedStatus :: "('w, 'm) kube_scheme \<Rightarrow> gerr \<Rightarrow> Restore \<Rightarrow> ('w, unit) go" where
  "updateRestoreFailedStatus k backupError restore = (\<lambda>w.
     restore_Update k (re_Name restore) ((re_Spec restore)\<lparr>rs_Phase := Some (phase_String Failed),
       rs_Message := Some (err_text backupError), rs_EndAt := Some (k_now k w)\<rparr>) w)"

definition ended_spec :: "timestamp \<Rightarrow> Phase \<Rightarrow> RestoreSpec \<Rightarrow> RestoreSpec" where
  "ended_spec now phase s =
    (let s1 = s\<lparr>rs_Phase := Some (phase_String phase), rs_EndAt := Some now\<rparr> in
     case phase of
       Canceled \<Rightarrow> s1\<lparr>rs_Message := Some MessageTaskCanceled\<rparr>
     | Failed \<Rightarrow> s1\<lparr>rs_Message := Some MessageBackupServerRestart\<rparr>
     | _ \<Rightarrow> s1)"

text \<open>One attempt of \<open>SetRestorePhase\<close>; the attempts are repeated by the retry service (5 steps).\<close>

definition set_phase_once :: "('w, 'm) kube_scheme \<Rightarrow> string \<Rightarrow> Phase \<Rightarrow> ('w, unit) go" where
  "set_phase_once k restoreId phase = tryG (k_restore_get k restoreId)
     (\<lambda>r w. tryG (k_restore_update k (set_re_spec (ended_spec (k_now k w) phase) r)) ret
        (\<lambda>e. if IsConflict e then raise (Errorf ''retry'') else raise e) w)
     (\<lambda>e. raise (Errorf ''retry''))"

definition SetRestorePhase :: "('w, 'm) kube_scheme \<Rightarrow> string \<Rightarrow> Phase \<Rightarrow> ('w, unit) go" where
  "SetRestorePhase k restoreId phase = bindG (k_client k) (\<lambda>_. k_retry k 5 (set_phase_once k restoreId phase))"

lemma new_restore_type:
  "restore_type_ok rt \<Longrightarrow> ParseRestoreType n (new_restore name t n rt) = Ret (Some rt)"
  by (simp add: ParseRestoreType_def new_restore_def lookup_def Unmarshal_restore_type_ToJSON)

section \<open>Properties\<close>

text \<open>A created restore carries its request: the object sent to the server is Pending, belongs to
  the owner of the request, and decoding its restore type gives the request back.\<close>

theorem CreateRestore_roundtrip:
  assumes "restore_type_ok rt" and "k_client k w = (Ret (), w1)"
  shows "\<exists>r w2. CreateRestore k n rt w = k_restore_create k r w2 \<and> (re_Name r, w2) = k_uuid k w1
    \<and> ParseRestoreType n r = Ret (Some rt) \<and> rs_Phase (re_Spec r) = Some (phase_String Pending)
    \<and> rs_Owner (re_Spec r) = rt_Owner rt \<and> rs_CreateAt (re_Spec r) = Some (k_now k w1)"
proof -
  obtain name w2 where u: "k_uuid k w1 = (name, w2)" by fastforce
  show ?thesis
    by (intro exI[of _ "new_restore name (k_now k w1) n rt"] exI[of _ w2])
       (use assms u in \<open>simp add: CreateRestore_def go_simps new_restore_type; simp add: new_restore_def\<close>)
qed

definition sample_restore_type :: RestoreType where
  "sample_restore_type = \<lparr>rt_Name = [], rt_Owner = ''alice'', rt_Type = RestoreTypeUrl, rt_Path = ''/Files/Home/'',
     rt_SubPath = ''docs'', rt_SubPathTimestamp = 1700000000, rt_BackupId = ''b1'', rt_BackupName = ''docs'',
     rt_BackupPath = ''/Files/Home/Documents/'', rt_Password = ''cA=='', rt_SnapshotId = ''s1'',
     rt_SnapshotTime = ''1700000000'', rt_ResticSnapshotId = ''deadbeef'', rt_ClusterId = [],
     rt_Location = ''awss3'', rt_Endpoint = ''https://s3.us-east-1.amazonaws.com/bucket'',
     rt_TotalBytesProcessed = 4096,
     rt_BackupUrl = Some \<lparr>ud_CloudName = [], ud_RegionId = ''us-east-1'', ud_Bucket = ''bucket'', ud_Prefix = [],
       ud_OlaresSuffix = [], ud_FilesystemPath = []\<rparr>\<rparr>"

theorem CreateRestore_roundtrip_witness:
  "\<exists>r. ParseRestoreType ''file'' r = Ret (Some sample_restore_type)"
proof -
  have ok: "restore_type_ok sample_restore_type"
    by (simp add: restore_type_ok_def sample_restore_type_def i64_range_def)
  have c: "k_client mem_api sample_store = (Ret (), sample_store)" by (simp add: mem_api_def)
  show ?thesis using CreateRestore_roundtrip[OF ok c, of "''file''"] by blast
qed

text \<open>\<open>SetRestorePhase\<close> writes the phase and the end time, and a message only for Canceled and
  Failed (the service-restart text); the rest of the spec is sent back as it was read.\<close>

theorem set_phase_once_writes:
  assumes "k_restore_get k i w = (Ret r, w1)" and "k_restore_update k r' w1 = (Ret (), w2)"
    and "r' = r\<lparr>re_Spec := (re_Spec r)\<lparr>rs_Phase := Some (phase_String p), rs_EndAt := Some (k_now k w1),
      rs_Message := (if p = Canceled then Some MessageTaskCanceled
        else if p = Failed then Some MessageBackupServerRestart else rs_Message (re_Spec r))\<rparr>\<rparr>"
  shows "set_phase_once k i p w = (Ret (), w2)"
proof -
  have "ended_spec (k_now k w1) p (re_Spec r) = re_Spec r'"
    using assms(3) by (cases "re_Spec r"; cases p) (simp_all add: ended_spec_def)
  then have "set_re_spec (ended_spec (k_now k w1) p) r = r'"
    using assms(3) by (simp add: set_re_spec_def)
  then show ?thesis using assms(1,2) by (simp add: set_phase_once_def go_simps)
qed

theorem set_phase_once_writes_witness:
  "fst (set_phase_once mem_api ''id'' Failed
     (sample_store\<lparr>st_restores := [new_restore ''id'' 1 ''file'' sample_restore_type]\<rparr>)) = Ret ()"
proof -
  let ?r = "new_restore ''id'' 1 ''file'' sample_restore_type"
  let ?w = "sample_store\<lparr>st_restores := [?r]\<rparr>"
  let ?r' = "?r\<lparr>re_Spec := (re_Spec ?r)\<lparr>rs_Phase := Some (phase_String Failed), rs_EndAt := Some (k_now mem_api ?w),
      rs_Message := (if Failed = Canceled then Some MessageTaskCanceled
        else if Failed = Failed then Some MessageBackupServerRestart else rs_Message (re_Spec ?r))\<rparr>\<rparr>"
  have g: "k_restore_get mem_api ''id'' ?w = (Ret ?r, ?w)"
    by (simp add: mem_api_def mem_get_def find_by_def new_restore_def)
  have u: "k_restore_update mem_api ?r' ?w = (Ret (), snd (k_restore_update mem_api ?r' ?w))"
    by (simp add: mem_api_def mem_update_def find_by_def new_restore_def)
  show ?thesis using set_phase_once_writes[OF g u refl] by simp
qed

end
