(* ===== verification/Worker.thy ===== *)
theory Worker
  imports ApiTypes Utils SyncMap
begin

text \<open>
  \<open>pkg/worker\<close>: every owner has a pool that runs one task at a time (\<open>MaxConcurrency\<close> is 1) in the
  order of submission, a table of the tasks that are queued or running, and a pointer to the active
  task. Tasks are shared by reference between the table, the queue of the pool and the active
  pointer, so they live in a heap. The pool is the library \<open>pond\<close>: whether \<open>TrySubmit\<close> accepts a
  task is the argument \<open>accept\<close>; an accepted task waits in the queue until the pool is idle.

  Each exported method is one step (the table is locked per operation in the source, so two callers
  of \<open>AddBackupTask\<close> for one owner could interleave between the check and the store; the snapshot
  controller, its only caller, runs one reconciliation at a time).
\<close>

section \<open>State\<close>

datatype TaskKind = BackupTask (task_backupId: string) (task_snapshotId: string)
  | RestoreTask (task_restoreId: string)

record BaseTask =
  bt_id :: string
  bt_owner :: string
  bt_kind :: TaskKind
  bt_canceled :: bool
  bt_ctx_done :: bool

record TaskPool =
  tp_queue :: "(string \<times> nat) list"
  tp_running :: "(string \<times> nat) option"
  tp_tasks :: "(string \<times> nat) list"
  tp_active :: "nat option"

datatype event = CanceledEvent (ev_owner: string) (ev_type: string) (ev_id: string) (ev_backupId: "string option")

record WorkerPool =
  wp_pools :: "(string \<times> TaskPool) list"
  wp_heap :: "nat \<Rightarrow> BaseTask option"
  wp_next :: nat
  wp_events :: "event list"

definition NewWorkerPool :: WorkerPool where
  "NewWorkerPool = \<lparr>wp_pools = [], wp_heap = Map.empty, wp_next = 0, wp_events = []\<rparr>"

definition new_pool :: TaskPool where
  "new_pool = \<lparr>tp_queue = [], tp_running = None, tp_tasks = [], tp_active = None\<rparr>"

definition pool_of :: "WorkerPool \<Rightarrow> string \<Rightarrow> TaskPool option" where
  "pool_of w owner = map_of (wp_pools w) owner"

definition set_pool :: "string \<Rightarrow> TaskPool \<Rightarrow> WorkerPool \<Rightarrow> WorkerPool" where
  "set_pool owner p w = w\<lparr>wp_pools := mput (wp_pools w) owner p\<rparr>"

text \<open>The task table of a pool is a \<open>sync.Map\<close>.\<close>

definition task_Load :: "string \<Rightarrow> TaskPool \<Rightarrow> nat option" where
  "task_Load k p = map_of (tp_tasks p) k"

definition task_Store :: "string \<Rightarrow> nat \<Rightarrow> TaskPool \<Rightarrow> TaskPool" where
  "task_Store k r p = p\<lparr>tp_tasks := mput (tp_tasks p) k r\<rparr>"

definition task_Delete :: "string \<Rightarrow> TaskPool \<Rightarrow> TaskPool" where
  "task_Delete k p = p\<lparr>tp_tasks := mdel (tp_tasks p) k\<rparr>"

interpretation task_table: keyed_store task_Load task_Store task_Delete
  by unfold_locales (auto simp: task_Load_def task_Store_def task_Delete_def)

section \<open>Operations\<close>

definition GetOrCreateUserPool :: "string \<Rightarrow> WorkerPool \<Rightarrow> TaskPool \<times> WorkerPool" where
  "GetOrCreateUserPool owner w = (case pool_of w owner of
      Some p \<Rightarrow> (p, w) | None \<Rightarrow> (new_pool, set_pool owner new_pool w))"

definition is_backup_task :: "string \<Rightarrow> BaseTask \<Rightarrow> bool" where
  "is_backup_task backupId t = (case bt_kind t of BackupTask b _ \<Rightarrow> b = backupId | _ \<Rightarrow> False)"

definition is_snapshot_task :: "string \<Rightarrow> BaseTask \<Rightarrow> bool" where
  "is_snapshot_task snapshotId t = (case bt_kind t of BackupTask _ s \<Rightarrow> s = snapshotId | _ \<Rightarrow> False)"

definition is_restore_task :: "string \<Rightarrow> BaseTask \<Rightarrow> bool" where
  "is_restore_task restoreId t = (case bt_kind t of RestoreTask r \<Rightarrow> r = restoreId | _ \<Rightarrow> False)"

fun table_exists :: "(nat \<Rightarrow> BaseTask option) \<Rightarrow> string \<Rightarrow> (string \<times> nat) list \<Rightarrow> bool" where
  "table_exists h backupId [] = False"
| "table_exists h backupId ((k, r) # es) = (case h r of
      Some t \<Rightarrow> if is_backup_task backupId t \<and> \<not> bt_canceled t then True else table_exists h backupId es
    | None \<Rightarrow> table_exists h backupId es)"

definition ExistsTask :: "string \<Rightarrow> string \<Rightarrow> WorkerPool \<Rightarrow> unit outcome" where
  "ExistsTask owner backupId w = (case pool_of w owner of
      None \<Rightarrow> Ret ()
    | Some p \<Rightarrow> if table_exists (wp_heap w) backupId (tp_tasks p)
                then Fail (Errorf MessageTaskExists) else Ret ())"

text \<open>\<open>addTask\<close> stores the task, then submits it; a rejected task is cancelled and removed.\<close>

definition addTask :: "(TaskPool \<Rightarrow> bool) \<Rightarrow> string \<Rightarrow> string \<Rightarrow> TaskKind \<Rightarrow> (WorkerPool, unit) go" where
  "addTask accept owner taskId kind = (\<lambda>w0.
     let (p0, w) = GetOrCreateUserPool owner w0; r = wp_next w;
         t = \<lparr>bt_id = taskId, bt_owner = owner, bt_kind = kind, bt_canceled = False, bt_ctx_done = False\<rparr>;
         p = task_Store taskId r p0
     in if accept p
        then (Ret (), set_pool owner (p\<lparr>tp_queue := tp_queue p @ [(taskId, r)]\<rparr>)
                (w\<lparr>wp_heap := (wp_heap w)(r \<mapsto> t), wp_next := Suc r\<rparr>))
        else (Fail (Errorf (''[worker] task try sumit failed, owner: '' @ owner)),
              set_pool owner (task_Delete taskId p)
                (w\<lparr>wp_heap := (wp_heap w)(r \<mapsto> t\<lparr>bt_ctx_done := True\<rparr>), wp_next := Suc r\<rparr>)))"

definition AddBackupTask :: "(TaskPool \<Rightarrow> bool) \<Rightarrow> string \<Rightarrow> string \<Rightarrow> string \<Rightarrow> (WorkerPool, unit) go" where
  "AddBackupTask accept owner backupId snapshotId = (\<lambda>w. case ExistsTask owner backupId w of
      Ret _ \<Rightarrow> (if backupId = [] \<or> snapshotId = []
               then (Fail (Errorf (''backup task parms invalid, backupId: '' @ backupId @ '', snapshotId: '' @ snapshotId)), w)
               else addTask accept owner (backupId @ ''_'' @ snapshotId) (BackupTask backupId snapshotId) w)
    | Fail e \<Rightarrow> (Fail e, w) | Panic m \<Rightarrow> (Panic m, w) | Diverge \<Rightarrow> (Diverge, w))"

definition AddRestoreTask :: "(TaskPool \<Rightarrow> bool) \<Rightarrow> string \<Rightarrow> string \<Rightarrow> (WorkerPool, unit) go" where
  "AddRestoreTask accept owner restoreId = (\<lambda>w.
     if restoreId = [] then (Fail (Errorf (''restore task parms invalid, restoreId: '' @ restoreId)), w)
     else addTask accept owner restoreId (RestoreTask restoreId) w)"

text \<open>Setting the flag of the matching tasks of a table.\<close>

definition mark_canceled :: "(BaseTask \<Rightarrow> bool) \<Rightarrow> nat set \<Rightarrow> (nat \<Rightarrow> BaseTask option) \<Rightarrow> nat \<Rightarrow> BaseTask option" where
  "mark_canceled match refs h = (\<lambda>r. case h r of
      Some t \<Rightarrow> Some (if r \<in> refs \<and> match t then t\<lparr>bt_canceled := True\<rparr> else t) | None \<Rightarrow> None)"

definition cancel_ctx :: "nat \<Rightarrow> WorkerPool \<Rightarrow> WorkerPool" where
  "cancel_ctx r w = w\<lparr>wp_heap := (wp_heap w)(r := map_option (bt_ctx_done_update (\<lambda>_. True)) (wp_heap w r))\<rparr>"

definition send_event :: "event \<Rightarrow> WorkerPool \<Rightarrow> WorkerPool" where
  "send_event e w = w\<lparr>wp_events := wp_events w @ [e]\<rparr>"

definition conversion_panic :: string where
  "conversion_panic = ''interface conversion: interface {} is of another type''"

text \<open>
  The three cancel methods: mark the matching tasks of the table, then look at the active task and
  assert its type; the assertion panics when a task of the other type is active.
\<close>

definition CancelBackup :: "string \<Rightarrow> string \<Rightarrow> (WorkerPool, unit) go" where
  "CancelBackup owner backupId = (\<lambda>w. case pool_of w owner of
      None \<Rightarrow> (Ret (), w)
    | Some p \<Rightarrow>
        let w1 = w\<lparr>wp_heap := mark_canceled (is_backup_task backupId) (snd ` set (tp_tasks p)) (wp_heap w)\<rparr> in
        (case tp_active p of None \<Rightarrow> (Ret (), w1)
         | Some r \<Rightarrow> (case wp_heap w1 r of None \<Rightarrow> (Ret (), w1)
           | Some t \<Rightarrow> (case bt_kind t of
                RestoreTask _ \<Rightarrow> (Panic conversion_panic, w1)
              | BackupTask b s \<Rightarrow> if b = backupId
                  then (Ret (), cancel_ctx r (send_event (CanceledEvent (bt_owner t) ''backup'' s (Some b)) w1))
                  else (Ret (), w1)))))"

definition CancelSnapshot :: "string \<Rightarrow> string \<Rightarrow> (WorkerPool, unit) go" where
  "CancelSnapshot owner snapshotId = (\<lambda>w. case pool_of w owner of
      None \<Rightarrow> (Ret (), w)
    | Some p \<Rightarrow>
        let w1 = w\<lparr>wp_heap := mark_canceled (is_snapshot_task snapshotId) (snd ` set (tp_tasks p)) (wp_heap w)\<rparr> in
        (case tp_active p of None \<Rightarrow> (Ret (), w1)
         | Some r \<Rightarrow> (case wp_heap w1 r of None \<Rightarrow> (Ret (), w1)
           | Some t \<Rightarrow> (case bt_kind t of
                RestoreTask _ \<Rightarrow> (Panic conversion_panic, w1)
              | BackupTask b s \<Rightarrow> if s = snapshotId
                  then (Ret (), cancel_ctx r (send_event (CanceledEvent (bt_owner t) ''backup'' s (Some b)) w1))
                  else (Ret (), w1)))))"

definition CancelRestore :: "string \<Rightarrow> string \<Rightarrow> (WorkerPool, unit) go" where
  "CancelRestore owner restoreId = (\<lambda>w. case pool_of w owner of
      None \<Rightarrow> (Ret (), w)
    | Some p \<Rightarrow>
        let w1 = w\<lparr>wp_heap := mark_canceled (is_restore_task restoreId) (snd ` set (tp_tasks p)) (wp_heap w)\<rparr> in
        (case tp_active p of None \<Rightarrow> (Ret (), w1)
         | Some r \<Rightarrow> (case wp_heap w1 r of None \<Rightarrow> (Ret (), w1)
           | Some t \<Rightarrow> (case bt_kind t of
                BackupTask _ _ \<Rightarrow> (Panic conversion_panic, w1)
              | RestoreTask i \<Rightarrow> if i = restoreId
                  then (Ret (), cancel_ctx r (send_event (CanceledEvent (bt_owner t) ''restore'' i None) w1))
                  else (Ret (), w1)))))"

text \<open>
  The closure that \<open>addTask\<close> submits, in two halves: \<open>task_start\<close> up to the call of \<open>Run\<close>, and
  \<open>task_finish\<close>, its deferred function, which runs when \<open>Run\<close> returns or panics. A task that is
  already cancelled goes straight to the deferred function.
\<close>

definition task_finish :: "string \<Rightarrow> TaskPool \<Rightarrow> TaskPool" where
  "task_finish taskId p = (task_Delete taskId p)\<lparr>tp_active := None, tp_running := None\<rparr>"

definition task_start :: "(nat \<Rightarrow> BaseTask option) \<Rightarrow> TaskPool \<Rightarrow> TaskPool option" where
  "task_start h p = (case (tp_running p, tp_queue p) of
      (None, (taskId, r) # q) \<Rightarrow> Some (case h r of
          Some t \<Rightarrow> if bt_canceled t then task_finish taskId (p\<lparr>tp_queue := q\<rparr>)
                    else p\<lparr>tp_queue := q, tp_running := Some (taskId, r), tp_active := Some r\<rparr>
        | None \<Rightarrow> task_finish taskId (p\<lparr>tp_queue := q\<rparr>))
    | _ \<Rightarrow> None)"

section \<open>Steps and reachable states\<close>

inductive wstep :: "WorkerPool \<Rightarrow> WorkerPool \<Rightarrow> bool" where
  add_backup: "AddBackupTask accept owner b s w = (res, w') \<Longrightarrow> wstep w w'"
| add_restore: "AddRestoreTask accept owner i w = (res, w') \<Longrightarrow> wstep w w'"
| cancel_backup: "CancelBackup owner b w = (res, w') \<Longrightarrow> wstep w w'"
| cancel_snapshot: "CancelSnapshot owner s w = (res, w') \<Longrightarrow> wstep w w'"
| cancel_restore: "CancelRestore owner i w = (res, w') \<Longrightarrow> wstep w w'"
| start: "pool_of w owner = Some p \<Longrightarrow> task_start (wp_heap w) p = Some p' \<Longrightarrow> wstep w (set_pool owner p' w)"
| finish: "pool_of w owner = Some p \<Longrightarrow> tp_running p = Some (taskId, r) \<Longrightarrow>
    wstep w (set_pool owner (task_finish taskId p) w)"

inductive worker_reachable :: "WorkerPool \<Rightarrow> bool" where
  init: "worker_reachable NewWorkerPool"
| step: "worker_reachable w \<Longrightarrow> wstep w w' \<Longrightarrow> worker_reachable w'"

inductive_cases wstepE: "wstep w w'"

section \<open>The invariant\<close>

definition live :: "(nat \<Rightarrow> BaseTask option) \<Rightarrow> string \<Rightarrow> nat \<Rightarrow> bool" where
  "live h backupId r = (case h r of Some t \<Rightarrow> is_backup_task backupId t \<and> \<not> bt_canceled t | None \<Rightarrow> False)"

definition unique_live :: "(nat \<Rightarrow> BaseTask option) \<Rightarrow> (string \<times> nat) list \<Rightarrow> bool" where
  "unique_live h es \<longleftrightarrow> (\<forall>e \<in> set es. \<forall>e' \<in> set es. \<forall>b. live h b (snd e) \<longrightarrow> live h b (snd e') \<longrightarrow> e = e')"

definition wf_pool :: "(nat \<Rightarrow> BaseTask option) \<Rightarrow> nat \<Rightarrow> TaskPool \<Rightarrow> bool" where
  "wf_pool h n p \<longleftrightarrow> distinct (map fst (tp_tasks p)) \<and> (\<forall>r \<in> snd ` set (tp_tasks p). r < n)
     \<and> unique_live h (tp_tasks p)
     \<and> (\<forall>r \<in> snd ` set (tp_queue p). r < n)
     \<and> (case tp_active p of None \<Rightarrow> True | Some r \<Rightarrow> map_option snd (tp_running p) = Some r)
     \<and> (case tp_running p of None \<Rightarrow> True | Some (k, r) \<Rightarrow> r < n)"

definition wf_worker :: "WorkerPool \<Rightarrow> bool" where
  "wf_worker w \<longleftrightarrow> (\<forall>(owner, p) \<in> set (wp_pools w). wf_pool (wp_heap w) (wp_next w) p)
     \<and> (\<forall>r \<ge> wp_next w. wp_heap w r = None)"

lemma table_exists_iff: "table_exists h b es \<longleftrightarrow> (\<exists>e \<in> set es. live h b (snd e))"
  by (induction h b es rule: table_exists.induct) (auto simp: live_def split: option.splits)

lemma unique_live_antimono:
  "unique_live h es \<Longrightarrow> set es' \<subseteq> set es \<Longrightarrow> (\<And>b r. live h' b r \<Longrightarrow> live h b r) \<Longrightarrow> unique_live h' es'"
  unfolding unique_live_def by blast

lemma wf_pool_heap:
  "wf_pool h n p \<Longrightarrow> (\<And>b r. live h' b r \<Longrightarrow> live h b r) \<Longrightarrow> wf_pool h' n p"
  by (auto simp: wf_pool_def intro: unique_live_antimono)

lemma live_fresh:
  assumes "\<forall>r \<ge> n. h r = None" and "r < n" shows "live (h(n := x)) b r = live h b r"
  using assms by (simp add: live_def)

lemma unique_live_fresh:
  assumes "unique_live h es" and "\<forall>e \<in> set es. snd e < n"
  shows "unique_live (h(n := x)) es"
  using assms unfolding unique_live_def by (auto simp: live_def)

lemma wf_pool_fresh:
  assumes "wf_pool h n p"
  shows "wf_pool (h(n := x)) (Suc n) p"
  using assms unfolding wf_pool_def
  by (auto split: option.splits intro: unique_live_fresh simp: less_Suc_eq)

lemma set_mput_mem: "e \<in> set (mput m k v) \<Longrightarrow> e = (k, v) \<or> e \<in> set m"
  using set_mput_subset[of m k v] by blast

lemma wf_set_pool:
  assumes "wf_worker w" and "wf_pool (wp_heap w) (wp_next w) p"
  shows "wf_worker (set_pool owner p w)"
  using assms by (auto simp: wf_worker_def set_pool_def dest!: set_mput_mem)

lemma wf_pool_of: "wf_worker w \<Longrightarrow> pool_of w owner = Some p \<Longrightarrow> wf_pool (wp_heap w) (wp_next w) p"
  by (auto simp: wf_worker_def pool_of_def dest!: map_of_SomeD)

lemma wf_new_pool [simp]: "wf_pool h n new_pool"
  by (simp add: wf_pool_def new_pool_def unique_live_def)

lemma wf_GetOrCreate:
  assumes "wf_worker w" and "GetOrCreateUserPool owner w = (p, w')"
  shows "wf_worker w' \<and> wf_pool (wp_heap w') (wp_next w') p \<and> wp_heap w' = wp_heap w
    \<and> pool_of w' owner = Some p \<and> p = (case pool_of w owner of None \<Rightarrow> new_pool | Some p0 \<Rightarrow> p0)"
  using assms
  by (auto simp: GetOrCreateUserPool_def pool_of_def set_pool_def wf_pool_of wf_set_pool[unfolded set_pool_def]
           split: option.splits intro: wf_pool_of[unfolded pool_of_def])

lemma unique_live_store:
  assumes "unique_live h es" and "\<forall>e \<in> set es. snd e < n"
    and "\<And>b. live (h(n \<mapsto> t)) b n \<Longrightarrow> \<not> table_exists h b es"
  shows "unique_live (h(n \<mapsto> t)) (mput es k n)"
proof -
  let ?h = "h(n \<mapsto> t)"
  have old: "live ?h b (snd e) = live h b (snd e)" if "e \<in> set es" for e b
    using that assms(2) by (auto simp: live_def)
  show ?thesis
    unfolding unique_live_def
  proof (intro ballI allI impI)
    fix e e' b
    assume e: "e \<in> set (mput es k n)" "e' \<in> set (mput es k n)" "live ?h b (snd e)" "live ?h b (snd e')"
    have no: "live ?h b n \<Longrightarrow> x \<in> set es \<Longrightarrow> \<not> live ?h b (snd x)" for x
      using assms(3)[of b] old by (auto simp: table_exists_iff)
    from e(1,2)[THEN set_mput_mem] show "e = e'"
      using e(3,4) no assms(1) old unfolding unique_live_def by (elim disjE) auto
  qed
qed

lemma wf_addTask:
  assumes "wf_worker w" and "addTask accept owner k kind w = (res, w')"
    and "\<And>b s p. kind = BackupTask b s \<Longrightarrow> pool_of w owner = Some p \<Longrightarrow> \<not> table_exists (wp_heap w) b (tp_tasks p)"
  shows "wf_worker w'"
proof -
  obtain p0 w1 where g: "GetOrCreateUserPool owner w = (p0, w1)" by fastforce
  note G = wf_GetOrCreate[OF assms(1) g]
  let ?r = "wp_next w1" and ?h = "wp_heap w1"
  have free: "\<forall>r \<ge> ?r. ?h r = None" using G unfolding wf_worker_def by blast
  have w1: "wf_worker w1" and p0: "wf_pool ?h ?r p0" using G by blast+
  have ex: "\<not> table_exists ?h b (tp_tasks p0)" if "kind = BackupTask b s" for b s
    using assms(3)[OF that] G by (auto simp: new_pool_def split: option.splits)
  have st: "wf_pool (?h(?r \<mapsto> t)) (Suc ?r) (task_Store k ?r p0)"
    if "bt_kind t = kind" for t
  proof -
    have "unique_live (?h(?r \<mapsto> t)) (mput (tp_tasks p0) k ?r)"
      using p0 ex that by (intro unique_live_store)
        (auto simp: wf_pool_def live_def is_backup_task_def split: TaskKind.splits)
    moreover have "distinct (map fst (mput (tp_tasks p0) k ?r))"
      using p0 by (intro distinct_mput) (simp add: wf_pool_def)
    ultimately show ?thesis
      using p0 by (auto simp: wf_pool_def task_Store_def less_Suc_eq split: option.splits dest!: set_mput_mem)
  qed
  have other: "wf_worker (w1\<lparr>wp_heap := ?h(?r \<mapsto> t), wp_next := Suc ?r\<rparr>)" for t
    using w1 free by (auto simp: wf_worker_def intro: wf_pool_fresh)
  have dec: "wf_pool h n (task_Delete k p)" if "wf_pool h n p" for h n p
    using that by (auto simp: wf_pool_def task_Delete_def intro: unique_live_antimono split: option.splits)
  have enq: "wf_pool h n (p\<lparr>tp_queue := tp_queue p @ [(k, r)]\<rparr>)" if "wf_pool h n p" "r < n" for h n p r
    using that by (auto simp: wf_pool_def split: option.splits)
  show ?thesis
    using assms(2) g
    by (auto simp: addTask_def Let_def split: if_splits
             intro!: wf_set_pool[OF other] dec enq st)
qed

lemma live_mark: "live (mark_canceled m refs h) b r \<Longrightarrow> live h b r"
  by (auto simp: live_def mark_canceled_def is_backup_task_def split: option.splits if_splits)

lemma wf_worker_heap:
  assumes "wf_worker w" and "\<And>b r. live h' b r \<Longrightarrow> live (wp_heap w) b r"
    and "\<And>r. wp_heap w r = None \<Longrightarrow> h' r = None"
  shows "wf_worker (w\<lparr>wp_heap := h'\<rparr>)"
  using assms by (auto simp: wf_worker_def intro: wf_pool_heap)

lemma wf_mark: "wf_worker w \<Longrightarrow> wf_worker (w\<lparr>wp_heap := mark_canceled m refs (wp_heap w)\<rparr>)"
  by (rule wf_worker_heap) (auto intro: live_mark simp: mark_canceled_def)

lemma wf_cancel_ctx: "wf_worker w \<Longrightarrow> wf_worker (cancel_ctx r w)"
  unfolding cancel_ctx_def
  by (rule wf_worker_heap) (auto simp: live_def is_backup_task_def split: option.splits if_splits)

lemma wf_send_event: "wf_worker w \<Longrightarrow> wf_worker (send_event e w)"
  by (simp add: wf_worker_def send_event_def)

lemma wf_CancelBackup: "wf_worker w \<Longrightarrow> CancelBackup owner b w = (res, w') \<Longrightarrow> wf_worker w'"
  by (auto simp: CancelBackup_def Let_def split: option.splits TaskKind.splits if_splits
           intro: wf_mark wf_cancel_ctx wf_send_event)

lemma wf_CancelSnapshot: "wf_worker w \<Longrightarrow> CancelSnapshot owner s w = (res, w') \<Longrightarrow> wf_worker w'"
  by (auto simp: CancelSnapshot_def Let_def split: option.splits TaskKind.splits if_splits
           intro: wf_mark wf_cancel_ctx wf_send_event)

lemma wf_CancelRestore: "wf_worker w \<Longrightarrow> CancelRestore owner i w = (res, w') \<Longrightarrow> wf_worker w'"
  by (auto simp: CancelRestore_def Let_def split: option.splits TaskKind.splits if_splits
           intro: wf_mark wf_cancel_ctx wf_send_event)

lemma wf_task_finish: "wf_pool h n p \<Longrightarrow> wf_pool h n (task_finish k p)"
  by (auto simp: wf_pool_def task_finish_def task_Delete_def intro: unique_live_antimono)

lemma wf_task_start: "wf_pool h n p \<Longrightarrow> task_start h p = Some p' \<Longrightarrow> wf_pool h n p'"
proof -
  assume wf: "wf_pool h n p" and s: "task_start h p = Some p'"
  then obtain k r q where q: "tp_queue p = (k, r) # q" "tp_running p = None"
    by (auto simp: task_start_def split: option.splits list.splits prod.splits)
  have "wf_pool h n (p\<lparr>tp_queue := q\<rparr>)" "wf_pool h n (p\<lparr>tp_queue := q, tp_running := Some (k, r), tp_active := Some r\<rparr>)"
    using wf q by (auto simp: wf_pool_def split: option.splits)
  then show ?thesis using s q
    by (auto simp: task_start_def intro: wf_task_finish split: option.splits if_splits)
qed

lemma wf_init: "wf_worker NewWorkerPool"
  by (simp add: wf_worker_def NewWorkerPool_def)

lemma wf_wstep: "wstep w w' \<Longrightarrow> wf_worker w \<Longrightarrow> wf_worker w'"
proof (induction rule: wstep.induct)
  case (add_backup accept owner b s w res w')
  then have wf: "wf_worker w" by simp
  show ?case
  proof (cases "ExistsTask owner b w")
    case (Ret u)
    then have no: "\<And>b' s' p. BackupTask b s = BackupTask b' s' \<Longrightarrow> pool_of w owner = Some p \<Longrightarrow>
        \<not> table_exists (wp_heap w) b' (tp_tasks p)"
      by (auto simp: ExistsTask_def split: if_splits)
    have "w' = w \<or> addTask accept owner (b @ ''_'' @ s) (BackupTask b s) w = (res, w')"
      using add_backup(1) Ret by (auto simp: AddBackupTask_def split: if_splits)
    then show ?thesis
    proof
      assume a: "addTask accept owner (b @ ''_'' @ s) (BackupTask b s) w = (res, w')"
      show ?thesis by (rule wf_addTask[OF wf a]) (rule no, assumption+)
    qed (use wf in simp)
  qed (use add_backup wf in \<open>auto simp: AddBackupTask_def\<close>)
next
  case (add_restore accept owner i w res w')
  then have wf: "wf_worker w" by simp
  have "w' = w \<or> addTask accept owner i (RestoreTask i) w = (res, w')"
    using add_restore(1) by (auto simp: AddRestoreTask_def split: if_splits)
  then show ?case
  proof
    assume a: "addTask accept owner i (RestoreTask i) w = (res, w')"
    show ?thesis by (rule wf_addTask[OF wf a]) simp
  qed (use wf in simp)
qed (auto intro: wf_CancelBackup wf_CancelSnapshot wf_CancelRestore wf_set_pool wf_task_start
       wf_task_finish dest: wf_pool_of)

lemma worker_reachable_wf: "worker_reachable w \<Longrightarrow> wf_worker w"
  by (induction rule: worker_reachable.induct) (auto intro: wf_init wf_wstep)

section \<open>Properties\<close>

lemma unique_filter_length:
  assumes "distinct (map fst es)" and "unique_live h es"
  shows "length (filter (\<lambda>e. live h b (snd e)) es) \<le> 1"
proof (rule ccontr)
  let ?f = "filter (\<lambda>e. live h b (snd e)) es"
  assume "\<not> length ?f \<le> 1"
  then obtain x y r where f: "?f = x # y # r" by (cases ?f; cases "tl ?f") auto
  then have "x \<in> set ?f" "y \<in> set ?f" by simp_all
  then have "x = y" using assms(2) by (auto simp: unique_live_def)
  moreover have "distinct ?f" using assms(1) by (simp add: distinct_map)
  ultimately show False using f by simp
qed

text \<open>C4: in every state the worker can reach, through any sequence of submissions, cancellations,
  task starts and task ends, the task table of an owner's pool holds at most one backup task of a
  plan that is not cancelled.\<close>

theorem worker_unique_live:
  assumes "worker_reachable w" and "pool_of w owner = Some p"
  shows "length (filter (\<lambda>e. live (wp_heap w) b (snd e)) (tp_tasks p)) \<le> 1"
  using wf_pool_of[OF worker_reachable_wf[OF assms(1)] assms(2)]
  by (intro unique_filter_length) (simp_all add: wf_pool_def)

definition sample_worker :: WorkerPool where
  "sample_worker = snd (AddBackupTask (\<lambda>_. True) ''alice'' ''b1'' ''s1'' NewWorkerPool)"

lemmas worker_eval = sample_worker_def AddBackupTask_def AddRestoreTask_def ExistsTask_def addTask_def
  GetOrCreateUserPool_def pool_of_def set_pool_def NewWorkerPool_def new_pool_def task_Store_def
  task_Delete_def task_start_def task_finish_def mdel_def Let_def

lemma sample_reachable: "worker_reachable sample_worker"
proof -
  have "AddBackupTask (\<lambda>_. True) ''alice'' ''b1'' ''s1'' NewWorkerPool = (Ret (), sample_worker)"
    by (simp add: worker_eval)
  then show ?thesis using worker_reachable.step[OF worker_reachable.init add_backup] by blast
qed

lemma sample_pool: "pool_of sample_worker ''alice'' = Some \<lparr>tp_queue = [(''b1_s1'', 0)], tp_running = None,
    tp_tasks = [(''b1_s1'', 0)], tp_active = None\<rparr>"
  by (simp add: worker_eval)

theorem worker_unique_live_witness:
  "length (filter (\<lambda>e. live (wp_heap sample_worker) ''b1'' (snd e)) [(''b1_s1'', 0)]) \<le> 1"
  using worker_unique_live[OF sample_reachable sample_pool, of "''b1''"] by simp

text \<open>\<open>CancelBackup\<close> sets the cancelled flag of exactly the tasks of the plan in the owner's
  table, and cancels the context of exactly the active task when that is a task of the plan; it
  changes no other task.\<close>

theorem CancelBackup_exact:
  assumes "pool_of w owner = Some p" and "CancelBackup owner b w = (res, w')" and "wp_heap w r = Some t"
    and "\<And>a. tp_active p = Some a \<Longrightarrow> a \<in> snd ` set (tp_tasks p)"
  shows "\<exists>t'. wp_heap w' r = Some t' \<and> bt_kind t' = bt_kind t \<and> bt_id t' = bt_id t
    \<and> (bt_canceled t' \<longleftrightarrow> bt_canceled t \<or> (is_backup_task b t \<and> r \<in> snd ` set (tp_tasks p)))
    \<and> (bt_ctx_done t' \<longleftrightarrow> bt_ctx_done t \<or> (is_backup_task b t \<and> tp_active p = Some r))"
proof -
  define refs where "refs = snd ` set (tp_tasks p)"
  have a: "tp_active p = Some a \<Longrightarrow> a \<in> refs" for a using assms(4) by (simp add: refs_def)
  show ?thesis
    using assms(1-3) a unfolding refs_def[symmetric]
    by (auto simp: CancelBackup_def Let_def mark_canceled_def cancel_ctx_def send_event_def is_backup_task_def
               refs_def[symmetric] split: option.splits TaskKind.splits if_splits)
qed

theorem CancelBackup_exact_witness:
  "\<exists>t'. wp_heap (snd (CancelBackup ''alice'' ''b1'' sample_worker)) 0 = Some t' \<and> bt_canceled t' \<and> \<not> bt_ctx_done t'"
proof -
  have h: "wp_heap sample_worker 0 = Some \<lparr>bt_id = ''b1_s1'', bt_owner = ''alice'', bt_kind = BackupTask ''b1'' ''s1'',
      bt_canceled = False, bt_ctx_done = False\<rparr>"
    by (simp add: worker_eval)
  show ?thesis
    using CancelBackup_exact[OF sample_pool prod.collapse[symmetric] h, of "''b1''"]
    by (auto simp: is_backup_task_def)
qed

text \<open>A cancel request for a backup plan panics exactly when the owner's active task is a
  restore: the code asserts the type of the active task without checking which kind is running. A
  cancel request for a restore panics exactly when a backup is active.\<close>

theorem cancel_panics_iff:
  "((\<exists>m. fst (CancelBackup owner b w) = Panic m) \<longleftrightarrow>
     (\<exists>p r t i. pool_of w owner = Some p \<and> tp_active p = Some r \<and> wp_heap w r = Some t \<and> bt_kind t = RestoreTask i)) \<and>
   ((\<exists>m. fst (CancelRestore owner i w) = Panic m) \<longleftrightarrow>
     (\<exists>p r t b s. pool_of w owner = Some p \<and> tp_active p = Some r \<and> wp_heap w r = Some t \<and> bt_kind t = BackupTask b s))"
  by (auto simp: CancelBackup_def CancelRestore_def Let_def mark_canceled_def
           split: option.splits TaskKind.splits)

text \<open>A task that was cancelled while it waited never becomes the active task: when the pool
  takes it, it only leaves the table. Otherwise the task taken becomes the active one, and it is the
  head of the queue.\<close>

theorem canceled_task_never_starts:
  assumes "task_start h p = Some p'"
  shows "\<exists>k r q. tp_queue p = (k, r) # q \<and> tp_queue p' = q \<and>
     (if \<exists>t. h r = Some t \<and> \<not> bt_canceled t
      then tp_active p' = Some r \<and> tp_running p' = Some (k, r) \<and> tp_tasks p' = tp_tasks p
      else tp_active p' = None \<and> tp_running p' = None \<and> tp_tasks p' = mdel (tp_tasks p) k)"
proof -
  obtain k r q where q: "tp_queue p = (k, r) # q" "tp_running p = None"
    using assms by (auto simp: task_start_def split: option.splits list.splits prod.splits)
  show ?thesis
    using assms q by (intro exI[of _ k] exI[of _ r] exI[of _ q])
      (auto simp: task_start_def task_finish_def task_Delete_def split: option.splits if_splits)
qed

theorem canceled_task_never_starts_witness:
  "tp_active (the (task_start (\<lambda>_. Some \<lparr>bt_id = ''k'', bt_owner = ''o'', bt_kind = RestoreTask ''k'',
       bt_canceled = True, bt_ctx_done = False\<rparr>)
     (new_pool\<lparr>tp_queue := [(''k'', 0)], tp_tasks := [(''k'', 0)]\<rparr>))) = None"
proof -
  let ?h = "\<lambda>_. Some \<lparr>bt_id = ''k'', bt_owner = ''o'', bt_kind = RestoreTask ''k'', bt_canceled = True, bt_ctx_done = False\<rparr>"
  let ?p = "new_pool\<lparr>tp_queue := [(''k'', 0)], tp_tasks := [(''k'', 0)]\<rparr>"
  have "task_start ?h ?p = Some (the (task_start ?h ?p))" by (simp add: task_start_def new_pool_def)
  from canceled_task_never_starts[OF this] show ?thesis by auto
qed

text \<open>When the pool rejects a task, the caller gets an error, the task's context is cancelled, and
  the owner's table, queue and active task are what they were (for a fresh task id).\<close>

theorem rejected_task_leaves_no_trace:
  assumes "\<And>p. \<not> accept p" and "\<And>p. pool_of w owner = Some p \<Longrightarrow> task_Load k p = None"
    and "addTask accept owner k kind w = (res, w')"
  shows "(\<exists>e. res = Fail e)
    \<and> (\<exists>t. wp_heap w' (wp_next w) = Some t \<and> bt_ctx_done t)
    \<and> (\<exists>p'. pool_of w' owner = Some p' \<and>
         (let p = (case pool_of w owner of None \<Rightarrow> new_pool | Some p \<Rightarrow> p) in
            (\<forall>k'. task_Load k' p' = task_Load k' p) \<and> tp_queue p' = tp_queue p \<and> tp_active p' = tp_active p))"
proof -
  let ?p = "case pool_of w owner of None \<Rightarrow> new_pool | Some p \<Rightarrow> p"
  have "task_Load k ?p = None"
    using assms(2) by (auto simp: task_Load_def new_pool_def split: option.splits)
  note undo = task_table.put_remove_undo[OF this]
  have "fst (GetOrCreateUserPool owner w) = ?p" "wp_next (snd (GetOrCreateUserPool owner w)) = wp_next w"
    by (auto simp: GetOrCreateUserPool_def set_pool_def split: option.splits)
  then have "pool_of w' owner = Some (task_Delete k (task_Store k (wp_next w) ?p))"
    and "\<exists>e. res = Fail e" and "\<exists>t. wp_heap w' (wp_next w) = Some t \<and> bt_ctx_done t"
    using assms(1,3)
    by (auto simp: addTask_def Let_def pool_of_def set_pool_def split: prod.splits)
  then show ?thesis using undo by (simp add: Let_def task_Delete_def task_Store_def)
qed

theorem rejected_task_leaves_no_trace_witness:
  "\<exists>e. fst (addTask (\<lambda>_. False) ''bob'' ''r1'' (RestoreTask ''r1'') NewWorkerPool) = Fail e"
proof -
  have none: "\<And>p. pool_of NewWorkerPool ''bob'' = Some p \<Longrightarrow> task_Load ''r1'' p = None"
    by (simp add: pool_of_def NewWorkerPool_def)
  show ?thesis
    using rejected_task_leaves_no_trace[OF _ none prod.collapse[symmetric], where accept = "\<lambda>_. False" and kind = "RestoreTask ''r1''"] by blast
qed

definition queued_live :: "WorkerPool \<Rightarrow> string \<Rightarrow> string \<Rightarrow> nat" where
  "queued_live w owner b = (case pool_of w owner of None \<Rightarrow> 0
     | Some p \<Rightarrow> length (filter (\<lambda>e. live (wp_heap w) b (snd e)) (tp_queue p)))"

definition resubmit_trace :: "(WorkerPool \<Rightarrow> WorkerPool) list" where
  "resubmit_trace = (let add = (\<lambda>b s w. snd (AddBackupTask (\<lambda>_. True) ''o'' b s w));
       start = (\<lambda>w. case pool_of w ''o'' of Some p \<Rightarrow> (case task_start (wp_heap w) p of
                 Some p' \<Rightarrow> set_pool ''o'' p' w | None \<Rightarrow> w) | None \<Rightarrow> w);
       finish = (\<lambda>w. case pool_of w ''o'' of Some p \<Rightarrow> (case tp_running p of
                 Some (k, _) \<Rightarrow> set_pool ''o'' (task_finish k p) w | None \<Rightarrow> w) | None \<Rightarrow> w) in
     [add ''b0'' ''s0'', start, add ''b'' ''s'', \<lambda>w. snd (CancelSnapshot ''o'' ''s'' w),
      add ''b'' ''s'', finish, start, add ''b'' ''s2''])"

lemma trace_reachable:
  "\<forall>f \<in> set fs. \<forall>w. wstep w (f w) \<or> f w = w \<Longrightarrow> worker_reachable w \<Longrightarrow> worker_reachable (fold (\<lambda>f w. f w) fs w)"
  by (induction fs arbitrary: w) (auto intro: worker_reachable.step, metis worker_reachable.step)

lemma resubmit_steps: "\<forall>f \<in> set resubmit_trace. \<forall>w. wstep w (f w) \<or> f w = w"
  by (auto simp: resubmit_trace_def Let_def intro: wstep.intros(1,4)[OF prod.collapse[symmetric]]
           intro: start finish split: option.splits)

text \<open>The table, not the queue, is what \<open>ExistsTask\<close> looks at, and a task that leaves the queue
  removes the table entry of its id even when a newer task has taken it. So a snapshot that is
  cancelled while it waits and then submitted again loses its entry, and the same plan can be
  queued twice, both tasks live.\<close>

theorem resubmitted_snapshot_queued_twice:
  "\<exists>w. worker_reachable w \<and> queued_live w ''o'' ''b'' = 2"
proof (intro exI conjI)
  show "worker_reachable (fold (\<lambda>f w. f w) resubmit_trace NewWorkerPool)"
    by (rule trace_reachable[OF resubmit_steps worker_reachable.init])
  show "queued_live (fold (\<lambda>f w. f w) resubmit_trace NewWorkerPool) ''o'' ''b'' = 2"
    by (simp add: resubmit_trace_def worker_eval CancelSnapshot_def mark_canceled_def is_snapshot_task_def
          is_backup_task_def queued_live_def live_def cancel_ctx_def send_event_def)
qed

end
