(* ===== verification/Calendar.thy ===== *)
theory Calendar
  imports Main
begin

text \<open>
  Go's \<open>time\<close> in UTC, as far as the schedules need it. An instant is a number of nanoseconds since
  0001-01-01 00:00 UTC (Go's zero time), days are numbered from that date, which was a Monday. Dates
  are proleptic Gregorian; \<open>time.Date\<close> accepts values outside their usual ranges and normalises
  them, so only days, hours and minutes out of range are ever added up here (the program never
  passes a month out of range).
\<close>

section \<open>Years\<close>

definition leap :: "int \<Rightarrow> bool" where
  "leap y \<longleftrightarrow> y mod 4 = 0 \<and> (y mod 100 \<noteq> 0 \<or> y mod 400 = 0)"

text \<open>The number of days before January 1st of year \<open>y\<close>.\<close>

definition year_start :: "int \<Rightarrow> int" where
  "year_start y = (let p = y - 1 in 365 * p + p div 4 - p div 100 + p div 400)"

text \<open>The year of a day, and the day of the year counted from 0, by the cycles of 400, 100, 4 and 1
  years (the last cycle of its kind is longer, hence the minimum).\<close>

definition year_of :: "int \<Rightarrow> int \<times> int" where
  "year_of d = (let r = d mod 146097; c = min 3 (r div 36524); r1 = r - 36524 * c;
      q = r1 div 1461; r2 = r1 - 1461 * q; n = min 3 (r2 div 365)
    in (400 * (d div 146097) + 100 * c + 4 * q + n + 1, r2 - 365 * n))"

lemma year_start_split:
  assumes "0 \<le> c" "c \<le> 3" "0 \<le> q" "q \<le> 24" "0 \<le> n" "n \<le> (3::int)"
  shows "year_start (400 * a + 100 * c + 4 * q + n + 1) = 146097 * a + 36524 * c + 1461 * q + 365 * n"
proof -
  let ?p = "400 * a + 100 * c + 4 * q + n"
  have "?p div 4 = 100 * a + 25 * c + q" using assms by linarith
  moreover have "?p div 100 = 4 * a + c" using assms by linarith
  moreover have "?p div 400 = a" using assms by linarith
  ultimately show ?thesis by (simp add: year_start_def Let_def)
qed

lemma leap_split:
  assumes "0 \<le> c" "c \<le> 3" "0 \<le> q" "q \<le> 24" "0 \<le> n" "n \<le> (3::int)"
  shows "leap (400 * a + 100 * c + 4 * q + n + 1) \<longleftrightarrow> n = 3 \<and> (q = 24 \<longrightarrow> c = 3)"
proof -
  let ?y = "400 * a + 100 * c + 4 * q + n + 1"
  have "?y = n + 1 + 4 * (100 * a + 25 * c + q)" by simp
  then have "?y mod 4 = (n + 1) mod 4" by (simp only: mod_mult_self2)
  moreover have "n = 0 \<or> n = 1 \<or> n = 2 \<or> n = 3" using assms by linarith
  ultimately have 4: "?y mod 4 = 0 \<longleftrightarrow> n = 3" by auto
  have "?y = 4 * q + n + 1 + 100 * (4 * a + c)" by simp
  then have "?y mod 100 = (4 * q + n + 1) mod 100" by (simp only: mod_mult_self2)
  moreover have "(4 * q + n + 1) mod 100 = (if q = 24 \<and> n = 3 then 0 else 4 * q + n + 1)"
    using assms by (cases "q = 24 \<and> n = 3") (auto intro!: mod_pos_pos_trivial)
  ultimately have 100: "?y mod 100 = 0 \<longleftrightarrow> q = 24 \<and> n = 3" using assms by (simp only: split: if_split) auto
  have "?y = 100 * c + 4 * q + n + 1 + 400 * a" by simp
  then have "?y mod 400 = (100 * c + 4 * q + n + 1) mod 400" by (simp only: mod_mult_self2)
  moreover have "(100 * c + 4 * q + n + 1) mod 400 = (if c = 3 \<and> q = 24 \<and> n = 3 then 0 else 100 * c + 4 * q + n + 1)"
    using assms by (cases "c = 3 \<and> q = 24 \<and> n = 3") (auto intro!: mod_pos_pos_trivial)
  ultimately have 400: "?y mod 400 = 0 \<longleftrightarrow> c = 3 \<and> q = 24 \<and> n = 3" using assms by (simp only: split: if_split) auto
  show ?thesis unfolding leap_def 4 100 400 by auto
qed

lemma year_of_correct:
  assumes "year_of d = (y, yday)"
  shows "year_start y + yday = d" and "0 \<le> yday" and "yday < (if leap y then 366 else 365)"
proof -
  define r where "r = d mod 146097"
  define c where "c = min 3 (r div 36524)"
  define r1 where "r1 = r - 36524 * c"
  define q where "q = r1 div 1461"
  define r2 where "r2 = r1 - 1461 * q"
  define n where "n = min 3 (r2 div 365)"
  have e: "y = 400 * (d div 146097) + 100 * c + 4 * q + n + 1" "yday = r2 - 365 * n"
    using assms unfolding year_of_def Let_def r_def[symmetric] c_def[symmetric] r1_def[symmetric] q_def[symmetric]
      r2_def[symmetric] n_def[symmetric] by (simp_all only: prod.inject)
  have r: "0 \<le> r" "r < 146097" by (simp_all add: r_def)
  have c: "0 \<le> c" "c \<le> 3" and r1: "0 \<le> r1" "r1 < 36524 \<or> (c = 3 \<and> r1 < 36525)"
    using r by (auto simp: c_def r1_def min_def)
  have q: "0 \<le> q" "q \<le> 24" and r2: "0 \<le> r2" "r2 < 1461" and r2': "q = 24 \<Longrightarrow> c \<noteq> 3 \<Longrightarrow> r2 < 1460"
    using r1 by (auto simp: q_def r2_def)
  have n: "0 \<le> n" "n \<le> 3" and yd: "0 \<le> yday" "yday < 365 \<or> (n = 3 \<and> yday < 366)"
    and yd': "r2 < 1460 \<Longrightarrow> yday < 365"
    using r2 e(2) by (auto simp: n_def min_def)
  note ss = year_start_split[OF c q n, of "d div 146097"] and ls = leap_split[OF c q n, of "d div 146097"]
  have "d = 146097 * (d div 146097) + r" by (simp add: r_def)
  then show "year_start y + yday = d" using ss e by (simp add: r1_def r2_def)
  show "0 \<le> yday" by (rule yd(1))
  show "yday < (if leap y then 366 else 365)"
    using ls yd yd' r2' e(1) by auto
qed

section \<open>Months\<close>

definition month_days :: "bool \<Rightarrow> int \<Rightarrow> int" where
  "month_days lp m = (if m = 2 then (if lp then 29 else 28) else if m \<in> {4, 6, 9, 11} then 30 else 31)"

definition days_before :: "bool \<Rightarrow> int \<Rightarrow> int" where
  "days_before lp m = (if m \<le> 1 then 0 else if m = 2 then 31
     else (if lp then 1 else 0) + (if m = 3 then 59 else if m = 4 then 90 else if m = 5 then 120
       else if m = 6 then 151 else if m = 7 then 181 else if m = 8 then 212 else if m = 9 then 243
       else if m = 10 then 273 else if m = 11 then 304 else if m = 12 then 334 else 365))"

definition month_of_yday :: "bool \<Rightarrow> int \<Rightarrow> int" where
  "month_of_yday lp yd = (if yd < days_before lp 2 then 1 else if yd < days_before lp 3 then 2
     else if yd < days_before lp 4 then 3 else if yd < days_before lp 5 then 4
     else if yd < days_before lp 6 then 5 else if yd < days_before lp 7 then 6
     else if yd < days_before lp 8 then 7 else if yd < days_before lp 9 then 8
     else if yd < days_before lp 10 then 9 else if yd < days_before lp 11 then 10
     else if yd < days_before lp 12 then 11 else 12)"

lemma days_before_next: "1 \<le> m \<Longrightarrow> m \<le> 12 \<Longrightarrow> days_before lp (m + 1) = days_before lp m + month_days lp m"
proof -
  assume "1 \<le> m" "m \<le> 12"
  then have "m = 1 \<or> m = 2 \<or> m = 3 \<or> m = 4 \<or> m = 5 \<or> m = 6 \<or> m = 7 \<or> m = 8 \<or> m = 9 \<or> m = 10 \<or> m = 11 \<or> m = 12"
    by presburger
  then show ?thesis by (elim disjE) (auto simp: days_before_def month_days_def)
qed

lemma days_before_num:
  "days_before lp 1 = 0" "days_before lp 2 = 31" "days_before lp 3 = 59 + (if lp then 1 else 0)"
  "days_before lp 4 = 90 + (if lp then 1 else 0)" "days_before lp 5 = 120 + (if lp then 1 else 0)"
  "days_before lp 6 = 151 + (if lp then 1 else 0)" "days_before lp 7 = 181 + (if lp then 1 else 0)"
  "days_before lp 8 = 212 + (if lp then 1 else 0)" "days_before lp 9 = 243 + (if lp then 1 else 0)"
  "days_before lp 10 = 273 + (if lp then 1 else 0)" "days_before lp 11 = 304 + (if lp then 1 else 0)"
  "days_before lp 12 = 334 + (if lp then 1 else 0)" "days_before lp 13 = 365 + (if lp then 1 else 0)"
  by (simp_all add: days_before_def)

lemma if_step: "(c \<Longrightarrow> P x) \<Longrightarrow> (\<not> c \<Longrightarrow> P y) \<Longrightarrow> P (if c then x else y)"
  by simp

lemma month_of_yday_correct:
  assumes "0 \<le> yd" and "yd < (if lp then 366 else 365)" and "m = month_of_yday lp yd"
  shows "1 \<le> m \<and> m \<le> 12 \<and> days_before lp m \<le> yd \<and> yd < days_before lp m + month_days lp m"
proof -
  define P where "P k \<longleftrightarrow> 1 \<le> k \<and> k \<le> 12 \<and> days_before lp k \<le> yd \<and> yd < days_before lp (k + 1)" for k
  define l :: int where "l = (if lp then 1 else 0)"
  have y: "yd < 365 + l" using assms(2) by (cases lp) (simp_all add: l_def)
  have "P (month_of_yday lp yd)"
    unfolding month_of_yday_def
    by (intro if_step[of _ P]; use assms(1) y in \<open>simp add: P_def days_before_num l_def[symmetric]\<close>)
  then show ?thesis using days_before_next[of m lp] by (simp add: P_def assms(3))
qed

definition days_in :: "int \<Rightarrow> int \<Rightarrow> int" where
  "days_in y m = month_days (leap y) m"

text \<open>\<open>time.Date\<close> up to the day: the number of the day \<open>y-m-d\<close>, where \<open>d\<close> may be out of range.\<close>

definition day_number :: "int \<Rightarrow> int \<Rightarrow> int \<Rightarrow> int" where
  "day_number y m d = year_start y + days_before (leap y) m + d - 1"

definition civil :: "int \<Rightarrow> int \<times> int \<times> int" where
  "civil n = (let (y, yd) = year_of n; m = month_of_yday (leap y) yd in (y, m, yd - days_before (leap y) m + 1))"

lemma civil_correct:
  assumes "civil n = (y, m, d)"
  shows "day_number y m d = n" and "1 \<le> m" and "m \<le> 12" and "1 \<le> d" and "d \<le> days_in y m"
proof -
  obtain y' yd where y: "year_of n = (y', yd)" by fastforce
  have e: "y' = y" "m = month_of_yday (leap y) yd" "d = yd - days_before (leap y) m + 1"
    using assms y by (auto simp: civil_def Let_def)
  note yc = year_of_correct[OF y, unfolded e(1)]
  note mc = month_of_yday_correct[OF yc(2,3) e(2)]
  show "day_number y m d = n" using yc(1) e(3) by (simp add: day_number_def)
  show "1 \<le> m" "m \<le> 12" "1 \<le> d" "d \<le> days_in y m" using mc e(3) by (auto simp: days_in_def)
qed

lemma div_pred: "0 < k \<Longrightarrow> y div k = (y - 1) div k + (if y mod k = 0 then 1 else (0::int))"
proof (cases "y mod k = 0")
  case True
  assume "0 < k"
  moreover have "y - 1 = k * (y div k) - k + (k - 1)" using True mult_div_mod_eq[of k y] by linarith
  then have e: "y - 1 = k * (y div k - 1) + (k - 1)" by (simp only: right_diff_distrib mult_1_right)
  ultimately have "(y - 1) div k = y div k - 1" using int_div_pos_eq[OF e] by linarith
  then show ?thesis using True by simp
next
  case False
  assume k: "0 < k"
  then have "0 < y mod k" using False pos_mod_sign[of k y] by linarith
  moreover have e: "y - 1 = k * (y div k) + (y mod k - 1)" by simp
  ultimately have "(y - 1) div k = y div k" using int_div_pos_eq[OF e] k pos_mod_bound[of k y] by linarith
  then show ?thesis using False by simp
qed

lemma leap_arith: "(C \<Longrightarrow> B) \<Longrightarrow> (B \<Longrightarrow> A) \<Longrightarrow> (if A \<and> (\<not> B \<or> C) then 366 else 365) =
    365 + (if A then 1 else 0) - (if B then 1 else 0) + (if C then 1 else (0::int))"
  by (cases A; cases B; cases C; simp)

lemma mod_mod_100: "y mod 400 mod 100 = y mod (100::int)"
  by (rule mod_mod_cancel) simp

lemma mod_mod_4: "y mod 100 mod 4 = y mod (4::int)"
  by (rule mod_mod_cancel) simp

lemma year_step:
  assumes "a = a' + u" "b = b' + v" "c = c' + (w :: int)"
  shows "365 * y + a - b + c = 365 * y - 365 + a' - b' + c' + (365 + u - v + w)"
  using assms by simp

lemma year_start_next: "year_start (y + 1) = year_start y + (if leap y then 366 else 365)"
proof -
  have m: "y mod 400 = 0 \<Longrightarrow> y mod 100 = 0" "y mod 100 = 0 \<Longrightarrow> y mod 4 = 0"
    by (metis mod_mod_100 mod_0) (metis mod_mod_4 mod_0)
  have l: "(if leap y then 366 else 365) = 365 + (if y mod 4 = 0 then 1 else 0)
      - (if y mod 100 = 0 then 1 else 0) + (if y mod 400 = 0 then 1 else (0::int))"
    unfolding leap_def by (rule leap_arith) (fact m)+
  have e1: "year_start (y + 1) = 365 * y + y div 4 - y div 100 + y div 400"
    by (simp add: year_start_def)
  have e0: "year_start y = 365 * y - 365 + (y - 1) div 4 - (y - 1) div 100 + (y - 1) div 400"
    by (simp add: year_start_def Let_def)
  show ?thesis unfolding l e1 e0 by (rule year_step; rule div_pred; simp)
qed

text \<open>The first day of the next month.\<close>

lemma next_month_start:
  assumes "1 \<le> m" "m \<le> 12"
  shows "(if m = 12 then day_number (y + 1) 1 1 else day_number y (m + 1) 1) = day_number y m 1 + days_in y m"
proof (cases "m = 12")
  case True
  then show ?thesis
    by (auto simp: day_number_def days_in_def year_start_next days_before_def month_days_def)
next
  case False
  then show ?thesis using days_before_next[OF assms, of "leap y"] by (simp add: day_number_def days_in_def)
qed

section \<open>Instants\<close>

abbreviation ns_second :: int where "ns_second \<equiv> 1000000000"
abbreviation ns_minute :: int where "ns_minute \<equiv> 60000000000"
abbreviation ns_hour :: int where "ns_hour \<equiv> 3600000000000"
abbreviation ns_day :: int where "ns_day \<equiv> 86400000000000"

text \<open>The Unix epoch on this scale, in seconds.\<close>

definition unix_epoch :: int where
  "unix_epoch = 62135596800"

definition Unix :: "int \<Rightarrow> int" where
  "Unix t = t div ns_second - unix_epoch"

definition date_of :: "int \<Rightarrow> int \<times> int \<times> int" where
  "date_of t = civil (t div ns_day)"

definition time_Date :: "int \<Rightarrow> int \<Rightarrow> int \<Rightarrow> int \<Rightarrow> int \<Rightarrow> int" where
  "time_Date y m d hours minutes = day_number y m d * ns_day + hours * ns_hour + minutes * ns_minute"

text \<open>\<open>AddDate(0, 0, days)\<close>: the date moves, the time of day stays.\<close>

definition AddDays :: "int \<Rightarrow> int \<Rightarrow> int" where
  "AddDays t days = (case date_of t of (y, m, d) \<Rightarrow> day_number y m (d + days) * ns_day + t mod ns_day)"

text \<open>\<open>Weekday\<close>: Sunday is 0.\<close>

definition Weekday :: "int \<Rightarrow> int" where
  "Weekday t = (t div ns_day + 1) mod 7"

definition Truncate :: "int \<Rightarrow> int \<Rightarrow> int" where
  "Truncate t d = t - t mod d"

lemma day_number_shift: "day_number y m (d + k) = day_number y m d + k"
  by (simp add: day_number_def)

lemma day_number_date_of: "date_of t = (y, m, d) \<Longrightarrow> day_number y m d = t div ns_day"
  using civil_correct(1) by (simp add: date_of_def)

lemma AddDays_eq [simp]: "AddDays t k = t + k * ns_day"
proof -
  obtain y m d where "date_of t = (y, m, d)" by (cases "date_of t") auto
  then show ?thesis
    using div_mult_mod_eq[of t ns_day]
    by (simp add: AddDays_def day_number_shift day_number_date_of algebra_simps)
qed

lemma time_Date_today:
  "date_of t = (y, m, d) \<Longrightarrow> time_Date y m d h mi = t div ns_day * ns_day + h * ns_hour + mi * ns_minute"
  using day_number_date_of by (simp add: time_Date_def)

end
