(* ===== verification/NextBackup.thy ===== *)
theory NextBackup
  imports Calendar ApiTypes Utils
begin

text \<open>
  The next time a plan runs, as the API shows it: \<open>GetNextBackupTime\<close> and its four cases in
  \<open>pkg/handlers/helper.go\<close>, with \<open>GetFirstDayOfWeek\<close> of \<open>pkg/util/util.go\<close>. \<open>n\<close> is the current
  instant. The search for the next month in which the date exists is a loop without a bound; it
  takes fuel here, and two or three turns are enough for every valid time (see the properties).
\<close>

section \<open>Parsing a date\<close>

text \<open>
  \<open>time.ParseInLocation("2006-01-02 15:04:05", ...)\<close> of \<open>"%d-%.2d-%.2d %.2d:%.2d:00"\<close>: the
  year has four digits, the other fields two, and every field is in its range. An error gives the
  zero time, which is the instant 0, and the error.
\<close>

definition parse_date :: "int \<Rightarrow> int \<Rightarrow> int \<Rightarrow> int \<Rightarrow> int \<Rightarrow> int option" where
  "parse_date y m d hours minutes =
    (if 1000 \<le> y \<and> y \<le> 9999 \<and> 1 \<le> m \<and> m \<le> 12 \<and> 1 \<le> d \<and> d \<le> days_in y m
        \<and> 0 \<le> hours \<and> hours \<le> 23 \<and> 0 \<le> minutes \<and> minutes \<le> 59
     then Some (time_Date y m d hours minutes) else None)"

section \<open>The four frequencies\<close>

definition getNextBackupTimeByDaily :: "int \<Rightarrow> int \<Rightarrow> int \<Rightarrow> int" where
  "getNextBackupTimeByDaily n hours minutes = (case date_of n of (y, m, d) \<Rightarrow>
     let today = time_Date y m d hours minutes in
     if today < n then AddDays today 1 else today)"

fun month_loop :: "nat \<Rightarrow> int \<Rightarrow> int \<Rightarrow> int \<Rightarrow> int \<Rightarrow> int \<Rightarrow> int option" where
  "month_loop 0 year month day hours minutes = None"
| "month_loop (Suc f) year month day hours minutes =
    (let month1 = month + 1; (y, m) = (if month1 > 12 then (year + 1, 1) else (year, month1)) in
     case parse_date y m day hours minutes of
       None \<Rightarrow> month_loop f y m day hours minutes
     | Some t \<Rightarrow> Some t)"

text \<open>\<open>None\<close> is a loop that has not ended within the fuel.\<close>

definition getNextBackupTimeByMonthly :: "nat \<Rightarrow> int \<Rightarrow> int \<Rightarrow> int \<Rightarrow> int \<Rightarrow> int option" where
  "getNextBackupTimeByMonthly fuel n hours minutes day = (case date_of n of (year, month, _) \<Rightarrow>
     let fDate = (case parse_date year month day hours minutes of Some t \<Rightarrow> t | None \<Rightarrow> 0);
         r = (if fDate < n then month_loop fuel year month day hours minutes else Some fDate)
     in map_option (\<lambda>t. if hours \<ge> 16 then AddDays t (-1) else t) r)"

definition GetFirstDayOfWeek :: "int \<Rightarrow> int" where
  "GetFirstDayOfWeek t = (let weekday = (if Weekday t = 0 then 7 else Weekday t) in
     Truncate (t - (weekday - 1) * 24 * ns_hour) (24 * ns_hour))"

definition getNextBackupTimeByWeekly :: "int \<Rightarrow> int \<Rightarrow> int \<Rightarrow> int \<Rightarrow> int" where
  "getNextBackupTimeByWeekly n hours minutes weekly0 = (let weekly = weekly0 - 1;
     backupDay = AddDays (GetFirstDayOfWeek n) weekly in
     case date_of backupDay of (y, m, d) \<Rightarrow>
       let backupTime = time_Date y m d hours minutes;
           backupTime1 = (if hours \<ge> 16 then AddDays backupTime (-1) else backupTime)
       in if backupTime1 < n then AddDays backupTime1 7 else backupTime1)"

text \<open>
  \<open>time.Now()\<close> is a local time: \<open>zone\<close> is the offset of the local zone in nanoseconds. A modulus by
  zero minutes panics. \<open>%\<close> truncates, but both operands are non-negative for a valid policy.
\<close>

definition getNextBackupTimeByHourly :: "int \<Rightarrow> int \<Rightarrow> int \<Rightarrow> int outcome" where
  "getNextBackupTimeByHourly zone n minutes =
    (if minutes = 0 then Panic ''integer divide by zero''
     else let currentMinute = (n + zone) div ns_minute mod 60;
              remainder = currentMinute smod minutes;
              nextMinute = (if remainder = 0 \<and> n mod ns_minute = 0 then currentMinute + minutes
                            else currentMinute + (minutes - remainder));
              minutesToAdd = nextMinute - currentMinute
          in Ret (Truncate (n + minutesToAdd * ns_minute) ns_minute))"

text \<open>\<open>nil\<close> is \<open>Ret None\<close>; \<open>Diverge\<close> is the month loop running on.\<close>

definition GetNextBackupTime :: "nat \<Rightarrow> int \<Rightarrow> int \<Rightarrow> BackupPolicy \<Rightarrow> int option outcome" where
  "GetNextBackupTime fuel zone n bp = (let timeParts = Split (bp_TimesOfDay bp) '':'' in
     if length timeParts \<noteq> 2 then Ret None
     else (case (Atoi (timeParts ! 0), Atoi (timeParts ! 1)) of
       (Ret hours, Ret minutes) \<Rightarrow>
         if bp_SnapshotFrequency bp = ''@hourly'' then
           bindO (getNextBackupTimeByHourly zone n minutes) (\<lambda>t. Ret (Some (Unix t)))
         else if bp_SnapshotFrequency bp = ''@weekly'' then
           Ret (Some (Unix (getNextBackupTimeByWeekly n hours minutes (bp_DayOfWeek bp))))
         else if bp_SnapshotFrequency bp = ''@monthly'' then
           (case getNextBackupTimeByMonthly fuel n hours minutes (bp_DateOfMonth bp) of
              None \<Rightarrow> Diverge | Some t \<Rightarrow> Ret (Some (Unix t)))
         else Ret (Some (Unix (getNextBackupTimeByDaily n hours minutes)))
     | _ \<Rightarrow> Ret None))"

section \<open>Lemmas\<close>

lemma floor_part: "0 < k \<Longrightarrow> n div k * k \<le> n" "0 < k \<Longrightarrow> n < n div k * k + (k::int)"
  using pos_mod_sign[of k n] pos_mod_bound[of k n] minus_mod_eq_div_mult[of n k] by linarith+

lemma day_part: "n div ns_day * ns_day \<le> n" "n < n div ns_day * ns_day + ns_day"
  by (rule floor_part, simp)+

lemma clock_bound:
  "0 \<le> h \<Longrightarrow> h \<le> 23 \<Longrightarrow> 0 \<le> m \<Longrightarrow> m \<le> 59 \<Longrightarrow> 0 \<le> h * ns_hour + m * ns_minute \<and> h * ns_hour + m * ns_minute < ns_day"
  by linarith

lemma daily_eq:
  "getNextBackupTimeByDaily n h m =
    (let t = n div ns_day * ns_day + h * ns_hour + m * ns_minute in if t < n then t + ns_day else t)"
proof -
  obtain y mo d where d: "date_of n = (y, mo, d)" by (cases "date_of n") auto
  show ?thesis unfolding getNextBackupTimeByDaily_def d prod.case time_Date_today[OF d] by (simp add: Let_def)
qed

lemma weekday_number: "(if (d + 1) mod 7 = 0 then 7 else (d + 1) mod 7) = d mod 7 + (1::int)"
proof (cases "d mod 7 = 6")
  case True
  then show ?thesis using mod_add_left_eq[of d 7 1] by simp
next
  case False
  then have "d mod 7 + 1 < 7" "0 \<le> d mod 7" using pos_mod_bound[of 7 d] pos_mod_sign[of 7 d] by simp_all
  then have "(d + 1) mod 7 = d mod 7 + 1" using mod_add_left_eq[of d 7 1] by (simp add: mod_pos_pos_trivial)
  then show ?thesis using \<open>0 \<le> d mod 7\<close> by simp
qed

lemma truncate_shift: "Truncate (n - x * k) k = (n div k - x) * k"
proof -
  have "(n - x * k) mod k = n mod k" by (metis diff_conv_add_uminus minus_mult_left mod_mult_self1)
  then show ?thesis using minus_mod_eq_div_mult[of n k] by (simp add: Truncate_def left_diff_distrib)
qed

lemma weekday_monday:
  "GetFirstDayOfWeek n = (n div ns_day - (n div ns_day) mod 7) * ns_day"
proof -
  have e: "(x + 1 - 1) * 24 * ns_hour = x * ns_day" "24 * ns_hour = ns_day" for x :: int by simp_all
  show ?thesis
    unfolding GetFirstDayOfWeek_def Weekday_def Let_def weekday_number e by (rule truncate_shift)
qed

lemma weekly_eq:
  assumes "W = GetFirstDayOfWeek n + (w - 1) * ns_day + h * ns_hour + m * ns_minute - (if h \<ge> 16 then ns_day else 0)"
  shows "getNextBackupTimeByWeekly n h m w = (if W < n then W + 7 * ns_day else W)"
proof -
  let ?b = "AddDays (GetFirstDayOfWeek n) (w - 1)"
  obtain y mo d where d: "date_of ?b = (y, mo, d)" by (cases "date_of ?b") auto
  have "?b = (n div ns_day - (n div ns_day) mod 7 + (w - 1)) * ns_day"
    unfolding AddDays_eq weekday_monday by (simp only: distrib_right)
  then have "ns_day dvd ?b" by simp
  then have "?b div ns_day * ns_day = ?b" by (rule dvd_div_mult_self)
  then have "time_Date y mo d h m = ?b + h * ns_hour + m * ns_minute"
    using time_Date_today[OF d] by simp
  then show ?thesis using assms d by (simp add: getNextBackupTimeByWeekly_def Let_def)
qed

lemma monday_bounds: "GetFirstDayOfWeek n \<le> n" "n < GetFirstDayOfWeek n + 7 * ns_day"
proof -
  obtain d r where d: "d = n div ns_day" "r = d mod 7" by blast
  then have "0 \<le> r" "r \<le> 6" by simp_all
  moreover have "d * ns_day \<le> n" "n < d * ns_day + ns_day" using day_part[of n] d(1) by blast+
  ultimately show "GetFirstDayOfWeek n \<le> n" "n < GetFirstDayOfWeek n + 7 * ns_day"
    unfolding weekday_monday d(1)[symmetric] d(2)[symmetric] left_diff_distrib by linarith+
qed

lemma parse_date_None_hours: "\<not> (0 \<le> h \<and> h \<le> 23) \<Longrightarrow> parse_date y m d h mi = None"
  by (auto simp: parse_date_def)

lemma month_loop_never: "(\<And>y m. parse_date y m d h mi = None) \<Longrightarrow> month_loop f y m d h mi = None"
  by (induction f arbitrary: y m) (auto simp: Let_def split: prod.split)

lemma clock_of:
  "0 \<le> c \<Longrightarrow> c < ns_day \<Longrightarrow> (d * ns_day + c) mod ns_day = c \<and> (d * ns_day + c) div ns_day = d"
  by (simp add: mod_pos_pos_trivial div_pos_pos_trivial)

lemma consecutive_months:
  assumes "1 \<le> m" "m \<le> 12" "d \<le> 31"
  shows "d \<le> days_in y m \<or> d \<le> days_in y' (if m = 12 then 1 else m + 1)"
proof -
  have "m = 1 \<or> m = 2 \<or> m = 3 \<or> m = 4 \<or> m = 5 \<or> m = 6 \<or> m = 7 \<or> m = 8 \<or> m = 9 \<or> m = 10 \<or> m = 11 \<or> m = 12"
    using assms(1,2) by presburger
  then show ?thesis using assms(3) by (elim disjE) (auto simp: days_in_def month_days_def)
qed

definition next_month :: "int \<Rightarrow> int \<Rightarrow> int \<times> int" where
  "next_month y m = (if m = 12 then (y + 1, 1) else (y, m + 1))"

lemma month_loop_Suc:
  "1 \<le> m \<Longrightarrow> m \<le> 12 \<Longrightarrow> month_loop (Suc f) y m d h mi = (case next_month y m of (y', m') \<Rightarrow>
     (case parse_date y' m' d h mi of None \<Rightarrow> month_loop f y' m' d h mi | Some t \<Rightarrow> Some t))"
  by (auto simp: next_month_def)

lemma next_month_bounds:
  assumes "1 \<le> m" "m \<le> 12" "next_month y m = (y', m')"
  shows "1 \<le> m' \<and> m' \<le> 12 \<and> y \<le> y' \<and> y' \<le> y + 1 \<and> (m \<noteq> 12 \<longrightarrow> y' = y)
    \<and> day_number y' m' 1 = day_number y m 1 + days_in y m"
  using assms next_month_start[OF assms(1,2), of y] by (auto simp: next_month_def split: if_splits)

lemma year_start_pos: "1 < y \<Longrightarrow> 365 \<le> year_start y"
proof -
  assume "1 < y"
  then obtain p where p: "p = y - 1" "1 \<le> p" by simp
  then have "p div 100 \<le> p div 4" "0 \<le> p div 400" by (simp_all add: zdiv_mono2 pos_imp_zdiv_nonneg_iff)
  then have "365 * p \<le> year_start y" unfolding year_start_def Let_def p(1)[symmetric] by linarith
  then show ?thesis using p(2) by linarith
qed

lemma days_before_nonneg: "0 \<le> days_before lp m"
  by (simp add: days_before_def)

lemma days_in_pos: "28 \<le> days_in y m"
  by (simp add: days_in_def month_days_def)

text \<open>Within two months of a valid one there is a month with the wanted day.\<close>

lemma month_loop_finds:
  assumes "1 \<le> m" "m \<le> 12" "1000 \<le> y" "y \<le> 9998" "1 \<le> d" "d \<le> 31" "0 \<le> h" "h \<le> 23" "0 \<le> mi" "mi \<le> 59"
  shows "\<exists>y' m'. month_loop (Suc (Suc f)) y m d h mi = Some (time_Date y' m' d h mi)
     \<and> 1 \<le> m' \<and> m' \<le> 12 \<and> d \<le> days_in y' m' \<and> day_number y m 1 + days_in y m \<le> day_number y' m' 1"
proof -
  obtain y1 m1 where n1: "next_month y m = (y1, m1)" by fastforce
  obtain y2 m2 where n2: "next_month y1 m1 = (y2, m2)" by fastforce
  note b1 = next_month_bounds[OF assms(1,2) n1]
  then have b2: "1 \<le> m2 \<and> m2 \<le> 12 \<and> y1 \<le> y2 \<and> y2 \<le> y1 + 1 \<and> (m1 \<noteq> 12 \<longrightarrow> y2 = y1)
      \<and> day_number y2 m2 1 = day_number y1 m1 1 + days_in y1 m1"
    using next_month_bounds[OF _ _ n2] by blast
  have y2: "y1 \<le> 9999" "y2 \<le> 9999"
    using b1 b2 n1 n2 assms(4) by (auto simp: next_month_def split: if_splits)
  have r: "month_loop (Suc (Suc f)) y m d h mi = (case parse_date y1 m1 d h mi of
      Some t \<Rightarrow> Some t | None \<Rightarrow> (case parse_date y2 m2 d h mi of Some t \<Rightarrow> Some t | None \<Rightarrow> month_loop f y2 m2 d h mi))"
    using b1 n1 n2 assms(1,2) by (simp only: month_loop_Suc prod.case split: option.split)
  have "d \<le> days_in y1 m1 \<or> d \<le> days_in y2 m2"
    using consecutive_months[of m1 d y1 y2] b1 assms(6) n2 by (auto simp: next_month_def split: if_splits)
  then show ?thesis
  proof (cases "d \<le> days_in y1 m1")
    case True
    then have "parse_date y1 m1 d h mi = Some (time_Date y1 m1 d h mi)"
      using assms b1 y2 by (simp add: parse_date_def)
    then show ?thesis using r b1 True by (intro exI[of _ y1] exI[of _ m1]) (simp del: month_loop.simps)
  next
    case False
    then have "parse_date y1 m1 d h mi = None" by (simp add: parse_date_def)
    moreover have "d \<le> days_in y2 m2" using False consecutive_months[of m1 d y1 y2] b1 assms(6) n2
      by (auto simp: next_month_def split: if_splits)
    moreover from this have "parse_date y2 m2 d h mi = Some (time_Date y2 m2 d h mi)"
      using assms b1 b2 y2 by (simp add: parse_date_def)
    ultimately show ?thesis using r b1 b2 days_in_pos[of y1 m1] by (intro exI[of _ y2] exI[of _ m2]) (simp del: month_loop.simps)
  qed
qed

section \<open>Properties\<close>

text \<open>For a valid time of day, the next daily backup is the first instant with that time of day
  that is not in the past: it is less than a day away.\<close>

theorem daily_is_next:
  assumes "0 \<le> h" "h \<le> 23" "0 \<le> m" "m \<le> 59"
  shows "n \<le> getNextBackupTimeByDaily n h m \<and> getNextBackupTimeByDaily n h m < n + ns_day
    \<and> getNextBackupTimeByDaily n h m mod ns_day = h * ns_hour + m * ns_minute"
proof -
  define d where "d = n div ns_day"
  define c where "c = h * ns_hour + m * ns_minute"
  have c: "0 \<le> c" "c < ns_day" using clock_bound[OF assms] by (simp_all add: c_def)
  have r: "getNextBackupTimeByDaily n h m = (if d * ns_day + c < n then (d + 1) * ns_day + c else d * ns_day + c)"
    unfolding daily_eq d_def c_def Let_def by (simp only: distrib_right mult_1 add.assoc add.commute add.left_commute)
  have n: "d * ns_day \<le> n" "n < d * ns_day + ns_day" using day_part[of n] by (simp_all add: d_def)
  show ?thesis
    unfolding r c_def[symmetric] using c n clock_of[OF c, of d] clock_of[OF c, of "d + 1"]
    by (auto simp only: distrib_right mult_1 split: if_split)
qed

theorem daily_is_next_witness:
  "0 \<le> getNextBackupTimeByDaily 0 2 30 \<and> getNextBackupTimeByDaily 0 2 30 < ns_day"
  using daily_is_next[of 2 30 0] by simp

text \<open>For a valid day of the week and a time before 16:00, the next weekly backup is not in the
  past, at most a week away, at that time of day and on that day of the week.\<close>

theorem weekly_is_next:
  assumes "0 \<le> h" "h < 16" "0 \<le> m" "m \<le> 59" "1 \<le> wd" "wd \<le> 7"
  shows "n \<le> getNextBackupTimeByWeekly n h m wd \<and> getNextBackupTimeByWeekly n h m wd < n + 7 * ns_day
    \<and> getNextBackupTimeByWeekly n h m wd mod ns_day = h * ns_hour + m * ns_minute
    \<and> Weekday (getNextBackupTimeByWeekly n h m wd) = wd mod 7"
proof -
  define d where "d = n div ns_day - (n div ns_day) mod 7"
  define c where "c = h * ns_hour + m * ns_minute"
  have "h \<le> 23" using assms(2) by simp
  from clock_bound[OF assms(1) this assms(3,4)] have c: "0 \<le> c" "c < ns_day" by (simp_all add: c_def)
  have mon: "GetFirstDayOfWeek n = d * ns_day" by (simp only: weekday_monday d_def)
  have b: "d * ns_day \<le> n" "n < d * ns_day + 7 * ns_day" using monday_bounds[of n] by (simp_all only: mon)
  have W: "(d + (wd - 1)) * ns_day + c = GetFirstDayOfWeek n + (wd - 1) * ns_day + h * ns_hour + m * ns_minute
      - (if h \<ge> 16 then ns_day else 0)"
    using assms(2) by (simp add: mon c_def distrib_right)
  have r: "getNextBackupTimeByWeekly n h m wd =
      (if (d + (wd - 1)) * ns_day + c < n then (d + (wd - 1) + 7) * ns_day + c else (d + (wd - 1)) * ns_day + c)"
    unfolding weekly_eq[OF W] by (simp only: distrib_right add.assoc add.commute add.left_commute)
  have d7: "d mod 7 = 0" by (simp add: d_def)
  have "(wd + d) mod 7 = wd mod 7" using mod_add_right_eq[of wd d 7] d7 by simp
  then have wk: "(d + (wd - 1) + 1) mod 7 = wd mod 7" "(d + (wd - 1) + 7 + 1) mod 7 = wd mod 7"
    using mod_add_self2[of "wd + d" 7] by (simp_all add: algebra_simps)
  let ?e = "d + (wd - 1)"
  have e: "?e * ns_day = d * ns_day + wd * ns_day - ns_day" "(?e + 7) * ns_day = d * ns_day + wd * ns_day + 6 * ns_day"
    by (simp_all add: algebra_simps)
  have wd: "1 * ns_day \<le> wd * ns_day" "wd * ns_day \<le> 7 * ns_day"
    using assms(5,6) by (intro mult_right_mono; simp)+
  show ?thesis
  proof (cases "?e * ns_day + c < n")
    case True
    have "n \<le> (?e + 7) * ns_day + c" "(?e + 7) * ns_day + c < n + 7 * ns_day"
      using True c b wd unfolding e by linarith+
    then show ?thesis
      using True clock_of[OF c, of "?e + 7"] wk(2) unfolding r c_def[symmetric] Weekday_def by (simp only: if_True)
  next
    case False
    have "n \<le> ?e * ns_day + c" "?e * ns_day + c < n + 7 * ns_day"
      using False c b wd unfolding e by linarith+
    then show ?thesis
      using False clock_of[OF c, of ?e] wk(1) unfolding r c_def[symmetric] Weekday_def by (simp only: if_False)
  qed
qed

theorem weekly_is_next_witness:
  "Weekday (getNextBackupTimeByWeekly 0 9 0 3) = 3"
  using weekly_is_next[of 9 0 3 0] by simp

text \<open>From 16:00 on the weekly rule moves the date one day back, and the one week it adds when the
  result is past is then not always enough: on every Sunday after 16:00 the next run of a plan for
  Monday 16:00 is given as that Sunday at 16:00, which is already past.\<close>

theorem late_hours_give_the_past:
  assumes "n div ns_day mod 7 = 6" and "16 * ns_hour < n mod ns_day"
  shows "getNextBackupTimeByWeekly n 16 0 1 = n div ns_day * ns_day + 16 * ns_hour
    \<and> getNextBackupTimeByWeekly n 16 0 1 < n"
proof -
  obtain d x where d: "d = n div ns_day" and x: "x = n mod ns_day" by blast
  have "n = d * ns_day + n mod ns_day" unfolding d by (rule div_mult_mod_eq[symmetric])
  then have n: "n = d * ns_day + x" by (simp only: x)
  have x16: "16 * ns_hour < x" using assms(2) by (simp only: x)
  have d6: "(d - 6) * ns_day = d * ns_day - 6 * ns_day" by (simp add: left_diff_distrib)
  have mon: "GetFirstDayOfWeek n = (d - 6) * ns_day"
    using assms(1) unfolding weekday_monday d by (simp only:)
  have W: "(d - 6) * ns_day + 16 * ns_hour - ns_day =
     GetFirstDayOfWeek n + (1 - 1) * ns_day + 16 * ns_hour + 0 * ns_minute - (if (16::int) \<ge> 16 then ns_day else 0)"
    unfolding mon by simp
  have "(d - 6) * ns_day + 16 * ns_hour - ns_day < n"
    using x16 unfolding n d6 by linarith
  then have r: "getNextBackupTimeByWeekly n 16 0 1 = (d - 6) * ns_day + 16 * ns_hour - ns_day + 7 * ns_day"
    unfolding weekly_eq[OF W] by (simp only: if_True)
  then have "getNextBackupTimeByWeekly n 16 0 1 = d * ns_day + 16 * ns_hour" unfolding d6 by linarith
  moreover have "d * ns_day + 16 * ns_hour < n" using x16 unfolding n by linarith
  ultimately show ?thesis unfolding d by (simp only:)
qed

theorem late_hours_give_the_past_witness:
  "getNextBackupTimeByWeekly (6 * ns_day + 20 * ns_hour) 16 0 1 < 6 * ns_day + 20 * ns_hour"
  using late_hours_give_the_past[of "6 * ns_day + 20 * ns_hour"] by simp

text \<open>C27: for a valid date and a time before 16:00, the search for the next monthly backup ends: two
  turns of the loop are enough, also for the 29th, 30th and 31st. The result is not in the past, on
  that day of a month and at that time of day.\<close>

theorem monthly_terminates:
  assumes "0 \<le> h" "h < 16" "0 \<le> m" "m \<le> 59" "1 \<le> day" "day \<le> 31" "2 \<le> fuel"
    and "1000 \<le> fst (date_of n)" "fst (date_of n) \<le> 9998"
  shows "\<exists>t y mo. getNextBackupTimeByMonthly fuel n h m day = Some t \<and> n \<le> t
    \<and> t = time_Date y mo day h m \<and> 1 \<le> mo \<and> mo \<le> 12 \<and> day \<le> days_in y mo"
proof -
  obtain y mo dd where d: "date_of n = (y, mo, dd)" by (cases "date_of n") auto
  have y: "1000 \<le> y" "y \<le> 9998" using assms(8,9) d by simp_all
  note cv = civil_correct[of "n div ns_day" y mo dd, OF d[unfolded date_of_def]]
  obtain f where "fuel = 2 + f" using assms(7) le_iff_add by blast
  then have f: "fuel = Suc (Suc f)" by simp
  let ?p = "parse_date y mo day h m"
  let ?f = "case ?p of Some t \<Rightarrow> t | None \<Rightarrow> 0"
  have h16: "\<not> 16 \<le> h" "h \<le> 23" using assms(2) by simp_all
  have r: "getNextBackupTimeByMonthly fuel n h m day =
      (if ?f < n then month_loop (Suc (Suc f)) y mo day h m else Some ?f)"
    using h16 d unfolding f getNextBackupTimeByMonthly_def Let_def
    by (simp del: month_loop.simps add: option.map_ident)
  show ?thesis
  proof (cases "?f < n")
    case True
    obtain y' m' where l: "month_loop (Suc (Suc f)) y mo day h m = Some (time_Date y' m' day h m)"
      "1 \<le> m'" "m' \<le> 12" "day \<le> days_in y' m'" "day_number y mo 1 + days_in y mo \<le> day_number y' m' 1"
      using month_loop_finds[OF cv(2,3) y assms(5,6,1) h16(2) assms(3,4)] by blast
    have "n div ns_day + 1 \<le> day_number y' m' day"
      using l(5) cv(1,5) assms(5) by (simp add: day_number_def)
    then have "(n div ns_day + 1) * ns_day \<le> day_number y' m' day * ns_day" by (rule mult_right_mono) simp
    then have "n \<le> time_Date y' m' day h m"
      using day_part(2)[of n] assms(1,3) unfolding time_Date_def distrib_right by linarith
    then show ?thesis using True r l by auto
  next
    case False
    have "0 < n"
    proof -
      have "1 \<le> day_number y mo dd"
        using year_start_pos[of y] days_before_nonneg[of "leap y" mo] y(1) cv(4) unfolding day_number_def by linarith
      then have "1 * ns_day \<le> n div ns_day * ns_day" unfolding cv(1) by (rule mult_right_mono) simp
      then show ?thesis using day_part(1)[of n] by linarith
    qed
    then obtain t where p: "?p = Some t" using False by (cases ?p) auto
    then have t: "t = time_Date y mo day h m" "day \<le> days_in y mo" by (auto simp: parse_date_def split: if_splits)
    have n: "n \<le> t" using False p by simp
    show ?thesis using r False p t n cv(2,3) by auto
  qed
qed

theorem monthly_terminates_witness:
  "\<exists>t. getNextBackupTimeByMonthly 2 (738154 * ns_day) 3 0 31 = Some t \<and> 738154 * ns_day \<le> t"
proof -
  have d: "date_of (738154 * ns_day) = (2021, 12, 31)"
    by (simp add: date_of_def civil_def year_of_def Let_def leap_def month_of_yday_def days_before_def)
  show ?thesis
    using monthly_terminates[of 3 0 31 2 "738154 * ns_day"] unfolding d by auto
qed

text \<open>When the hour, the minute or the day of the month is out of range no date ever parses, and the search
  for the next month runs for ever. The API refuses a day out of range but not such a time, and the cron
  translation refuses a minute over 59 but not the hour 24.\<close>

theorem monthly_invalid_never_returns:
  assumes "\<not> (0 \<le> h \<and> h \<le> 23) \<or> \<not> (0 \<le> m \<and> m \<le> 59) \<or> \<not> (1 \<le> day \<and> day \<le> 31)" and "0 < n"
  shows "getNextBackupTimeByMonthly fuel n h m day = None"
proof -
  have p: "parse_date y mo day h m = None" for y mo
    using assms(1) by (auto simp: parse_date_def days_in_def month_days_def split: if_splits)
  show ?thesis
    using assms(2) by (simp add: getNextBackupTimeByMonthly_def p month_loop_never[OF p] Let_def split: prod.split)
qed

definition midnight_policy :: BackupPolicy where
  "midnight_policy = \<lparr>bp_Enabled = True, bp_SnapshotFrequency = ''@monthly'', bp_TimesOfDay = Itoa 24 @ '':'' @ Itoa 0,
     bp_TimespanOfDay = [], bp_DayOfWeek = 1, bp_DateOfMonth = 1\<rparr>"

theorem monthly_invalid_never_returns_witness:
  "GetNextBackupTime 1000000 0 1 midnight_policy = Diverge
   \<and> (\<exists>cron. ParseToCron ''@monthly'' (bp_TimesOfDay midnight_policy) 1 1 = Ret cron)"
proof -
  have "getNextBackupTimeByMonthly 1000000 1 24 0 1 = None" by (rule monthly_invalid_never_returns) simp_all
  then show ?thesis
    unfolding GetNextBackupTime_def midnight_policy_def ParseToCron_def BackupPolicy.simps Split_times Let_def
    by (simp add: i64_range_def)
qed

text \<open>The hourly rule panics for minute 0 (a division by zero), the minute of an ordinary "every
  hour" policy; for 1 to 59 minutes the result is after the present and at most that many minutes
  away.\<close>

theorem hourly_next_or_panic:
  "(\<exists>msg. getNextBackupTimeByHourly zone n 0 = Panic msg) \<and>
   (1 \<le> m \<and> m \<le> 59 \<longrightarrow> (\<exists>t. getNextBackupTimeByHourly zone n m = Ret t \<and> n < t \<and> t \<le> n + m * ns_minute))"
proof (intro conjI impI)
  show "\<exists>msg. getNextBackupTimeByHourly zone n 0 = Panic msg"
    by (simp add: getNextBackupTimeByHourly_def)
  assume m: "1 \<le> m \<and> m \<le> 59"
  define c where "c = (n + zone) div ns_minute mod 60"
  define r where "r = c smod m"
  define k where "k = (if r = 0 \<and> n mod ns_minute = 0 then m else m - r)"
  have "0 \<le> c" by (simp add: c_def)
  then have "r = c mod m" using m by (cases "c = 0") (simp_all add: r_def smod_int_alt_def)
  then have r: "0 \<le> r" "r < m" using m by simp_all
  have "1 \<le> k" "k \<le> m" using r m by (auto simp: k_def)
  have t: "getNextBackupTimeByHourly zone n m = Ret (Truncate (n + k * ns_minute) ns_minute)"
    using m by (auto simp: getNextBackupTimeByHourly_def Let_def c_def[symmetric] r_def[symmetric] k_def)
  have "Truncate (n + k * ns_minute) ns_minute = (n div ns_minute + k) * ns_minute"
    using truncate_shift[of n "- k" ns_minute] by simp
  moreover have "n div ns_minute * ns_minute \<le> n" "n < n div ns_minute * ns_minute + ns_minute"
    by (rule floor_part, simp)+
  moreover have "1 * ns_minute \<le> k * ns_minute" "k * ns_minute \<le> m * ns_minute"
    using \<open>1 \<le> k\<close> \<open>k \<le> m\<close> by (intro mult_right_mono; simp)+
  ultimately show "\<exists>t. getNextBackupTimeByHourly zone n m = Ret t \<and> n < t \<and> t \<le> n + m * ns_minute"
    unfolding t distrib_right by auto
qed

theorem hourly_next_or_panic_witness:
  "\<exists>t. getNextBackupTimeByHourly 0 0 15 = Ret t \<and> 0 < t \<and> t \<le> 15 * ns_minute"
  using hourly_next_or_panic[of 0 0 15] by simp

end
