(* ===== verification/RepoUrl.thy ===== *)
theory RepoUrl
  imports Helpers
begin

text \<open>
  Storage addresses: \<open>net/url\<close> as far as the program parses with it, \<open>pkg/util/repo/repo.go\<close>, which
  turns the address of a bucket into region, bucket, prefix and canonical endpoint, and the parts of
  \<open>pkg/handlers\<close> that take the URL of a backup apart (\<open>ParseBackupUrl\<close>, \<open>FormatEndpoint\<close>,
  \<open>ParseRestoreBackupUrlDetail\<close>).
\<close>

section \<open>net/url\<close>

record URL =
  u_Scheme :: string
  u_Opaque :: string
  u_Host :: string
  u_Path :: string
  u_RawQuery :: string

definition cut_at :: "string \<Rightarrow> string \<Rightarrow> string \<times> string" where
  "cut_at s sep = (case index_of s sep of None \<Rightarrow> (s, []) | Some i \<Rightarrow> (take i s, drop (i + length sep) s))"

definition is_letter :: "char \<Rightarrow> bool" where
  "is_letter c \<longleftrightarrow> (let n = of_char c :: nat in (65 \<le> n \<and> n \<le> 90) \<or> (97 \<le> n \<and> n \<le> 122))"

text \<open>
  The scheme: letters, then also digits and \<open>+-.\<close>, up to a colon. \<open>None\<close> is the error "missing
  protocol scheme" (a colon at the start).
\<close>

fun scan_scheme :: "string \<Rightarrow> string \<Rightarrow> string \<Rightarrow> (string \<times> string) option" where
  "scan_scheme orig acc [] = Some ([], orig)"
| "scan_scheme orig acc (c # r) =
    (if is_letter c then scan_scheme orig (acc @ [c]) r
     else if is_digit c \<or> c \<in> {CHR ''+'', CHR ''-'', CHR ''.''} then
       (if acc = [] then Some ([], orig) else scan_scheme orig (acc @ [c]) r)
     else if c = CHR '':'' then (if acc = [] then None else Some (ToLower acc, r))
     else Some ([], orig))"

text \<open>Percent-decoding of a path or (with \<open>q\<close>) of a query component.\<close>

fun unescape :: "bool \<Rightarrow> string \<Rightarrow> string option" where
  "unescape q [] = Some []"
| "unescape q (c # r) =
    (if c = CHR ''%'' then (case r of
        a # b # t \<Rightarrow> (case (hex_val a, hex_val b) of
            (Some x, Some y) \<Rightarrow> map_option (\<lambda>u. char_of (16 * x + y) # u) (unescape q t)
          | _ \<Rightarrow> None)
      | _ \<Rightarrow> None)
     else map_option (\<lambda>u. (if q \<and> c = CHR ''+'' then CHR '' '' else c) # u) (unescape q r))"

text \<open>The characters a host may have besides non-ASCII bytes; a percent sign in a host, and the
  bracketed form of IPv6 addresses, are refused here (no storage address has them).\<close>

definition host_char :: "char \<Rightarrow> bool" where
  "host_char c \<longleftrightarrow> is_letter c \<or> is_digit c \<or> (128::nat) \<le> of_char c
     \<or> c \<in> set ''-_.~!$&()*+,;=:[]<>'' \<or> c = CHR 0x27 \<or> c = dquote"

definition valid_port :: "string \<Rightarrow> bool" where
  "valid_port host = (case index_of (rev host) '':'' of
      None \<Rightarrow> True | Some i \<Rightarrow> list_all is_digit (drop (length host - i) host))"

definition userinfo_char :: "char \<Rightarrow> bool" where
  "userinfo_char c \<longleftrightarrow> is_letter c \<or> is_digit c \<or> c \<in> set ''-._:~!$&()*+,;=%@'' \<or> c = CHR 0x27"

text \<open>The host of an authority: what follows the last at-sign.\<close>

definition parse_authority :: "string \<Rightarrow> string option" where
  "parse_authority a = (let (user, host) = (case index_of (rev a) ''@'' of
        None \<Rightarrow> (None, a)
      | Some i \<Rightarrow> (Some (take (length a - i - 1) a), drop (length a - i) a)) in
     if list_all host_char host \<and> valid_port host \<and> \<not> prefix ''['' host
        \<and> (case user of None \<Rightarrow> True | Some u \<Rightarrow> list_all userinfo_char u \<and> unescape False u \<noteq> None)
     then Some host else None)"

definition ctl_byte :: "char \<Rightarrow> bool" where
  "ctl_byte c \<longleftrightarrow> (of_char c :: nat) < 32 \<or> (of_char c :: nat) = 127"

definition url_error :: "string \<Rightarrow> gerr" where
  "url_error s = Errorf (''parse '' @ quote_string s @ '': invalid URL'')"

text \<open>\<open>url.Parse\<close>. The texts of its errors are not modelled (\<open>url_error\<close>).\<close>

definition url_Parse :: "string \<Rightarrow> URL outcome" where
  "url_Parse raw = (let (s, frag) = cut_at raw ''#'' in
    if list_ex ctl_byte s \<or> unescape False frag = None then Fail (url_error raw)
    else if s = ''*'' then Ret \<lparr>u_Scheme = [], u_Opaque = [], u_Host = [], u_Path = ''*'', u_RawQuery = []\<rparr>
    else (case scan_scheme s [] s of
        None \<Rightarrow> Fail (url_error raw)
      | Some (scheme, rest0) \<Rightarrow>
        let (rest, query) = cut_at rest0 ''?'' in
        if \<not> prefix ''/'' rest \<and> scheme \<noteq> [] then
          Ret \<lparr>u_Scheme = scheme, u_Opaque = rest, u_Host = [], u_Path = [], u_RawQuery = query\<rparr>
        else if \<not> prefix ''/'' rest \<and> Contains (fst (cut_at rest ''/'')) '':'' then Fail (url_error raw)
        else let (auth, path) =
            (if (scheme \<noteq> [] \<or> \<not> prefix ''///'' rest) \<and> prefix ''//'' rest then
               (case index_of (drop 2 rest) ''/'' of
                  None \<Rightarrow> (Some (drop 2 rest), [])
                | Some i \<Rightarrow> (Some (take i (drop 2 rest)), drop i (drop 2 rest)))
             else (None, rest)) in
          (case (case auth of None \<Rightarrow> Some [] | Some a \<Rightarrow> parse_authority a, unescape False path) of
             (Some host, Some p) \<Rightarrow>
               Ret \<lparr>u_Scheme = scheme, u_Opaque = [], u_Host = host, u_Path = p, u_RawQuery = query\<rparr>
           | _ \<Rightarrow> Fail (url_error raw))))"

text \<open>\<open>u.Query().Get(key)\<close>: the first value of the key; a part that holds a semicolon or does not
  decode is dropped.\<close>

fun query_get :: "string \<Rightarrow> string list \<Rightarrow> string" where
  "query_get key [] = []"
| "query_get key (part # parts) =
    (if part = [] \<or> Contains part '';'' then query_get key parts
     else let (k, v) = cut_at part ''='' in
       (case (unescape True k, unescape True v) of
          (Some k', Some v') \<Rightarrow> if k' = key then v' else query_get key parts
        | _ \<Rightarrow> query_get key parts))"

definition Values_Get :: "string \<Rightarrow> string \<Rightarrow> string" where
  "Values_Get raw key = query_get key (Split raw ''&'')"

section \<open>pkg/util/repo/repo.go\<close>

record RepositoryInfo =
  ri_Region :: string
  ri_Bucket :: string
  ri_Prefix :: string
  ri_Endpoint :: string
  ri_Suffix :: string

definition index_panic :: string where
  "index_panic = ''index out of range''"

text \<open>\<open>pt[1]\<close> is read before the length of \<open>pt\<close> is looked at.\<close>

definition FormatSpace :: "string \<Rightarrow> string \<Rightarrow> string \<Rightarrow> RepositoryInfo outcome" where
  "FormatSpace schema host path = (let hosts = Split host ''.'' in
    if length hosts \<noteq> 4 then errf (''invalid space host: '' @ host)
    else let hostPrefix = hosts ! 0 in
    if hostPrefix \<noteq> ''cos'' \<and> hostPrefix \<noteq> ''s3'' then errf (''invalid space host: '' @ host)
    else let region = hosts ! 1; pt = Split (TrimPrefix path ''/'') ''/'' in
    if length pt < 2 then Panic index_panic
    else (case GetSuffix (pt ! 1) ''-'' of
        Ret suf \<Rightarrow>
          let bucket = pt ! 0; pre = Join (tl pt) ''/'';
              endpoint = (if hostPrefix = ''s3''
                then schema @ ''://s3.'' @ region @ ''.amazonaws.com/'' @ bucket @ pre
                else schema @ ''://cos.'' @ region @ ''.myqcloud.com/'' @ bucket @ pre)
          in Ret \<lparr>ri_Region = region, ri_Bucket = bucket, ri_Prefix = pre, ri_Endpoint = endpoint, ri_Suffix = suf\<rparr>
      | _ \<Rightarrow> errf (''invalid space path: '' @ path)))"

definition cos_endpoint :: "string \<Rightarrow> string \<Rightarrow> string \<Rightarrow> string \<Rightarrow> string" where
  "cos_endpoint schema region bucket pre =
    (if pre \<noteq> [] then schema @ ''://cos.'' @ region @ ''.myqcloud.com/'' @ bucket @ ''/'' @ TrimRight pre ''/''
     else schema @ ''://cos.'' @ region @ ''.myqcloud.com/'' @ bucket)"

definition FormatCos :: "string \<Rightarrow> string \<Rightarrow> string \<Rightarrow> RepositoryInfo outcome" where
  "FormatCos schema host path = (let hosts = Split host ''.'' in
    if length hosts \<noteq> 4 \<and> length hosts \<noteq> 5 then errf (''invalid cos host: '' @ host)
    else let pt = Split (TrimPrefix path ''/'') ''/'';
        pre = (if length hosts = 4 then (if length pt > 1 then Join (tl pt) ''/'' else [])
               else Join pt ''/'');
        (bucket, region) = (if length hosts = 4 then (pt ! 0, hosts ! 1) else (hosts ! 0, hosts ! 2))
      in Ret \<lparr>ri_Region = region, ri_Bucket = bucket, ri_Prefix = pre,
              ri_Endpoint = cos_endpoint schema region bucket pre, ri_Suffix = []\<rparr>)"

definition FormatCosByRawUrl :: "string \<Rightarrow> RepositoryInfo outcome" where
  "FormatCosByRawUrl rawurl = bindO (url_Parse rawurl) (\<lambda>u.
    let hosts = Split (u_Host u) ''.'' in
    if length hosts \<noteq> 4 \<and> length hosts \<noteq> 5 then errf (''invalid cos host: '' @ u_Host u)
    else let pt = Split (TrimPrefix (u_Path u) ''/'') ''/'';
        (bucket, region, pre) = (if length hosts = 4 then (pt ! 0, hosts ! 1, Join (tl pt) ''/'')
                                 else (hosts ! 0, hosts ! 2, Join pt ''/''))
      in Ret \<lparr>ri_Region = region, ri_Bucket = bucket, ri_Prefix = pre,
              ri_Endpoint = cos_endpoint (u_Scheme u) region bucket pre, ri_Suffix = []\<rparr>)"

definition s3_endpoint :: "string \<Rightarrow> string \<Rightarrow> string \<Rightarrow> string" where
  "s3_endpoint region bucket pre = TrimRight
    (if pre \<noteq> [] then ''s3:https://s3.'' @ region @ ''.amazonaws.com/'' @ bucket @ ''/'' @ TrimRight pre ''/''
     else ''s3:https://s3.'' @ region @ ''.amazonaws.com/'' @ bucket) ''/''"

definition s3_parts :: "string \<Rightarrow> string \<Rightarrow> (string \<times> string \<times> string) outcome" where
  "s3_parts host path = (let parts = Split host ''.''; n = length parts in
    if n < 3 \<or> parts ! (n - 2) \<noteq> ''amazonaws'' \<or> parts ! (n - 1) \<noteq> ''com''
    then errf ''host is not a valid amazonaws.com domain''
    else if HasPrefix host ''s3.'' then
      (if n < 4 then errf ''host format invalid for s3.region.amazonaws.com''
       else let pathParts = SplitN2 path ''/'' in
         if pathParts ! 0 = [] then errf ''bucket not found in path''
         else Ret (parts ! 1, pathParts ! 0, if length pathParts = 2 then pathParts ! 1 else []))
    else if n \<ge> 5 \<and> parts ! 1 = ''s3'' then Ret (parts ! 2, parts ! 0, path)
    else if n \<ge> 4 then Ret (parts ! 1, parts ! 0, path)
    else errf ''host format not recognized'')"

definition FormatS3 :: "string \<Rightarrow> RepositoryInfo outcome" where
  "FormatS3 rawurl = bindO (url_Parse rawurl) (\<lambda>u.
    bindO (s3_parts (u_Host u) (TrimPrefix (u_Path u) ''/'')) (\<lambda>(region, bucket, pre).
      Ret \<lparr>ri_Region = region, ri_Bucket = bucket, ri_Prefix = pre,
           ri_Endpoint = s3_endpoint region bucket pre, ri_Suffix = []\<rparr>))"

section \<open>Paths\<close>

text \<open>\<open>path.Clean\<close> and \<open>path.Join\<close>.\<close>

fun clean_parts :: "bool \<Rightarrow> string list \<Rightarrow> string list \<Rightarrow> string list" where
  "clean_parts rooted acc [] = rev acc"
| "clean_parts rooted acc (p # ps) =
    (if p = [] \<or> p = ''.'' then clean_parts rooted acc ps
     else if p = ''..'' then (case acc of
        a # as \<Rightarrow> if a = ''..'' then clean_parts rooted (p # acc) ps else clean_parts rooted as ps
      | [] \<Rightarrow> if rooted then clean_parts rooted [] ps else clean_parts rooted [p] ps)
     else clean_parts rooted (p # acc) ps)"

definition path_Clean :: "string \<Rightarrow> string" where
  "path_Clean s = (let rooted = prefix ''/'' s; ps = clean_parts rooted [] (Split s ''/'') in
    if rooted then CHR ''/'' # Join ps ''/'' else if ps = [] then ''.'' else Join ps ''/'')"

definition path_Join :: "string list \<Rightarrow> string" where
  "path_Join elems = (let ne = filter (\<lambda>e. e \<noteq> []) elems in
    if ne = [] then [] else path_Clean (Join ne ''/''))"

text \<open>\<open>constant.NodeName\<close>, read from the environment, is the argument \<open>node\<close>. The result is
  (external, cache, relative path).\<close>

definition TrimPathPrefix :: "string \<Rightarrow> string \<Rightarrow> bool \<times> bool \<times> string" where
  "TrimPathPrefix node p0 = (let p = (if \<not> HasSuffix p0 ''/'' then p0 @ ''/'' else p0);
     external = ''/Files/External/'' @ node @ ''/''; cache = ''/Cache/'' @ node @ ''/'' in
     if HasPrefix p external then (True, False, TrimPrefix p external)
     else if HasPrefix p cache then (False, True, TrimPrefix p cache)
     else if HasPrefix p ''/Files/'' then (False, False, TrimPrefix p ''/Files/'')
     else (False, False, p))"

definition resolve_path :: "string \<Rightarrow> string \<Rightarrow> string \<Rightarrow> string \<Rightarrow> string" where
  "resolve_path node userspace appcache p = (case TrimPathPrefix node p of (external, cache, rel) \<Rightarrow>
     if external then path_Join [ExternalPath, rel]
     else if cache then path_Join [appcache, rel] else path_Join [userspace, rel])"

definition FormatEndpoint :: "string \<Rightarrow> string \<Rightarrow> string \<Rightarrow> string \<Rightarrow> string \<Rightarrow> string \<Rightarrow> string \<Rightarrow> RepositoryInfo outcome" where
  "FormatEndpoint node location schema host urlPath pvc cachepvc = (let p = TrimSuffix urlPath DefaultStoragePrefix in
    if location = location_String BackupLocationSpace then FormatSpace schema host p
    else if location = location_String BackupLocationTencentCloud then FormatCos schema host p
    else if location = location_String BackupLocationAwsS3 then
      bindO (FormatS3 (schema @ ''://'' @ host @ p)) (\<lambda>r.
        Ret (r\<lparr>ri_Endpoint := TrimPrefix (ri_Endpoint r) ''s3:''\<rparr>))
    else if location = location_String BackupLocationFileSystem then
      Ret \<lparr>ri_Region = [], ri_Bucket = [], ri_Prefix = [], ri_Endpoint = resolve_path node pvc cachepvc p, ri_Suffix = []\<rparr>
    else errf (''location invalid: '' @ location))"

section \<open>The URL of a backup\<close>

record BackupUrlType =
  bu_Schema :: string
  bu_Host :: string
  bu_Path :: string
  bu_Values :: string
  bu_Location :: string
  bu_Endpoint :: string
  bu_BackupId :: string
  bu_BackupName :: string
  bu_PvcPath :: string
  bu_CloudName :: string
  bu_Region :: string
  bu_Bucket :: string
  bu_Prefix :: string
  bu_OlaresSuffix :: string
  bu_FilesystemPath :: string

definition url_location :: "URL \<Rightarrow> string outcome" where
  "url_location u = (if u_Scheme u = [] \<and> u_Path u = [] then Panic ''slice bounds out of range''
     else Ret (if u_Scheme u = [] \<and> prefix ''/'' (u_Path u) then location_String BackupLocationFileSystem
       else if Contains (u_Path u) LocationTypeSpaceTag then location_String BackupLocationSpace
       else if Contains (u_Host u) LocationTypeAwsS3Tag then location_String BackupLocationAwsS3
       else if Contains (u_Host u) LocationTypeTencentCloudTag then location_String BackupLocationTencentCloud
       else []))"

definition space_cloud_name :: "string \<Rightarrow> string" where
  "space_cloud_name host = (if Contains host LocationTypeAwsS3Tag then ''aws''
     else if Contains host LocationTypeTencentCloudTag then location_String BackupLocationTencentCloud else [])"

text \<open>
  \<open>ParseBackupUrl\<close> after \<open>GetUserspacePvc\<close> has given the two volume paths; \<open>exists\<close> is
  \<open>util.IsExist\<close>, the file system.
\<close>

definition ParseBackupUrl ::
  "string \<Rightarrow> (string \<Rightarrow> bool) \<Rightarrow> string \<Rightarrow> string \<Rightarrow> string \<Rightarrow> BackupUrlType outcome" where
  "ParseBackupUrl node exists userspacePath appcachePath s = bindO (url_Parse s) (\<lambda>u. bindO (url_location u) (\<lambda>location.
    if location = [] then errf (''location is empty, url: '' @ s)
    else if TrimPrefix (u_Path u) ''/'' = [] then errf (''url invalid, path: '' @ u_Path u)
    else (case index_of (u_Path u) DefaultStoragePrefix of
        None \<Rightarrow> errf (''url invalid, url: '' @ s)
      | Some idx \<Rightarrow>
        (case SplitPath (drop (idx + length DefaultStoragePrefix) (u_Path u)) of
           Ret (backupName, backupId) \<Rightarrow>
             bindO (FormatEndpoint node location (u_Scheme u) (u_Host u) (u_Path u) userspacePath appcachePath) (\<lambda>repoInfo.
               if location = location_String BackupLocationFileSystem \<and> \<not> exists (ri_Endpoint repoInfo)
               then errf (''backup dir not exists, path: '' @ ri_Endpoint repoInfo)
               else Ret \<lparr>bu_Schema = u_Scheme u, bu_Host = u_Host u, bu_Path = TrimRight (u_Path u) ''/'',
                   bu_Values = u_RawQuery u, bu_Location = location, bu_Endpoint = ri_Endpoint repoInfo,
                   bu_BackupId = backupId, bu_BackupName = backupName, bu_PvcPath = userspacePath,
                   bu_CloudName = (if location = location_String BackupLocationSpace then space_cloud_name (u_Host u) else []),
                   bu_Region = ri_Region repoInfo, bu_Bucket = ri_Bucket repoInfo, bu_Prefix = ri_Prefix repoInfo,
                   bu_OlaresSuffix = ri_Suffix repoInfo,
                   bu_FilesystemPath = (if location = location_String BackupLocationFileSystem
                     then ri_Endpoint repoInfo else [])\<rparr>)
         | Fail e \<Rightarrow> errf (''split path errror: '' @ err_text e @ '', url: '' @ s)
         | Panic m \<Rightarrow> Panic m | Diverge \<Rightarrow> Diverge))))"

definition GetStorage :: "BackupUrlType \<Rightarrow> RestoreBackupUrlDetail" where
  "GetStorage u = \<lparr>ud_CloudName = bu_CloudName u, ud_RegionId = bu_Region u, ud_Bucket = bu_Bucket u,
     ud_Prefix = bu_Prefix u, ud_OlaresSuffix = bu_OlaresSuffix u,
     ud_FilesystemPath = (if bu_Location u = location_String BackupLocationFileSystem then bu_Endpoint u else [])\<rparr>"

definition getBucketAndPrefix :: "BackupUrlType \<Rightarrow> (string \<times> string \<times> string) outcome" where
  "getBucketAndPrefix u = (let paths = Split (TrimSet (bu_Path u) ''/'') ''/'' in
    if bu_Location u = location_String BackupLocationSpace then
      (if length paths \<noteq> 4 then errf (''path invalid, path: '' @ bu_Path u)
       else bindO (GetSuffix (paths ! 1) ''-'') (\<lambda>suf. Ret (paths ! 0, paths ! 1, suf)))
    else if length paths < 2 then errf (''path invalid, path: '' @ bu_Path u)
    else Ret (paths ! 0, Join (butlast (tl paths)) ''/'', []))"

definition getCloudName :: "BackupUrlType \<Rightarrow> string" where
  "getCloudName u = (if bu_Location u = location_String BackupLocationSpace then space_cloud_name (bu_Host u) else [])"

definition getRegionId :: "BackupUrlType \<Rightarrow> string outcome" where
  "getRegionId u = (let h = Split (bu_Host u) ''.'' in
     if length h \<noteq> 4 then errf (''region invalid, host: '' @ bu_Host u) else Ret (h ! 1))"

record RestoreUrlInfo =
  rd_storage :: RestoreBackupUrlDetail
  rd_backupName :: string
  rd_backupId :: string
  rd_resticSnapshotId :: string
  rd_snapshotTime :: string
  rd_location :: string

definition ParseRestoreBackupUrlDetail ::
  "string \<Rightarrow> (string \<Rightarrow> bool) \<Rightarrow> string \<Rightarrow> string \<Rightarrow> string \<Rightarrow> RestoreUrlInfo outcome" where
  "ParseRestoreBackupUrlDetail node exists userspace appcache u0 =
    (if u0 = [] then errf ''backupUrl is empty''
     else let u = TrimRight (TrimPrefix u0 ''s3:'') ''/'' in
     (case ParseBackupUrl node exists userspace appcache u of
        Ret t \<Rightarrow>
          if bu_BackupName t = [] then errf (''backupName is empty, backupUrl: '' @ u)
          else if bu_BackupId t = [] then errf (''backupId is empty, backupUrl: '' @ u)
          else if Values_Get (bu_Values t) ''snapshotId'' = [] then errf (''snapshotId is empty, backupUrl: '' @ u)
          else if Values_Get (bu_Values t) ''snapshotTime'' = [] then errf (''snapshotTime is empty, backupUrl: '' @ u)
          else Ret \<lparr>rd_storage = GetStorage t, rd_backupName = bu_BackupName t, rd_backupId = bu_BackupId t,
                   rd_resticSnapshotId = Values_Get (bu_Values t) ''snapshotId'',
                   rd_snapshotTime = Values_Get (bu_Values t) ''snapshotTime'', rd_location = bu_Location t\<rparr>
      | Fail e \<Rightarrow> errf (''parse backupUrl failed, backupUrl: '' @ u @ '': '' @ err_text e)
      | Panic m \<Rightarrow> Panic m | Diverge \<Rightarrow> Diverge))"

definition IsBackupLocationSpace :: "string \<Rightarrow> bool" where
  "IsBackupLocationSpace u = Contains u LocationTypeSpaceTag"

section \<open>Parsing plain addresses\<close>

text \<open>Host names of letters, digits, dashes and dots; paths and queries without characters that
  \<open>url.Parse\<close> treats specially.\<close>

definition host_plain :: "string \<Rightarrow> bool" where
  "host_plain s \<longleftrightarrow> (\<forall>c \<in> set s. is_letter c \<or> is_digit c \<or> c = CHR ''-'' \<or> c = CHR ''.'')"

definition url_plain :: "string \<Rightarrow> bool" where
  "url_plain s \<longleftrightarrow> (\<forall>c \<in> set s. c \<notin> {CHR ''#'', CHR ''?'', CHR ''%''} \<and> \<not> ctl_byte c)"

lemma plain_simps [simp]:
  "host_plain []" "url_plain []" "host_plain (a @ b) \<longleftrightarrow> host_plain a \<and> host_plain b"
  "url_plain (a @ b) \<longleftrightarrow> url_plain a \<and> url_plain b"
  "host_plain (c # s) \<longleftrightarrow> (is_letter c \<or> is_digit c \<or> c = CHR ''-'' \<or> c = CHR ''.'') \<and> host_plain s"
  "url_plain (c # s) \<longleftrightarrow> c \<notin> {CHR ''#'', CHR ''?'', CHR ''%''} \<and> \<not> ctl_byte c \<and> url_plain s"
  by (auto simp: host_plain_def url_plain_def)

lemma host_plain_not:
  "host_plain s \<Longrightarrow> \<not> is_letter c \<Longrightarrow> \<not> is_digit c \<Longrightarrow> c \<noteq> CHR ''-'' \<Longrightarrow> c \<noteq> CHR ''.'' \<Longrightarrow> c \<notin> set s"
  by (auto simp: host_plain_def)

lemma char_class [simp]:
  "\<not> is_letter (CHR ''/'')" "\<not> is_digit (CHR ''/'')" "\<not> is_letter (CHR ''@'')" "\<not> is_digit (CHR ''@'')"
  "\<not> is_letter (CHR '':'')" "\<not> is_digit (CHR '':'')" "\<not> is_letter (CHR ''#'')" "\<not> is_digit (CHR ''#'')"
  "\<not> is_letter (CHR ''?'')" "\<not> is_digit (CHR ''?'')" "\<not> is_letter (CHR ''['')" "\<not> is_digit (CHR ''['')"
  by (simp_all add: is_letter_def is_digit_def digit_val_def)

lemma unescape_plain: "CHR ''%'' \<notin> set s \<Longrightarrow> unescape False s = Some s"
  by (induction s) auto

lemma unescape_query_plain: "CHR ''%'' \<notin> set s \<Longrightarrow> CHR ''+'' \<notin> set s \<Longrightarrow> unescape True s = Some s"
  by (induction s) auto

lemma parse_authority_plain:
  assumes "host_plain host" shows "parse_authority host = Some host"
proof -
  have at: "index_of (rev host) ''@'' = None" and col: "index_of (rev host) '':'' = None"
    using host_plain_not[OF assms, of "CHR ''@''"] host_plain_not[OF assms, of "CHR '':''"]
    by (simp_all add: index_of_None_char)
  have "list_all host_char host"
    using assms by (auto simp: host_plain_def host_char_def list_all_iff)
  moreover have "\<not> prefix ''['' host" using host_plain_not[OF assms, of "CHR ''[''"] by (cases host) auto
  ultimately show ?thesis by (simp add: parse_authority_def at col valid_port_def)
qed

lemma cut_at_fresh: "c \<notin> set s \<Longrightarrow> cut_at s [c] = (s, [])"
  by (simp add: cut_at_def index_of_None_char)

lemma cut_at_char: "c \<notin> set a \<Longrightarrow> cut_at (a @ c # b) [c] = (a, b)"
  by (simp add: cut_at_def index_of_append_fresh)

lemma url_plain_not: "url_plain s \<Longrightarrow> CHR ''#'' \<notin> set s \<and> CHR ''?'' \<notin> set s \<and> CHR ''%'' \<notin> set s"
  by (auto simp: url_plain_def)

lemma url_plain_ctl: "url_plain s \<Longrightarrow> \<not> list_ex ctl_byte s"
  by (auto simp: url_plain_def list_ex_iff)

lemma host_char_plain:
  "is_letter c \<or> is_digit c \<or> c = CHR ''-'' \<or> c = CHR ''.'' \<Longrightarrow>
   c \<noteq> CHR ''#'' \<and> c \<noteq> CHR ''?'' \<and> c \<noteq> CHR ''%'' \<and> \<not> ctl_byte c"
  unfolding is_letter_def is_digit_def digit_val_def ctl_byte_def Let_def char_eq_nat
  by (auto split: if_splits)

lemma host_plain_url_plain: "host_plain s \<Longrightarrow> url_plain s"
  unfolding host_plain_def url_plain_def using host_char_plain by fast

lemma url_Parse_https:
  assumes "host_plain host" and "url_plain path"
  shows "url_Parse (''https://'' @ host @ CHR ''/'' # path) =
    Ret \<lparr>u_Scheme = ''https'', u_Opaque = [], u_Host = host, u_Path = CHR ''/'' # path, u_RawQuery = []\<rparr>"
proof -
  let ?r = "''//'' @ host @ CHR ''/'' # path" and ?s = "''https://'' @ host @ CHR ''/'' # path"
  have pl: "url_plain ?s" "url_plain ?r"
    using assms(2) host_plain_url_plain[OF assms(1)] by (simp_all add: ctl_byte_def)
  note n = url_plain_not[OF pl(1), THEN conjunct1] url_plain_not[OF pl(2), THEN conjunct2, THEN conjunct1]
  note c = url_plain_ctl[OF pl(1)]
  have sch: "scan_scheme ?s [] ?s = Some (''https'', ?r)"
    by (simp add: is_letter_def ToLower_def)
  have i: "index_of (host @ CHR ''/'' # path) ''/'' = Some (length host)"
    using host_plain_not[OF assms(1), of "CHR ''/''"] by (intro index_of_append_fresh) simp
  have u: "unescape False (CHR ''/'' # path) = Some (CHR ''/'' # path)"
    using url_plain_not[OF assms(2)] by (intro unescape_plain) simp
  show ?thesis
    unfolding url_Parse_def cut_at_fresh[OF n(1)]
    using c sch i u parse_authority_plain[OF assms(1)] cut_at_fresh[OF n(2)]
    by (simp add: Let_def)
qed

section \<open>Properties\<close>

lemma Split_dots:
  "CHR ''.'' \<notin> set a \<Longrightarrow> Split (a @ CHR ''.'' # b) ''.'' = a # Split b ''.''"
  by (rule Split_append_char)

lemma Split_amazonaws:
  assumes "CHR ''.'' \<notin> set region"
  shows "Split (region @ ''.amazonaws.com'') ''.'' = [region, ''amazonaws'', ''com'']"
proof -
  have aw: "Split ''amazonaws.com'' ''.'' = [''amazonaws'', ''com'']"
    using Split_dots[of "''amazonaws''" "''com''"] Split_fresh[of "CHR ''.''" "''com''"] by simp
  show ?thesis using Split_dots[OF assms, of "''amazonaws.com''"] aw by simp
qed

lemma FormatS3_path_style:
  assumes "host_plain region" "host_plain bucket" "url_plain pre" "CHR ''.'' \<notin> set region" "bucket \<noteq> []"
  shows "FormatS3 (''https://s3.'' @ region @ ''.amazonaws.com/'' @ bucket @ ''/'' @ pre) =
    Ret \<lparr>ri_Region = region, ri_Bucket = bucket, ri_Prefix = pre,
         ri_Endpoint = s3_endpoint region bucket pre, ri_Suffix = []\<rparr>"
proof -
  let ?h1 = "''s3.'' @ region @ ''.amazonaws.com''"
  have sp1: "Split ?h1 ''.'' = [''s3'', region, ''amazonaws'', ''com'']"
    using Split_dots[of "''s3''" "region @ ''.amazonaws.com''"] Split_amazonaws[OF assms(4)] by simp
  have "CHR ''/'' \<notin> set bucket" using host_plain_not[OF assms(2), of "CHR ''/''"] by simp
  then have sn: "SplitN2 (bucket @ CHR ''/'' # pre) ''/'' = [bucket, pre]"
    by (simp add: SplitN2_def index_of_append_fresh)
  have p1: "url_plain (bucket @ CHR ''/'' # pre)"
    using assms(3) host_plain_url_plain[OF assms(2)] by (simp add: ctl_byte_def)
  have h: "host_plain ?h1" using assms(1) by (simp add: is_letter_def is_digit_def digit_val_def)
  have "FormatS3 (''https://'' @ ?h1 @ CHR ''/'' # (bucket @ CHR ''/'' # pre)) =
      Ret \<lparr>ri_Region = region, ri_Bucket = bucket, ri_Prefix = pre,
           ri_Endpoint = s3_endpoint region bucket pre, ri_Suffix = []\<rparr>"
    unfolding FormatS3_def url_Parse_https[OF h p1]
    using sp1 sn assms(5) by (simp add: s3_parts_def Let_def HasPrefix_def TrimPrefix_def)
  thus ?thesis by simp
qed

text \<open>C30: for a bucket name without dots, other than \<open>s3\<close>, the two ways to write its https address, with the bucket
  in the path and with the bucket in the host name, are the same repository: same region, bucket, prefix and
  endpoint. Bucket and region are of the characters of a host name, the region has no dot, and the prefix needs
  no decoding. (A bucket name with a dot is valid in S3 too, but is misread in the second form.)\<close>

theorem FormatS3_styles_agree:
  assumes "host_plain region" "host_plain bucket" "url_plain pre"
    and "CHR ''.'' \<notin> set region" "CHR ''.'' \<notin> set bucket" "bucket \<noteq> []" "bucket \<noteq> ''s3''"
  shows "FormatS3 (''https://s3.'' @ region @ ''.amazonaws.com/'' @ bucket @ ''/'' @ pre) =
      FormatS3 (''https://'' @ bucket @ ''.s3.'' @ region @ ''.amazonaws.com/'' @ pre)
    \<and> FormatS3 (''https://'' @ bucket @ ''.s3.'' @ region @ ''.amazonaws.com/'' @ pre) =
      Ret \<lparr>ri_Region = region, ri_Bucket = bucket, ri_Prefix = pre,
           ri_Endpoint = s3_endpoint region bucket pre, ri_Suffix = []\<rparr>"
proof -
  let ?h2 = "bucket @ ''.s3.'' @ region @ ''.amazonaws.com''"
  have sp1: "Split (''s3.'' @ region @ ''.amazonaws.com'') ''.'' = [''s3'', region, ''amazonaws'', ''com'']"
    using Split_dots[of "''s3''" "region @ ''.amazonaws.com''"] Split_amazonaws[OF assms(4)] by simp
  have sp2: "Split ?h2 ''.'' = [bucket, ''s3'', region, ''amazonaws'', ''com'']"
    using Split_dots[OF assms(5), of "''s3.'' @ region @ ''.amazonaws.com''"] sp1 by simp
  have pr: "\<not> prefix ''s3.'' ?h2"
  proof
    assume "prefix ''s3.'' ?h2"
    then obtain t where "?h2 = ''s3'' @ CHR ''.'' # t" by (auto simp: prefix_def)
    then have "hd (Split ?h2 ''.'') = ''s3''" using Split_dots[of "''s3''" t] by simp
    then show False using sp2 assms(7) by simp
  qed
  have h: "host_plain ?h2"
    using assms(1,2) by (simp_all add: is_letter_def is_digit_def digit_val_def)
  have "FormatS3 (''https://'' @ ?h2 @ CHR ''/'' # pre) =
      Ret \<lparr>ri_Region = region, ri_Bucket = bucket, ri_Prefix = pre,
           ri_Endpoint = s3_endpoint region bucket pre, ri_Suffix = []\<rparr>"
    unfolding FormatS3_def url_Parse_https[OF h assms(3)]
    using sp2 pr by (simp add: s3_parts_def Let_def HasPrefix_def TrimPrefix_def)
  thus ?thesis using FormatS3_path_style[OF assms(1,2,3,4,6)] by simp
qed

theorem FormatS3_styles_agree_witness:
  "FormatS3 (''https://s3.'' @ ''us-east-1'' @ ''.amazonaws.com/'' @ ''mybucket'' @ ''/'' @ ''a/b'') =
   FormatS3 (''https://'' @ ''mybucket'' @ ''.s3.'' @ ''us-east-1'' @ ''.amazonaws.com/'' @ ''a/b'')"
proof -
  have h: "host_plain ''us-east-1''" "host_plain ''mybucket''" "url_plain ''a/b''"
    by (simp_all add: is_letter_def is_digit_def digit_val_def ctl_byte_def)
  show ?thesis using FormatS3_styles_agree[OF h] by simp
qed

text \<open>C37: a bucket name with one dot, as \<open>my.bucket\<close>, in an https address with the bucket in the host name: the
  part before the dot is taken for the bucket and the part after it for the region, so that the repository is
  another one than for the address with the bucket in the path, which is read right. (The parts are not
  \<open>s3\<close>, of the characters of a host name, and the prefix needs no decoding.)\<close>

theorem FormatS3_dotted_bucket:
  assumes "host_plain region" "host_plain a" "host_plain b" "url_plain pre"
    and "CHR ''.'' \<notin> set region" "CHR ''.'' \<notin> set a" "CHR ''.'' \<notin> set b" "a \<noteq> ''s3''" "b \<noteq> ''s3''"
  shows "FormatS3 (''https://'' @ (a @ ''.'' @ b) @ ''.s3.'' @ region @ ''.amazonaws.com/'' @ pre) =
      Ret \<lparr>ri_Region = b, ri_Bucket = a, ri_Prefix = pre, ri_Endpoint = s3_endpoint b a pre, ri_Suffix = []\<rparr>
    \<and> FormatS3 (''https://s3.'' @ region @ ''.amazonaws.com/'' @ (a @ ''.'' @ b) @ ''/'' @ pre) =
      Ret \<lparr>ri_Region = region, ri_Bucket = a @ ''.'' @ b, ri_Prefix = pre,
           ri_Endpoint = s3_endpoint region (a @ ''.'' @ b) pre, ri_Suffix = []\<rparr>"
proof
  let ?h = "(a @ ''.'' @ b) @ ''.s3.'' @ region @ ''.amazonaws.com''"
  have sp: "Split (''s3.'' @ region @ ''.amazonaws.com'') ''.'' = [''s3'', region, ''amazonaws'', ''com'']"
    using Split_dots[of "''s3''" "region @ ''.amazonaws.com''"] Split_amazonaws[OF assms(5)] by simp
  have sb: "Split (b @ ''.s3.'' @ region @ ''.amazonaws.com'') ''.'' = [b, ''s3'', region, ''amazonaws'', ''com'']"
    using Split_dots[OF assms(7), of "''s3.'' @ region @ ''.amazonaws.com''"] sp by simp
  have sp2: "Split ?h ''.'' = [a, b, ''s3'', region, ''amazonaws'', ''com'']"
    using Split_dots[OF assms(6), of "b @ ''.s3.'' @ region @ ''.amazonaws.com''"] sb by simp
  have pr: "\<not> prefix ''s3.'' ?h"
  proof
    assume "prefix ''s3.'' ?h"
    then obtain t where "?h = ''s3'' @ CHR ''.'' # t" by (auto simp: prefix_def)
    then have "hd (Split ?h ''.'') = ''s3''" using Split_dots[of "''s3''" t] by simp
    then show False using sp2 assms(8) by simp
  qed
  have h: "host_plain ?h"
    using assms(1-3) by (simp_all add: is_letter_def is_digit_def digit_val_def)
  have "FormatS3 (''https://'' @ ?h @ CHR ''/'' # pre) =
      Ret \<lparr>ri_Region = b, ri_Bucket = a, ri_Prefix = pre, ri_Endpoint = s3_endpoint b a pre, ri_Suffix = []\<rparr>"
    unfolding FormatS3_def url_Parse_https[OF h assms(4)]
    using sp2 pr assms(9) by (simp add: s3_parts_def Let_def HasPrefix_def TrimPrefix_def)
  then show "FormatS3 (''https://'' @ (a @ ''.'' @ b) @ ''.s3.'' @ region @ ''.amazonaws.com/'' @ pre) =
      Ret \<lparr>ri_Region = b, ri_Bucket = a, ri_Prefix = pre, ri_Endpoint = s3_endpoint b a pre, ri_Suffix = []\<rparr>" by simp
  have hb: "host_plain (a @ ''.'' @ b)" using assms(2,3) by (simp add: is_letter_def is_digit_def digit_val_def)
  show "FormatS3 (''https://s3.'' @ region @ ''.amazonaws.com/'' @ (a @ ''.'' @ b) @ ''/'' @ pre) =
      Ret \<lparr>ri_Region = region, ri_Bucket = a @ ''.'' @ b, ri_Prefix = pre,
           ri_Endpoint = s3_endpoint region (a @ ''.'' @ b) pre, ri_Suffix = []\<rparr>"
    by (rule FormatS3_path_style[OF assms(1) hb assms(4,5)]) simp
qed

theorem FormatS3_dotted_bucket_witness:
  "FormatS3 (''https://'' @ (''my'' @ ''.'' @ ''bucket'') @ ''.s3.'' @ ''us-east-1'' @ ''.amazonaws.com/'' @ ''a/b'') =
     Ret \<lparr>ri_Region = ''bucket'', ri_Bucket = ''my'', ri_Prefix = ''a/b'',
          ri_Endpoint = s3_endpoint ''bucket'' ''my'' ''a/b'', ri_Suffix = []\<rparr>"
proof -
  have h: "host_plain ''us-east-1''" "host_plain ''my''" "host_plain ''bucket''" "url_plain ''a/b''"
    by (simp_all add: is_letter_def is_digit_def digit_val_def ctl_byte_def)
  show ?thesis using FormatS3_dotted_bucket[OF h] by simp
qed

text \<open>The same for Tencent COS: \<open>cos.region.myqcloud.com/bucket/prefix\<close> and
  \<open>bucket.cos.region.myqcloud.com/prefix\<close> give the same repository, so an account configured in
  one form is found for a plan written in the other.\<close>

theorem FormatCos_styles_agree:
  assumes "CHR ''.'' \<notin> set region" "CHR ''.'' \<notin> set bucket" "CHR ''/'' \<notin> set bucket" "\<not> prefix ''/'' pre"
  shows "FormatCos schema (''cos.'' @ region @ ''.myqcloud.com'') (CHR ''/'' # bucket @ CHR ''/'' # pre) =
         FormatCos schema (bucket @ ''.cos.'' @ region @ ''.myqcloud.com'') (CHR ''/'' # pre)
    \<and> FormatCos schema (''cos.'' @ region @ ''.myqcloud.com'') (CHR ''/'' # bucket @ CHR ''/'' # pre) =
      Ret \<lparr>ri_Region = region, ri_Bucket = bucket, ri_Prefix = pre,
           ri_Endpoint = cos_endpoint schema region bucket pre, ri_Suffix = []\<rparr>"
proof -
  have my: "Split ''myqcloud.com'' ''.'' = [''myqcloud'', ''com'']"
    using Split_dots[of "''myqcloud''" "''com''"] Split_fresh[of "CHR ''.''" "''com''"] by simp
  have rg: "Split (region @ ''.myqcloud.com'') ''.'' = [region, ''myqcloud'', ''com'']"
    using Split_dots[OF assms(1), of "''myqcloud.com''"] my by simp
  have sp1: "Split (''cos.'' @ region @ ''.myqcloud.com'') ''.'' = [''cos'', region, ''myqcloud'', ''com'']"
    using Split_dots[of "''cos''" "region @ ''.myqcloud.com''"] rg by simp
  have sp2: "Split (bucket @ ''.cos.'' @ region @ ''.myqcloud.com'') ''.'' = [bucket, ''cos'', region, ''myqcloud'', ''com'']"
    using Split_dots[OF assms(2), of "''cos.'' @ region @ ''.myqcloud.com''"] sp1 by simp
  have pt: "Split (bucket @ CHR ''/'' # pre) ''/'' = bucket # Split pre ''/''"
    by (rule Split_append_char) (rule assms(3))
  show ?thesis
    using sp1 sp2 pt by (simp add: FormatCos_def Let_def TrimPrefix_def HasPrefix_def neq_Nil_conv[symmetric])
qed

theorem FormatCos_styles_agree_witness:
  "FormatCos ''https'' (''cos.'' @ ''ap-beijing'' @ ''.myqcloud.com'') (CHR ''/'' # ''bk'' @ CHR ''/'' # ''p'') =
   FormatCos ''https'' (''bk'' @ ''.cos.'' @ ''ap-beijing'' @ ''.myqcloud.com'') (CHR ''/'' # ''p'')"
  using FormatCos_styles_agree[of "''ap-beijing''" "''bk''" "''p''" "''https''"] by simp

text \<open>\<open>FormatSpace\<close> reads the second component of the path before it checks how many there are: for
  a valid host it panics exactly when the path has no slash after its first character. When it
  succeeds, the endpoint it builds has no slash between the bucket and the prefix.\<close>

theorem FormatSpace_panic_and_endpoint:
  assumes "Split host ''.'' = [kind, region, d1, d2]" and "kind = ''s3'' \<or> kind = ''cos''"
  shows "((\<exists>m. FormatSpace schema host path = Panic m) \<longleftrightarrow> CHR ''/'' \<notin> set (TrimPrefix path ''/''))
    \<and> (\<forall>r. FormatSpace schema host path = Ret r \<longrightarrow>
        ri_Endpoint r = schema @ ''://'' @ kind @ ''.'' @ region
          @ (if kind = ''s3'' then ''.amazonaws.com/'' else ''.myqcloud.com/'') @ ri_Bucket r @ ri_Prefix r)"
proof -
  let ?p = "TrimPrefix path ''/''" and ?pt = "Split (TrimPrefix path ''/'') ''/''"
  have len: "length ?pt < 2 \<longleftrightarrow> CHR ''/'' \<notin> set ?p"
  proof
    assume "length ?pt < 2"
    then have "?pt = [?p]"
      using Join_Split[of ?p "''/''"] by (cases ?pt; cases "tl ?pt") auto
    then show "CHR ''/'' \<notin> set ?p" using Split_no_sep[of ?p ?p "CHR ''/''"] by simp
  qed simp
  show ?thesis
    using assms len by (auto simp: FormatSpace_def Let_def errf_def GetSuffix_def split: if_splits)
qed

theorem FormatSpace_panic_and_endpoint_witness:
  "\<exists>m. FormatSpace ''https'' ''s3.us.amazonaws.com'' ''/did:key:z'' = Panic m"
proof -
  have s: "Split ''s3.us.amazonaws.com'' ''.'' = [''s3'', ''us'', ''amazonaws'', ''com'']"
    using Split_dots[of "''s3''" "''us.amazonaws.com''"] Split_dots[of "''us''" "''amazonaws.com''"]
      Split_dots[of "''amazonaws''" "''com''"] Split_fresh[of "CHR ''.''" "''com''"] by simp
  show ?thesis
    using FormatSpace_panic_and_endpoint[OF s, of "''https''" "''/did:key:z''"] by (simp add: TrimPrefix_def HasPrefix_def)
qed

end
