(* ===== verification/Pager.thy ===== *)
theory Pager
  imports RestoreHandler
begin

text \<open>
  \<open>GenericPager\<close> of \<open>pkg/handlers/helper.go\<close>: the page of a listing (\<open>BackupList\<close>, \<open>SnapshotList\<close> or
  \<open>RestoreList\<close>, through reflection in the source), the number of the current page and the number of
  pages. All arithmetic is on \<open>int64\<close>. A slice that is asked for with a wrapped length is a panic of
  the allocator (the length is then far above the address space).
\<close>

definition pager_limit :: "int \<Rightarrow> int" where
  "pager_limit limit = (if limit \<le> 0 then 5 else limit)"

definition pager_offset :: "int \<Rightarrow> int" where
  "pager_offset offset = (if offset < 0 then 0 else offset)"

definition GenericPager :: "int \<Rightarrow> int \<Rightarrow> 'a list \<Rightarrow> ('a list \<times> int \<times> int) outcome" where
  "GenericPager limit0 offset0 items = (let limit = pager_limit limit0; offset = pager_offset offset0;
     total = int (length items); startIndex = offset; endIndex = i64 (offset + limit);
     page = (if startIndex \<ge> total then Ret []
             else let endIndex1 = (if endIndex > total then total else endIndex);
                      n = i64 (endIndex1 - startIndex) in
               if n < 0 then Panic ''reflect.MakeSlice: negative len''
               else if n > total - startIndex then Panic ''runtime: allocation size out of range''
               else Ret (take (nat n) (drop (nat startIndex) items)));
     currentPage = i64 (offset sdiv limit + 1);
     totalPages = i64 (i64 (total + limit) - 1) sdiv limit;
     totalPages1 = (if totalPages = 0 then 1 else totalPages)
   in bindO page (\<lambda>p. Ret (p, currentPage, totalPages1)))"

section \<open>The pages of a listing\<close>

lemma i64_shift: "i64 x = (x + 2 ^ 63) mod 2 ^ 64 - 2 ^ 63"
  by (simp add: i64_def signed_take_bit_eq_take_bit_shift take_bit_eq_mod)

lemma i64_minus_modulus: "i64 (x - 2 ^ 64) = i64 x"
  using mod_add_self2[of "x - 2 ^ 64 + 2 ^ 63" "2 ^ 64"] unfolding i64_shift by (simp add: algebra_simps)

lemma i64_wrapped: "2 ^ 63 \<le> x \<Longrightarrow> x < 2 ^ 64 \<Longrightarrow> i64 x = x - 2 ^ 64"
  using i64_minus_modulus[of x] by simp

lemma sdiv_nonneg: "0 \<le> a \<Longrightarrow> 0 < b \<Longrightarrow> a sdiv b = a div (b::int)"
  by (cases "a = 0") (simp_all add: signed_divide_int_def sgn_if)

lemma sdiv_zero_iff: "0 \<le> a \<Longrightarrow> 0 < b \<Longrightarrow> (a sdiv b = 0) \<longleftrightarrow> a < (b::int)"
  by (auto simp: sdiv_nonneg zdiv_eq_0_iff)

text \<open>\<open>pages_from k l items\<close> concatenates the first \<open>k\<close> pages of length \<open>l\<close>.\<close>

fun pages_from :: "nat \<Rightarrow> nat \<Rightarrow> 'a list \<Rightarrow> 'a list" where
  "pages_from 0 l items = []"
| "pages_from (Suc k) l items = take l items @ pages_from k l (drop l items)"

lemma pages_from_take: "pages_from k l items = take (k * l) items"
  by (induction k arbitrary: items) (simp_all add: take_add)

lemma ceil_div: "0 < l \<Longrightarrow> n \<le> (n + l - 1) div l * l" for n l :: int
  using div_mult_mod_eq[of "n + l - 1" l] pos_mod_bound[of l "n + l - 1"] by linarith

lemma ceil_div_least: "0 < l \<Longrightarrow> ((n + l - 1) div l - 1) * l < n" for n l :: int
  using div_mult_mod_eq[of "n + l - 1" l] pos_mod_sign[of l "n + l - 1"]
  unfolding left_diff_distrib by linarith

lemma GenericPager_small:
  assumes "int (length items) < 2 ^ 62" "pager_limit lim < 2 ^ 62" "pager_offset off < 2 ^ 62"
  shows "GenericPager lim off items = Ret
    (take (nat (pager_limit lim)) (drop (nat (pager_offset off)) items),
     pager_offset off div pager_limit lim + 1,
     max 1 ((int (length items) + pager_limit lim - 1) div pager_limit lim))"
proof -
  obtain l o' n where l: "l = pager_limit lim" and o': "o' = pager_offset off" and n: "n = int (length items)" by blast
  have b: "0 < l" "l < 2 ^ 62" "0 \<le> o'" "o' < 2 ^ 62" "0 \<le> n" "n < 2 ^ 62"
    using assms l o' n by (simp_all add: pager_limit_def pager_offset_def)
  have i: "i64 (o' + l) = o' + l" "i64 (n + l) = n + l" "i64 (n + l - 1) = n + l - 1" "i64 (n - o') = n - o'" "i64 l = l"
    using b by simp_all
  have "o' div l \<le> o'" "0 \<le> o' div l" using b div_le_dividend[of "nat o'" "nat l"]
    by (simp_all add: pos_imp_zdiv_nonneg_iff nat_div_distrib[symmetric])
  hence c: "i64 (o' div l + 1) = o' div l + 1" using b by simp
  have p: "0 \<le> (n + l - 1) div l" using b by (simp add: pos_imp_zdiv_nonneg_iff)
  hence m: "(if (n + l - 1) div l = 0 then 1 else (n + l - 1) div l) = max 1 ((n + l - 1) div l)"
    by auto
  have s: "o' sdiv l = o' div l" "(n + l - 1) sdiv l = (n + l - 1) div l" using b by (simp_all add: sdiv_nonneg)
  have t1: "n \<le> o' \<Longrightarrow> drop (nat o') items = []" using n by simp
  have t2: "n < o' + l \<Longrightarrow> o' < n \<Longrightarrow> take (nat (n - o')) (drop (nat o') items) = take (nat l) (drop (nat o') items)"
    using n by simp
  show ?thesis
    unfolding GenericPager_def Let_def l[symmetric] o'[symmetric] n[symmetric] i s c m
    using b t1 t2 by auto
qed

text \<open>C31: for listings and parameters below 2^62, the pager returns the items from the offset on, at most
  the limit of them (5 when the limit is not positive, offset 0 when it is negative), the page number is
  the offset divided by the limit plus one, and the page count is the least number of pages that
  covers the listing (one for the empty listing); so walking the pages of the count from offset 0
  shows every item exactly once and in order.\<close>

theorem GenericPager_pages:
  fixes lim off :: int
  assumes "int (length items) < 2 ^ 62" "pager_limit lim < 2 ^ 62" "pager_offset off < 2 ^ 62"
  obtains total where
    "GenericPager lim off items = Ret (take (nat (pager_limit lim)) (drop (nat (pager_offset off)) items),
       pager_offset off div pager_limit lim + 1, total)"
    "total = (LEAST k. 1 \<le> k \<and> int (length items) \<le> k * pager_limit lim)"
    "pages_from (nat total) (nat (pager_limit lim)) items = items"
proof -
  obtain l n where l: "l = pager_limit lim" and n: "n = int (length items)" by blast
  have pos: "0 < l" using l by (simp add: pager_limit_def)
  obtain t where t: "t = max 1 ((n + l - 1) div l)" by blast
  have cover: "1 \<le> t" "n \<le> t * l"
    using t ceil_div[OF pos, of n] mult_right_mono[of "(n + l - 1) div l" t l] pos by linarith+
  have least: "t \<le> k" if "1 \<le> k" "n \<le> k * l" for k
  proof (rule ccontr)
    assume "\<not> t \<le> k"
    hence "k \<le> (n + l - 1) div l - 1" using that(1) t by linarith
    hence "k * l \<le> ((n + l - 1) div l - 1) * l" using pos by (intro mult_right_mono) simp_all
    thus False using ceil_div_least[OF pos, of n] that(2) by linarith
  qed
  have "t = (LEAST k. 1 \<le> k \<and> n \<le> k * l)"
    by (rule Least_equality[symmetric]) (use cover least in auto)
  moreover have "pages_from (nat t) (nat l) items = items"
    using cover pos n by (simp add: pages_from_take nat_mult_distrib[symmetric] nat_le_iff)
  ultimately show ?thesis
    using GenericPager_small[OF assms] that[of t] l n t by simp
qed

lemma GenericPager_pages_witness:
  "\<exists>total. GenericPager 2 2 [10::nat, 20, 30] = Ret ([30], 2, total)"
  by (rule GenericPager_pages[of "[10::nat, 20, 30]" 2 2]) (simp_all add: pager_limit_def pager_offset_def numeral_eq_Suc)

text \<open>A limit close to the largest \<open>int64\<close> with a non-zero offset inside the listing makes
  \<open>offset + limit\<close> wrap around, and the pager panics instead of returning the rest of the listing.\<close>

theorem GenericPager_overflow:
  assumes "0 < off" "off < int (length items)" "int (length items) < 2 ^ 62"
    "0 < lim" "lim < 2 ^ 63" "2 ^ 63 \<le> off + lim"
  shows "GenericPager lim off items = Panic ''runtime: allocation size out of range''"
proof -
  have w: "i64 (off + lim) = off + lim - 2 ^ 64"
    using assms by (intro i64_wrapped) simp_all
  have "i64 (off + lim - 2 ^ 64 - off) = i64 (lim - 2 ^ 64)" by simp
  also have "\<dots> = lim" unfolding i64_minus_modulus using assms by simp
  finally have "i64 (off + lim - 2 ^ 64 - off) = lim" .
  thus ?thesis using assms w
    by (simp add: GenericPager_def pager_limit_def pager_offset_def Let_def)
qed

lemma GenericPager_overflow_witness:
  "GenericPager 9223372036854775807 1 [0::nat, 0] = Panic ''runtime: allocation size out of range''"
  by (rule GenericPager_overflow) simp_all

end
