(* ===== verification/Integration.thy ===== *)
theory Integration
  imports RepoUrl SyncMap
begin

text \<open>
  The integration service (\<open>pkg/integration/integration.go\<close>, \<open>model.go\<close>): the account list and the
  account tokens fetched from the settings provider, the cache of Olares Space tokens and the cache
  of service-account tokens. The provider, the Kubernetes token API and the clock are parameters
  over an external state \<open>'x\<close>; the two caches are the state of the service.
\<close>

section \<open>Data\<close>

record SpaceToken =
  st_Name :: string
  st_Type :: string
  st_OlaresDid :: string
  st_AccessToken :: string
  st_ExpiresAt :: int
  st_Available :: bool

record IntegrationToken =
  it_Name :: string
  it_Type :: string
  it_AccessKey :: string
  it_SecretKey :: string
  it_Endpoint :: string
  it_Bucket :: string
  it_Available :: bool

record accountResponseRawData =
  rw_AccessToken :: string
  rw_RefreshToken :: string
  rw_ExpiresAt :: int
  rw_CreateAt :: int
  rw_Available :: bool
  rw_Endpoint :: string
  rw_Bucket :: string
  rw_UserId :: string
  rw_CloudUrl :: string

record accountResponseData =
  ad_Name :: string
  ad_Type :: string
  ad_RawData :: "accountResponseRawData option"

record accountResponse =
  ar_Code :: int
  ar_Message :: string
  ar_Data :: "accountResponseData option"

record accountsResponseData =
  ac_Name :: string
  ac_Type :: string
  ac_Available :: bool
  ac_CreateAt :: int
  ac_ExpiresAt :: int

text \<open>The elements of the account list are pointers, \<open>None\<close> for a JSON \<open>null\<close>.\<close>

record accountsResponse =
  as_Code :: int
  as_Message :: string
  as_Data :: "accountsResponseData option list"

record authToken =
  at_token :: string
  at_expire :: int

text \<open>
  \<open>iw_OlaresTokens\<close> and \<open>iw_authToken\<close> are the two maps of \<open>Integration\<close>; \<open>iw_ext\<close> is the rest of
  the world. A response is its HTTP status and the decoded result; a transport or a decoding error
  is \<open>Fail\<close>. Times are nanoseconds since the epoch.
\<close>

record 'x Integration =
  iw_OlaresTokens :: "(string \<times> SpaceToken) list"
  iw_authToken :: "(string \<times> authToken) list"
  iw_ext :: 'x

record 'x env =
  e_now :: "('x, int) go"
  e_createToken :: "string \<Rightarrow> string \<Rightarrow> ('x, string) go"
  e_list :: "string \<Rightarrow> string \<Rightarrow> smap \<Rightarrow> ('x, int \<times> accountsResponse) go"
  e_retrieve :: "string \<Rightarrow> string \<Rightarrow> smap \<Rightarrow> ('x, int \<times> accountResponse) go"

definition ext :: "('x, 'a) go \<Rightarrow> ('x Integration, 'a) go" where
  "ext m w = (case m (iw_ext w) of (r, x) \<Rightarrow> (r, w\<lparr>iw_ext := x\<rparr>))"

section \<open>Service-account tokens\<close>

definition auth_key :: "string \<Rightarrow> string \<Rightarrow> string" where
  "auth_key owner sa = owner @ ''_'' @ sa"

definition put_auth :: "string \<Rightarrow> authToken \<Rightarrow> 'x Integration \<Rightarrow> 'x Integration" where
  "put_auth k t w = w\<lparr>iw_authToken := mput (iw_authToken w) k t\<rparr>"

definition GetAuthToken :: "'x env \<Rightarrow> string \<Rightarrow> string \<Rightarrow> string \<Rightarrow> ('x Integration, string) go" where
  "GetAuthToken env owner namespace sa w0 = (let key = auth_key owner sa;
     refresh = tryG (ext (e_createToken env namespace sa))
       (\<lambda>tok. bindG (ext (e_now env)) (\<lambda>now w.
          (Ret tok, put_auth key \<lparr>at_token = tok, at_expire = now + 40000 * 1000000000\<rparr> w)))
       (\<lambda>e. raise (Errorf (''failed to create token for user '' @ owner @ '' in namespace '' @ namespace @ '': '' @ err_text e)))
   in (case map_of (iw_authToken w0) key of
        Some t \<Rightarrow> bindG (ext (e_now env)) (\<lambda>now. if now < at_expire t then ret (at_token t) else refresh)
      | None \<Rightarrow> refresh) w0)"

section \<open>Requests\<close>

definition provider_url :: string where
  "provider_url = ''http://integration-provider-svc.os-protected:28080''"

definition integration_auth :: "'x env \<Rightarrow> string \<Rightarrow> ('x Integration, string) go" where
  "integration_auth env owner = GetAuthToken env owner ''os-framework'' ''backup-cluster-view''"

definition formatUrl :: "string \<Rightarrow> string" where
  "formatUrl location = (if location = ''space'' then ''space'' else if location = ''awss3'' then ''awss3''
     else if location = ''tencentcloud'' then ''tencent'' else [])"

definition classify_accounts :: "int \<Rightarrow> accountsResponse \<Rightarrow> accountsResponseData option list outcome" where
  "classify_accounts status r =
     (if status \<noteq> 200 then Fail (Errorf (''request account api response not ok, status: '' @ Itoa status))
      else if as_Code r = 1 \<and> as_Message r = [] then Fail (Errorf ''integration accounts not exists'')
      else if as_Code r \<noteq> 0 then Fail (Errorf (''get integration accounts error, status: '' @ Itoa (as_Code r) @ '', message: '' @ as_Message r))
      else if as_Data r = [] then Fail (Errorf ''integration accounts not exists'')
      else Ret (as_Data r))"

definition queryIntegrationAccounts :: "'x env \<Rightarrow> string \<Rightarrow> ('x Integration, accountsResponseData option list) go" where
  "queryIntegrationAccounts env owner = bindG (integration_auth env owner) (\<lambda>auth.
     bindG (ext (e_list env (provider_url @ ''/api/account/list'') (''Bearer '' @ auth) [(''user'', owner)]))
       (\<lambda>(status, r). liftO (classify_accounts status r)))"

definition classify_account :: "int \<Rightarrow> accountResponse \<Rightarrow> (accountResponseData \<times> accountResponseRawData) outcome" where
  "classify_account status r =
     (if status \<noteq> 200 then Fail (Errorf (''request account api response not ok, status: '' @ Itoa status))
      else if ar_Code r = 1 \<and> ar_Message r = [] then Fail (Errorf ''olares space is not enabled'')
      else if ar_Code r \<noteq> 0 then Fail (Errorf (''request account api response error, status: '' @ Itoa (ar_Code r) @ '', message: '' @ ar_Message r))
      else case ar_Data r of
        None \<Rightarrow> Fail (Errorf (''request account api response data is nil, status: '' @ Itoa (ar_Code r) @ '', message: '' @ ar_Message r))
      | Some d \<Rightarrow> (case ad_RawData d of
          None \<Rightarrow> Fail (Errorf (''request account api response data is nil, status: '' @ Itoa (ar_Code r) @ '', message: '' @ ar_Message r))
        | Some raw \<Rightarrow> Ret (d, raw)))"

text \<open>The result carries the raw data beside the account: \<open>query\<close> has checked that it is not nil.\<close>

definition query :: "'x env \<Rightarrow> string \<Rightarrow> string \<Rightarrow> string \<Rightarrow> ('x Integration, accountResponseData \<times> accountResponseRawData) go" where
  "query env owner location name = bindG (integration_auth env owner) (\<lambda>auth.
     bindG (ext (e_retrieve env (provider_url @ ''/api/account/retrieve'') (''Bearer '' @ auth)
        [(''name'', name), (''type'', formatUrl location), (''user'', owner)]))
       (\<lambda>(status, r). liftO (classify_account status r)))"

definition withSpaceToken :: "accountResponseData \<times> accountResponseRawData \<Rightarrow> SpaceToken" where
  "withSpaceToken = (\<lambda>(d, raw). \<lparr>st_Name = ad_Name d, st_Type = ad_Type d, st_OlaresDid = rw_UserId raw,
     st_AccessToken = rw_AccessToken raw, st_ExpiresAt = rw_ExpiresAt raw, st_Available = rw_Available raw\<rparr>)"

definition withCloudToken :: "accountResponseData \<times> accountResponseRawData \<Rightarrow> IntegrationToken" where
  "withCloudToken = (\<lambda>(d, raw). \<lparr>it_Name = ad_Name d, it_Type = ad_Type d, it_AccessKey = ad_Name d,
     it_SecretKey = rw_AccessToken raw, it_Endpoint = rw_Endpoint raw, it_Bucket = rw_Bucket raw,
     it_Available = rw_Available raw\<rparr>)"

section \<open>Tokens\<close>

text \<open>\<open>SpaceToken.Expired\<close> at a time in nanoseconds; the expiry of a token is in milliseconds.\<close>

definition Expired :: "int \<Rightarrow> SpaceToken \<Rightarrow> bool" where
  "Expired now t = IsTimestampNearingExpiration (now div 1000000) (st_ExpiresAt t)"

definition put_space :: "string \<Rightarrow> SpaceToken \<Rightarrow> 'x Integration \<Rightarrow> 'x Integration" where
  "put_space k t w = w\<lparr>iw_OlaresTokens := mput (iw_OlaresTokens w) k t\<rparr>"

definition space_expired_text :: string where
  "space_expired_text = ''Access token expired. Please re-connect to your Olares Space in LarePass.''"

definition GetIntegrationSpaceToken :: "'x env \<Rightarrow> string \<Rightarrow> string \<Rightarrow> ('x Integration, SpaceToken) go" where
  "GetIntegrationSpaceToken env owner name w0 = (let
     fetch = bindG (query env owner ''space'' name) (\<lambda>data w.
       let token = withSpaceToken data in
       bindG (ext (e_now env)) (\<lambda>now. if Expired now token then raise (Errorf space_expired_text) else ret token)
         (put_space name token w))
   in (case map_of (iw_OlaresTokens w0) name of
        Some t \<Rightarrow> bindG (ext (e_now env)) (\<lambda>now. if \<not> Expired now t then ret t else fetch)
      | None \<Rightarrow> fetch) w0)"

definition GetIntegrationCloudToken :: "'x env \<Rightarrow> string \<Rightarrow> string \<Rightarrow> string \<Rightarrow> ('x Integration, IntegrationToken) go" where
  "GetIntegrationCloudToken env owner location name =
     bindG (query env owner location name) (\<lambda>d. ret (withCloudToken d))"

section \<open>Accounts\<close>

definition nil_account :: string where
  "nil_account = ''invalid memory address or nil pointer dereference''"

definition endpoint_matches :: "string \<Rightarrow> string \<Rightarrow> string \<Rightarrow> bool outcome" where
  "endpoint_matches location tokenEndpoint endpoint =
     (let same = (\<lambda>format. bindO (format tokenEndpoint) (\<lambda>a. bindO (format endpoint) (\<lambda>b.
            Ret (ri_Endpoint a = ri_Endpoint b))))
      in if location = ''awss3'' then same FormatS3
         else if location = ''tencentcloud'' then same FormatCosByRawUrl
         else Ret False)"

text \<open>The loop of \<open>GetIntegrationCloudAccount\<close>: the last token fetched is kept when none matches.\<close>

fun cloud_loop :: "'x env \<Rightarrow> string \<Rightarrow> string \<Rightarrow> string \<Rightarrow> IntegrationToken option \<Rightarrow>
    accountsResponseData option list \<Rightarrow> ('x Integration, IntegrationToken option) go" where
  "cloud_loop env owner location endpoint token [] = ret token"
| "cloud_loop env owner location endpoint token (None # r) = panicG nil_account"
| "cloud_loop env owner location endpoint token (Some a # r) =
     (if ac_Type a = ''space'' then cloud_loop env owner location endpoint token r
      else if Contains location (ac_Type a) then
        bindG (GetIntegrationCloudToken env owner location (ac_Name a)) (\<lambda>t.
        bindG (liftO (endpoint_matches location (it_Endpoint t) endpoint)) (\<lambda>m.
          if m then ret (Some t) else cloud_loop env owner location endpoint (Some t) r))
      else cloud_loop env owner location endpoint token r)"

definition GetIntegrationCloudAccount :: "'x env \<Rightarrow> string \<Rightarrow> string \<Rightarrow> string \<Rightarrow> ('x Integration, IntegrationToken) go" where
  "GetIntegrationCloudAccount env owner location endpoint =
     bindG (queryIntegrationAccounts env owner) (\<lambda>accounts.
     bindG (cloud_loop env owner location endpoint None accounts) (\<lambda>token. case token of
        None \<Rightarrow> raise (Errorf ''integration token not found'') | Some t \<Rightarrow> ret t))"

fun names_loop :: "string \<Rightarrow> accountsResponseData option list \<Rightarrow> string list outcome" where
  "names_loop location [] = Ret []"
| "names_loop location (None # r) = Panic nil_account"
| "names_loop location (Some a # r) =
     (if ac_Type a \<noteq> ''space'' \<and> Contains location (ac_Type a)
      then bindO (names_loop location r) (\<lambda>ns. Ret (ac_Name a # ns))
      else names_loop location r)"

definition GetIntegrationAccountsByLocation :: "'x env \<Rightarrow> string \<Rightarrow> string \<Rightarrow> ('x Integration, string list) go" where
  "GetIntegrationAccountsByLocation env owner location =
     bindG (queryIntegrationAccounts env owner) (\<lambda>accounts. liftO (names_loop location accounts))"

definition not_found_text :: "string \<Rightarrow> string \<Rightarrow> string" where
  "not_found_text owner location = ''integration account not found, owner: '' @ owner @ '', location: '' @ location"

definition name_matches :: "string \<Rightarrow> string \<Rightarrow> accountsResponseData \<Rightarrow> bool" where
  "name_matches location cfg a \<longleftrightarrow>
     location \<in> {''space'', ''filesystem''} \<and> ac_Type a = ''space'' \<and> (ac_Name a = cfg \<or> Contains (ac_Name a) cfg)
   \<or> location = ''awss3'' \<and> ac_Type a = ''awss3'' \<and> ac_Name a = cfg
   \<or> location = ''tencentcloud'' \<and> ac_Type a = ''tencent'' \<and> ac_Name a = cfg"

fun valid_loop :: "string \<Rightarrow> string \<Rightarrow> accountsResponseData option list \<Rightarrow> string outcome" where
  "valid_loop location cfg [] = Ret []"
| "valid_loop location cfg (None # r) =
     (if location \<in> {''space'', ''filesystem'', ''awss3'', ''tencentcloud''} then Panic nil_account
      else valid_loop location cfg r)"
| "valid_loop location cfg (Some a # r) = (if name_matches location cfg a then Ret (ac_Name a) else valid_loop location cfg r)"

definition ValidIntegrationNameByLocationName :: "'x env \<Rightarrow> string \<Rightarrow> string \<Rightarrow> string \<Rightarrow> ('x Integration, string) go" where
  "ValidIntegrationNameByLocationName env owner location cfg =
     bindG (queryIntegrationAccounts env owner) (\<lambda>accounts.
     bindG (liftO (valid_loop location cfg accounts)) (\<lambda>name.
       if name = [] then raise (Errorf (not_found_text owner location)) else ret name))"

fun location_loop :: "'x env \<Rightarrow> string \<Rightarrow> string \<Rightarrow> string \<Rightarrow> string \<Rightarrow>
    accountsResponseData option list \<Rightarrow> ('x Integration, string) go" where
  "location_loop env owner location bucket region [] = ret []"
| "location_loop env owner location bucket region (None # r) = panicG nil_account"
| "location_loop env owner location bucket region (Some a # r) =
     (let by_token = (\<lambda>format. bindG (GetIntegrationCloudToken env owner location (ac_Name a)) (\<lambda>t.
            bindG (liftO (format (it_Endpoint t))) (\<lambda>ti.
              if ri_Bucket ti = bucket \<and> ri_Region ti = region then ret (ac_Name a)
              else location_loop env owner location bucket region r)))
      in if Contains location (ac_Type a) then
           (if ac_Type a = ''space'' then ret (ac_Name a)
            else if ac_Type a = ''awss3'' then by_token FormatS3
            else if ac_Type a = ''tencent'' then by_token FormatCosByRawUrl
            else location_loop env owner location bucket region r)
         else location_loop env owner location bucket region r)"

text \<open>The search for a space account for the location \<open>filesystem\<close> after the account query cannot be reached.\<close>

definition GetIntegrationNameByLocation :: "'x env \<Rightarrow> string \<Rightarrow> string \<Rightarrow> string \<Rightarrow> string \<Rightarrow> ('x Integration, string) go" where
  "GetIntegrationNameByLocation env owner location bucket region =
     (if location = ''filesystem'' then ret []
      else bindG (queryIntegrationAccounts env owner) (\<lambda>accounts.
           bindG (location_loop env owner location bucket region accounts) (\<lambda>name.
             if name = [] then raise (Errorf (not_found_text owner location)) else ret name)))"

section \<open>The two token caches\<close>

interpretation auth_cache: keyed_store "\<lambda>k w. map_of (iw_authToken w) k" put_auth
  "\<lambda>k w. w\<lparr>iw_authToken := mdel (iw_authToken w) k\<rparr>"
  by unfold_locales (simp_all add: put_auth_def)

interpretation space_cache: keyed_store "\<lambda>k w. map_of (iw_OlaresTokens w) k" put_space
  "\<lambda>k w. w\<lparr>iw_OlaresTokens := mdel (iw_OlaresTokens w) k\<rparr>"
  by unfold_locales (simp_all add: put_space_def)

lemma ext_Ret_iff: "ext m w = (Ret y, w') \<longleftrightarrow> (\<exists>x. m (iw_ext w) = (Ret y, x) \<and> w' = w\<lparr>iw_ext := x\<rparr>)"
  by (auto simp: ext_def split: prod.splits)

lemma ext_eval: "m (iw_ext w) = (r, x) \<Longrightarrow> ext m w = (r, w\<lparr>iw_ext := x\<rparr>)"
  by (simp add: ext_def)

lemma put_space_sel [simp]:
  "iw_ext (put_space k t w) = iw_ext w" "iw_authToken (put_space k t w) = iw_authToken w"
  by (simp_all add: put_space_def)

lemma put_auth_sel [simp]:
  "iw_ext (put_auth k t w) = iw_ext w" "iw_OlaresTokens (put_auth k t w) = iw_OlaresTokens w"
  by (simp_all add: put_auth_def)

text \<open>A concrete provider for the witnesses: a stopped clock and two S3 accounts.\<close>

definition demo_raw :: "string \<Rightarrow> accountResponseRawData" where
  "demo_raw endpoint = \<lparr>rw_AccessToken = ''s'', rw_RefreshToken = [], rw_ExpiresAt = 100000, rw_CreateAt = 0,
     rw_Available = True, rw_Endpoint = endpoint, rw_Bucket = [], rw_UserId = ''u'', rw_CloudUrl = []\<rparr>"

definition demo_account :: "string \<Rightarrow> string \<Rightarrow> accountsResponseData" where
  "demo_account name type = \<lparr>ac_Name = name, ac_Type = type, ac_Available = True, ac_CreateAt = 0, ac_ExpiresAt = 0\<rparr>"

definition demo_endpoint :: "string \<Rightarrow> string" where
  "demo_endpoint name = (if name = ''A'' then ''https://s3.us-east-1.amazonaws.com/one/'' else ''https://s3.us-east-1.amazonaws.com/two/'')"

definition demo_env :: "nat env" where
  "demo_env = \<lparr>e_now = (\<lambda>x. (Ret 0, Suc x)), e_createToken = (\<lambda>_ _ x. (Ret ''tok'', Suc x)),
     e_list = (\<lambda>_ _ _ x. (Ret (200, \<lparr>as_Code = 0, as_Message = [],
         as_Data = [Some (demo_account ''A'' ''awss3''), Some (demo_account ''S'' ''space''), Some (demo_account ''B'' ''awss3'')]\<rparr>), Suc x)),
     e_retrieve = (\<lambda>_ _ body x. (Ret (200, \<lparr>ar_Code = 0, ar_Message = [],
         ar_Data = Some \<lparr>ad_Name = mget body ''name'', ad_Type = mget body ''type'',
           ad_RawData = Some (demo_raw (demo_endpoint (mget body ''name'')))\<rparr>\<rparr>), Suc x))\<rparr>"

definition demo_world :: "nat Integration" where
  "demo_world = \<lparr>iw_OlaresTokens = [], iw_authToken = [], iw_ext = 0\<rparr>"

lemmas demo_defs = demo_env_def demo_world_def demo_account_def demo_raw_def demo_endpoint_def

text \<open>C28: a space token that \<open>GetIntegrationSpaceToken\<close> returns was found unexpired (with its margin of
  15 seconds) by the last clock reading of the call, nothing outside happens after that reading, and the
  token is the one the cache then holds under the integration name; so an expired token is never
  handed out, whether it comes from the cache or from the provider.\<close>

theorem GetIntegrationSpaceToken_unexpired:
  assumes "GetIntegrationSpaceToken env owner name w = (Ret t, w')"
  shows "\<exists>now x. e_now env x = (Ret now, iw_ext w') \<and> \<not> Expired now t
    \<and> map_of (iw_OlaresTokens w') name = Some t"
proof -
  have fetched: "\<exists>now x. e_now env x = (Ret now, iw_ext w') \<and> \<not> Expired now t \<and> map_of (iw_OlaresTokens w') name = Some t"
    if "bindG (query env owner ''space'' name) (\<lambda>data w. bindG (ext (e_now env))
          (\<lambda>now. if Expired now (withSpaceToken data) then raise (Errorf space_expired_text) else ret (withSpaceToken data))
          (put_space name (withSpaceToken data) w)) v = (Ret t, w')" for v
    using that by (auto simp: bindG_Ret_iff ext_Ret_iff put_space_def split: if_splits) blast+
  show ?thesis
  proof (cases "map_of (iw_OlaresTokens w) name")
    case None
    thus ?thesis using assms fetched by (simp add: GetIntegrationSpaceToken_def Let_def)
  next
    case (Some t0)
    then obtain now x where e: "e_now env (iw_ext w) = (Ret now, x)"
      using assms by (auto simp: GetIntegrationSpaceToken_def Let_def bindG_Ret_iff ext_Ret_iff)
    hence r: "ext (e_now env) w = (Ret now, w\<lparr>iw_ext := x\<rparr>)" by (simp add: ext_def)
    show ?thesis
    proof (cases "Expired now t0")
      case True
      thus ?thesis using assms Some fetched[of "w\<lparr>iw_ext := x\<rparr>"]
        by (simp add: GetIntegrationSpaceToken_def Let_def bindG_Ret[of "ext (e_now env)", OF r])
    next
      case False
      thus ?thesis using assms Some e exI[of "\<lambda>now. \<not> Expired now t" now]
        by (force simp: GetIntegrationSpaceToken_def Let_def bindG_Ret[of "ext (e_now env)", OF r])
    qed
  qed
qed

lemma GetIntegrationSpaceToken_unexpired_witness:
  "\<exists>t w'. GetIntegrationSpaceToken demo_env ''alice'' ''S'' demo_world = (Ret t, w') \<and> \<not> Expired 0 t"
proof -
  obtain t w' where r: "GetIntegrationSpaceToken demo_env ''alice'' ''S'' demo_world = (Ret t, w')"
    by (simp add: GetIntegrationSpaceToken_def query_def integration_auth_def GetAuthToken_def demo_defs
        bindG_apply tryG_def ext_def Let_def classify_account_def put_auth_def put_space_def withSpaceToken_def
        Expired_def IsTimestampNearingExpiration_def mget_def)
  obtain now x where "e_now demo_env x = (Ret now, iw_ext w')" "\<not> Expired now t"
    using GetIntegrationSpaceToken_unexpired[OF r] by blast
  hence "\<not> Expired 0 t" by (simp add: demo_env_def)
  thus ?thesis using r by blast
qed

text \<open>The cache of space tokens is keyed by the integration name alone: while a token is cached and
  unexpired, a call of any owner with that name gets it, without a request to the provider.\<close>

theorem space_token_shared_between_owners:
  assumes "map_of (iw_OlaresTokens w) name = Some t" "e_now env (iw_ext w) = (Ret now, x)" "\<not> Expired now t"
  shows "GetIntegrationSpaceToken env owner name w = (Ret t, w\<lparr>iw_ext := x\<rparr>)"
proof -
  have "ext (e_now env) w = (Ret now, w\<lparr>iw_ext := x\<rparr>)" using assms(2) by (simp add: ext_def)
  thus ?thesis using assms by (simp add: GetIntegrationSpaceToken_def Let_def bindG_Ret)
qed

definition demo_space_token :: SpaceToken where
  "demo_space_token = \<lparr>st_Name = ''S'', st_Type = ''space'', st_OlaresDid = ''u'', st_AccessToken = ''s'',
     st_ExpiresAt = 100000, st_Available = True\<rparr>"

lemma space_token_shared_between_owners_witness:
  "GetIntegrationSpaceToken demo_env ''mallory'' ''S'' (put_space ''S'' demo_space_token demo_world)
     = (Ret demo_space_token, put_space ''S'' demo_space_token demo_world\<lparr>iw_ext := 1\<rparr>)"
  by (rule space_token_shared_between_owners[where now = 0])
    (simp_all add: demo_defs put_space_def demo_space_token_def Expired_def IsTimestampNearingExpiration_def)

text \<open>Once \<open>GetAuthToken\<close> has created a token, further calls for the same owner and service account
  return that token without another request to the Kubernetes API, as long as the clock has not
  advanced by 40000 seconds, whatever else happened outside.\<close>

theorem GetAuthToken_reuses:
  assumes "map_of (iw_authToken w) (auth_key owner sa) = None"
    and "e_createToken env ns sa (iw_ext w) = (Ret tok, x1)" "e_now env x1 = (Ret now1, x2)"
    and "e_now env' x3 = (Ret now2, x4)" "now2 < now1 + 40000 * 1000000000"
  shows "\<exists>w1. GetAuthToken env owner ns sa w = (Ret tok, w1) \<and> iw_ext w1 = x2 \<and>
    GetAuthToken env' owner ns' sa (w1\<lparr>iw_ext := x3\<rparr>) = (Ret tok, w1\<lparr>iw_ext := x4\<rparr>)"
proof -
  define w1 where "w1 = put_auth (auth_key owner sa) \<lparr>at_token = tok, at_expire = now1 + 40000 * 1000000000\<rparr> (w\<lparr>iw_ext := x2\<rparr>)"
  have "GetAuthToken env owner ns sa w = (Ret tok, w1)"
    using assms(1-3) by (simp add: GetAuthToken_def Let_def tryG_def ext_def bindG_def w1_def)
  moreover have "map_of (iw_authToken (w1\<lparr>iw_ext := x3\<rparr>)) (auth_key owner sa)
      = Some \<lparr>at_token = tok, at_expire = now1 + 40000 * 1000000000\<rparr>"
    by (simp add: w1_def put_auth_def)
  hence "GetAuthToken env' owner ns' sa (w1\<lparr>iw_ext := x3\<rparr>) = (Ret tok, w1\<lparr>iw_ext := x4\<rparr>)"
    using assms(4,5) by (simp add: GetAuthToken_def Let_def bindG_def tryG_def ext_def)
  ultimately show ?thesis by (auto simp: w1_def)
qed

lemma GetAuthToken_reuses_witness:
  "\<exists>w1. GetAuthToken demo_env ''alice'' ''n'' ''sa'' demo_world = (Ret ''tok'', w1) \<and> iw_ext w1 = 2 \<and>
     GetAuthToken demo_env ''alice'' ''n'' ''sa'' (w1\<lparr>iw_ext := 7\<rparr>) = (Ret ''tok'', w1\<lparr>iw_ext := 8\<rparr>)"
  by (rule GetAuthToken_reuses[where ?x1.0 = 1 and ?now1.0 = 0 and ?now2.0 = 0]) (simp_all add: demo_defs)

section \<open>Looking up accounts\<close>

lemma names_loop_spec:
  "names_loop location (map Some accs) = Ret (map ac_Name (filter (\<lambda>a. ac_Type a \<noteq> ''space'' \<and> Contains location (ac_Type a)) accs))"
  by (induction accs) simp_all

lemma valid_loop_spec:
  "valid_loop location cfg (map Some accs) = Ret (case find (name_matches location cfg) accs of None \<Rightarrow> [] | Some a \<Rightarrow> ac_Name a)"
  by (induction accs) simp_all

lemma find_None_all: "find P xs = None \<longleftrightarrow> (\<forall>x\<in>set xs. \<not> P x)"
  by (auto simp: find_None_iff)

text \<open>For the S3 and Tencent locations, looking an account up by its configured name succeeds exactly
  when the account list has an account of the provider's type with that (non-empty) name, and it then
  returns the configured name itself.\<close>

theorem ValidIntegrationName_cloud:
  assumes "queryIntegrationAccounts env owner w = (Ret (map Some accs), w')"
    and "(location, type) \<in> {(''awss3'', ''awss3''), (''tencentcloud'', ''tencent'')}" "cfg \<noteq> []"
  shows "ValidIntegrationNameByLocationName env owner location cfg w =
    (if \<exists>a\<in>set accs. ac_Type a = type \<and> ac_Name a = cfg then Ret cfg
     else Fail (Errorf (not_found_text owner location)), w')"
proof -
  have m: "name_matches location cfg a \<longleftrightarrow> ac_Type a = type \<and> ac_Name a = cfg" for a
    using assms(2) by (auto simp: name_matches_def)
  show ?thesis
  proof (cases "find (name_matches location cfg) accs")
    case None
    hence "\<not> (\<exists>a\<in>set accs. ac_Type a = type \<and> ac_Name a = cfg)" using m by (auto simp: find_None_iff)
    thus ?thesis using assms(1) None
      by (simp add: ValidIntegrationNameByLocationName_def bindG_Ret assms(1) valid_loop_spec)
  next
    case (Some a)
    hence "a \<in> set accs \<and> name_matches location cfg a" by (auto simp: find_Some_iff)
    thus ?thesis using assms(1,3) m Some
      by (auto simp: ValidIntegrationNameByLocationName_def bindG_Ret assms(1) valid_loop_spec)
  qed
qed

lemma demo_query:
  "queryIntegrationAccounts demo_env ''alice'' demo_world =
     (Ret (map Some [demo_account ''A'' ''awss3'', demo_account ''S'' ''space'', demo_account ''B'' ''awss3'']),
      \<lparr>iw_OlaresTokens = [], iw_authToken = [(''alice_backup-cluster-view'', \<lparr>at_token = ''tok'', at_expire = 40000000000000\<rparr>)], iw_ext = 3\<rparr>)"
  by (simp add: queryIntegrationAccounts_def integration_auth_def GetAuthToken_def demo_env_def demo_world_def
      bindG_apply tryG_def ext_def Let_def classify_accounts_def put_auth_def auth_key_def)

lemma ValidIntegrationName_cloud_witness:
  "fst (ValidIntegrationNameByLocationName demo_env ''alice'' ''awss3'' ''B'' demo_world) = Ret ''B''"
  by (subst ValidIntegrationName_cloud[OF demo_query, where type = "''awss3''"]) (simp_all add: demo_account_def)

text \<open>The tokens that \<open>GetIntegrationCloudAccount\<close> fetches while none of them matches, in order.\<close>

definition cloud_accounts :: "string \<Rightarrow> accountsResponseData list \<Rightarrow> accountsResponseData list" where
  "cloud_accounts location accs = filter (\<lambda>a. ac_Type a \<noteq> ''space'' \<and> Contains location (ac_Type a)) accs"

lemma cloud_loop_spec:
  assumes "\<And>a v. a \<in> set accs \<Longrightarrow> \<exists>v'. GetIntegrationCloudToken env owner location (ac_Name a) v = (Ret (tok (ac_Name a)), v')"
    and "\<And>a. a \<in> set accs \<Longrightarrow> endpoint_matches location (it_Endpoint (tok (ac_Name a))) endpoint = Ret (m (ac_Name a))"
  shows "\<exists>v'. cloud_loop env owner location endpoint t0 (map Some accs) v = (Ret (case find m (map ac_Name (cloud_accounts location accs)) of
      Some n \<Rightarrow> Some (tok n)
    | None \<Rightarrow> if cloud_accounts location accs = [] then t0 else Some (tok (ac_Name (last (cloud_accounts location accs))))), v')"
  using assms
proof (induction accs arbitrary: t0 v)
  case (Cons a accs)
  note IH = Cons.IH[OF Cons.prems(1) Cons.prems(2)]
  obtain v1 where v1: "GetIntegrationCloudToken env owner location (ac_Name a) v = (Ret (tok (ac_Name a)), v1)"
    using Cons.prems(1)[of a v] by auto
  show ?case
    using IH[of t0 v] IH[of "Some (tok (ac_Name a))" v1] Cons.prems(2)[of a] v1
    by (auto simp: cloud_accounts_def bindG_apply split: option.split)
qed (simp add: cloud_accounts_def)

text \<open>\<open>GetIntegrationCloudAccount\<close> returns the token of the first account of the location whose
  endpoint is the requested one; when no endpoint matches but the location has accounts, it returns the
  token of the last of them instead of an error.\<close>

theorem GetIntegrationCloudAccount_result:
  assumes "queryIntegrationAccounts env owner w = (Ret (map Some accs), w')"
    and "\<And>a v. a \<in> set accs \<Longrightarrow> \<exists>v'. GetIntegrationCloudToken env owner location (ac_Name a) v = (Ret (tok (ac_Name a)), v')"
    and "\<And>a. a \<in> set accs \<Longrightarrow> endpoint_matches location (it_Endpoint (tok (ac_Name a))) endpoint = Ret (m (ac_Name a))"
  shows "fst (GetIntegrationCloudAccount env owner location endpoint w) =
    (case find m (map ac_Name (cloud_accounts location accs)) of
       Some n \<Rightarrow> Ret (tok n)
     | None \<Rightarrow> if cloud_accounts location accs = [] then Fail (Errorf ''integration token not found'')
               else Ret (tok (ac_Name (last (cloud_accounts location accs)))))"
proof -
  obtain v' where "cloud_loop env owner location endpoint None (map Some accs) w' = (Ret (case find m (map ac_Name (cloud_accounts location accs)) of
      Some n \<Rightarrow> Some (tok n)
    | None \<Rightarrow> if cloud_accounts location accs = [] then None else Some (tok (ac_Name (last (cloud_accounts location accs))))), v')"
    using cloud_loop_spec[OF assms(2,3)] by blast
  thus ?thesis
    by (simp add: GetIntegrationCloudAccount_def bindG_Ret assms(1) split: option.split)
qed

lemma demo_cloud_token:
  "\<exists>v'. GetIntegrationCloudToken demo_env owner ''awss3'' n v =
     (Ret \<lparr>it_Name = n, it_Type = ''awss3'', it_AccessKey = n, it_SecretKey = ''s'',
          it_Endpoint = demo_endpoint n, it_Bucket = [], it_Available = True\<rparr>, v')"
proof -
  have "\<exists>s v1. integration_auth demo_env owner v = (Ret s, v1)"
    by (cases "map_of (iw_authToken v) (auth_key owner ''backup-cluster-view'')")
      (simp_all add: integration_auth_def GetAuthToken_def demo_env_def bindG_apply tryG_def ext_def Let_def)
  thus ?thesis
    by (auto simp: GetIntegrationCloudToken_def query_def bindG_apply ext_def demo_env_def demo_raw_def
        classify_account_def formatUrl_def withCloudToken_def mget_def)
qed

lemma demo_FormatS3:
  assumes "host_plain bucket" "bucket \<noteq> []"
  shows "FormatS3 (''https://s3.us-east-1.amazonaws.com/'' @ bucket @ ''/'') =
    Ret \<lparr>ri_Region = ''us-east-1'', ri_Bucket = bucket, ri_Prefix = [],
         ri_Endpoint = s3_endpoint ''us-east-1'' bucket [], ri_Suffix = []\<rparr>"
  using FormatS3_path_style[OF _ assms(1) _ _ assms(2), of "''us-east-1''" "[]"]
  by (simp add: is_letter_def is_digit_def digit_val_def)

lemma demo_endpoint_matches:
  "endpoint_matches ''awss3'' (demo_endpoint n) ''https://s3.us-east-1.amazonaws.com/three/'' = Ret False"
  using demo_FormatS3[of "''one''"] demo_FormatS3[of "''two''"] demo_FormatS3[of "''three''"]
  by (simp add: endpoint_matches_def demo_endpoint_def is_letter_def is_digit_def digit_val_def s3_endpoint_def TrimRight_def)

lemma GetIntegrationCloudAccount_result_witness:
  "fst (GetIntegrationCloudAccount demo_env ''alice'' ''awss3'' ''https://s3.us-east-1.amazonaws.com/three/'' demo_world) =
     Ret \<lparr>it_Name = ''B'', it_Type = ''awss3'', it_AccessKey = ''B'', it_SecretKey = ''s'',
          it_Endpoint = ''https://s3.us-east-1.amazonaws.com/two/'', it_Bucket = [], it_Available = True\<rparr>"
  by (subst GetIntegrationCloudAccount_result[OF demo_query demo_cloud_token, where m = "\<lambda>_. False"])
    (auto simp: demo_endpoint_matches demo_account_def cloud_accounts_def Contains_def, simp add: demo_endpoint_def)

end
