(* ===== verification/Float64.thy ===== *)
theory Float64
  imports Complex_Main Prelude
begin

text \<open>
  The \<open>float64\<close> arithmetic of the source, on rationals: \<open>f64 x\<close> is the nearest \<open>float64\<close>, ties to
  even (subnormals included; the range above \<open>2 ^ 1024\<close> is not used). A product of two floats is
  \<open>f64 (x * y)\<close>. It is used for the space that a backup needs (\<open>uint64(float64(size) * 1.05)\<close>) and
  for the progress of a run (\<open>int(percentDone * progressDone)\<close>).
\<close>

section \<open>Rounding\<close>

fun nbits :: "nat \<Rightarrow> nat" where
  "nbits n = (if n = 0 then 0 else Suc (nbits (n div 2)))"

declare nbits.simps [simp del]

definition pow2 :: "int \<Rightarrow> rat" where
  "pow2 e = (if 0 \<le> e then 2 ^ nat e else 1 / 2 ^ nat (- e))"

text \<open>\<open>ilog2 x\<close> is the exponent of a positive rational: the largest \<open>e\<close> with \<open>pow2 e \<le> x\<close>.\<close>

definition ilog2 :: "rat \<Rightarrow> int" where
  "ilog2 x = (if 1 \<le> x then int (nbits (nat \<lfloor>x\<rfloor>)) - 1 else - int (nbits (nat (\<lceil>1 / x\<rceil> - 1))))"

definition round_even :: "rat \<Rightarrow> int" where
  "round_even x = (let f = \<lfloor>x\<rfloor>; r = x - of_int f in
     if r < 1 / 2 then f else if 1 / 2 < r then f + 1 else if even f then f else f + 1)"

definition f64_pos :: "rat \<Rightarrow> rat" where
  "f64_pos x = (let e = max (ilog2 x) (- 1022) in of_int (round_even (x * pow2 (52 - e))) * pow2 (e - 52))"

definition f64 :: "rat \<Rightarrow> rat" where
  "f64 x = (if x = 0 then 0 else if x < 0 then - f64_pos (- x) else f64_pos x)"

text \<open>Conversion to an integer truncates toward zero.\<close>

definition f64_to_int :: "rat \<Rightarrow> int" where
  "f64_to_int x = (if x < 0 then - \<lfloor>- x\<rfloor> else \<lfloor>x\<rfloor>)"

definition required_space :: "u64 \<Rightarrow> u64" where
  "required_space backupSize = word_of_int (f64_to_int (f64 (f64 (of_int (uint backupSize)) * f64 (105 / 100))))"

definition progressDone :: int where "progressDone = 10000"

definition progress_percent :: "rat \<Rightarrow> int" where
  "progress_percent percentDone = f64_to_int (f64 (percentDone * of_int progressDone))"

section \<open>Bounds\<close>

lemma nbits_Suc: "0 < n \<Longrightarrow> nbits n = Suc (nbits (n div 2))"
  by (subst nbits.simps) simp

lemma nbits_pos: "0 < n \<Longrightarrow> 2 ^ (nbits n - 1) \<le> n \<and> n < 2 ^ nbits n \<and> 0 < nbits n"
proof (induction n rule: less_induct)
  case (less n)
  obtain m where m: "m = n div 2" by blast
  have n: "2 * m \<le> n" "n < 2 * m + 2" unfolding m by simp_all
  note e = nbits_Suc[OF less(2), folded m]
  show ?case
  proof (cases "m = 0")
    case True
    have "nbits 0 = 0" by (subst nbits.simps) simp
    thus ?thesis using e less(2) n True by simp
  next
    case False
    have "m < n" using False n by linarith
    hence IH: "2 ^ (nbits m - 1) \<le> m" "m < 2 ^ nbits m" "0 < nbits m"
      using less(1)[of m] False by simp_all
    obtain k where k: "nbits m = Suc k" using IH(3) gr0_implies_Suc by blast
    have "2 * 2 ^ k \<le> n" "n < 2 * (2 * 2 ^ k)" using IH(1,2) n unfolding k by simp_all
    thus ?thesis unfolding e k by simp
  qed
qed

lemma pow2_pos [simp]: "0 < pow2 e"
  by (simp add: pow2_def)

lemma pow2_inverse: "pow2 e * pow2 (- e) = 1"
  by (cases "e = 0"; cases "0 \<le> e") (simp_all add: pow2_def)

lemma pow2_ilog2_le: "1 \<le> x \<Longrightarrow> pow2 (ilog2 x) \<le> x"
proof -
  assume x: "1 \<le> x"
  hence f: "1 \<le> \<lfloor>x\<rfloor>" by (simp add: le_floor_iff)
  hence p: "0 < nat \<lfloor>x\<rfloor>" by linarith
  note b = nbits_pos[OF p]
  have "pow2 (ilog2 x) = 2 ^ (nbits (nat \<lfloor>x\<rfloor>) - 1)"
    using b x by (simp add: ilog2_def pow2_def nat_diff_distrib of_nat_diff)
  also have "\<dots> = of_nat (2 ^ (nbits (nat \<lfloor>x\<rfloor>) - 1))" by simp
  also have "\<dots> \<le> of_nat (nat \<lfloor>x\<rfloor>)" using b by (simp only: of_nat_le_iff)
  also have "\<dots> = of_int \<lfloor>x\<rfloor>" using f by simp
  also have "\<dots> \<le> x" by simp
  finally show ?thesis .
qed

lemma ilog2_nonneg: "1 \<le> x \<Longrightarrow> 0 \<le> ilog2 x"
proof -
  assume x: "1 \<le> x"
  hence "1 \<le> \<lfloor>x\<rfloor>" by (simp add: le_floor_iff)
  hence "0 < nat \<lfloor>x\<rfloor>" by linarith
  thus ?thesis using nbits_pos[of "nat \<lfloor>x\<rfloor>"] x by (simp add: ilog2_def)
qed

lemma pow2_less_iff: "0 \<le> e \<Longrightarrow> pow2 e < 2 ^ n \<Longrightarrow> e < int n"
proof -
  assume e: "0 \<le> e" and l: "pow2 e < 2 ^ n"
  hence "(2::rat) ^ nat e < 2 ^ n" by (simp add: pow2_def)
  hence "nat e < n" by (rule power_less_imp_less_exp[rotated]) simp
  thus ?thesis using e by linarith
qed

lemma ilog2_small: "1 \<le> x \<Longrightarrow> x < 2 ^ 53 \<Longrightarrow> 0 \<le> ilog2 x \<and> ilog2 x \<le> 52"
  using pow2_less_iff[of "ilog2 x" 53] pow2_ilog2_le[of x] ilog2_nonneg[of x] by fastforce

lemma round_even_ge: "of_int k \<le> x \<Longrightarrow> k \<le> round_even x"
proof -
  assume "of_int k \<le> x"
  hence "k \<le> \<lfloor>x\<rfloor>" by (simp add: le_floor_iff)
  thus ?thesis by (simp add: round_even_def Let_def)
qed

lemma round_even_le: "x \<le> of_int k \<Longrightarrow> round_even x \<le> k"
proof -
  assume a: "x \<le> of_int k"
  show ?thesis
  proof (cases "\<lfloor>x\<rfloor> < k")
    case True
    thus ?thesis by (simp add: round_even_def Let_def)
  next
    case False
    hence "x = of_int k" using a by (metis floor_le_iff floor_of_int le_floor_iff linorder_not_less of_int_floor_le order_antisym_conv order_trans of_int_le_iff)
    thus ?thesis by (simp add: round_even_def)
  qed
qed

text \<open>Rounding is monotone against the integers below \<open>2 ^ 53\<close>, which are exact.\<close>

lemma f64_scaled:
  assumes "1 \<le> x" "x < 2 ^ 53"
  obtains s :: nat and P where "f64 x = of_int (round_even (x * of_int (2 ^ s))) * P" "0 < P"
    "of_int (2 ^ s) * P = 1"
proof -
  obtain e where e: "e = ilog2 x" by blast
  have r: "0 \<le> e" "e \<le> 52" using ilog2_small[OF assms] e by simp_all
  have p: "pow2 (52 - e) = of_int (2 ^ nat (52 - e))" using r by (simp add: pow2_def)
  have "of_int (2 ^ nat (52 - e)) * pow2 (e - 52) = 1"
    using pow2_inverse[of "52 - e"] unfolding p by simp
  moreover have "f64 x = of_int (round_even (x * pow2 (52 - e))) * pow2 (e - 52)"
    using assms(1) r e by (simp add: f64_def f64_pos_def Let_def)
  ultimately show ?thesis using that[of "nat (52 - e)" "pow2 (e - 52)"] p by simp
qed

lemma f64_ge_int:
  assumes "1 \<le> x" "x < 2 ^ 53" "of_int n \<le> x"
  shows "of_int n \<le> f64 x"
proof -
  obtain s P where f: "f64 x = of_int (round_even (x * of_int (2 ^ s))) * P" "0 < P" "of_int (2 ^ s) * P = 1"
    using f64_scaled[OF assms(1,2)] .
  have "of_int n * of_int (2 ^ s) \<le> x * of_int (2 ^ s)" by (rule mult_right_mono[OF assms(3)]) simp
  hence "n * 2 ^ s \<le> round_even (x * of_int (2 ^ s))" by (intro round_even_ge) simp
  hence "of_int (n * 2 ^ s) \<le> (of_int (round_even (x * of_int (2 ^ s))) :: rat)" by (simp only: of_int_le_iff)
  hence "of_int (n * 2 ^ s) * P \<le> f64 x" unfolding f(1) using f(2) by (intro mult_right_mono) simp_all
  moreover have "of_int (n * 2 ^ s) * P = of_int n" using f(3) by (simp add: mult.assoc)
  ultimately show ?thesis by (simp only:)
qed

lemma f64_le_int:
  assumes "1 \<le> x" "x < 2 ^ 53" "x \<le> of_int n"
  shows "f64 x \<le> of_int n"
proof -
  obtain s P where f: "f64 x = of_int (round_even (x * of_int (2 ^ s))) * P" "0 < P" "of_int (2 ^ s) * P = 1"
    using f64_scaled[OF assms(1,2)] .
  have "x * of_int (2 ^ s) \<le> of_int n * of_int (2 ^ s)" by (rule mult_right_mono[OF assms(3)]) simp
  hence "round_even (x * of_int (2 ^ s)) \<le> n * 2 ^ s" by (intro round_even_le) simp
  hence "(of_int (round_even (x * of_int (2 ^ s))) :: rat) \<le> of_int (n * 2 ^ s)" by (simp only: of_int_le_iff)
  hence "f64 x \<le> of_int (n * 2 ^ s) * P" unfolding f(1) using f(2) by (intro mult_right_mono) simp_all
  moreover have "of_int (n * 2 ^ s) * P = of_int n" using f(3) by (simp add: mult.assoc)
  ultimately show ?thesis by (simp only:)
qed

lemma f64_int: "0 \<le> n \<Longrightarrow> n < 2 ^ 53 \<Longrightarrow> f64 (of_int n) = of_int n"
proof (cases "n = 0")
  case False
  assume n: "0 \<le> n" "n < 2 ^ 53"
  have a: "(1::rat) \<le> of_int n" using n(1) False by simp
  have b: "(of_int n :: rat) < 2 ^ 53" using n(2) by (metis of_int_less_iff of_int_numeral of_int_power)
  show ?thesis using f64_ge_int[OF a b order_refl] f64_le_int[OF a b order_refl] by linarith
qed (simp add: f64_def)

lemma pow2_powi: "pow2 e = 2 powi e"
  by (simp add: pow2_def power_int_def field_simps)

lemma pow2_add: "pow2 (a + b) = pow2 a * pow2 b"
  by (simp add: pow2_powi power_int_add)

lemma pow2_mono: "a \<le> b \<Longrightarrow> pow2 a \<le> pow2 b"
  by (simp add: pow2_powi power_int_increasing)

lemma ilog2_upper: "0 < x \<Longrightarrow> x < 1 \<Longrightarrow> ilog2 x \<le> - 1 \<and> x < pow2 (ilog2 x + 1)"
proof -
  assume x: "0 < x" "x < 1"
  obtain m where m: "m = nat (\<lceil>1 / x\<rceil> - 1)" by blast
  have "1 < 1 / x" using x by simp
  hence c: "1 < \<lceil>1 / x\<rceil>" by (simp add: less_ceiling_iff)
  hence mp: "0 < m" and "int m = \<lceil>1 / x\<rceil> - 1" using m x by simp_all
  hence mi: "of_nat m = (of_int (\<lceil>1 / x\<rceil> - 1) :: rat)" by (metis of_int_of_nat_eq)
  have "of_int (\<lceil>1 / x\<rceil> - 1) < 1 / x" using ceiling_correct[of "1 / x"] by simp
  hence ml: "of_nat m < 1 / x" using mi by simp
  note b = nbits_pos[OF mp]
  have "(2::rat) ^ (nbits m - 1) \<le> of_nat m" using b by (metis of_nat_le_iff of_nat_numeral of_nat_power)
  hence "2 ^ (nbits m - 1) < 1 / x" using ml by linarith
  hence "x < 1 / 2 ^ (nbits m - 1)" using x by (simp add: field_simps)
  moreover have e: "ilog2 x = - int (nbits m)" using x m by (simp add: ilog2_def)
  moreover have "pow2 (ilog2 x + 1) = 1 / 2 ^ (nbits m - 1)"
  proof (cases "nbits m = 1")
    case False
    hence "nat (int (nbits m) - 1) = nbits m - 1" using b by linarith
    thus ?thesis using b False unfolding e pow2_def by auto
  qed (simp add: e pow2_def)
  ultimately show ?thesis using b by simp
qed

lemma f64_unit:
  assumes "0 < x" "x < 1"
  shows "0 \<le> f64 x \<and> f64 x \<le> 1"
proof -
  obtain e where e: "e = max (ilog2 x) (- 1022)" by blast
  have el: "e \<le> - 1" using ilog2_upper[OF assms] e by simp
  have "x < pow2 (ilog2 x + 1)" using ilog2_upper[OF assms] by simp
  also have "\<dots> \<le> pow2 (e + 1)" using e by (intro pow2_mono) simp
  finally have "x * pow2 (52 - e) \<le> pow2 (e + 1) * pow2 (52 - e)"
    by (intro mult_right_mono) (simp_all add: less_imp_le)
  also have "\<dots> = of_int (2 ^ 53)" unfolding pow2_add[symmetric] by (simp add: pow2_def)
  finally have "round_even (x * pow2 (52 - e)) \<le> 2 ^ 53" by (rule round_even_le)
  hence "(of_int (round_even (x * pow2 (52 - e))) :: rat) \<le> of_int (2 ^ 53)" by (simp only: of_int_le_iff)
  hence "of_int (round_even (x * pow2 (52 - e))) * pow2 (e - 52) \<le> of_int (2 ^ 53) * pow2 (e - 52)"
    by (intro mult_right_mono) (simp_all add: less_imp_le)
  also have "of_int (2 ^ 53) = pow2 53" by (simp add: pow2_def)
  also have "pow2 53 * pow2 (e - 52) = pow2 (e + 1)" unfolding pow2_add[symmetric] by (simp add: add.commute)
  also have "\<dots> \<le> pow2 0" using el by (intro pow2_mono) simp
  finally have "of_int (round_even (x * pow2 (52 - e))) * pow2 (e - 52) \<le> 1" by (simp add: pow2_def)
  moreover have "of_int 0 \<le> x * pow2 (52 - e)" using assms by (simp add: less_imp_le)
  hence "0 \<le> round_even (x * pow2 (52 - e))" by (rule round_even_ge)
  hence "0 \<le> of_int (round_even (x * pow2 (52 - e))) * pow2 (e - 52)" by (simp add: less_imp_le)
  ultimately show ?thesis using assms e by (simp add: f64_def f64_pos_def Let_def)
qed

lemma progress_percent_range:
  assumes "0 \<le> p" "p \<le> 1"
  shows "0 \<le> progress_percent p \<and> progress_percent p \<le> progressDone"
proof -
  have x: "0 \<le> p * 10000" "p * 10000 \<le> of_int 10000" using assms by simp_all
  have "0 \<le> f64 (p * 10000) \<and> f64 (p * 10000) \<le> of_int 10000"
  proof (cases "p * 10000 = 0")
    case False
    hence pos: "0 < p * 10000" using x by linarith
    show ?thesis
    proof (cases "p * 10000 < 1")
      case True
      thus ?thesis using f64_unit[OF pos True] by simp
    next
      case ge: False
      hence a: "1 \<le> p * 10000" by simp
      moreover have b: "p * 10000 < 2 ^ 53" using x(2) by simp
      ultimately show ?thesis using f64_ge_int[OF a b, of 0] f64_le_int[OF a b x(2)] x(1) by simp
    qed
  qed (simp add: f64_def)
  thus ?thesis by (simp add: progress_percent_def progressDone_def f64_to_int_def floor_le_iff)
qed

lemma required_space_ge:
  assumes "uint n < 2 ^ 52"
  shows "n \<le> required_space n"
proof -
  obtain c where c: "c = f64 (105 / 100)" by blast
  have c1: "1 \<le> c" "c \<le> 2" using f64_ge_int[of "105 / 100" 1] f64_le_int[of "105 / 100" 2] c by simp_all
  obtain k where k: "k = uint n" by blast
  have kr: "0 \<le> k" "k < 2 ^ 52" using assms k by simp_all
  have fk: "f64 (of_int k) = of_int k" using kr by (intro f64_int) simp_all
  have "of_int k \<le> f64 (of_int k * c) \<and> f64 (of_int k * c) \<le> of_int (2 * k)"
  proof (cases "k = 0")
    case False
    hence k1: "(1::rat) \<le> of_int k" using kr by simp
    have lo: "of_int k \<le> of_int k * c" using mult_left_mono[OF c1(1), of "of_int k"] k1 by simp
    have hi: "of_int k * c \<le> of_int (2 * k)" using mult_left_mono[OF c1(2), of "of_int k"] k1 by simp
    have "(of_int (2 * k) :: rat) < of_int (2 ^ 53)" using kr(2) by (simp only: of_int_less_iff) simp
    hence b: "of_int k * c < 2 ^ 53" using hi by simp
    have a: "1 \<le> of_int k * c" using k1 lo by linarith
    show ?thesis using f64_ge_int[OF a b lo] f64_le_int[OF a b hi] by simp
  qed (simp add: f64_def)
  hence "k \<le> \<lfloor>f64 (of_int k * c)\<rfloor>" "\<lfloor>f64 (of_int k * c)\<rfloor> \<le> 2 * k" "0 \<le> f64 (of_int k * c)"
    using kr by (simp_all add: le_floor_iff floor_le_iff)
  moreover obtain F where F: "F = \<lfloor>f64 (of_int k * c)\<rfloor>" by blast
  moreover have "required_space n = word_of_int (f64_to_int (f64 (of_int k * c)))"
    unfolding required_space_def k[symmetric] c[symmetric] fk by (rule refl)
  ultimately have "required_space n = word_of_int F" and Fr: "k \<le> F" "F \<le> 2 * k"
    by (simp_all add: f64_to_int_def)
  moreover have "F mod 2 ^ 64 = F" using Fr kr by (intro mod_pos_pos_trivial) simp_all
  ultimately have "uint (required_space n) = F" "k \<le> F" by (simp_all add: uint_word_of_int)
  thus ?thesis by (simp add: word_le_def k)
qed

end
