(* ===== verification/Services.thy ===== *)
theory Services
  imports RestoreHandler Integration Float64
begin

text \<open>
  What a backup or a restore run talks to, beside the Kubernetes API (the record \<open>kube\<close>, extended
  here): the integration service, Olares Space and the application service over HTTP, the file
  system, the notification sender, the context of the run and the environment. The types of the
  backup SDK that the source fills in or reads are here too; the SDK itself is not in the repository
  and its services are arguments of the runs.

  A run works on the pair of the world and of its own object (\<open>StorageBackup\<close>, \<open>StorageRestore\<close>).
\<close>

section \<open>A world with a run object\<close>

definition up :: "('w, 'a) go \<Rightarrow> ('w \<times> 's, 'a) go" where
  "up m = (\<lambda>(w, s). case m w of (r, w') \<Rightarrow> (r, (w', s)))"

definition self :: "('w \<times> 's, 's) go" where
  "self = (\<lambda>(w, s). (Ret s, (w, s)))"

definition modify :: "('s \<Rightarrow> 's) \<Rightarrow> ('w \<times> 's, unit) go" where
  "modify f = (\<lambda>(w, s). (Ret (), (w, f s)))"

text \<open>\<open>attempt m\<close> makes the error of a call a value, for \<open>v, err := m()\<close> with a later test.\<close>

definition attempt :: "('w, 'a) go \<Rightarrow> ('w, gerr + 'a) go" where
  "attempt m = tryG m (\<lambda>x. ret (Inr x)) (\<lambda>e. ret (Inl e))"

definition ignore_error :: "('w, 'a) go \<Rightarrow> ('w, unit) go" where
  "ignore_error m = tryG m (\<lambda>_. ret ()) (\<lambda>_. ret ())"

lemma up_eval: "m w = (r, w') \<Longrightarrow> up m (w, s) = (r, (w', s))"
  by (simp add: up_def)

lemma up_Ret: "m w = (Ret x, w') \<Longrightarrow> bindG (up m) f (w, s) = f x (w', s)"
  and up_try_Ret: "m w = (Ret x, w') \<Longrightarrow> tryG (up m) f h (w, s) = f x (w', s)"
  and up_try_Fail: "m w = (Fail e, w') \<Longrightarrow> tryG (up m) f h (w, s) = h e (w', s)"
  and up_Fail: "m w = (Fail e, w') \<Longrightarrow> bindG (up m) f (w, s) = (Fail e, (w', s))"
  by (simp_all add: bindG_Ret tryG_Ret tryG_Fail bindG_Fail up_eval)

lemmas up_simps = up_Ret up_try_Ret up_try_Fail up_Fail

lemma up_Pair [simp]: "up (Pair r) = Pair r"
  by (rule ext) (simp add: up_def split: prod.split)

lemma self_eval [simp, go_simps]: "self (w, s) = (Ret s, (w, s))"
  and modify_eval [simp, go_simps]: "modify f (w, s) = (Ret (), (w, f s))"
  by (simp_all add: self_def modify_def)

lemma bindG_self [simp, go_simps]: "bindG self f (w, s) = f s (w, s)"
  by (simp add: bindG_Ret)

lemma bindG_modify [simp, go_simps]: "bindG (modify f) g (w, s) = g () (w, f s)"
  by (simp add: bindG_Ret)

lemma up_bindG: "up (bindG m f) (w, s) = bindG (up m) (\<lambda>x. up (f x)) (w, s)"
  by (simp add: up_def bindG_apply split: prod.split outcome.split)

lemma attempt_eval:
  "m w = (Ret x, w') \<Longrightarrow> attempt m w = (Ret (Inr x), w')"
  "m w = (Fail e, w') \<Longrightarrow> attempt m w = (Ret (Inl e), w')"
  "m w = (Panic p, w') \<Longrightarrow> attempt m w = (Panic p, w')"
  "m w = (Diverge, w') \<Longrightarrow> attempt m w = (Diverge, w')"
  by (simp_all add: attempt_def go_simps)

lemma ignore_error_no_Fail: "ignore_error m w \<noteq> (Fail e, w')"
  by (auto simp: ignore_error_def tryG_def split: outcome.splits prod.splits)

lemma tryG_Ret_iff:
  "tryG m f h w = (Ret y, w'') \<longleftrightarrow>
     (\<exists>x w'. m w = (Ret x, w') \<and> f x w' = (Ret y, w'')) \<or> (\<exists>e w'. m w = (Fail e, w') \<and> h e w' = (Ret y, w''))"
  by (auto simp: tryG_def split: outcome.splits prod.splits)

lemma up_iff: "up m (w, n) = (r, (w', n')) \<longleftrightarrow> m w = (r, w') \<and> n' = n"
  by (auto simp: up_def split: prod.splits)

text \<open>A call that comes back, with a value or an error (it neither panics nor diverges).\<close>

definition settles :: "'a outcome \<Rightarrow> bool" where
  "settles r \<longleftrightarrow> (case r of Ret _ \<Rightarrow> True | Fail _ \<Rightarrow> True | _ \<Rightarrow> False)"

lemma ignore_error_settles: "m w = (r, w') \<Longrightarrow> settles r \<Longrightarrow> ignore_error m w = (Ret (), w')"
  by (cases r) (simp_all add: ignore_error_def settles_def tryG_Ret tryG_Fail)

lemma up_ignore_settles:
  "m w = (r, w') \<Longrightarrow> settles r \<Longrightarrow> bindG (up (ignore_error m)) f (w, n) = f () (w', n)"
  by (rule up_Ret) (rule ignore_error_settles)

section \<open>Messages of the application service (pkg/handlers/model.go)\<close>

record BackupAppResponse =
  ba_Code :: int
  ba_Message :: string

text \<open>The lists are slices: \<open>None\<close> is the nil slice, which is written as \<open>null\<close>.\<close>

record BackupAppStatusData =
  bd_Status :: string
  bd_Data :: json
  bd_EntryFiles :: "string list option"
  bd_PgFiles :: "string list option"

record BackupAppStatus =
  bx_Code :: int
  bx_Message :: string
  bx_Data :: "BackupAppStatusData option"

record RestoreAppStatusDataBody =
  rb_Status :: string
  rb_Message :: string

record RestoreAppStatusData =
  ra_Code :: int
  ra_Message :: string
  ra_Status :: string
  ra_Data :: "RestoreAppStatusDataBody option"

definition jint :: "int \<Rightarrow> json" where
  "jint i = JNum (Itoa i)"

definition jstrings :: "string list option \<Rightarrow> json" where
  "jstrings fs = (case fs of None \<Rightarrow> JNull | Some xs \<Rightarrow> JArr (map JStr xs))"

definition backup_app_status_json :: "BackupAppStatus \<Rightarrow> json" where
  "backup_app_status_json s = JObj [(''code'', jint (bx_Code s)), (''message'', JStr (bx_Message s)),
     (''data'', case bx_Data s of None \<Rightarrow> JNull
       | Some d \<Rightarrow> JObj [(''status'', JStr (bd_Status d)), (''data'', bd_Data d),
           (''entry_files'', jstrings (bd_EntryFiles d)), (''pg_files'', jstrings (bd_PgFiles d))])]"

definition restore_app_status_json :: "RestoreAppStatusData \<Rightarrow> json" where
  "restore_app_status_json s = JObj [(''code'', jint (ra_Code s)), (''message'', JStr (ra_Message s)),
     (''status'', JStr (ra_Status s)),
     (''data'', case ra_Data s of None \<Rightarrow> JNull
       | Some d \<Rightarrow> JObj [(''status'', JStr (rb_Status d)), (''message'', JStr (rb_Message d))])]"

section \<open>Messages of Olares Space and of the settings service\<close>

record notify_Response =
  nr_Code :: int
  nr_Message :: string

record UsageData =
  us_ToTalSize :: u64
  us_UsageSize :: u64
  us_CanBackup :: bool
  us_PlanLevel :: int

record Usage =
  ug_Code :: int
  ug_Message :: string
  ug_Data :: "UsageData option"

record passwordResponse =
  pw_Code :: int
  pw_Message :: string
  pw_Value :: "string option"

section \<open>Types of the backup SDK\<close>

record SummaryOutput =
  so_SnapshotID :: string
  so_TotalBytesProcessed :: u64
  so_RestoreSize :: u64
  so_json :: string

record StorageInfo =
  si_Url :: string
  si_CloudName :: string
  si_RegionId :: string
  si_Bucket :: string
  si_Prefix :: string
  si_json :: string

datatype repo_access =
    SpaceAccess (ra_OlaresDid: string) (ra_AccessToken: string) (ra_ClusterId: string) (ra_CloudName: string)
      (ra_RegionId: string) (ra_CloudApiMirror: string)
  | AwsAccess (ra_Endpoint: string) (ra_AccessKey: string) (ra_SecretAccessKey: string)
  | TencentCloudAccess (ra_Endpoint: string) (ra_AccessKey: string) (ra_SecretAccessKey: string)
  | FilesystemAccess (ra_Endpoint: string)

text \<open>The options of the SDK: the access to the repository with the fields of one service call.\<close>

record BackupOption =
  bo_Password :: string
  bo_Operator :: string
  bo_BackupType :: string
  bo_BackupAppTypeName :: string
  bo_BackupFileTypeSourcePath :: string
  bo_RepoId :: string
  bo_RepoName :: string
  bo_Path :: string
  bo_Files :: "string list"
  bo_FilesPrefixPath :: string
  bo_Metadata :: string
  bo_LimitUploadRate :: string
  bo_Access :: repo_access

record SnapshotsOption =
  po_Password :: string
  po_Operator :: string
  po_SnapshotId :: string
  po_RepoId :: string
  po_RepoName :: string
  po_Access :: "repo_access option"

record RestoreOption =
  ro_Password :: string
  ro_Operator :: string
  ro_RepoId :: string
  ro_RepoName :: string
  ro_RepoSuffix :: string
  ro_SnapshotId :: string
  ro_Path :: string
  ro_LimitDownloadRate :: string
  ro_Access :: repo_access

section \<open>The services\<close>

text \<open>
  \<open>v_done\<close> tells whether the context of the run is over. \<open>v_tick\<close> is one turn of the loop that waits
  for the ticker or for the end of the context (true for the ticker), \<open>v_tick15\<close> the same for a context
  with a deadline of 15 seconds. \<open>v_polls\<close> bounds the attempts of a poll (5 hours at an interval of 10
  seconds), \<open>v_sleep\<close> is the wait between two of them.
\<close>

record 'w services = "'w kube" +
  v_done :: "'w \<Rightarrow> bool"
  v_tick :: "('w, bool) go"
  v_tick15 :: "('w, bool) go"
  v_sleep :: "('w, unit) go"
  v_polls :: nat
  v_fuel :: nat
  v_getenv :: "string \<Rightarrow> string"
  v_NodeName :: string
  v_SyncServerURL :: string
  v_spaceToken :: "string \<Rightarrow> string \<Rightarrow> ('w, SpaceToken) go"
  v_cloudToken :: "string \<Rightarrow> string \<Rightarrow> string \<Rightarrow> ('w, IntegrationToken) go"
  v_accountsByLocation :: "string \<Rightarrow> string \<Rightarrow> ('w, string list) go"
  v_cloudAccount :: "string \<Rightarrow> string \<Rightarrow> string \<Rightarrow> ('w, IntegrationToken) go"
  v_nameByLocation :: "string \<Rightarrow> string \<Rightarrow> string \<Rightarrow> string \<Rightarrow> ('w, string) go"
  v_authToken :: "string \<Rightarrow> string \<Rightarrow> string \<Rightarrow> ('w, string) go"
  v_kubeClient :: "('w, unit) go"
  v_bfl_annotations :: "string \<Rightarrow> ('w, smap) go"
  v_password_post :: "string \<Rightarrow> string \<Rightarrow> string \<Rightarrow> ('w, int \<times> passwordResponse) go"
  v_post_json :: "string \<Rightarrow> json \<Rightarrow> ('w, int \<times> notify_Response option) go"
  v_post_form :: "string \<Rightarrow> string \<Rightarrow> ('w, int \<times> notify_Response) go"
  v_post_usage :: "string \<Rightarrow> string \<Rightarrow> ('w, int \<times> Usage) go"
  v_retry_usage :: "nat \<Rightarrow> ('w, UsageData) go \<Rightarrow> ('w, UsageData) go"
  v_put_form :: "string \<Rightarrow> smap \<Rightarrow> smap \<Rightarrow> ('w, int \<times> BackupAppResponse option \<times> string) go"
  v_put_json :: "string \<Rightarrow> smap \<Rightarrow> json \<Rightarrow> ('w, int \<times> BackupAppResponse option \<times> string) go"
  v_get_backup_status :: "string \<Rightarrow> smap \<Rightarrow> ('w, int \<times> BackupAppStatus option \<times> string) go"
  v_get_restore_status :: "string \<Rightarrow> smap \<Rightarrow> ('w, int \<times> RestoreAppStatusData option \<times> string) go"
  v_DirSize :: "string \<Rightarrow> ('w, u64) go"
  v_disk_usage :: "string \<Rightarrow> ('w, rat \<times> u64) go"
  v_RemoveAll :: "string \<Rightarrow> ('w, unit) go"
  v_Rename :: "string \<Rightarrow> string \<Rightarrow> ('w, unit) go"
  v_read_lines :: "string \<Rightarrow> ('w, string list) go"
  v_write_lines :: "string \<Rightarrow> string list \<Rightarrow> ('w, unit) go"
  v_b64_partial :: "string \<Rightarrow> string"
  v_send :: "string \<Rightarrow> (string \<times> json) list \<Rightarrow> ('w, unit) go"

section \<open>Polling (wait.PollImmediate)\<close>

definition poll_timeout :: gerr where
  "poll_timeout = Errorf ''timed out waiting for the condition''"

text \<open>The condition is tried at once, then after every interval, until it holds or fails.\<close>

fun poll :: "('w, unit) go \<Rightarrow> nat \<Rightarrow> ('w, bool) go \<Rightarrow> ('w, unit) go" where
  "poll sleep 0 c = raise poll_timeout"
| "poll sleep (Suc n) c = bindG c (\<lambda>done. if done then ret () else bindG sleep (\<lambda>_. poll sleep n c))"

lemma poll_done: "0 < n \<Longrightarrow> c w = (Ret True, w') \<Longrightarrow> poll sleep n c w = (Ret (), w')"
  by (cases n) (simp_all add: bindG_Ret)

lemma poll_fail: "0 < n \<Longrightarrow> c w = (Fail e, w') \<Longrightarrow> poll sleep n c w = (Fail e, w')"
  by (cases n) (simp_all add: bindG_Fail)

text \<open>A poll that returns did so on a condition that held.\<close>

lemma poll_RetD: "poll sleep n c w = (Ret (), w') \<Longrightarrow> \<exists>v. c v = (Ret True, w')"
  by (induction sleep n c arbitrary: w rule: poll.induct) (auto simp: bindG_Ret_iff split: if_splits)

section \<open>HTTP requests of the program (pkg/util/http)\<close>

definition http_Post :: "('w, int \<times> 'r) go \<Rightarrow> ('w, 'r) go" where
  "http_Post request = bindG request (\<lambda>(status, result).
     if status \<noteq> 200 then raise (Errorf (''request failed, status code: '' @ Itoa status)) else ret result)"

section \<open>Services in memory\<close>

text \<open>An instance for the witnesses: the API server in memory, a live context, answers that are all fine.\<close>

definition mem_services :: "store services" where
  "mem_services = kube.extend mem_api (services.fields
     (\<lambda>w. False) (ret True) (ret False) (ret ()) 3 5 (\<lambda>_. []) ''node'' ''https://api/space''
     (\<lambda>_ _. ret demo_space_token)
     (\<lambda>_ _ n. ret \<lparr>it_Name = n, it_Type = ''awss3'', it_AccessKey = n, it_SecretKey = ''s'', it_Endpoint = ''e'', it_Bucket = [], it_Available = True\<rparr>)
     (\<lambda>_ _. ret [''A''])
     (\<lambda>_ _ _. raise (Errorf ''integration token not found''))
     (\<lambda>_ _ _ _. ret ''A'')
     (\<lambda>_ _ _. ret ''token'') (ret ())
     (\<lambda>_. ret [(''userspace_pvc'', ''u''), (''appcache_pvc'', ''c'')])
     (\<lambda>_ _ _. ret (200, \<lparr>pw_Code = 0, pw_Message = [], pw_Value = Some ''pw''\<rparr>))
     (\<lambda>_ _. ret (200, Some \<lparr>nr_Code = 200, nr_Message = []\<rparr>))
     (\<lambda>_ _. ret (200, \<lparr>nr_Code = 200, nr_Message = []\<rparr>))
     (\<lambda>_ _. ret (200, \<lparr>ug_Code = 200, ug_Message = [], ug_Data = Some \<lparr>us_ToTalSize = 10, us_UsageSize = 3, us_CanBackup = True, us_PlanLevel = 2\<rparr>\<rparr>))
     (\<lambda>n m. m)
     (\<lambda>_ _ _. ret (200, Some \<lparr>ba_Code = 0, ba_Message = []\<rparr>, []))
     (\<lambda>_ _ _. ret (200, Some \<lparr>ba_Code = 0, ba_Message = []\<rparr>, []))
     (\<lambda>_ _. ret (200, Some \<lparr>bx_Code = 0, bx_Message = [], bx_Data = None\<rparr>, []))
     (\<lambda>_ _. ret (200, Some \<lparr>ra_Code = 0, ra_Message = [], ra_Status = [], ra_Data = None\<rparr>, []))
     (\<lambda>_. ret 100) (\<lambda>_. ret (10, 1000)) (\<lambda>_. ret ()) (\<lambda>_ _. ret ()) (\<lambda>_. ret []) (\<lambda>_ _. ret ()) (\<lambda>s. s) (\<lambda>_ _. ret ()))"

lemmas mem_services_sel = mem_services_def mem_api_def kube.defs services.defs

end
