(* ===== verification/AppService.thy ===== *)
theory AppService
  imports Services
begin

text \<open>
  The clients of the HTTP services: the application handler (\<open>pkg/handlers/handler_app.go\<close>), the
  notifications to Olares Space (\<open>pkg/notify/notify_backups.go\<close>), the password of a plan and the
  volumes of a user (\<open>pkg/handlers/helper.go\<close>), and \<open>DeleteBackup\<close> of \<open>pkg/handlers/handler_backup.go\<close>.
\<close>

section \<open>The application handler\<close>

record AppHandler =
  ah_name :: string
  ah_owner :: string

definition NewAppHandler :: "string \<Rightarrow> string \<Rightarrow> AppHandler" where
  "NewAppHandler appName owner = \<lparr>ah_name = appName, ah_owner = owner\<rparr>"

definition BackupAppHost :: string where "BackupAppHost = ''rss-svc.knowledge-shared:3010''"

definition getAppUrlName :: "string \<Rightarrow> string" where
  "getAppUrlName appName = mget [(''wise'', ''knowledge'')] appName"

definition app_url :: "AppHandler \<Rightarrow> string \<Rightarrow> string" where
  "app_url app path = ''http://'' @ BackupAppHost @ ''/'' @ ReplaceAll path ''{app}'' (getAppUrlName (ah_name app))"

definition app_headers :: "AppHandler \<Rightarrow> smap" where
  "app_headers app = [(''X-BFL-USER'', ah_owner app)]"

text \<open>The two start requests answer with a code; a missing result is a nil dereference.\<close>

definition check_start :: "string \<Rightarrow> int \<times> BackupAppResponse option \<times> string \<Rightarrow> ('w, unit) go" where
  "check_start what = (\<lambda>(status, result, body).
     if status \<noteq> 200 then raise (Errorf (what @ '' error, status code: '' @ Itoa status @ '', msg: '' @ body))
     else (case result of
         None \<Rightarrow> panicG nil_deref
       | Some r \<Rightarrow> if ba_Code r \<noteq> 0
           then raise (Errorf (what @ '' error, code: '' @ Itoa (ba_Code r) @ '', msg: '' @ ba_Message r))
           else ret ()))"

definition StartAppBackup :: "('w, 'm) services_scheme \<Rightarrow> AppHandler \<Rightarrow> string \<Rightarrow> string \<Rightarrow> ('w, unit) go" where
  "StartAppBackup v app backupId snapshotId =
     bindG (v_put_form v (app_url app ''{app}/backup/start'') (app_headers app)
        [(''backup_id'', backupId), (''snapshot_id'', snapshotId)])
       (check_start (''start app '' @ ah_name app @ '' backup''))"

definition GetAppBackupStatus :: "('w, 'm) services_scheme \<Rightarrow> AppHandler \<Rightarrow> string \<Rightarrow> string \<Rightarrow> ('w, BackupAppStatus) go" where
  "GetAppBackupStatus v app backupId snapshotId =
     bindG (v_get_backup_status v (app_url app ''{app}/backup/status'' @ ''?backup_id='' @ backupId @ ''&snapshot_id='' @ snapshotId)
        (app_headers app))
       (\<lambda>(status, result, body).
          if status \<noteq> 200 then raise (Errorf (''get app '' @ ah_name app @ '' backup status error, status code: '' @ Itoa status @ '', msg: '' @ body))
          else (case result of
              None \<Rightarrow> panicG nil_deref
            | Some r \<Rightarrow> if bx_Code r \<noteq> 0
                then raise (Errorf (''get app '' @ ah_name app @ '' backup status error, code: '' @ Itoa (bx_Code r) @ '', msg: '' @ bx_Message r))
                else ret r))"

text \<open>Whatever the application answers, reporting a result to it never fails.\<close>

definition SendBackupResult :: "('w, 'm) services_scheme \<Rightarrow> AppHandler \<Rightarrow> string \<Rightarrow> string \<Rightarrow> gerr option \<Rightarrow> ('w, unit) go" where
  "SendBackupResult v app backupId snapshotId errorMessage =
     (let (status, msg) = (case errorMessage of None \<Rightarrow> (phase_String Completed, []) | Some e \<Rightarrow> (phase_String Failed, err_text e)) in
     ignore_error (v_put_form v (app_url app ''{app}/backup/result'') (app_headers app)
        [(''backup_id'', backupId), (''snapshot_id'', snapshotId), (''status'', status), (''message'', msg)]))"

text \<open>The metadata must decode to an object (or \<open>null\<close>, which makes the map nil); it is sent on as decoded,
  with its members in the order of the text (the library sorts them).\<close>

definition StartAppRestore :: "('w, 'm) services_scheme \<Rightarrow> AppHandler \<Rightarrow> string \<Rightarrow> string \<Rightarrow> string \<Rightarrow> ('w, unit) go" where
  "StartAppRestore v app restoreId resticSnapshotId metadata =
     (let start = (\<lambda>md. bindG (v_put_json v (app_url app ''{app}/backup/restore'') (app_headers app)
            (JObj [(''data'', md), (''restic_snapshot_id'', JStr resticSnapshotId), (''restore_id'', JStr restoreId)]))
          (check_start ''start restore''))
      in case json_parse metadata of
        Some (JObj kvs) \<Rightarrow> start (JObj kvs)
      | Some JNull \<Rightarrow> start JNull
      | _ \<Rightarrow> raise (Errorf (''start restore, json convert error: '' @ err_text json_error @ '', metadata: '' @ metadata)))"

text \<open>The answer that is returned always carries its data.\<close>

definition GetAppRestoreStatus :: "('w, 'm) services_scheme \<Rightarrow> AppHandler \<Rightarrow> string \<Rightarrow> ('w, RestoreAppStatusData \<times> RestoreAppStatusDataBody) go" where
  "GetAppRestoreStatus v app restoreId =
     bindG (v_get_restore_status v (app_url app ''{app}/backup/restore_status'' @ ''?restore_id='' @ restoreId) (app_headers app))
       (\<lambda>(status, result, body).
          if status \<noteq> 200 then raise (Errorf (''get app restore http status error: '' @ body))
          else (case result of
              None \<Rightarrow> panicG nil_deref
            | Some r \<Rightarrow>
                if ra_Code r \<noteq> 0 then raise (Errorf (''get app restore code error, code: '' @ Itoa (ra_Code r)))
                else (case ra_Data r of
                    None \<Rightarrow> raise (Errorf ''get app restore data is empty'')
                  | Some d \<Rightarrow> ret (r, d))))"

section \<open>Notifications to Olares Space\<close>

record notify_Backup =
  nb_UserId :: string
  nb_Token :: string
  nb_BackupId :: string
  nb_Name :: string
  nb_BackupType :: string
  nb_BackupTime :: int
  nb_BackupPath :: string
  nb_BackupLocation :: string

record notify_Snapshot =
  ny_UserId :: string
  ny_BackupId :: string
  ny_SnapshotId :: string
  ny_ResticSnapshotId :: string
  ny_Size :: u64
  ny_BackupSize :: u64
  ny_Unit :: string
  ny_SnapshotTime :: int
  ny_Status :: string
  ny_Type :: string
  ny_Url :: string
  ny_CloudName :: string
  ny_RegionId :: string
  ny_Bucket :: string
  ny_Prefix :: string
  ny_Message :: string

definition parseBackupTypeCode :: "string \<Rightarrow> int" where
  "parseBackupTypeCode backupType = (if backupType = BackupTypeApp then 2 else 1)"

text \<open>
  Every request is tried again, up to a number of steps, by \<open>retry.OnError\<close> (\<open>k_retry\<close>). Olares
  Space answers 200, or 501 for a record it already has. A map is written with its keys in order.
\<close>

definition NotifyBackup :: "('w, 'm) services_scheme \<Rightarrow> string \<Rightarrow> notify_Backup \<Rightarrow> ('w, unit) go" where
  "NotifyBackup v cloudApiUrl backup = (let url = cloudApiUrl @ ''/v1/resource/backup/save'' in
     k_retry v 5 (tryG (v_post_json v url (JObj
         [(''backupId'', JStr (nb_BackupId backup)), (''backupLocation'', JStr (nb_BackupLocation backup)),
          (''backupPath'', JStr (nb_BackupPath backup)), (''backupTime'', jint (nb_BackupTime backup)),
          (''backupType'', jint (parseBackupTypeCode (nb_BackupType backup))), (''name'', JStr (nb_Name backup)),
          (''token'', JStr (nb_Token backup)), (''userid'', JStr (nb_UserId backup))]))
       (\<lambda>(status, result).
          if status \<noteq> 200 then raise (Errorf (''[notify] send new backup, http status error: '' @ Itoa status @ '', url: '' @ url))
          else (case result of
              None \<Rightarrow> panicG nil_deref
            | Some r \<Rightarrow> if nr_Code r \<noteq> 200 \<and> nr_Code r \<noteq> 501
                then raise (Errorf (''[notify] send new backup record failed: '' @ Itoa (nr_Code r) @ '', url: '' @ url))
                else ret ()))
       (\<lambda>e. raise (Errorf (''[notify] send new backup request error: '' @ err_text e @ '', url: '' @ url)))))"

definition u64_text :: "u64 \<Rightarrow> string" where
  "u64_text n = nat_digits (unat n)"

definition snapshot_form :: "notify_Snapshot \<Rightarrow> string" where
  "snapshot_form s = ''userid='' @ ny_UserId s @ ''&backupId='' @ ny_BackupId s @ ''&snapshotId='' @ ny_SnapshotId s @
     ''&resticSnapshotId='' @ ny_ResticSnapshotId s @ ''&size='' @ u64_text (ny_Size s) @
     ''&realSnapshotSize='' @ u64_text (ny_BackupSize s) @ ''&unit='' @ ny_Unit s @
     ''&snapshotTime='' @ Itoa (ny_SnapshotTime s) @ ''&status='' @ ny_Status s @ ''&type='' @ ny_Type s @
     ''&url='' @ TrimPrefix (ny_Url s) ''s3:'' @ ''&cloud='' @ ny_CloudName s @ ''&region='' @ ny_RegionId s @
     ''&bucket='' @ ny_Bucket s @ ''&prefix='' @ ny_Prefix s @ ''&message='' @ ny_Message s"

definition NotifySnapshot :: "('w, 'm) services_scheme \<Rightarrow> string \<Rightarrow> notify_Snapshot \<Rightarrow> ('w, unit) go" where
  "NotifySnapshot v cloudApiUrl snapshot =
     k_retry v 10 (bindG (http_Post (v_post_form v (cloudApiUrl @ ''/v1/resource/snapshot/save'') (snapshot_form snapshot)))
       (\<lambda>r. if nr_Code r \<noteq> 200 \<and> nr_Code r \<noteq> 501
          then raise (Errorf (''[notify] snapshot record failed, code: '' @ Itoa (nr_Code r) @ '', message: '' @ nr_Message r))
          else ret ()))"

definition NotifyStopBackup :: "('w, 'm) services_scheme \<Rightarrow> string \<Rightarrow> string \<Rightarrow> string \<Rightarrow> string \<Rightarrow> ('w, unit) go" where
  "NotifyStopBackup v cloudApiUrl userId token backupId =
     k_retry v 3 (bindG (http_Post (v_post_form v (cloudApiUrl @ ''/v1/resource/backup/stop'')
         (''userid='' @ userId @ ''&token='' @ token @ ''&backupId='' @ backupId)))
       (\<lambda>r. if nr_Code r \<noteq> 200
          then raise (Errorf (''[notify] delete backup record failed, code: '' @ Itoa (nr_Code r) @ '', msg: '' @ nr_Message r))
          else ret ()))"

text \<open>The usage that is returned always carries its data.\<close>

definition CheckCloudStorageQuotaAndPermission ::
  "('w, 'm) services_scheme \<Rightarrow> string \<Rightarrow> string \<Rightarrow> string \<Rightarrow> ('w, UsageData) go" where
  "CheckCloudStorageQuotaAndPermission v cloudApiUrl userId token =
     v_retry_usage v 3 (bindG (http_Post (v_post_usage v (cloudApiUrl @ ''/v1/resource/backup/usage'')
         (''userid='' @ userId @ ''&token='' @ token)))
       (\<lambda>r. if ug_Code r \<noteq> 200
          then raise (Errorf (''check usage error, code: '' @ Itoa (ug_Code r) @ '', message: '' @ ug_Message r))
          else (case ug_Data r of None \<Rightarrow> raise (Errorf ''check backup usage failed, data is nil'') | Some d \<Rightarrow> ret d)))"

section \<open>Passwords and volumes\<close>

definition GetBackupPassword :: "('w, 'm) services_scheme \<Rightarrow> string \<Rightarrow> string \<Rightarrow> string \<Rightarrow> ('w, string) go" where
  "GetBackupPassword v owner backupName token =
     k_retry_string v 3 (tryG (v_password_post v (''http://settings.user-system-'' @ owner @ '':28080/api/backup/password'') token backupName)
       (\<lambda>(status, r).
          if status \<noteq> 200 then raise (Errorf (''get backup password failed, http status code: '' @ Itoa status))
          else if pw_Code r \<noteq> 0 then
            (if Contains (pw_Message r) ''Secret not found''
             then raise (Errorf (''get backup password failed, code: '' @ Itoa (pw_Code r) @ '', message: password not found''))
             else raise (Errorf (''get backup password failed, code: '' @ Itoa (pw_Code r) @ '', message: '' @ pw_Message r)))
          else (case pw_Value r of None \<Rightarrow> raise (Errorf ''get backup password, not exists'') | Some p \<Rightarrow> ret p))
       (\<lambda>e. raise (Errorf ''get backup password error'')))"

record user_volumes =
  uv_userspacePath :: string
  uv_userspacePvc :: string
  uv_appcachePath :: string
  uv_appcachePvc :: string

definition GetUserspacePvc :: "('w, 'm) services_scheme \<Rightarrow> string \<Rightarrow> ('w, user_volumes) go" where
  "GetUserspacePvc v owner = bindG (v_kubeClient v) (\<lambda>_.
     tryG (v_bfl_annotations v owner)
       (\<lambda>a. case map_of a ''userspace_pvc'' of
          None \<Rightarrow> raise (Errorf (''bfl userspace_pvc not found, owner: '' @ owner))
        | Some userspacePvc \<Rightarrow> (case map_of a ''appcache_pvc'' of
            None \<Rightarrow> raise (Errorf (''bfl appcache_pvc not found, owner: '' @ owner))
          | Some appcachePvc \<Rightarrow> ret \<lparr>uv_userspacePath = path_Join [''/'', ''rootfs'', ''userspace'', userspacePvc],
              uv_userspacePvc = userspacePvc, uv_appcachePath = path_Join [''/'', ''appcache'', ''Cache'', appcachePvc],
              uv_appcachePvc = appcachePvc\<rparr>))
       (\<lambda>e. raise (e\<lparr>err_text := ''get bfl failed, owner: '' @ owner @ '': '' @ err_text e\<rparr>)))"

section \<open>Deleting a plan\<close>

text \<open>The error of \<open>GetBackupLocationConfig\<close> is dropped: the location is then the empty string.\<close>

definition location_config0 :: "Backup \<Rightarrow> gomap outcome" where
  "location_config0 backup = (case GetBackupLocationConfig backup of Fail e \<Rightarrow> Ret None | r \<Rightarrow> r)"

definition DeleteBackup :: "('w, 'm) services_scheme \<Rightarrow> Backup \<Rightarrow> ('w, unit) go" where
  "DeleteBackup v backup = bindG (DeleteSnapshots v (bk_Name backup)) (\<lambda>_.
     bindG (liftO (location_config0 backup)) (\<lambda>cfg.
       if lookup0 cfg ''location'' = location_String BackupLocationSpace then
         bindG (v_spaceToken v (bs_Owner (bk_Spec backup)) (lookup0 cfg ''name'')) (\<lambda>t.
         bindG (ignore_error (NotifyStopBackup v (v_SyncServerURL v) (st_OlaresDid t) (st_AccessToken t) (bk_Name backup))) (\<lambda>_.
           backup_delete v backup))
       else backup_delete v backup))"

end
