(* ===== verification/BackupRun.thy ===== *)
theory BackupRun
  imports AppService
begin

text \<open>
  \<open>pkg/storage/storage_backup.go\<close>: the run of one backup, from the Pending snapshot to its result. The
  run object \<open>StorageBackup\<close> is the second component of the state. The SDK services are the record
  \<open>backup_sdk\<close>: a backup gets the progress callback and returns its output, the storage it used and an
  error, which are independent values in the source; the statistics return the total size, and
  \<open>sdk_ToJSON\<close> is the JSON encoder of the SDK's own utilities.
\<close>

section \<open>State\<close>

record BackupParameters =
  pa_Password :: string
  pa_Path :: string
  pa_SourcePath :: string
  pa_Location :: smap
  pa_LocationInFileSystem :: string

record StorageBackup =
  sb_SnapshotId :: string
  sb_Backup :: "Backup option"
  sb_Snapshot :: "Snapshot option"
  sb_Params :: "BackupParameters option"
  sb_SnapshotType :: "int option"
  sb_IntegrationChanged :: bool
  sb_IntegrationName :: string
  sb_IntegrationEndpoint :: string
  sb_UserspacePvcName :: string
  sb_UserspacePvcPath :: string
  sb_AppcachePvcName :: string
  sb_AppcachePvcPath :: string
  sb_LastProgressPercent :: int
  sb_LastProgressTime :: "timestamp option"
  sb_BackupType :: string
  sb_BackupAppTypeName :: string
  sb_BackupAppStatus :: "BackupAppStatus option"
  sb_BackupAppFiles :: "string list"
  sb_BackupAppFilesPrefix :: string
  sb_BackupAppMetadata :: string
  sb_BackupSize :: u64

type_synonym ('w, 'a) bgo = "('w \<times> StorageBackup, 'a) go"

type_synonym backup_answer = "SummaryOutput option \<times> StorageInfo option \<times> gerr option"
type_synonym backup_result = "SummaryOutput option \<times> StorageInfo option \<times> u64 \<times> gerr option"

record 'w backup_sdk =
  sdk_Backup :: "BackupOption \<Rightarrow> (rat \<Rightarrow> ('w \<times> StorageBackup, unit) go) \<Rightarrow> ('w \<times> StorageBackup, backup_answer) go"
  sdk_Stats :: "SnapshotsOption \<Rightarrow> ('w, u64) go"
  sdk_ToJSON :: "json \<Rightarrow> string"

definition the_Backup :: "('w, Backup) bgo" where
  "the_Backup = bindG self (\<lambda>s. derefG nil_deref (sb_Backup s))"

definition the_Snapshot :: "('w, Snapshot) bgo" where
  "the_Snapshot = bindG self (\<lambda>s. derefG nil_deref (sb_Snapshot s))"

definition the_Params :: "('w, BackupParameters) bgo" where
  "the_Params = bindG self (\<lambda>s. derefG nil_deref (sb_Params s))"

section \<open>Preparing\<close>

definition checkBackupExists :: "('w, 'm) services_scheme \<Rightarrow> ('w, unit) bgo" where
  "checkBackupExists v = bindG self (\<lambda>s.
     tryG (up (snapshot_GetById v (sb_SnapshotId s)))
       (\<lambda>snapshot. tryG (up (backup_GetById v (ss_BackupId (sn_Spec snapshot))))
          (\<lambda>backup. let t = GetBackupType backup in
             modify (\<lambda>s. s\<lparr>sb_Backup := Some backup, sb_Snapshot := Some snapshot, sb_BackupType := t,
               sb_BackupAppTypeName := (if t = BackupTypeApp then GetBackupAppName backup else sb_BackupAppTypeName s)\<rparr>))
          (\<lambda>e. raise (Errorf ''backup not found'')))
       (\<lambda>e. raise (Errorf ''snapshot not found'')))"

definition getUserspacePvc :: "('w, 'm) services_scheme \<Rightarrow> ('w, unit) bgo" where
  "getUserspacePvc v = bindG the_Backup (\<lambda>backup.
     tryG (up (GetUserspacePvc v (bs_Owner (bk_Spec backup))))
       (\<lambda>u. modify (\<lambda>s. s\<lparr>sb_UserspacePvcName := uv_userspacePvc u, sb_UserspacePvcPath := uv_userspacePath u,
          sb_AppcachePvcName := uv_appcachePvc u, sb_AppcachePvcPath := uv_appcachePath u\<rparr>))
       (\<lambda>e. raise (Errorf (''get userspace pvc error: '' @ err_text e))))"

definition validateSnapshotPreconditions :: "('w, unit) bgo" where
  "validateSnapshotPreconditions = bindG the_Snapshot (\<lambda>snapshot.
     case ss_Phase (sn_Spec snapshot) of
       None \<Rightarrow> panicG nil_deref
     | Some phase \<Rightarrow> if phase \<noteq> phase_String Pending then raise (Errorf ''snapshot phase invalid'') else ret ())"

definition checkSnapshotType :: "('w, 'm) services_scheme \<Rightarrow> ('w, unit) bgo" where
  "checkSnapshotType v = bindG the_Backup (\<lambda>backup.
     tryG (up (GetSnapshotType v (bk_Name backup)))
       (\<lambda>t. modify (\<lambda>s. s\<lparr>sb_SnapshotType := ParseSnapshotType t\<rparr>))
       (\<lambda>e. raise (Errorf (''list snapshots error: '' @ err_text e))))"

text \<open>\<open>json.Marshal\<close> of a list of paths (no newline after it).\<close>

definition marshal_strings :: "string list \<Rightarrow> string" where
  "marshal_strings xs = jrender (JArr (map JStr xs))"

definition prepareBackupParams :: "('w, 'm) services_scheme \<Rightarrow> ('w, unit) bgo" where
  "prepareBackupParams v = bindG the_Backup (\<lambda>backup. bindG self (\<lambda>s0.
     let spec = bk_Spec backup; owner = bs_Owner spec;
         resolve = resolve_path (v_NodeName v) (sb_UserspacePvcPath s0) (sb_AppcachePvcPath s0);
         isFile = (sb_BackupType s0 = BackupTypeFile);
         sourcePath = (if isFile then ParseBackupTypePath (bs_BackupType spec) else [])
     in bindG (up (v_authToken v owner (''user-system-'' @ owner) ''user-backend'')) (\<lambda>token.
     bindG (up (GetBackupPassword v owner (bs_Name spec) token)) (\<lambda>password.
     bindG (if isFile then modify (\<lambda>s. s\<lparr>sb_BackupAppFilesPrefix := marshal_strings [resolve sourcePath]\<rparr>) else ret ()) (\<lambda>_.
     tryG (liftO (GetBackupLocationConfig backup))
       (\<lambda>cfg. case cfg of
          None \<Rightarrow> raise (Errorf ''location config not exists'')
        | Some l \<Rightarrow>
            let isFs = (mget l ''location'' = location_String BackupLocationFileSystem);
                location = (if isFs then mput l ''path'' (resolve (mget l ''path'')) else l)
            in modify (\<lambda>s. s\<lparr>sb_Params := Some \<lparr>pa_Password = password,
                 pa_Path = (if isFile then resolve (GetBackupPath backup) else []), pa_SourcePath = sourcePath,
                 pa_Location = location, pa_LocationInFileSystem = (if isFs then mget l ''path'' else [])\<rparr>\<rparr>))
       (\<lambda>e. raise (Errorf (''get location config error: '' @ err_text e))))))))"

definition disk_full_text :: string where
  "disk_full_text = ''Disk usage has reached 85.00%. Please clean up disk space first.''"

definition FreeLimit :: rat where "FreeLimit = 85"

definition dir_size :: "('w, 'm) services_scheme \<Rightarrow> string \<Rightarrow> ('w, u64) go" where
  "dir_size v path = tryG (v_DirSize v path) ret
     (\<lambda>e. raise (Errorf (''get backup disk size error: '' @ err_text e @ '', path: '' @ path)))"

definition checkDiskSize :: "('w, 'm) services_scheme \<Rightarrow> ('w, unit) bgo" where
  "checkDiskSize v = bindG self (\<lambda>s. if sb_BackupType s = BackupTypeApp then ret () else
     bindG the_Params (\<lambda>p. let location = mget (pa_Location p) ''location'' in
       if location = location_String BackupLocationSpace then
         bindG (up (dir_size v (pa_Path p))) (\<lambda>n. modify (\<lambda>s. s\<lparr>sb_BackupSize := n\<rparr>))
       else if location = location_String BackupLocationFileSystem then
         bindG (up (v_disk_usage v (mget (pa_Location p) ''path''))) (\<lambda>(usedPercent, free).
           if FreeLimit < usedPercent then raise (Errorf disk_full_text)
           else bindG (up (dir_size v (pa_Path p))) (\<lambda>n.
             if free < required_space n then raise (Errorf ''Insufficient space on the target disk.'') else ret ()))
       else ret ()))"

definition running_event :: "string \<Rightarrow> string \<Rightarrow> int \<Rightarrow> (string \<times> json) list" where
  "running_event snapshot backup percent =
    [(''id'', JStr snapshot), (''type'', JStr ''backup''), (''backupId'', JStr backup), (''progress'', jint percent),
     (''status'', JStr (phase_String Running)), (''message'', JStr [])]"

text \<open>A state message over NATS: the sender only logs the errors of the encoding and of the broker, so a run
  never sees them.\<close>

definition Send :: "('w, 'm) services_scheme \<Rightarrow> string \<Rightarrow> (string \<times> json) list \<Rightarrow> ('w, unit) go" where
  "Send v user data = ignore_error (v_send v user data)"

lemma Send_no_Fail: "Send v user data w \<noteq> (Fail e, w')"
  by (simp add: Send_def ignore_error_no_Fail)

lemma Send_settles: "v_send v user data w = (r, w') \<Longrightarrow> settles r \<Longrightarrow> Send v user data w = (Ret (), w')"
  unfolding Send_def by (rule ignore_error_settles)

definition prepareForRun :: "('w, 'm) services_scheme \<Rightarrow> ('w, unit) bgo" where
  "prepareForRun v = bindG the_Backup (\<lambda>backup. bindG the_Snapshot (\<lambda>snapshot.
     bindG (up (Send v (bs_Owner (bk_Spec backup))
        (running_event (sn_Name snapshot) (bk_Name backup) 0 @ [(''size'', JStr ''0'')]))) (\<lambda>_.
     up (snapshot_UpdatePhase v (sn_Name snapshot) (phase_String Running) ''Backup start running''))))"

text \<open>
  The wait for the application. When the context is over the source tests the error variable of the
  start request, which is nil there, so the wait ends without an error in every case.
\<close>

definition trim_files :: "string \<Rightarrow> string list option \<Rightarrow> string list option" where
  "trim_files p fs = (case fs of
      None \<Rightarrow> Some [] | Some [] \<Rightarrow> Some []
    | Some xs \<Rightarrow> (let r = TrimArrayPrefix xs p in if r = [] then None else Some r))"

fun wait_for_app :: "('w, 'm) services_scheme \<Rightarrow> AppHandler \<Rightarrow> string \<Rightarrow> string \<Rightarrow> nat \<Rightarrow> ('w, unit) bgo" where
  "wait_for_app v app backupId snapshotId 0 = (\<lambda>w. (Diverge, w))"
| "wait_for_app v app backupId snapshotId (Suc n) = bindG (up (v_tick v)) (\<lambda>tick.
     if \<not> tick then ret ()
     else tryG (up (GetAppBackupStatus v app backupId snapshotId))
       (\<lambda>result. case bx_Data result of
          None \<Rightarrow> raise (Errorf ''get app backup status error, data is nil'')
        | Some d \<Rightarrow>
            if bd_Status d = ''finish'' then
              modify (\<lambda>s. s\<lparr>sb_BackupAppStatus := Some (result\<lparr>bx_Data := Some (d\<lparr>
                bd_EntryFiles := trim_files ''/olares'' (bd_EntryFiles d),
                bd_PgFiles := trim_files ''/olares'' (bd_PgFiles d)\<rparr>)\<rparr>)\<rparr>)
            else wait_for_app v app backupId snapshotId n)
       (\<lambda>e. raise (Errorf (''get app backup status error: '' @ err_text e))))"

definition readyForBackupApp :: "('w, 'm) services_scheme \<Rightarrow> ('w, unit) bgo" where
  "readyForBackupApp v = bindG self (\<lambda>s. if sb_BackupType s \<noteq> BackupTypeApp then ret () else
     bindG the_Backup (\<lambda>backup. bindG the_Snapshot (\<lambda>snapshot.
       let app = NewAppHandler (GetBackupAppName backup) (bs_Owner (bk_Spec backup)) in
       bindG (up (StartAppBackup v app (bk_Name backup) (sn_Name snapshot))) (\<lambda>_.
         wait_for_app v app (bk_Name backup) (sn_Name snapshot) (v_fuel v)))))"

text \<open>A file with one path per line is rewritten: the lines are put below a directory or lose a prefix.\<close>

definition replaceFilePaths :: "('w, 'm) services_scheme \<Rightarrow> string \<Rightarrow> string \<Rightarrow> bool \<Rightarrow> ('w, unit) go" where
  "replaceFilePaths v fp replacedFilePathPrefix appendPrefix = bindG (v_read_lines v fp) (\<lambda>lines.
     v_write_lines v fp (map (\<lambda>line. if appendPrefix then path_Join [replacedFilePathPrefix, line]
        else TrimPrefix line replacedFilePathPrefix) lines))"

definition formatAppBackupFiles :: "('w, 'm) services_scheme \<Rightarrow> 'w backup_sdk \<Rightarrow> ('w, unit) bgo" where
  "formatAppBackupFiles v sdk = bindG self (\<lambda>s. if sb_BackupType s \<noteq> BackupTypeApp then ret () else
     bindG the_Backup (\<lambda>backup.
     bindG (derefG nil_deref (sb_BackupAppStatus s)) (\<lambda>st. bindG (derefG nil_deref (bx_Data st)) (\<lambda>d.
       let entry = (case bd_EntryFiles d of None \<Rightarrow> [] | Some xs \<Rightarrow> xs);
           pg = (case bd_PgFiles d of None \<Rightarrow> [] | Some xs \<Rightarrow> xs);
           home = path_Join [sb_UserspacePvcPath s, ''Home''] in
       bindG (forG (\<lambda>f. up (replaceFilePaths v f home True)) entry) (\<lambda>_.
       bindG (forG (\<lambda>f. up (replaceFilePaths v f ''/olares'' False)) pg) (\<lambda>_.
       modify (\<lambda>s. s\<lparr>sb_BackupAppFilesPrefix := marshal_strings [home,
            path_Join [''/rootfs/middleware-backup/pg_backup'', bs_Owner (bk_Spec backup)]],
          sb_BackupAppFiles := entry @ pg, sb_BackupAppMetadata := sdk_ToJSON sdk (bd_Data d)\<rparr>)))))))"

section \<open>Running\<close>

text \<open>
  The progress callback. Nothing is written after the end of the context, the last percent is held back
  for the result, and other reports are at least five seconds apart. The errors of \<open>UpdateProgress\<close> are
  dropped.
\<close>

definition report_progress :: "('w, 'm) services_scheme \<Rightarrow> int \<Rightarrow> ('w, unit) bgo" where
  "report_progress v percent = bindG self (\<lambda>s.
     bindG (up (ignore_error (snapshot_UpdateProgress v (sb_SnapshotId s) percent))) (\<lambda>_.
     bindG the_Backup (\<lambda>backup. bindG the_Snapshot (\<lambda>snapshot.
       up (Send v (bs_Owner (bk_Spec backup)) (running_event (sn_Name snapshot) (bk_Name backup) percent))))))"

definition progress_due :: "timestamp \<Rightarrow> timestamp option \<Rightarrow> bool" where
  "progress_due now prev = (case prev of None \<Rightarrow> True | Some t \<Rightarrow> now - t \<ge> 5 * 1000000000)"

definition progressCallback :: "('w, 'm) services_scheme \<Rightarrow> rat \<Rightarrow> ('w, unit) bgo" where
  "progressCallback v percentDone = (\<lambda>(w, s).
     if v_done v w then (Ret (), (w, s))
     else let percent = progress_percent percentDone in
       if percent = progressDone then report_progress v (progressDone - 1) (w, s)
       else if progress_due (k_now v w) (sb_LastProgressTime s) \<and> sb_LastProgressPercent s \<noteq> percent
       then report_progress v percent (w, s\<lparr>sb_LastProgressPercent := percent, sb_LastProgressTime := Some (k_now v w)\<rparr>)
       else (Ret (), (w, s)))"

text \<open>The errors of the single token requests are dropped, which leaves nil pointers in the list.\<close>

fun fetch_tokens :: "('w, 'm) services_scheme \<Rightarrow> string \<Rightarrow> string \<Rightarrow> string list \<Rightarrow> ('w, IntegrationToken option list) go" where
  "fetch_tokens v owner location [] = ret []"
| "fetch_tokens v owner location (a # as) = bindG (tryG (v_cloudToken v owner location a) (\<lambda>t. ret (Some t)) (\<lambda>e. ret None)) (\<lambda>t.
     bindG (fetch_tokens v owner location as) (\<lambda>ts. ret (t # ts)))"

fun find_token :: "(IntegrationToken \<Rightarrow> bool) \<Rightarrow> IntegrationToken option list \<Rightarrow> IntegrationToken option outcome" where
  "find_token P [] = Ret None"
| "find_token P (None # ts) = Panic nil_deref"
| "find_token P (Some t # ts) = (if P t then Ret (Some t) else find_token P ts)"

definition getIntegrationCloud :: "('w, 'm) services_scheme \<Rightarrow> ('w, IntegrationToken) bgo" where
  "getIntegrationCloud v = bindG the_Params (\<lambda>p. bindG the_Backup (\<lambda>backup.
     let l = pa_Location p; location = mget l ''location''; endpoint = mget l ''endpoint''; owner = bs_Owner (bk_Spec backup) in
     bindG (up (v_accountsByLocation v owner location)) (\<lambda>accounts.
     bindG (up (fetch_tokens v owner location accounts)) (\<lambda>tokens.
       if tokens = [] then raise (Errorf ''no integration cloud tokens found'')
       else bindG (liftO (find_token (\<lambda>t. it_AccessKey t = mget l ''name'') tokens)) (\<lambda>r. case r of
         Some t \<Rightarrow> bindG (modify (\<lambda>s. s\<lparr>sb_IntegrationChanged := False\<rparr>)) (\<lambda>_. ret t)
       | None \<Rightarrow> bindG (liftO (find_token (\<lambda>t. it_Endpoint t = endpoint) tokens)) (\<lambda>r. case r of
           None \<Rightarrow> raise (Errorf (''the integration token was not found, or the endpoint does not match. please check the integration configuration, backup endpoint: '' @ endpoint))
         | Some t \<Rightarrow> bindG (modify (\<lambda>s. s\<lparr>sb_IntegrationChanged := True, sb_IntegrationName := it_AccessKey t,
              sb_IntegrationEndpoint := it_Endpoint t\<rparr>)) (\<lambda>_. ret t)))))))"

definition buildLocation :: "StorageBackup \<Rightarrow> (string \<times> string) outcome" where
  "buildLocation s = (case sb_Params s of None \<Rightarrow> Panic nil_deref | Some p \<Rightarrow>
     let location = mget (pa_Location p) ''location'' in
     if \<not> sb_IntegrationChanged s then Ret ([], [])
     else if location \<in> {location_String BackupLocationSpace, location_String BackupLocationFileSystem} then Ret ([], [])
     else Ret (location, ToJSON (JObj [(''endpoint'', JStr (sb_IntegrationEndpoint s)), (''name'', JStr (sb_IntegrationName s))])))"

definition backup_option :: "Backup \<Rightarrow> BackupParameters \<Rightarrow> StorageBackup \<Rightarrow> string \<Rightarrow> repo_access \<Rightarrow> BackupOption" where
  "backup_option backup p s rate access = \<lparr>bo_Password = pa_Password p, bo_Operator = ''app'', bo_BackupType = sb_BackupType s,
     bo_BackupAppTypeName = sb_BackupAppTypeName s, bo_BackupFileTypeSourcePath = pa_SourcePath p,
     bo_RepoId = bk_Name backup, bo_RepoName = bs_Name (bk_Spec backup), bo_Path = pa_Path p,
     bo_Files = sb_BackupAppFiles s, bo_FilesPrefixPath = sb_BackupAppFilesPrefix s, bo_Metadata = sb_BackupAppMetadata s,
     bo_LimitUploadRate = rate, bo_Access = access\<rparr>"

definition upload_rate :: "('w, 'm) services_scheme \<Rightarrow> string" where
  "upload_rate v = EnvOrDefault (v_getenv v) ''LIMIT_UPLOAD_RATE'' []"

definition space_access :: "('w, 'm) services_scheme \<Rightarrow> SpaceToken \<Rightarrow> smap \<Rightarrow> repo_access" where
  "space_access v t l = SpaceAccess (st_OlaresDid t) (st_AccessToken t) (mget l ''clusterId'') (mget l ''cloudName'')
     (mget l ''regionId'') (v_SyncServerURL v)"

text \<open>
  For a Space repository the token is asked for again; when that fails the statistics are asked for
  without a repository access. The other three kinds use the access of the backup.
\<close>

definition getStats :: "('w, 'm) services_scheme \<Rightarrow> 'w backup_sdk \<Rightarrow> BackupOption \<Rightarrow> ('w, u64) bgo" where
  "getStats v sdk opt = bindG the_Params (\<lambda>p. bindG the_Backup (\<lambda>backup.
     let stats = (\<lambda>access. up (sdk_Stats sdk \<lparr>po_Password = pa_Password p, po_Operator = [], po_SnapshotId = [],
            po_RepoId = (if access = None then [] else bo_RepoId opt),
            po_RepoName = (if access = None then [] else bo_RepoName opt), po_Access = access\<rparr>))
     in case bo_Access opt of
       SpaceAccess _ _ _ _ _ _ \<Rightarrow> tryG (up (v_spaceToken v (bs_Owner (bk_Spec backup)) (mget (pa_Location p) ''name'')))
         (\<lambda>t. stats (Some (space_access v t (pa_Location p)))) (\<lambda>e. stats None)
     | access \<Rightarrow> stats (Some access)))"

definition total_size :: "('w, u64) bgo \<Rightarrow> ('w, u64) bgo" where
  "total_size stats = tryG stats ret (\<lambda>e. ret 0)"

definition not_subscribed_text :: string where
  "not_subscribed_text = ''You are not currently subscribed to Olares Space.''"

definition no_space_text :: string where
  "no_space_text = ''Insufficient storage in Olares Space.''"

text \<open>The remaining storage is computed on \<open>uint64\<close>: it wraps around when more is used than the plan has.\<close>

definition check_usage :: "u64 \<Rightarrow> UsageData \<Rightarrow> gerr option" where
  "check_usage backupSize u =
     (if us_PlanLevel u = 1 then Some (Errorf not_subscribed_text)
      else if \<not> us_CanBackup u \<or> us_ToTalSize u - us_UsageSize u < backupSize then Some (Errorf no_space_text)
      else None)"

text \<open>
  The loop of a Space backup, with fuel. The output and the storage of an attempt that is given up stay
  in the named results. The argument \<open>compared\<close> tells whether the quota was checked;
  a backup whose error mentions \<open>refresh-token error\<close> is tried again with the token of the cache.
\<close>

fun space_loop :: "('w, 'm) services_scheme \<Rightarrow> 'w backup_sdk \<Rightarrow> Backup \<Rightarrow> BackupParameters \<Rightarrow> bool \<Rightarrow>
    SummaryOutput option \<Rightarrow> StorageInfo option \<Rightarrow> nat \<Rightarrow> ('w, BackupOption option \<times> backup_answer) bgo" where
  "space_loop v sdk backup p compared output0 storage0 0 = (\<lambda>w. (Diverge, w))"
| "space_loop v sdk backup p compared output0 storage0 (Suc n) =
     bindG (attempt (up (v_spaceToken v (bs_Owner (bk_Spec backup)) (mget (pa_Location p) ''name'')))) (\<lambda>r. case r of
       Inl e \<Rightarrow> ret (None, output0, storage0, Some e)
     | Inr t \<Rightarrow> bindG self (\<lambda>s.
         let opt = backup_option backup p s (upload_rate v) (space_access v t (pa_Location p)) in
         bindG (if compared then ret None
                else bindG (attempt (up (CheckCloudStorageQuotaAndPermission v (v_SyncServerURL v) (st_OlaresDid t) (st_AccessToken t))))
                  (\<lambda>u. case u of Inl e \<Rightarrow> ret (Some e) | Inr u \<Rightarrow> ret (check_usage (sb_BackupSize s) u)))
           (\<lambda>quota. case quota of
              Some e \<Rightarrow> ret (Some opt, output0, storage0, Some e)
            | None \<Rightarrow> bindG (sdk_Backup sdk opt (progressCallback v)) (\<lambda>(output, storage, err). case err of
                Some e \<Rightarrow> if Contains (err_text e) ''refresh-token error'' then space_loop v sdk backup p True output storage n
                          else ret (Some opt, output, storage, Some e)
              | None \<Rightarrow> ret (Some opt, output, storage, None)))))"

definition backupToSpace :: "('w, 'm) services_scheme \<Rightarrow> 'w backup_sdk \<Rightarrow> ('w, backup_result) bgo" where
  "backupToSpace v sdk = bindG the_Backup (\<lambda>backup. bindG the_Params (\<lambda>p.
     bindG (space_loop v sdk backup p False None None (v_fuel v)) (\<lambda>(opt, output, storage, err). case (err, opt) of
       (None, Some o') \<Rightarrow> bindG (total_size (getStats v sdk o')) (\<lambda>n. ret (output, storage, n, None))
     | _ \<Rightarrow> ret (output, storage, 0, err))))"

text \<open>
  The accounts of the two clouds. When the account of an S3 plan cannot be found, the message of the error is
  built from the nil token, which panics.
\<close>

definition run_service :: "('w, 'm) services_scheme \<Rightarrow> 'w backup_sdk \<Rightarrow> string \<Rightarrow> repo_access \<Rightarrow> ('w, backup_result) bgo" where
  "run_service v sdk rate access = bindG the_Backup (\<lambda>backup. bindG the_Params (\<lambda>p. bindG self (\<lambda>s.
     let opt = backup_option backup p s rate access in
     bindG (sdk_Backup sdk opt (progressCallback v)) (\<lambda>(output, storage, err). case err of
       Some e \<Rightarrow> ret (output, storage, 0, Some e)
     | None \<Rightarrow> bindG (total_size (getStats v sdk opt)) (\<lambda>n. ret (output, storage, n, None))))))"

definition execute :: "('w, 'm) services_scheme \<Rightarrow> 'w backup_sdk \<Rightarrow> ('w, backup_result) bgo" where
  "execute v sdk = bindG the_Params (\<lambda>p. let location = mget (pa_Location p) ''location'' in
     if location = location_String BackupLocationSpace then backupToSpace v sdk
     else if location = location_String BackupLocationAwsS3 then
       tryG (getIntegrationCloud v)
         (\<lambda>t. run_service v sdk (upload_rate v) (AwsAccess (it_Endpoint t) (it_AccessKey t) (it_SecretKey t)))
         (\<lambda>e. panicG nil_deref)
     else if location = location_String BackupLocationTencentCloud then
       tryG (getIntegrationCloud v)
         (\<lambda>t. run_service v sdk (upload_rate v) (TencentCloudAccess (it_Endpoint t) (it_AccessKey t) (it_SecretKey t)))
         (\<lambda>e. ret (None, None, 0, Some (Errorf (''get tencentcloud token error: '' @ err_text e))))
     else if location = location_String BackupLocationFileSystem then
       run_service v sdk [] (FilesystemAccess (mget (pa_Location p) ''path''))
     else panicG nil_deref)"

section \<open>The result\<close>

text \<open>An object that the client returns beside an error (other than a missing client) is the zero object.\<close>

definition zero_meta :: objmeta where
  "zero_meta = \<lparr>om_Name = [], om_Labels = [], om_ResourceVersion = [], om_CreationTimestamp = 0\<rparr>"

definition zero_Backup :: Backup where
  "zero_Backup = \<lparr>bk_meta = zero_meta, bk_Spec = \<lparr>bs_Name = [], bs_Owner = [], bs_Location = None, bs_BackupPolicy = None,
     bs_BackupType = None, bs_Size = None, bs_RestoreSize = None, bs_CreateAt = None, bs_Notified = False,
     bs_Deleted = False, bs_Extra = None\<rparr>\<rparr>"

definition zero_Snapshot :: Snapshot where
  "zero_Snapshot = \<lparr>sn_meta = zero_meta, sn_Spec = \<lparr>ss_BackupId = [], ss_Location = [], ss_SnapshotType = None,
     ss_SnapshotId = None, ss_Size = None, ss_CreateAt = None, ss_StartAt = None, ss_EndAt = None, ss_Progress = 0,
     ss_Phase = None, ss_Message = None, ss_ResticPhase = None, ss_ResticMessage = None, ss_Extra = None\<rparr>\<rparr>"

definition ConnectErrors :: "string list" where
  "ConnectErrors = [''dial tcp'', ''connect:'']"

text \<open>
  What the poll does after a read: stop, try again later, or go on with an object. Without a client the
  object is nil (\<open>None\<close>); a failed request gives the zero object.
\<close>

datatype 'a reading = Stop | Again | Object "'a option"

definition read_error :: "'o option \<Rightarrow> gerr \<Rightarrow> 'o reading" where
  "read_error obj e = (if IsNotFound e then Stop
     else if ListMatchContains ConnectErrors (err_text e) then Again else Object obj)"

definition read_object :: "('w, unit) go \<Rightarrow> 'o \<Rightarrow> ('w, 'o) go \<Rightarrow> ('w, 'o reading) go" where
  "read_object client zero request = tryG client
     (\<lambda>_. tryG request (\<lambda>x. ret (Object (Some x))) (\<lambda>e. ret (read_error (Some zero) e)))
     (\<lambda>e. ret (read_error None e))"

definition failure_phase :: "gerr \<Rightarrow> Phase" where
  "failure_phase e = (if Contains (err_text e) (ToLower (phase_String Canceled)) then Canceled else Failed)"

definition result_phase :: "gerr option \<Rightarrow> Phase" where
  "result_phase err = (case err of None \<Rightarrow> Completed | Some e \<Rightarrow> failure_phase e)"

text \<open>The new spec of the snapshot; without an error a missing output is a nil dereference.\<close>

definition result_spec :: "timestamp \<Rightarrow> StorageBackup \<Rightarrow> backup_result \<Rightarrow> SnapshotSpec \<Rightarrow> SnapshotSpec outcome" where
  "result_spec now s = (\<lambda>(output, storage, totalSize, err) spec.
     let finish = (\<lambda>sp. let e1 = mput (entries (ss_Extra sp)) ''backup_total_size'' (u64_text totalSize);
            e2 = (case storage of None \<Rightarrow> e1 | Some si \<Rightarrow> mput e1 ''storage'' (si_json si));
            e3 = (if sb_BackupType s = BackupTypeApp then mput e2 ''app_metadata'' (ToJSON
                    (case sb_BackupAppStatus s of None \<Rightarrow> JNull | Some st \<Rightarrow> backup_app_status_json st)) else e2)
          in Ret (sp\<lparr>ss_EndAt := Some now, ss_Extra := Some e3\<rparr>))
     in case err of
       Some e \<Rightarrow> let phase = phase_String (failure_phase e) in
         finish (spec\<lparr>ss_Phase := Some phase, ss_Message := Some (err_text e), ss_ResticPhase := Some phase,
           ss_SnapshotType := (if sb_SnapshotType s = None then ss_SnapshotType spec else sb_SnapshotType s)\<rparr>)
     | None \<Rightarrow> (case output of
         None \<Rightarrow> Panic nil_deref
       | Some o' \<Rightarrow> let phase = phase_String Completed in
           finish (spec\<lparr>ss_SnapshotType := sb_SnapshotType s, ss_SnapshotId := Some (so_SnapshotID o'),
             ss_Size := Some (so_TotalBytesProcessed o'), ss_Progress := progressDone, ss_Phase := Some phase,
             ss_Message := Some phase, ss_ResticPhase := Some phase, ss_ResticMessage := Some (so_json o')\<rparr>)))"

definition result_event :: "timestamp \<Rightarrow> string \<Rightarrow> string \<Rightarrow> backup_result \<Rightarrow> (string \<times> json) list" where
  "result_event now snapshot backup = (\<lambda>(output, storage, totalSize, err).
     [(''id'', JStr snapshot), (''type'', JStr ''backup''), (''backupId'', JStr backup), (''endat'', jint (now div 1000000000))] @
     (case err of
        Some e \<Rightarrow> [(''status'', JStr (phase_String (failure_phase e))), (''message'', JStr (err_text e))]
      | None \<Rightarrow> (case output of None \<Rightarrow> [] | Some o' \<Rightarrow>
          [(''size'', JStr (u64_text (so_TotalBytesProcessed o'))), (''totalSize'', JStr (u64_text totalSize)),
           (''restoreSize'', JStr (u64_text (so_RestoreSize o'))), (''progress'', jint progressDone),
           (''status'', JStr (phase_String Completed)), (''message'', JStr (phase_String Completed))])))"

definition update_attempt :: "('w, 'm) services_scheme \<Rightarrow> backup_result \<Rightarrow> ('w, bool) bgo" where
  "update_attempt v result = (\<lambda>(w, s0). if v_done v w then (Ret True, (w, s0)) else
     bindG the_Backup (\<lambda>backup0. bindG the_Snapshot (\<lambda>snapshot0.
       let now = k_now v w in
       bindG (up (read_object (k_client v) zero_Backup (k_backup_get v (bk_Name backup0)))) (\<lambda>rb. case rb of
         Stop \<Rightarrow> ret True | Again \<Rightarrow> ret False | Object backup' \<Rightarrow>
       bindG (up (read_object (k_client v) zero_Snapshot (k_snapshot_get v (sn_Name snapshot0)))) (\<lambda>rs. case rs of
         Stop \<Rightarrow> ret True | Again \<Rightarrow> ret False | Object snapshot' \<Rightarrow>
       bindG (derefG nil_deref snapshot') (\<lambda>snapshot.
       bindG (liftO (result_spec now s0 result (sn_Spec snapshot))) (\<lambda>spec.
       bindG (case result of (output, storage, totalSize, err) \<Rightarrow> (case output of
           None \<Rightarrow> ret ()
         | Some o' \<Rightarrow> bindG (liftO (buildLocation s0)) (\<lambda>(newLocation, newLocationData).
             bindG (derefG nil_deref backup') (\<lambda>backup.
             up (ignore_error (UpdateTotalSize v backup totalSize (so_RestoreSize o') newLocation newLocationData)))))) (\<lambda>_.
       bindG (up (Send v (bs_Owner (bk_Spec backup0)) (result_event now (sn_Name snapshot0) (bk_Name backup0) result))) (\<lambda>_.
       bindG (up (UpdateBackupResult v (snapshot\<lparr>sn_Spec := spec\<rparr>))) (\<lambda>_. ret True))))))))) (w, s0))"

definition updateBackupResult :: "('w, 'm) services_scheme \<Rightarrow> backup_result \<Rightarrow> ('w, unit) bgo" where
  "updateBackupResult v result = poll (up (v_sleep v)) (v_polls v) (update_attempt v result)"

definition sendAppBackupResult :: "('w, 'm) services_scheme \<Rightarrow> gerr option \<Rightarrow> ('w, unit) bgo" where
  "sendAppBackupResult v err = bindG self (\<lambda>s. if sb_BackupType s \<noteq> BackupTypeApp then ret () else
     bindG the_Backup (\<lambda>backup. bindG the_Snapshot (\<lambda>snapshot.
       up (SendBackupResult v (NewAppHandler (GetBackupAppName backup) (bs_Owner (bk_Spec backup))) (bk_Name backup) (sn_Name snapshot) err))))"

section \<open>The run\<close>

definition prepare :: "('w, 'm) services_scheme \<Rightarrow> 'w backup_sdk \<Rightarrow> ('w, unit) bgo" where
  "prepare v sdk = bindG (getUserspacePvc v) (\<lambda>_. bindG validateSnapshotPreconditions (\<lambda>_. bindG (checkSnapshotType v) (\<lambda>_.
     bindG (prepareBackupParams v) (\<lambda>_. bindG (checkDiskSize v) (\<lambda>_. bindG (prepareForRun v) (\<lambda>_.
     bindG (readyForBackupApp v) (\<lambda>_. formatAppBackupFiles v sdk)))))))"

definition RunBackup :: "('w, 'm) services_scheme \<Rightarrow> 'w backup_sdk \<Rightarrow> ('w, unit) bgo" where
  "RunBackup v sdk = bindG (checkBackupExists v) (\<lambda>_.
     tryG (prepare v sdk)
       (\<lambda>_. bindG the_Params (\<lambda>_. bindG (execute v sdk) (\<lambda>(output, storage, totalSize, err).
          bindG (ignore_error (updateBackupResult v (output, storage, totalSize, err))) (\<lambda>_. sendAppBackupResult v err))))
       (\<lambda>e. bindG (ignore_error (updateBackupResult v (None, None, 0, Some e))) (\<lambda>_. sendAppBackupResult v (Some e))))"

end
