(* ===== verification/BackupRunFacts.thy ===== *)
theory BackupRunFacts
  imports BackupRun
begin

text \<open>What the run of a backup guarantees: its progress reports, its result, its checks and its loops.\<close>

section \<open>Evaluation\<close>

lemma the_Backup_eval [go_simps]: "sb_Backup s = Some b \<Longrightarrow> the_Backup (w, s) = (Ret b, (w, s))"
  and the_Snapshot_eval [go_simps]: "sb_Snapshot s = Some sn \<Longrightarrow> the_Snapshot (w, s) = (Ret sn, (w, s))"
  and the_Params_eval [go_simps]: "sb_Params s = Some p \<Longrightarrow> the_Params (w, s) = (Ret p, (w, s))"
  by (simp_all add: the_Backup_def the_Snapshot_def the_Params_def)

lemma bindG_self_objects [go_simps]:
  "sb_Backup s = Some b \<Longrightarrow> bindG the_Backup f (w, s) = f b (w, s)"
  "sb_Snapshot s = Some sn \<Longrightarrow> bindG the_Snapshot g (w, s) = g sn (w, s)"
  "sb_Params s = Some p \<Longrightarrow> bindG the_Params h (w, s) = h p (w, s)"
  by (simp_all add: bindG_Ret the_Backup_eval the_Snapshot_eval the_Params_eval)

section \<open>Progress\<close>

text \<open>C25: a progress callback with a fraction between 0 and 1 either leaves everything as it is or
  reports a percent from 0 to 9999, never the final 10000; it reports nothing once the context is over,
  and any report other than 9999 comes at least five seconds after the last and with a new value.\<close>

theorem progressCallback_reports:
  assumes "0 \<le> p" "p \<le> 1"
  shows "progressCallback v p (w, s) = (Ret (), (w, s)) \<or>
    (\<exists>q s'. progressCallback v p (w, s) = report_progress v q (w, s') \<and> \<not> v_done v w \<and> 0 \<le> q \<and> q < progressDone \<and>
       (q = progressDone - 1 \<or> (progress_due (k_now v w) (sb_LastProgressTime s) \<and> q \<noteq> sb_LastProgressPercent s \<and>
          s' = s\<lparr>sb_LastProgressPercent := q, sb_LastProgressTime := Some (k_now v w)\<rparr>)))"
proof -
  obtain q where q: "q = progress_percent p" by blast
  have r: "0 \<le> q" "q \<le> progressDone" using progress_percent_range[OF assms] q by simp_all
  show ?thesis
  proof (cases "v_done v w")
    case False
    note nd = this
    show ?thesis
    proof (cases "q = progressDone")
      case True
      hence "progressCallback v p (w, s) = report_progress v (progressDone - 1) (w, s)"
        using nd q by (simp add: progressCallback_def Let_def)
      thus ?thesis using nd by (intro disjI2 exI[of _ "progressDone - 1"] exI[of _ s]) (simp add: progressDone_def)
    next
      case ne: False
      show ?thesis
      proof (cases "progress_due (k_now v w) (sb_LastProgressTime s) \<and> sb_LastProgressPercent s \<noteq> q")
        case True
        hence "progressCallback v p (w, s) =
            report_progress v q (w, s\<lparr>sb_LastProgressPercent := q, sb_LastProgressTime := Some (k_now v w)\<rparr>)"
          using nd ne q by (simp add: progressCallback_def Let_def)
        thus ?thesis using True nd ne r by (intro disjI2 exI conjI) auto
      next
        case False
        hence "progressCallback v p (w, s) = (Ret (), (w, s))"
          using nd ne by (simp only: progressCallback_def q[symmetric] Let_def prod.case if_False)
        thus ?thesis by simp
      qed
    qed
  qed (simp add: progressCallback_def)
qed

definition sample_run :: StorageBackup where
  "sample_run = \<lparr>sb_SnapshotId = ''s1'', sb_Backup = Some (sample_backup ''b1'' 10 False),
     sb_Snapshot = Some (sample_snapshot ''s1'' Running), sb_Params = None, sb_SnapshotType = Some 0,
     sb_IntegrationChanged = False, sb_IntegrationName = [], sb_IntegrationEndpoint = [], sb_UserspacePvcName = [],
     sb_UserspacePvcPath = [], sb_AppcachePvcName = [], sb_AppcachePvcPath = [], sb_LastProgressPercent = 0,
     sb_LastProgressTime = None, sb_BackupType = ''file'', sb_BackupAppTypeName = [], sb_BackupAppStatus = None,
     sb_BackupAppFiles = [], sb_BackupAppFilesPrefix = [], sb_BackupAppMetadata = [], sb_BackupSize = 0\<rparr>"

lemma progressCallback_reports_witness:
  "\<exists>p. progressCallback mem_services p (sample_store, sample_run) = (Ret (), (sample_store, sample_run)) \<or>
     (\<exists>q s'. progressCallback mem_services p (sample_store, sample_run) = report_progress mem_services q (sample_store, s') \<and> q < progressDone)"
  using progressCallback_reports[of "1 / 2" mem_services sample_store sample_run] by auto

section \<open>The result of a run\<close>

lemma ToLower_Canceled: "ToLower (phase_String Canceled) = ''canceled''"
  by code_simp

lemma result_spec_Ret:
  assumes "result_spec now s (o', st, n, err) sp = Ret sp'"
  shows "ss_Phase sp' = Some (phase_String (result_phase err))"
    and "ss_ResticPhase sp' = ss_Phase sp'" "ss_EndAt sp' = Some now"
    and "ss_Message sp' = Some (case err of None \<Rightarrow> phase_String Completed | Some e \<Rightarrow> err_text e)"
    and "k \<notin> {''backup_total_size'', ''storage'', ''app_metadata''} \<Longrightarrow> lookup (ss_Extra sp') k = lookup (ss_Extra sp) k"
    and "lookup (ss_Extra sp') ''backup_total_size'' = Some (u64_text n)"
    and "err \<noteq> None \<Longrightarrow> ss_Progress sp' = ss_Progress sp \<and> ss_SnapshotId sp' = ss_SnapshotId sp \<and> ss_Size sp' = ss_Size sp"
    and "err = None \<Longrightarrow> o' \<noteq> None \<and> ss_Progress sp' = progressDone \<and> ss_SnapshotId sp' = map_option so_SnapshotID o'
        \<and> ss_Size sp' = map_option so_TotalBytesProcessed o'"
    and "ss_BackupId sp' = ss_BackupId sp"
  using assms
  by (auto simp: result_spec_def Let_def result_phase_def lookup_def split: option.splits if_splits)

text \<open>The result written into the spec of a snapshot: the phase is Completed without an error,
  Canceled for an error whose text mentions \<open>canceled\<close> and Failed otherwise, with the end time, the
  message and the total size; the notification state and every other extra entry is kept, and only a run
  without an error sets the progress to 10000 and records the restic snapshot and its size.\<close>

theorem result_spec_phase:
  assumes "result_spec now s (o', st, n, err) sp = Ret sp'"
  shows "ss_Phase sp' = Some (phase_String (case err of None \<Rightarrow> Completed
      | Some e \<Rightarrow> if Contains (err_text e) ''canceled'' then Canceled else Failed))
    \<and> ss_EndAt sp' = Some now
    \<and> ss_Message sp' = Some (case err of None \<Rightarrow> ''Completed'' | Some e \<Rightarrow> err_text e)
    \<and> lookup (ss_Extra sp') ''push'' = lookup (ss_Extra sp) ''push''
    \<and> lookup (ss_Extra sp') ''backup_total_size'' = Some (u64_text n)
    \<and> (if err = None then ss_Progress sp' = 10000 \<and> ss_SnapshotId sp' = map_option so_SnapshotID o' \<and> o' \<noteq> None
       else ss_Progress sp' = ss_Progress sp \<and> ss_SnapshotId sp' = ss_SnapshotId sp)"
  using result_spec_Ret(1-4,6-8)[OF assms] result_spec_Ret(5)[OF assms, of "''push''"]
  by (auto simp: result_phase_def failure_phase_def ToLower_Canceled progressDone_def simp del: phase_String.simps(6) split: option.splits)

lemma result_spec_phase_witness:
  "\<exists>sp'. result_spec 7 sample_run (None, None, 0, Some (Errorf ''context canceled'')) (sn_Spec (sample_snapshot ''s1'' Running)) = Ret sp'
     \<and> ss_EndAt sp' = Some 7"
proof -
  obtain sp' where r: "result_spec 7 sample_run (None, None, 0, Some (Errorf ''context canceled'')) (sn_Spec (sample_snapshot ''s1'' Running)) = Ret sp'"
    by (simp add: result_spec_def Let_def)
  show ?thesis using result_spec_phase[OF r] r by blast
qed

lemma read_object_Ret:
  "k_client k w = (Ret (), w1) \<Longrightarrow> m w1 = (Ret x, w2) \<Longrightarrow>
     read_object (k_client k) z m w = (Ret (Object (Some x)), w2)"
  by (simp add: read_object_def go_simps)

text \<open>
  The write of a result, symbolically: with a live context and both objects read, the attempt sends the
  plan's sizes (its errors are dropped), the event and then the snapshot.
\<close>

lemma update_attempt_eval:
  assumes "\<not> v_done v w" "sb_Backup s = Some b" "sb_Snapshot s = Some sn"
    and "k_client v w = (Ret (), w1)" "k_backup_get v (bk_Name b) w1 = (Ret b', w2)"
    and "k_client v w2 = (Ret (), w3)" "k_snapshot_get v (sn_Name sn) w3 = (Ret sn', w4)"
    and "result_spec (k_now v w) s (o', st, n, err) (sn_Spec sn') = Ret sp"
    and "case o' of None \<Rightarrow> w5 = w4 | Some out \<Rightarrow> \<exists>loc data. buildLocation s = Ret (loc, data)
           \<and> ignore_error (UpdateTotalSize v b' n (so_RestoreSize out) loc data) w4 = (Ret (), w5)"
    and "Send v (bs_Owner (bk_Spec b)) (result_event (k_now v w) (sn_Name sn) (bk_Name b) (o', st, n, err)) w5 = (Ret (), w6)"
    and "UpdateBackupResult v (sn'\<lparr>sn_Spec := sp\<rparr>) w6 = (Ret (), w7)"
  shows "update_attempt v (o', st, n, err) (w, s) = (Ret True, (w7, s))"
proof -
  have rb: "read_object (k_client v) zero_Backup (k_backup_get v (bk_Name b)) w = (Ret (Object (Some b')), w2)"
    using assms(4,5) by (rule read_object_Ret)
  have rs: "read_object (k_client v) zero_Snapshot (k_snapshot_get v (sn_Name sn)) w2 = (Ret (Object (Some sn')), w4)"
    using assms(6,7) by (rule read_object_Ret)
  show ?thesis
  proof (cases o')
    case None
    thus ?thesis using assms(1-3,8-11)
      by (simp add: update_attempt_def go_simps Let_def rb rs up_Ret)
  next
    case (Some out)
    then obtain loc data where l: "buildLocation s = Ret (loc, data)"
      "ignore_error (UpdateTotalSize v b' n (so_RestoreSize out) loc data) w4 = (Ret (), w5)"
      using assms(9) by auto
    show ?thesis using assms(1-3,8,10,11) Some l
      by (simp add: update_attempt_def go_simps Let_def rb rs up_Ret bindG_Ret up_eval)
  qed
qed

section \<open>A finished snapshot\<close>

lemma checkBackupExists_eval:
  assumes "snapshot_GetById v (sb_SnapshotId s) w = (Ret sn, w1)"
    and "backup_GetById v (ss_BackupId (sn_Spec sn)) w1 = (Ret b, w2)"
  obtains s1 where "checkBackupExists v (w, s) = (Ret (), (w2, s1))" "sb_Backup s1 = Some b" "sb_Snapshot s1 = Some sn"
    "sb_BackupType s1 = GetBackupType b" "sb_SnapshotType s1 = sb_SnapshotType s"
  using assms by (simp add: checkBackupExists_def up_simps Let_def)

lemma getUserspacePvc_eval:
  assumes "sb_Backup s = Some b" "GetUserspacePvc v (bs_Owner (bk_Spec b)) w = (Ret u, w1)"
  obtains s1 where "getUserspacePvc v (w, s) = (Ret (), (w1, s1))" "sb_Backup s1 = sb_Backup s" "sb_Snapshot s1 = sb_Snapshot s"
    "sb_BackupType s1 = sb_BackupType s" "sb_SnapshotType s1 = sb_SnapshotType s"
  using assms by (simp add: getUserspacePvc_def go_simps up_simps)

lemma prepare_not_pending:
  assumes "sb_Backup s = Some b" "sb_Snapshot s = Some sn" "GetUserspacePvc v (bs_Owner (bk_Spec b)) w = (Ret u, w1)"
    and "ss_Phase (sn_Spec sn) = Some ph" "ph \<noteq> phase_String Pending"
  obtains s1 where "prepare v sdk (w, s) = (Fail (Errorf ''snapshot phase invalid''), (w1, s1))"
    "sb_Backup s1 = Some b" "sb_Snapshot s1 = Some sn" "sb_BackupType s1 = sb_BackupType s" "sb_SnapshotType s1 = sb_SnapshotType s"
proof -
  obtain s1 where g: "getUserspacePvc v (w, s) = (Ret (), (w1, s1))" "sb_Backup s1 = sb_Backup s" "sb_Snapshot s1 = sb_Snapshot s"
    "sb_BackupType s1 = sb_BackupType s" "sb_SnapshotType s1 = sb_SnapshotType s"
    using getUserspacePvc_eval[OF assms(1,3)] by blast
  have "validateSnapshotPreconditions (w1, s1) = (Fail (Errorf ''snapshot phase invalid''), (w1, s1))"
    using assms(2,4,5) g(3) by (simp add: validateSnapshotPreconditions_def go_simps)
  hence "prepare v sdk (w, s) = (Fail (Errorf ''snapshot phase invalid''), (w1, s1))"
    using g(1) by (simp add: prepare_def bindG_Ret bindG_Fail)
  thus ?thesis using that g assms(1,2) by simp
qed

text \<open>C7: a run on a snapshot that is not Pending never starts a backup, whatever the SDK does: it records the
  error \<open>snapshot phase invalid\<close>, so that a snapshot that was already Completed ends as Failed with the current
  time as its end, and then only tells an application plan of the failure (for a plan of files nothing follows).
  It is shown for a context that is live when the result is written, for a plan and a snapshot that are found,
  for an owner whose volumes are found and for reads and a write of the result that succeed.\<close>

theorem RunBackup_not_pending:
  assumes "snapshot_GetById v (sb_SnapshotId s) w = (Ret sn, w1)"
    and "backup_GetById v (ss_BackupId (sn_Spec sn)) w1 = (Ret b, w2)"
    and "GetUserspacePvc v (bs_Owner (bk_Spec b)) w2 = (Ret u, w3)"
    and "ss_Phase (sn_Spec sn) = Some ph" "ph \<noteq> phase_String Pending"
    and "\<not> v_done v w3" "0 < v_polls v"
    and "k_client v w3 = (Ret (), w4)" "k_backup_get v (bk_Name b) w4 = (Ret b', w5)"
    and "k_client v w5 = (Ret (), w6)" "k_snapshot_get v (sn_Name sn) w6 = (Ret sn', w7)"
    and "\<And>ev. Send v (bs_Owner (bk_Spec b)) ev w7 = (Ret (), w8)"
    and "\<And>sp. UpdateBackupResult v (sn'\<lparr>sn_Spec := sp\<rparr>) w8 = (Ret (), w9 sp)"
  shows "\<exists>sp s'. RunBackup v sdk (w, s) = sendAppBackupResult v (Some (Errorf ''snapshot phase invalid'')) (w9 sp, s')
    \<and> (GetBackupType b \<noteq> ''app'' \<longrightarrow> RunBackup v sdk (w, s) = (Ret (), (w9 sp, s')))
    \<and> ss_Phase sp = Some ''Failed''
    \<and> ss_Message sp = Some ''snapshot phase invalid'' \<and> ss_EndAt sp = Some (k_now v w3)"
proof -
  obtain s1 where c: "checkBackupExists v (w, s) = (Ret (), (w2, s1))" "sb_Backup s1 = Some b" "sb_Snapshot s1 = Some sn"
    "sb_BackupType s1 = GetBackupType b" using checkBackupExists_eval[OF assms(1,2)] by metis
  obtain s2 where p: "prepare v sdk (w2, s1) = (Fail (Errorf ''snapshot phase invalid''), (w3, s2))"
    "sb_Backup s2 = Some b" "sb_Snapshot s2 = Some sn" "sb_BackupType s2 = sb_BackupType s1"
    using prepare_not_pending[OF c(2,3) assms(3,4,5)] by metis
  let ?e = "Errorf ''snapshot phase invalid''"
  obtain sp where sp: "result_spec (k_now v w3) s2 (None, None, 0, Some ?e) (sn_Spec sn') = Ret sp"
    by (simp add: result_spec_def Let_def)
  have "update_attempt v (None, None, 0, Some ?e) (w3, s2) = (Ret True, (w9 sp, s2))"
    by (rule update_attempt_eval[OF assms(6) p(2,3) assms(8-11) sp _ assms(12,13)]) simp
  hence u: "updateBackupResult v (None, None, 0, Some ?e) (w3, s2) = (Ret (), (w9 sp, s2))"
    unfolding updateBackupResult_def by (rule poll_done[OF assms(7)])
  have run: "RunBackup v sdk (w, s) = sendAppBackupResult v (Some ?e) (w9 sp, s2)"
    using c(1) p(1) u by (simp add: RunBackup_def bindG_Ret tryG_Fail ignore_error_def tryG_Ret)
  have "sb_BackupType s2 = GetBackupType b" using c(4) p(4) by simp
  hence "GetBackupType b \<noteq> ''app'' \<longrightarrow> RunBackup v sdk (w, s) = (Ret (), (w9 sp, s2))"
    unfolding run by (simp add: sendAppBackupResult_def bindG_Ret)
  moreover have "\<not> Contains (err_text ?e) ''canceled''" by code_simp
  ultimately show ?thesis
    using result_spec_Ret(1,3,4)[OF sp] run
    by (intro exI[of _ sp] exI[of _ s2]) (simp add: result_phase_def failure_phase_def ToLower_Canceled del: phase_String.simps(6))
qed

definition finished_store :: store where
  "finished_store = sample_store\<lparr>st_snapshots := [(sample_snapshot ''s1'' Completed)]\<rparr>"

definition fresh_run :: StorageBackup where
  "fresh_run = sample_run\<lparr>sb_Backup := None, sb_Snapshot := None\<rparr>"

lemma RunBackup_not_pending_witness:
  "\<forall>sdk. \<exists>sp s'. RunBackup mem_services sdk (finished_store, fresh_run) =
      (Ret (), (snd (UpdateBackupResult mem_services ((sample_snapshot ''s1'' Completed)\<lparr>sn_Spec := sp\<rparr>) finished_store), s'))
    \<and> ss_Phase sp = Some ''Failed'' \<and> ss_Message sp = Some ''snapshot phase invalid'' \<and> ss_EndAt sp = Some (k_now mem_services finished_store)"
proof
  fix sdk
  let ?b = "sample_backup ''b1'' 10 False"
  have files: "GetBackupType ?b \<noteq> ''app''"
    by (simp add: GetBackupType_def sample_backup_def sample_spec_def)
  have "\<exists>sp s'. RunBackup mem_services sdk (finished_store, fresh_run) =
      sendAppBackupResult mem_services (Some (Errorf ''snapshot phase invalid''))
        (snd (UpdateBackupResult mem_services ((sample_snapshot ''s1'' Completed)\<lparr>sn_Spec := sp\<rparr>) finished_store), s')
    \<and> (GetBackupType ?b \<noteq> ''app'' \<longrightarrow> RunBackup mem_services sdk (finished_store, fresh_run) =
        (Ret (), (snd (UpdateBackupResult mem_services ((sample_snapshot ''s1'' Completed)\<lparr>sn_Spec := sp\<rparr>) finished_store), s')))
    \<and> ss_Phase sp = Some ''Failed'' \<and> ss_Message sp = Some ''snapshot phase invalid'' \<and> ss_EndAt sp = Some (k_now mem_services finished_store)"
  proof (rule RunBackup_not_pending[where b = ?b and b' = ?b])
    show g: "snapshot_GetById mem_services (sb_SnapshotId fresh_run) finished_store = (Ret (sample_snapshot ''s1'' Completed), finished_store)"
      by (simp add: snapshot_GetById_def mem_services_sel mem_get_def find_by_def finished_store_def fresh_run_def sample_run_def
          sample_snapshot_def new_snapshot_def)
    show "backup_GetById mem_services (ss_BackupId (sn_Spec (sample_snapshot ''s1'' Completed))) finished_store = (Ret (sample_backup ''b1'' 10 False), finished_store)"
      by (simp add: backup_GetById_def mem_services_sel mem_get_def find_by_def finished_store_def sample_store_def
          sample_snapshot_def new_snapshot_def sample_backup_def)
    show "GetUserspacePvc mem_services (bs_Owner (bk_Spec (sample_backup ''b1'' 10 False))) finished_store =
       (Ret \<lparr>uv_userspacePath = path_Join [''/'', ''rootfs'', ''userspace'', ''u''], uv_userspacePvc = ''u'',
          uv_appcachePath = path_Join [''/'', ''appcache'', ''Cache'', ''c''], uv_appcachePvc = ''c''\<rparr>, finished_store)"
      by (simp add: GetUserspacePvc_def mem_services_sel)
    show "ss_Phase (sn_Spec (sample_snapshot ''s1'' Completed)) = Some ''Completed''" by (simp add: sample_snapshot_def)
    show "k_backup_get mem_services (bk_Name (sample_backup ''b1'' 10 False)) finished_store = (Ret (sample_backup ''b1'' 10 False), finished_store)"
      by (simp add: mem_services_sel mem_get_def find_by_def finished_store_def sample_store_def sample_backup_def)
    show "k_snapshot_get mem_services (sn_Name (sample_snapshot ''s1'' Completed)) finished_store = (Ret (sample_snapshot ''s1'' Completed), finished_store)"
      by (simp add: mem_services_sel mem_get_def find_by_def finished_store_def sample_snapshot_def new_snapshot_def)
    show "UpdateBackupResult mem_services ((sample_snapshot ''s1'' Completed)\<lparr>sn_Spec := sp\<rparr>) finished_store =
        (Ret (), snd (UpdateBackupResult mem_services ((sample_snapshot ''s1'' Completed)\<lparr>sn_Spec := sp\<rparr>) finished_store))" for sp
      by (simp add: UpdateBackupResult_def snapshot_update_def mem_services_sel mem_update_def find_by_def finished_store_def
          sample_snapshot_def new_snapshot_def numeral_eq_Suc go_simps bindG_apply tryG_def)
  qed (simp_all add: mem_services_sel Send_def ignore_error_def tryG_def go_simps)
  thus "\<exists>sp s'. RunBackup mem_services sdk (finished_store, fresh_run) =
      (Ret (), (snd (UpdateBackupResult mem_services ((sample_snapshot ''s1'' Completed)\<lparr>sn_Spec := sp\<rparr>) finished_store), s'))
    \<and> ss_Phase sp = Some ''Failed'' \<and> ss_Message sp = Some ''snapshot phase invalid'' \<and> ss_EndAt sp = Some (k_now mem_services finished_store)"
    using files by blast
qed

text \<open>A run whose context is over when its execution ends (a cancelled snapshot, for one) records nothing: the
  first poll of the result ends at once without an error, and only the application is told.\<close>

lemma updateBackupResult_done:
  "v_done v w \<Longrightarrow> 0 < v_polls v \<Longrightarrow> updateBackupResult v result (w, s) = (Ret (), (w, s))"
  unfolding updateBackupResult_def by (rule poll_done) (simp_all add: update_attempt_def)

text \<open>C5: a run that gets through its preparation and then executes. When the context is live at the end of the
  execution, it records what the execution answered: the snapshot that is sent last has the phase of the answer
  (Completed without an error, Canceled when the text of the error mentions \<open>canceled\<close>, Failed otherwise) and the
  end time, and keeps the notification state; after that only the application is told. When the context is over by
  then (the user cancelled, or the process stops), nothing is recorded and only the application is told. The
  live case is shown for reads and writes of the result that succeed; the totals of the plan may fail to be
  written.\<close>

theorem RunBackup_records_result:
  assumes "checkBackupExists v (w, s) = (Ret (), ws1)" "prepare v sdk ws1 = (Ret (), (w2, s2))" "sb_Params s2 = Some p"
    and "execute v sdk (w2, s2) = (Ret (o', st, n, err), (w3, s3))" "0 < v_polls v"
    and "v_done v w3 \<or> sb_Backup s3 = Some b \<and> sb_Snapshot s3 = Some sn
      \<and> k_client v w3 = (Ret (), w4) \<and> k_backup_get v (bk_Name b) w4 = (Ret b', w5)
      \<and> k_client v w5 = (Ret (), w6) \<and> k_snapshot_get v (sn_Name sn) w6 = (Ret sn', w7)
      \<and> result_spec (k_now v w3) s3 (o', st, n, err) (sn_Spec sn') = Ret sp
      \<and> (case o' of None \<Rightarrow> w8 = w7 | Some out \<Rightarrow> \<exists>loc data. buildLocation s3 = Ret (loc, data)
           \<and> ignore_error (UpdateTotalSize v b' n (so_RestoreSize out) loc data) w7 = (Ret (), w8))
      \<and> Send v (bs_Owner (bk_Spec b)) (result_event (k_now v w3) (sn_Name sn) (bk_Name b) (o', st, n, err)) w8 = (Ret (), w9)
      \<and> UpdateBackupResult v (sn'\<lparr>sn_Spec := sp\<rparr>) w9 = (Ret (), w10)"
  shows "RunBackup v sdk (w, s) = sendAppBackupResult v err (if v_done v w3 then w3 else w10, s3)
    \<and> (\<not> v_done v w3 \<longrightarrow> ss_Phase sp = Some (phase_String (result_phase err)) \<and> ss_EndAt sp = Some (k_now v w3)
       \<and> lookup (ss_Extra sp) ''push'' = lookup (ss_Extra (sn_Spec sn')) ''push'')"
proof -
  have u: "updateBackupResult v (o', st, n, err) (w3, s3) = (Ret (), (if v_done v w3 then w3 else w10, s3))"
  proof (cases "v_done v w3")
    case True
    thus ?thesis using assms(5) by (simp add: updateBackupResult_done)
  next
    case False
    have "update_attempt v (o', st, n, err) (w3, s3) = (Ret True, (w10, s3))"
      by (rule update_attempt_eval[OF False]) (use False assms(6) in blast)+
    thus ?thesis using False unfolding updateBackupResult_def by (simp add: poll_done[OF assms(5)])
  qed
  have "RunBackup v sdk (w, s) = sendAppBackupResult v err (if v_done v w3 then w3 else w10, s3)"
    using assms(1-4) u by (cases ws1) (simp add: RunBackup_def bindG_Ret tryG_Ret bindG_self_objects(3) ignore_error_def)
  moreover have "ss_Phase sp = Some (phase_String (result_phase err)) \<and> ss_EndAt sp = Some (k_now v w3)
      \<and> lookup (ss_Extra sp) ''push'' = lookup (ss_Extra (sn_Spec sn')) ''push''" if "\<not> v_done v w3"
  proof -
    have r: "result_spec (k_now v w3) s3 (o', st, n, err) (sn_Spec sn') = Ret sp" using assms(6) that by blast
    show ?thesis using result_spec_Ret(1,3)[OF r] result_spec_Ret(5)[OF r, of "''push''"] by simp
  qed
  ultimately show ?thesis by blast
qed

section \<open>Checks before the run\<close>

text \<open>A file backup to the local file system passes the disk check only if at most 85 percent of the
  target disk are used and, for a backup below 4 PiB, the free space is at least the size of the backup.\<close>

theorem checkDiskSize_leaves_room:
  assumes "checkDiskSize v (w, s) = (Ret (), (w', s'))"
    and "sb_BackupType s \<noteq> ''app''" "sb_Params s = Some p" "mget (pa_Location p) ''location'' = ''filesystem''"
  shows "\<exists>used free n w1. v_disk_usage v (mget (pa_Location p) ''path'') w = (Ret (used, free), w1)
    \<and> v_DirSize v (pa_Path p) w1 = (Ret n, w') \<and> used \<le> 85 \<and> required_space n \<le> free
    \<and> (uint n < 2 ^ 52 \<longrightarrow> n \<le> free) \<and> s' = s"
proof -
  obtain used free w1 where u: "v_disk_usage v (mget (pa_Location p) ''path'') w = (Ret (used, free), w1)"
    and c: "bindG (up (v_disk_usage v (mget (pa_Location p) ''path''))) (\<lambda>(usedPercent, free).
       if FreeLimit < usedPercent then raise (Errorf disk_full_text)
       else bindG (up (dir_size v (pa_Path p))) (\<lambda>n.
         if free < required_space n then raise (Errorf ''Insufficient space on the target disk.'') else ret ())) (w, s) = (Ret (), (w', s'))"
    using assms by (auto simp: checkDiskSize_def go_simps Let_def up_def bindG_Ret_iff split: prod.splits)
  have used: "used \<le> FreeLimit" using c u by (auto simp: up_Ret split: if_splits)
  then obtain n where n: "dir_size v (pa_Path p) w1 = (Ret n, w')" "\<not> free < required_space n" "s' = s"
    using c by (auto simp: u up_Ret bindG_Ret_iff up_def split: if_splits prod.splits)
  have "v_DirSize v (pa_Path p) w1 = (Ret n, w')"
    using n(1) by (auto simp: dir_size_def tryG_def split: outcome.splits prod.splits)
  moreover have "n \<le> free" if "uint n < 2 ^ 52" using required_space_ge[OF that] n(2) by (meson linorder_not_less order.trans)
  ultimately show ?thesis using u used n(2,3) by (auto simp: FreeLimit_def linorder_not_less)
qed

definition sample_params :: BackupParameters where
  "sample_params = \<lparr>pa_Password = ''pw'', pa_Path = ''/src'', pa_SourcePath = ''/Files/Home/'',
     pa_Location = [(''location'', ''filesystem''), (''path'', ''/target'')], pa_LocationInFileSystem = ''/Files/''\<rparr>"

lemma checkDiskSize_leaves_room_witness:
  "checkDiskSize mem_services (sample_store, sample_run\<lparr>sb_Params := Some sample_params\<rparr>)
     = (Ret (), (sample_store, sample_run\<lparr>sb_Params := Some sample_params\<rparr>)) \<and> (100 :: u64) \<le> 1000"
proof -
  have f: "f64 100 = 100" using f64_int[of 100] by simp
  have c: "f64 (21 / 20) \<le> 2" using f64_le_int[of "21 / 20" 2] by simp
  have c1: "1 \<le> f64 (21 / 20)" using f64_ge_int[of "21 / 20" 1] by simp
  have b: "1 \<le> 100 * f64 (21 / 20)" "100 * f64 (21 / 20) < 2 ^ 53" "100 * f64 (21 / 20) \<le> of_int 200" using c c1 by simp_all
  have F: "f64 (100 * f64 (21 / 20)) \<le> 200" "100 \<le> f64 (100 * f64 (21 / 20))"
    using f64_le_int[OF b] f64_ge_int[OF b(1,2), of 100] c1 by simp_all
  have "required_space 100 \<le> 1000"
  proof -
    obtain x where x: "x = f64 (100 * f64 (21 / 20))" by blast
    have "0 \<le> \<lfloor>x\<rfloor>" "\<lfloor>x\<rfloor> \<le> 200" using F by (simp_all add: x floor_le_iff)
    moreover have "required_space 100 = word_of_int \<lfloor>x\<rfloor>" using F by (simp add: required_space_def f f64_to_int_def x)
    moreover have "\<lfloor>x\<rfloor> mod 18446744073709551616 = \<lfloor>x\<rfloor>" using calculation(1,2) by simp
    ultimately show ?thesis by (simp add: word_le_def uint_word_of_int)
  qed
  hence r: "checkDiskSize mem_services (sample_store, sample_run\<lparr>sb_Params := Some sample_params\<rparr>)
     = (Ret (), (sample_store, sample_run\<lparr>sb_Params := Some sample_params\<rparr>))"
    by (simp add: checkDiskSize_def sample_run_def sample_params_def go_simps mget_def mem_services_sel dir_size_def
        FreeLimit_def linorder_not_less)
  obtain used free n w1 where "v_DirSize mem_services ''/src'' w1 = (Ret n, sample_store)" "v_disk_usage mem_services ''/target'' sample_store = (Ret (used, free), w1)"
     "uint n < 2 ^ 52 \<longrightarrow> n \<le> free"
    using checkDiskSize_leaves_room[OF r, of sample_params] by (auto simp: sample_run_def sample_params_def mget_def)
  hence "(100::u64) \<le> 1000" by (simp add: mem_services_sel)
  thus ?thesis using r by simp
qed

text \<open>The quota check of Olares Space is right while the plan is not overused: it lets a backup pass
  exactly when the user has a paid plan that may back up and the backup is at most the storage that is
  left. When more is used than the plan has, the unsigned difference wraps around and the check
  lets a backup of any realistic size pass.\<close>

theorem check_usage_wraps:
  "(us_UsageSize u \<le> us_ToTalSize u \<longrightarrow>
        (check_usage n u = None \<longleftrightarrow> us_PlanLevel u \<noteq> 1 \<and> us_CanBackup u \<and>
           uint n \<le> uint (us_ToTalSize u) - uint (us_UsageSize u)))
    \<and> (us_ToTalSize u < us_UsageSize u \<longrightarrow>
        (check_usage n u = None \<longleftrightarrow> us_PlanLevel u \<noteq> 1 \<and> us_CanBackup u \<and>
           uint n \<le> 2 ^ 64 - (uint (us_UsageSize u) - uint (us_ToTalSize u))))"
proof -
  have "check_usage n u = None \<longleftrightarrow> us_PlanLevel u \<noteq> 1 \<and> us_CanBackup u \<and> uint n \<le> uint (us_ToTalSize u - us_UsageSize u)"
    by (auto simp: check_usage_def word_less_alt)
  moreover have "uint (us_ToTalSize u - us_UsageSize u) = (if uint (us_UsageSize u) \<le> uint (us_ToTalSize u)
      then uint (us_ToTalSize u) - uint (us_UsageSize u) else uint (us_ToTalSize u) - uint (us_UsageSize u) + 2 ^ 64)"
    by (simp add: uint_sub_if')
  ultimately show ?thesis by (auto simp: word_le_def word_less_def)
qed

lemma check_usage_wraps_witness:
  "check_usage 1000 \<lparr>us_ToTalSize = 10, us_UsageSize = 11, us_CanBackup = True, us_PlanLevel = 2\<rparr> = None"
  using check_usage_wraps[of "\<lparr>us_ToTalSize = 10, us_UsageSize = 11, us_CanBackup = True, us_PlanLevel = 2\<rparr>" 1000] by simp

section \<open>Loops\<close>

lemma space_loop_stuck:
  assumes "\<And>w' s'. (w', s') = (w, s) \<Longrightarrow> v_spaceToken v (bs_Owner (bk_Spec b)) (mget (pa_Location p) ''name'') w' = (Ret t, w')"
    and "\<And>opt. sdk_Backup sdk opt (progressCallback v) (w, s) = (Ret (o', st, Some e), (w, s))"
    and "Contains (err_text e) ''refresh-token error''"
  shows "fst (space_loop v sdk b p True oa sa n (w, s)) = Diverge"
  using assms
  by (induction n arbitrary: oa sa) (simp_all add: bindG_Ret attempt_eval up_eval Let_def)

text \<open>C34: a Space backup whose SDK keeps answering \<open>refresh-token error\<close> is never given up: the token that is
  asked for again is the cached one, so once the quota has been checked the loop never returns.\<close>

theorem space_backup_retries_forever:
  assumes "v_spaceToken v (bs_Owner (bk_Spec b)) (mget (pa_Location p) ''name'') w = (Ret t, w)"
    and "CheckCloudStorageQuotaAndPermission v (v_SyncServerURL v) (st_OlaresDid t) (st_AccessToken t) w = (Ret u, w)"
    and "check_usage (sb_BackupSize s) u = None"
    and "\<And>opt. sdk_Backup sdk opt (progressCallback v) (w, s) = (Ret (o', st, Some e), (w, s))"
    and "Contains (err_text e) ''refresh-token error''"
  shows "fst (space_loop v sdk b p False oa sa fuel (w, s)) = Diverge"
proof (cases fuel)
  case (Suc n)
  have "fst (space_loop v sdk b p True o' st n (w, s)) = Diverge"
    using assms(1,4,5) by (intro space_loop_stuck) auto
  thus ?thesis using assms Suc by (simp add: bindG_Ret attempt_eval up_eval Let_def)
qed simp

definition refresh_sdk :: "store backup_sdk" where
  "refresh_sdk = \<lparr>sdk_Backup = (\<lambda>opt cb. ret (None, None, Some (Errorf ''refresh-token error''))),
     sdk_Stats = (\<lambda>opt. ret 0), sdk_ToJSON = ToJSON\<rparr>"

lemma space_backup_retries_forever_witness:
  "fst (space_loop mem_services refresh_sdk (sample_backup ''b1'' 10 False) sample_params False None None 1000000 (sample_store, sample_run)) = Diverge"
proof (rule space_backup_retries_forever[where u = "\<lparr>us_ToTalSize = 10, us_UsageSize = 3, us_CanBackup = True, us_PlanLevel = 2\<rparr>"
      and t = demo_space_token and e = "Errorf ''refresh-token error''" and o' = None and st = None])
  show "Contains (err_text (Errorf ''refresh-token error'')) ''refresh-token error''" by code_simp
qed (simp_all add: mem_services_sel CheckCloudStorageQuotaAndPermission_def http_Post_def check_usage_def sample_run_def refresh_sdk_def)

text \<open>When the context of an application backup ends while the application is still preparing, the wait
  ends without an error and the run goes on to the files of the status it never got, which panics.\<close>

theorem canceled_app_backup_panics:
  assumes "sb_BackupType s = ''app''" "sb_Backup s = Some b" "sb_Snapshot s = Some sn" "sb_BackupAppStatus s = None"
    and "StartAppBackup v (NewAppHandler (GetBackupAppName b) (bs_Owner (bk_Spec b))) (bk_Name b) (sn_Name sn) w = (Ret (), w1)"
    and "v_tick v w1 = (Ret False, w2)" "0 < v_fuel v"
  shows "bindG (readyForBackupApp v) (\<lambda>_. formatAppBackupFiles v sdk) (w, s) = (Panic nil_deref, (w2, s))"
proof -
  obtain n where n: "v_fuel v = Suc n" using assms(7) gr0_implies_Suc by blast
  have "wait_for_app v app bi si (Suc n) (w1, s) = (Ret (), (w2, s))" for app bi si
    by (simp add: up_Ret[of "v_tick v", OF assms(6)])
  hence "readyForBackupApp v (w, s) = (Ret (), (w2, s))"
    using assms(1-3,5) n by (simp del: wait_for_app.simps add: readyForBackupApp_def go_simps Let_def up_Ret)
  moreover have "formatAppBackupFiles v sdk (w2, s) = (Panic nil_deref, (w2, s))"
    using assms(1,2,4) by (simp add: formatAppBackupFiles_def go_simps)
  ultimately show ?thesis by (simp add: bindG_Ret)
qed

lemma canceled_app_backup_panics_witness:
  "fst (bindG (readyForBackupApp (mem_services\<lparr>v_tick := ret False\<rparr>)) (\<lambda>_. formatAppBackupFiles (mem_services\<lparr>v_tick := ret False\<rparr>) refresh_sdk)
     (sample_store, sample_run\<lparr>sb_BackupType := ''app''\<rparr>)) = Panic nil_deref"
proof -
  let ?v = "mem_services\<lparr>v_tick := ret False\<rparr>" and ?s = "sample_run\<lparr>sb_BackupType := ''app''\<rparr>"
  have "bindG (readyForBackupApp ?v) (\<lambda>_. formatAppBackupFiles ?v refresh_sdk) (sample_store, ?s) = (Panic nil_deref, (sample_store, ?s))"
  proof (rule canceled_app_backup_panics)
    show "sb_BackupType ?s = ''app''" "sb_Backup ?s = Some (sample_backup ''b1'' 10 False)"
      "sb_Snapshot ?s = Some (sample_snapshot ''s1'' Running)" "sb_BackupAppStatus ?s = None"
      by (simp_all add: sample_run_def)
    show "StartAppBackup ?v (NewAppHandler (GetBackupAppName (sample_backup ''b1'' 10 False)) (bs_Owner (bk_Spec (sample_backup ''b1'' 10 False))))
        (bk_Name (sample_backup ''b1'' 10 False)) (sn_Name (sample_snapshot ''s1'' Running)) sample_store = (Ret (), sample_store)"
      by (simp add: StartAppBackup_def check_start_def mem_services_sel)
    show "v_tick ?v sample_store = (Ret False, sample_store)" "0 < v_fuel ?v" by (simp_all add: mem_services_sel)
  qed
  thus ?thesis by simp
qed

section \<open>The account of a cloud plan\<close>

lemma find_token_Some: "find_token P (map Some ts) = Ret (find P ts)"
  by (induction ts) simp_all

lemma getIntegrationCloud_eval:
  assumes "sb_Params s = Some p" "sb_Backup s = Some b"
    and "v_accountsByLocation v (bs_Owner (bk_Spec b)) (mget (pa_Location p) ''location'') w = (Ret accounts, w1)"
    and "fetch_tokens v (bs_Owner (bk_Spec b)) (mget (pa_Location p) ''location'') accounts w1 = (Ret (map Some ts), w2)" "ts \<noteq> []"
  shows "getIntegrationCloud v (w, s) =
    (case find (\<lambda>t. it_AccessKey t = mget (pa_Location p) ''name'') ts of
       Some t \<Rightarrow> (Ret t, (w2, s\<lparr>sb_IntegrationChanged := False\<rparr>))
     | None \<Rightarrow> (case find (\<lambda>t. it_Endpoint t = mget (pa_Location p) ''endpoint'') ts of
         Some t \<Rightarrow> (Ret t, (w2, s\<lparr>sb_IntegrationChanged := True, sb_IntegrationName := it_AccessKey t, sb_IntegrationEndpoint := it_Endpoint t\<rparr>))
       | None \<Rightarrow> (Fail (Errorf (''the integration token was not found, or the endpoint does not match. please check the integration configuration, backup endpoint: ''
             @ mget (pa_Location p) ''endpoint'')), (w2, s))))"
  using assms(5)
  by (simp add: getIntegrationCloud_def bindG_self_objects(3)[OF assms(1)] bindG_self_objects(1)[OF assms(2)] Let_def
     up_Ret[of "v_accountsByLocation _ _ _", OF assms(3)] up_Ret[of "fetch_tokens _ _ _ _", OF assms(4)] find_token_Some split: option.split)

text \<open>The account of an S3 or Tencent plan is the one named in the plan, and then the plan is
  left as it is; only when no account has that name, an account for the plan's endpoint is taken, and then
  the plan's location is replaced by that account's name and endpoint; without either the run fails.\<close>

theorem getIntegrationCloud_choice:
  assumes "sb_Params s = Some p" "sb_Backup s = Some b" "mget (pa_Location p) ''location'' \<notin> {''space'', ''filesystem''}"
    and "v_accountsByLocation v (bs_Owner (bk_Spec b)) (mget (pa_Location p) ''location'') w = (Ret accounts, w1)"
    and "fetch_tokens v (bs_Owner (bk_Spec b)) (mget (pa_Location p) ''location'') accounts w1 = (Ret (map Some ts), w2)" "ts \<noteq> []"
  shows "\<exists>r s'. getIntegrationCloud v (w, s) = (r, (w2, s')) \<and>
    (case find (\<lambda>t. it_AccessKey t = mget (pa_Location p) ''name'') ts of
       Some t \<Rightarrow> r = Ret t \<and> buildLocation s' = Ret ([], [])
     | None \<Rightarrow> (case find (\<lambda>t. it_Endpoint t = mget (pa_Location p) ''endpoint'') ts of
         Some t \<Rightarrow> r = Ret t \<and> buildLocation s' = Ret (mget (pa_Location p) ''location'',
           ToJSON (JObj [(''endpoint'', JStr (it_Endpoint t)), (''name'', JStr (it_AccessKey t))]))
       | None \<Rightarrow> (\<exists>e. r = Fail e) \<and> s' = s))"
  using getIntegrationCloud_eval[OF assms(1,2,4,5,6)] assms(1,3)
  by (auto simp: buildLocation_def Let_def split: option.splits)

section \<open>A whole run, on concrete services\<close>

text \<open>A server that accepts every write without storing it, and a Pending snapshot of an S3 plan.\<close>

lemma not_app:
  "sb_BackupType s \<noteq> ''app'' \<Longrightarrow> readyForBackupApp v (w, s) = (Ret (), (w, s))"
  "sb_BackupType s \<noteq> ''app'' \<Longrightarrow> formatAppBackupFiles v sdk (w, s) = (Ret (), (w, s))"
  "sb_BackupType s \<noteq> ''app'' \<Longrightarrow> sendAppBackupResult v err (w, s) = (Ret (), (w, s))"
  by (simp_all add: readyForBackupApp_def formatAppBackupFiles_def sendAppBackupResult_def)

definition lax_services :: "store services" where
  "lax_services = mem_services\<lparr>k_backup_update := (\<lambda>_. ret ()), k_snapshot_update := (\<lambda>_. ret ())\<rparr>"
lemmas lax_sel = lax_services_def mem_services_sel
definition s3_backup :: Backup where
  "s3_backup = set_bk_spec (\<lambda>sp. sp\<lparr>bs_Location := Some [(''awss3'', ToJSON (JObj [(''name'', JStr ''A'')]))]\<rparr>) (sample_backup ''b1'' 10 False)"

definition pending_store :: store where
  "pending_store = sample_store\<lparr>st_backups := [s3_backup], st_snapshots := [sample_snapshot ''s1'' Pending]\<rparr>"

definition demo_run1 :: StorageBackup where
  "demo_run1 = fresh_run\<lparr>sb_Backup := Some s3_backup, sb_Snapshot := Some (sample_snapshot ''s1'' Pending), sb_BackupType := []\<rparr>"

lemma s3_backup_sel [simp]:
  "bk_Name s3_backup = ''b1''" "bs_Owner (bk_Spec s3_backup) = ''alice''" "GetBackupType s3_backup = []"
  "bs_Name (bk_Spec s3_backup) = ''docs''" "om_ResourceVersion (bk_meta s3_backup) = ''1''"
  by (simp_all add: s3_backup_def sample_backup_def sample_spec_def GetBackupType_def)

lemma sample_snapshot_sel [simp]: "sn_Name (sample_snapshot n ph) = n" "ss_BackupId (sn_Spec (sample_snapshot n ph)) = ''b1''"
  "ss_Phase (sn_Spec (sample_snapshot n ph)) = Some (phase_String ph)" "om_ResourceVersion (sn_meta (sample_snapshot n ph)) = []"
  "om_Labels (sn_meta (sample_snapshot n ph)) = [(''backup-id'', ''b1''), (''type'', [])]"
  by (simp_all add: sample_snapshot_def new_snapshot_def sample_backup_def GetBackupType_def sample_spec_def)

lemma demo_check: "checkBackupExists lax_services (pending_store, fresh_run) = (Ret (), (pending_store, demo_run1))"
  by (simp add: checkBackupExists_def up_simps Let_def snapshot_GetById_def backup_GetById_def lax_sel mem_get_def find_by_def
     pending_store_def demo_run1_def fresh_run_def sample_run_def tryG_def up_def)

lemma s3_backup_location: "GetBackupLocationConfig s3_backup = Ret (Some [(''name'', ''A''), (''location'', ''awss3'')])"
proof -
  have "json_parse (ToJSON (JObj [(''name'', JStr ''A'')])) = Some (JObj [(''name'', JStr ''A'')])"
    by (rule json_parse_ToJSON) simp
  thus ?thesis by (simp add: GetBackupLocationConfig_def s3_backup_def Unmarshal_map_def cloud_locations_def lookup_def)
qed
definition demo_run2 :: StorageBackup where
  "demo_run2 = demo_run1\<lparr>sb_UserspacePvcName := ''u'', sb_UserspacePvcPath := path_Join [''/'', ''rootfs'', ''userspace'', ''u''],
     sb_AppcachePvcName := ''c'', sb_AppcachePvcPath := path_Join [''/'', ''appcache'', ''Cache'', ''c''], sb_SnapshotType := ParseSnapshotType ''fully''\<rparr>"

lemma pending_selected: "label_match ''backup-id=b1'' (sn_meta (sample_snapshot ''s1'' Pending))"
  using Split_append_char[of "CHR ''=''" "''backup-id''" "''b1''"] Split_fresh[of "CHR ''=''" "''b1''"] by (simp add: label_match_def)

lemma demo_run_sel [simp]: "sb_Backup demo_run1 = Some s3_backup" "sb_Snapshot demo_run1 = Some (sample_snapshot ''s1'' Pending)"
  "sb_Backup demo_run2 = Some s3_backup" "sb_Snapshot demo_run2 = Some (sample_snapshot ''s1'' Pending)" "sb_BackupType demo_run2 = []" 
  "sb_SnapshotId demo_run2 = ''s1''"
  by (simp_all add: demo_run1_def demo_run2_def fresh_run_def sample_run_def)

lemma demo_prep1: "getUserspacePvc lax_services (pending_store, demo_run1) = (Ret (), (pending_store, demo_run2\<lparr>sb_SnapshotType := Some 0\<rparr>))"
  by (simp add: getUserspacePvc_def bindG_self_objects GetUserspacePvc_def lax_sel tryG_def up_def)
   (simp add: demo_run1_def demo_run2_def fresh_run_def sample_run_def)
lemma demo_prep2: "validateSnapshotPreconditions (pending_store, demo_run2\<lparr>sb_SnapshotType := Some 0\<rparr>) = (Ret (), (pending_store, demo_run2\<lparr>sb_SnapshotType := Some 0\<rparr>))"
  by (simp add: validateSnapshotPreconditions_def bindG_self_objects)
lemma demo_prep3: "checkSnapshotType lax_services (pending_store, demo_run2\<lparr>sb_SnapshotType := Some 0\<rparr>) = (Ret (), (pending_store, demo_run2))"
  using pending_selected by (simp add: checkSnapshotType_def bindG_self_objects GetSnapshotType_def ListSnapshots_def lax_sel tryG_def up_def
    backup_selector_def pending_store_def sort_desc_def go_simps)
    (simp add: demo_run2_def demo_run1_def)
definition demo_run3 :: StorageBackup where
  "demo_run3 = demo_run2\<lparr>sb_Params := Some \<lparr>pa_Password = ''pw'', pa_Path = [], pa_SourcePath = [], pa_Location = [(''name'', ''A''), (''location'', ''awss3'')], pa_LocationInFileSystem = []\<rparr>\<rparr>"
lemma demo_prep4: "prepareBackupParams lax_services (pending_store, demo_run2) = (Ret (), (pending_store, demo_run3))"
  by (simp add: prepareBackupParams_def bindG_self_objects Let_def GetBackupPassword_def lax_sel tryG_def up_def go_simps s3_backup_location mget_def demo_run3_def)
lemma demo_prep5: "checkDiskSize lax_services (pending_store, demo_run3) = (Ret (), (pending_store, demo_run3))"
  by (simp add: checkDiskSize_def go_simps Let_def mget_def demo_run3_def)
lemma demo_run3_sel [simp]: "sb_Backup demo_run3 = Some s3_backup" "sb_Snapshot demo_run3 = Some (sample_snapshot ''s1'' Pending)" "sb_BackupType demo_run3 = []" 
  "sb_SnapshotId demo_run3 = ''s1''"
  by (simp_all add: demo_run3_def)

lemma demo_prep6: "prepareForRun lax_services (pending_store, demo_run3) = (Ret (), (pending_store, demo_run3))"
proof -
  have "snapshot_UpdatePhase lax_services ''s1'' ''Running'' ''Backup start running'' pending_store = (Ret (), pending_store)"
    by (simp add: snapshot_UpdatePhase_def snapshot_GetById_def snapshot_update_def numeral_eq_Suc tryG_def
     lax_sel mem_get_def find_by_def pending_store_def go_simps sample_store_def)
  moreover have "Send lax_services o' d w = (Ret (), w)" for o' d w by (simp add: Send_def lax_sel ignore_error_def go_simps)
  ultimately show ?thesis by (simp add: prepareForRun_def bindG_self_objects up_Ret up_eval)
qed
lemma demo_prepare: "prepare lax_services sdk (pending_store, demo_run1) = (Ret (), (pending_store, demo_run3))"
  by (simp add: prepare_def bindG_Ret demo_prep1 demo_prep2 demo_prep3 demo_prep4 demo_prep5 demo_prep6 not_app)

definition ok_output :: SummaryOutput where
  "ok_output = \<lparr>so_SnapshotID = ''deadbeef'', so_TotalBytesProcessed = 4096, so_RestoreSize = 4096, so_json = ''{}''\<rparr>"
definition ok_sdk :: "store backup_sdk" where
  "ok_sdk = \<lparr>sdk_Backup = (\<lambda>opt cb. ret (Some ok_output, None, None)), sdk_Stats = (\<lambda>opt. ret 9000), sdk_ToJSON = ToJSON\<rparr>"

definition demo_run4 :: StorageBackup where "demo_run4 = demo_run3\<lparr>sb_IntegrationChanged := False\<rparr>"
lemma demo_cloud: "getIntegrationCloud lax_services (pending_store, demo_run3) =
   (Ret \<lparr>it_Name = ''A'', it_Type = ''awss3'', it_AccessKey = ''A'', it_SecretKey = ''s'', it_Endpoint = ''e'', it_Bucket = [], it_Available = True\<rparr>, (pending_store, demo_run4))"
proof -
  have p: "sb_Params demo_run3 = Some \<lparr>pa_Password = ''pw'', pa_Path = [], pa_SourcePath = [], pa_Location = [(''name'', ''A''), (''location'', ''awss3'')], pa_LocationInFileSystem = []\<rparr>"
    by (simp add: demo_run3_def)
  show ?thesis
    by (subst getIntegrationCloud_eval[OF p, where b = s3_backup and accounts = "[''A'']" and ?w1.0 = pending_store and ?w2.0 = pending_store
         and ts = "[\<lparr>it_Name = ''A'', it_Type = ''awss3'', it_AccessKey = ''A'', it_SecretKey = ''s'', it_Endpoint = ''e'', it_Bucket = [], it_Available = True\<rparr>]"])
       (simp_all add: lax_sel bindG_apply tryG_def mget_def demo_run4_def)
qed

lemma demo_service:
  assumes "sb_Params s = Some p" "sb_Backup s = Some b" 
  shows "run_service lax_services ok_sdk r (AwsAccess x y z) (w, s) = (Ret (Some ok_output, None, 9000, None), (w, s))"
  by (simp add: run_service_def bindG_self_objects(1)[OF assms(2)] bindG_self_objects(3)[OF assms(1)] ok_sdk_def total_size_def
      getStats_def Let_def backup_option_def tryG_def bindG_Ret up_def bindG_self_objects(1)[OF assms(2)])

lemma demo_execute: "execute lax_services ok_sdk (pending_store, demo_run3) = (Ret (Some ok_output, None, 9000, None), (pending_store, demo_run4))"
proof -
  let ?p = "\<lparr>pa_Password = ''pw'', pa_Path = [], pa_SourcePath = [], pa_Location = [(''name'', ''A''), (''location'', ''awss3'')], pa_LocationInFileSystem = []\<rparr>"
  have p: "sb_Params demo_run3 = Some ?p" "sb_Params demo_run4 = Some ?p" "sb_Backup demo_run4 = Some s3_backup"
    by (simp_all add: demo_run3_def demo_run4_def)
  show ?thesis
    by (simp add: execute_def bindG_self_objects(3)[OF p(1)] Let_def mget_def tryG_Ret[of "getIntegrationCloud _", OF demo_cloud] demo_service[OF p(2,3)])
qed

lemma RunBackup_records_result_witness: "\<exists>s'. RunBackup lax_services ok_sdk (pending_store, fresh_run) = (Ret (), (pending_store, s'))"
proof -
  have demo_run4: "sb_Backup demo_run4 = Some s3_backup" "sb_Snapshot demo_run4 = Some (sample_snapshot ''s1'' Pending)" "sb_BackupType demo_run4 = []"
    "sb_IntegrationChanged demo_run4 = False" by (simp_all add: demo_run4_def)
  obtain sp where sp: "result_spec (k_now lax_services pending_store) demo_run4 (Some ok_output, None, 9000, None) (sn_Spec (sample_snapshot ''s1'' Pending)) = Ret sp"
    by (simp add: result_spec_def Let_def)
  have bl: "buildLocation demo_run4 = Ret ([], [])" by (simp add: buildLocation_def demo_run4_def demo_run3_def)
  have wr: "backup_update lax_services b w = (Ret (), w)" "snapshot_update lax_services sn w = (Ret (), w)" for b sn w
    by (simp_all add: backup_update_def snapshot_update_def lax_sel numeral_eq_Suc tryG_def)
  let ?done = "v_done lax_services pending_store"
  have live: "\<not> ?done" by (simp add: lax_sel)
  have p: "sb_Params demo_run3 = Some \<lparr>pa_Password = ''pw'', pa_Path = [], pa_SourcePath = [], pa_Location = [(''name'', ''A''), (''location'', ''awss3'')], pa_LocationInFileSystem = []\<rparr>"
    by (simp add: demo_run3_def)
  have gets: "k_client lax_services pending_store = (Ret (), pending_store)"
    "k_backup_get lax_services (bk_Name s3_backup) pending_store = (Ret s3_backup, pending_store)"
    "k_snapshot_get lax_services (sn_Name (sample_snapshot ''s1'' Pending)) pending_store = (Ret (sample_snapshot ''s1'' Pending), pending_store)"
    by (simp_all add: lax_sel mem_get_def find_by_def pending_store_def)
  have total: "ignore_error (UpdateTotalSize lax_services s3_backup 9000 (so_RestoreSize ok_output) [] []) pending_store = (Ret (), pending_store)"
    by (simp add: ignore_error_def UpdateTotalSize_def Let_def wr tryG_def)
  have out: "Send lax_services o' d pending_store = (Ret (), pending_store)"
    "UpdateBackupResult lax_services ((sample_snapshot ''s1'' Pending)\<lparr>sn_Spec := sp\<rparr>) pending_store = (Ret (), pending_store)" for o' d
    by (simp add: Send_def ignore_error_def tryG_def lax_sel) (simp add: UpdateBackupResult_def wr)
  have "RunBackup lax_services ok_sdk (pending_store, fresh_run) =
      sendAppBackupResult lax_services None (if ?done then pending_store else pending_store, demo_run4)
    \<and> (\<not> ?done \<longrightarrow> ss_Phase sp = Some (phase_String (result_phase None)) \<and> ss_EndAt sp = Some (k_now lax_services pending_store)
      \<and> lookup (ss_Extra sp) ''push'' = lookup (ss_Extra (sn_Spec (sample_snapshot ''s1'' Pending))) ''push'')"
    by (rule RunBackup_records_result[OF demo_check demo_prepare p demo_execute])
       (use live gets total out sp bl demo_run4 in \<open>auto simp: lax_sel\<close>)
  thus ?thesis by (auto simp: not_app demo_run4 result_phase_def)
qed

lemma getIntegrationCloud_choice_witness:
  "fst (getIntegrationCloud lax_services (pending_store, demo_run3)) =
     Ret \<lparr>it_Name = ''A'', it_Type = ''awss3'', it_AccessKey = ''A'', it_SecretKey = ''s'', it_Endpoint = ''e'', it_Bucket = [], it_Available = True\<rparr>"
proof -
  let ?t = "\<lparr>it_Name = ''A'', it_Type = ''awss3'', it_AccessKey = ''A'', it_SecretKey = ''s'', it_Endpoint = ''e'', it_Bucket = [], it_Available = True\<rparr>"
  have p: "sb_Params demo_run3 = Some \<lparr>pa_Password = ''pw'', pa_Path = [], pa_SourcePath = [], pa_Location = [(''name'', ''A''), (''location'', ''awss3'')], pa_LocationInFileSystem = []\<rparr>"
    by (simp add: demo_run3_def)
  have f: "fetch_tokens lax_services ''alice'' ''awss3'' [''A''] pending_store = (Ret (map Some [?t]), pending_store)"
    by (simp add: lax_sel tryG_def bindG_apply)
  show ?thesis
    using getIntegrationCloud_choice[OF p demo_run3_sel(1), of lax_services pending_store "[''A'']" pending_store "[?t]" pending_store] f
    by (auto simp: mget_def lax_sel)
qed

end
