(* ===== verification/RestoreRun.thy ===== *)
theory RestoreRun
  imports BackupRun
begin

text \<open>
  \<open>pkg/storage/storage_restore.go\<close>: the run of one restore; \<open>storage_snapshots.go\<close> and
  \<open>storage_region.go\<close>: the snapshots of a repository and the regions of Olares Space. The SDK services
  are fields of \<open>restore_sdk\<close>.
\<close>

section \<open>State\<close>

record RestoreParameters =
  rp_BackupId :: string
  rp_BackupName :: string
  rp_Password :: string
  rp_RootPath :: string
  rp_Path :: string
  rp_Location :: smap

record StorageRestore =
  sr_RestoreId :: string
  sr_Backup :: "Backup option"
  sr_Snapshot :: "Snapshot option"
  sr_Restore :: "Restore option"
  sr_RestoreType :: "RestoreType option"
  sr_BackupType :: string
  sr_RestoreAppStatus :: "RestoreAppStatusData option"
  sr_UserspacePvcName :: string
  sr_UserspacePvcPath :: string
  sr_AppcachePvcName :: string
  sr_AppcachePvcPath :: string
  sr_Params :: "RestoreParameters option"
  sr_LastProgressPercent :: int
  sr_LastProgressTime :: "timestamp option"

type_synonym ('w, 'a) rgo = "('w \<times> StorageRestore, 'a) go"

text \<open>The restore answers with its output (only its JSON text is used), the metadata, the number of
  bytes and an error.\<close>

type_synonym restore_result = "json \<times> string \<times> u64 \<times> gerr option"

record 'w restore_sdk =
  sdk_Restore :: "RestoreOption \<Rightarrow> (rat \<Rightarrow> ('w \<times> StorageRestore, unit) go) \<Rightarrow> ('w \<times> StorageRestore, restore_result) go"

definition r_Backup :: "('w, Backup) rgo" where
  "r_Backup = bindG self (\<lambda>s. derefG nil_deref (sr_Backup s))"

definition r_Restore :: "('w, Restore) rgo" where
  "r_Restore = bindG self (\<lambda>s. derefG nil_deref (sr_Restore s))"

definition r_RestoreType :: "('w, RestoreType) rgo" where
  "r_RestoreType = bindG self (\<lambda>s. derefG nil_deref (sr_RestoreType s))"

definition r_Params :: "('w, RestoreParameters) rgo" where
  "r_Params = bindG self (\<lambda>s. derefG nil_deref (sr_Params s))"

section \<open>Preparing\<close>

definition zero_Restore :: Restore where
  "zero_Restore = \<lparr>re_meta = zero_meta, re_Spec = \<lparr>rs_Owner = [], rs_RestoreType = None, rs_CreateAt = None,
     rs_StartAt = None, rs_EndAt = None, rs_Size = None, rs_Progress = 0, rs_Phase = None, rs_Message = None,
     rs_ResticPhase = None, rs_ResticMessage = None, rs_Extra = None\<rparr>\<rparr>"

text \<open>
  A restore that is not found comes back as the zero object of the client, which is not nil, so the
  run goes on to the type of that object and fails there.
\<close>

definition checkRestoreExists :: "('w, 'm) services_scheme \<Rightarrow> ('w, unit) rgo" where
  "checkRestoreExists v = bindG self (\<lambda>s. let i = sr_RestoreId s in
     bindG (tryG (up (restore_GetById v i)) ret
        (\<lambda>e. if IsNotFound e then ret zero_Restore else raise (Errorf (''get restore '' @ i @ '' error: '' @ err_text e)))) (\<lambda>restore.
     bindG (tryG (liftO (GetRestoreType restore)) ret (\<lambda>e. raise (Errorf (''restore '' @ i @ '' backup type invalid'')))) (\<lambda>backupType.
     bindG (tryG (liftO (ParseRestoreType backupType restore)) ret
        (\<lambda>e. raise (Errorf (''restore '' @ i @ '' type invalid'')))) (\<lambda>rt0.
     bindG (derefG nil_deref rt0) (\<lambda>rt.
     bindG (if rt_Type rt = RestoreTypeSnapshot then
         bindG (tryG (up (snapshot_GetById v (rt_SnapshotId rt))) ret (\<lambda>e. raise (Errorf (''snapshot not found: '' @ err_text e)))) (\<lambda>snapshot.
         bindG (tryG (up (backup_GetById v (ss_BackupId (sn_Spec snapshot)))) ret (\<lambda>e. raise (Errorf (''backup not found: '' @ err_text e)))) (\<lambda>backup.
           modify (\<lambda>s. s\<lparr>sr_Backup := Some backup, sr_Snapshot := Some snapshot\<rparr>)))
       else ret ()) (\<lambda>_.
     modify (\<lambda>s. s\<lparr>sr_Restore := Some restore, sr_RestoreType := Some rt, sr_BackupType := backupType\<rparr>)))))))"

definition restore_getUserspacePvc :: "('w, 'm) services_scheme \<Rightarrow> ('w, unit) rgo" where
  "restore_getUserspacePvc v = bindG r_Restore (\<lambda>restore.
     tryG (up (GetUserspacePvc v (rs_Owner (re_Spec restore))))
       (\<lambda>u. modify (\<lambda>s. s\<lparr>sr_UserspacePvcName := uv_userspacePvc u, sr_UserspacePvcPath := uv_userspacePath u,
          sr_AppcachePvcName := uv_appcachePvc u, sr_AppcachePvcPath := uv_appcachePath u\<rparr>))
       (\<lambda>e. raise (Errorf (''get userspace pvc error: '' @ err_text e))))"

text \<open>The source of a restore from a snapshot: the plan's id, name, password and location.\<close>

type_synonym restore_source = "string \<times> string \<times> string \<times> smap"

definition snapshot_source :: "('w, 'm) services_scheme \<Rightarrow> StorageRestore \<Rightarrow> ('w, restore_source) rgo" where
  "snapshot_source v s = (let i = sr_RestoreId s in bindG r_Backup (\<lambda>backup. let owner = bs_Owner (bk_Spec backup) in
     bindG (up (v_authToken v owner (''user-system-'' @ owner) ''user-backend'')) (\<lambda>token.
     bindG (tryG (up (GetBackupPassword v owner (bs_Name (bk_Spec backup)) token)) ret
        (\<lambda>e. raise (Errorf (''Restore '' @ i @ '' get password error: '' @ err_text e)))) (\<lambda>password.
     bindG (tryG (liftO (GetBackupLocationConfig backup)) ret
        (\<lambda>e. raise (Errorf (''Restore '' @ i @ '' get location config error: '' @ err_text e)))) (\<lambda>cfg. case cfg of
       None \<Rightarrow> raise (Errorf (''Restore '' @ i @ '' location config not found''))
     | Some l \<Rightarrow> ret (bk_Name backup, bs_Name (bk_Spec backup), password,
         if mget l ''location'' = location_String BackupLocationFileSystem
         then mput l ''path'' (resolve_path (v_NodeName v) (sr_UserspacePvcPath s) (sr_AppcachePvcPath s) (mget l ''path'')) else l))))))"

definition url_source :: "('w, 'm) services_scheme \<Rightarrow> RestoreType \<Rightarrow> ('w, restore_source) rgo" where
  "url_source v rt = bindG (derefG nil_deref (rt_BackupUrl rt)) (\<lambda>u.
     bindG (up (v_nameByLocation v (rt_Owner rt) (rt_Location rt) (ud_Bucket u) (ud_RegionId u))) (\<lambda>name.
       ret (rt_BackupId rt, rt_BackupName rt,
         case Base64decode (rt_Password rt) of Some p \<Rightarrow> p | None \<Rightarrow> v_b64_partial v (rt_Password rt),
         [(''location'', rt_Location rt), (''name'', name), (''cloudName'', ud_CloudName u), (''regionId'', ud_RegionId u),
          (''clusterId'', rt_ClusterId rt), (''suffix'', ud_OlaresSuffix u), (''path'', ud_FilesystemPath u)])))"

text \<open>The target of a file restore: a new directory beside the chosen one, and the directory it is in.\<close>

definition restore_dir :: "RestoreType \<Rightarrow> string" where
  "restore_dir rt = path_Join [rt_Path rt, rt_SubPath rt @ ''.restore-'' @ Itoa (rt_SubPathTimestamp rt)] @ ''/''"

definition restore_target :: "string \<Rightarrow> StorageRestore \<Rightarrow> RestoreType \<Rightarrow> string \<times> string" where
  "restore_target node s rt =
     (if sr_BackupType s = BackupTypeFile then
        (case (TrimPathPrefix node (restore_dir rt), TrimPathPrefix node (path_Join [rt_Path rt])) of
           ((external, cache, rel), (_, _, rootRel)) \<Rightarrow>
             let base = (if external then ExternalPath else if cache then sr_AppcachePvcPath s else sr_UserspacePvcPath s)
             in (path_Join [base, rel], path_Join [base, rootRel]))
      else (path_Join [sr_UserspacePvcPath s, ''Home''], path_Join [sr_UserspacePvcPath s, ''Home'']))"

definition prepareRestoreParams :: "('w, 'm) services_scheme \<Rightarrow> ('w, unit) rgo" where
  "prepareRestoreParams v = bindG self (\<lambda>s. bindG r_RestoreType (\<lambda>rt.
     bindG (if rt_Type rt = RestoreTypeSnapshot then snapshot_source v s else url_source v rt) (\<lambda>(backupId, backupName, password, location).
       let (path, root) = restore_target (v_NodeName v) s rt in
       modify (\<lambda>s. s\<lparr>sr_Params := Some \<lparr>rp_BackupId = backupId, rp_BackupName = backupName, rp_Password = password,
         rp_RootPath = root, rp_Path = path, rp_Location = location\<rparr>\<rparr>))))"

text \<open>The size in the restore type is an \<open>int64\<close>; for a size that is not negative this is the space of a
  backup of that size.\<close>

definition restore_required_space :: "int \<Rightarrow> u64" where
  "restore_required_space n = word_of_int (f64_to_int (f64 (f64 (of_int n) * f64 (105 / 100))))"

definition restore_checkDiskSize :: "('w, 'm) services_scheme \<Rightarrow> ('w, unit) rgo" where
  "restore_checkDiskSize v = bindG r_Params (\<lambda>p. bindG r_RestoreType (\<lambda>rt.
     bindG (up (v_disk_usage v (rp_RootPath p))) (\<lambda>(usedPercent, free).
       if FreeLimit < usedPercent then raise (Errorf disk_full_text)
       else if free < restore_required_space (rt_TotalBytesProcessed rt) then raise (Errorf ''Insufficient space on the target disk.'')
       else ret ())))"

definition restore_event :: "string \<Rightarrow> int \<Rightarrow> (string \<times> json) list" where
  "restore_event restoreId percent = [(''id'', JStr restoreId), (''type'', JStr ''restore''), (''progress'', jint percent),
     (''status'', JStr (phase_String Running)), (''message'', JStr [])]"

definition restore_prepareForRun :: "('w, 'm) services_scheme \<Rightarrow> ('w, unit) rgo" where
  "restore_prepareForRun v = bindG r_Restore (\<lambda>restore. bindG r_RestoreType (\<lambda>rt.
     bindG (up (Send v (rt_Owner rt) (restore_event (re_Name restore) 0))) (\<lambda>_.
     up (restore_UpdatePhase v (re_Name restore) (phase_String Running)))))"

section \<open>Running\<close>

definition restore_progressCallback :: "('w, 'm) services_scheme \<Rightarrow> rat \<Rightarrow> ('w, unit) rgo" where
  "restore_progressCallback v percentDone = (\<lambda>(w, s).
     if v_done v w then (Ret (), (w, s))
     else let percent = progress_percent percentDone in
       if progress_due (k_now v w) (sr_LastProgressTime s) \<and> sr_LastProgressPercent s \<noteq> percent
       then bindG (up (ignore_error (restore_UpdateProgress v (sr_RestoreId s) percent))) (\<lambda>_.
            bindG r_RestoreType (\<lambda>rt. up (Send v (rt_Owner rt) (restore_event (sr_RestoreId s) percent))))
          (w, s\<lparr>sr_LastProgressPercent := percent, sr_LastProgressTime := Some (k_now v w)\<rparr>)
       else (Ret (), (w, s)))"

definition restore_getIntegrationCloud :: "('w, 'm) services_scheme \<Rightarrow> ('w, IntegrationToken) rgo" where
  "restore_getIntegrationCloud v = bindG r_Params (\<lambda>p. bindG r_Restore (\<lambda>restore.
     up (v_cloudToken v (rs_Owner (re_Spec restore)) (mget (rp_Location p) ''location'') (mget (rp_Location p) ''name''))))"

definition download_rate :: "('w, 'm) services_scheme \<Rightarrow> string" where
  "download_rate v = EnvOrDefault (v_getenv v) ''LIMIT_DOWNLOAD_RATE'' []"

definition restore_option :: "RestoreParameters \<Rightarrow> RestoreType \<Rightarrow> string \<Rightarrow> string \<Rightarrow> string \<Rightarrow> string \<Rightarrow> repo_access \<Rightarrow> RestoreOption" where
  "restore_option p rt repoId repoName sfx rate access = \<lparr>ro_Password = rp_Password p, ro_Operator = ''app'',
     ro_RepoId = repoId, ro_RepoName = repoName, ro_RepoSuffix = sfx, ro_SnapshotId = rt_ResticSnapshotId rt,
     ro_Path = rp_Path p, ro_LimitDownloadRate = rate, ro_Access = access\<rparr>"

text \<open>
  The loop of a restore from Space, with fuel. After a \<open>refresh-token error\<close> the token is asked for
  twice; the results of an attempt that is given up stay in the named results.
\<close>

fun restore_space_loop :: "('w, 'm) services_scheme \<Rightarrow> 'w restore_sdk \<Rightarrow> (SpaceToken \<Rightarrow> RestoreOption) \<Rightarrow> string \<Rightarrow> string \<Rightarrow>
    json \<times> string \<times> u64 \<Rightarrow> nat \<Rightarrow> ('w, restore_result) rgo" where
  "restore_space_loop v sdk opt owner name prev 0 = (\<lambda>w. (Diverge, w))"
| "restore_space_loop v sdk opt owner name prev (Suc n) =
     (let token_error = (\<lambda>(o', m, b) e. ret (o', m, b, Some (Errorf (''get space token error: '' @ err_text e)))) in
     tryG (up (v_spaceToken v owner name))
       (\<lambda>t. bindG (sdk_Restore sdk (opt t) (restore_progressCallback v)) (\<lambda>(output, metadata, bytes, err). case err of
          None \<Rightarrow> ret (output, metadata, bytes, None)
        | Some e \<Rightarrow> if Contains (err_text e) ''refresh-token error''
            then tryG (up (v_spaceToken v owner name)) (\<lambda>_. restore_space_loop v sdk opt owner name (output, metadata, bytes) n)
                   (token_error (output, metadata, bytes))
            else ret (output, metadata, bytes, Some e)))
       (token_error prev))"

definition restoreFromSpace :: "('w, 'm) services_scheme \<Rightarrow> 'w restore_sdk \<Rightarrow> ('w, restore_result) rgo" where
  "restoreFromSpace v sdk = bindG r_RestoreType (\<lambda>rt. bindG r_Params (\<lambda>p.
     bindG (if rt_Type rt = RestoreTypeSnapshot then bindG r_Backup (\<lambda>b. ret (bk_Name b, bs_Name (bk_Spec b), []))
            else bindG (derefG nil_deref (rt_BackupUrl rt)) (\<lambda>u. ret (rt_BackupId rt, rt_BackupName rt, ud_OlaresSuffix u)))
       (\<lambda>(repoId, repoName, suffix).
          restore_space_loop v sdk (\<lambda>t. restore_option p rt repoId repoName suffix (download_rate v) (space_access v t (rp_Location p)))
            (rt_Owner rt) (mget (rp_Location p) ''name'') (JNull, [], 0) (v_fuel v))))"

text \<open>The message for a missing account is built from the nil token, which panics.\<close>

definition restore_execute :: "('w, 'm) services_scheme \<Rightarrow> 'w restore_sdk \<Rightarrow> ('w, restore_result) rgo" where
  "restore_execute v sdk = bindG r_Params (\<lambda>p. bindG r_RestoreType (\<lambda>rt.
     let location = mget (rp_Location p) ''location'';
         run = (\<lambda>rate access. sdk_Restore sdk (restore_option p rt (rp_BackupId p) (rp_BackupName p) [] rate access) (restore_progressCallback v))
     in if location = location_String BackupLocationSpace then restoreFromSpace v sdk
     else if location = location_String BackupLocationAwsS3 then
       tryG (restore_getIntegrationCloud v) (\<lambda>t. run (download_rate v) (AwsAccess (rt_Endpoint rt) (it_AccessKey t) (it_SecretKey t)))
         (\<lambda>e. panicG nil_deref)
     else if location = location_String BackupLocationTencentCloud then
       tryG (restore_getIntegrationCloud v) (\<lambda>t. run (download_rate v) (TencentCloudAccess (rt_Endpoint rt) (it_AccessKey t) (it_SecretKey t)))
         (\<lambda>e. panicG nil_deref)
     else if location = location_String BackupLocationFileSystem then
       run [] (FilesystemAccess (mget (rp_Location p) ''path''))
     else panicG nil_deref))"

section \<open>After the run\<close>

definition removeRestoreFiles :: "('w, 'm) services_scheme \<Rightarrow> ('w, unit) rgo" where
  "removeRestoreFiles v = bindG self (\<lambda>s. if sr_BackupType s = BackupTypeApp then ret ()
     else bindG r_Params (\<lambda>p. up (ignore_error (v_RemoveAll v (rp_Path p)))))"

definition renameRestoreDirectory :: "('w, 'm) services_scheme \<Rightarrow> ('w, unit) rgo" where
  "renameRestoreDirectory v = bindG self (\<lambda>s. if sr_BackupType s = BackupTypeApp then ret ()
     else bindG r_Params (\<lambda>p. up (ignore_error (v_Rename v (rp_Path p) (ReplaceAll (rp_Path p) ''.restore'' [])))))"

text \<open>The wait for the application has a deadline of 15 seconds; its end is no error (see the backup).\<close>

fun wait_for_restore :: "('w, 'm) services_scheme \<Rightarrow> AppHandler \<Rightarrow> string \<Rightarrow> nat \<Rightarrow> ('w, unit) rgo" where
  "wait_for_restore v app restoreId 0 = (\<lambda>w. (Diverge, w))"
| "wait_for_restore v app restoreId (Suc n) = bindG (up (v_tick15 v)) (\<lambda>tick.
     if \<not> tick then ret ()
     else bindG (up (GetAppRestoreStatus v app restoreId)) (\<lambda>(result, d).
       if rb_Status d = ''err'' then
         bindG (modify (\<lambda>s. s\<lparr>sr_RestoreAppStatus := Some result\<rparr>)) (\<lambda>_.
           raise (Errorf (''app restore status is error, msg: '' @ rb_Message d)))
       else if rb_Status d = ''finish'' then modify (\<lambda>s. s\<lparr>sr_RestoreAppStatus := Some result\<rparr>)
       else wait_for_restore v app restoreId n))"

definition readyForRestoreApp :: "('w, 'm) services_scheme \<Rightarrow> string \<Rightarrow> string \<Rightarrow> ('w, unit) rgo" where
  "readyForRestoreApp v resticSnapshotId metadata = bindG self (\<lambda>s. if sr_BackupType s \<noteq> BackupTypeApp then ret () else
     bindG r_Restore (\<lambda>restore. bindG (liftO (GetRestoreAppName restore)) (\<lambda>appName.
       let app = NewAppHandler appName (rs_Owner (re_Spec restore)) in
       bindG (up (StartAppRestore v app (sr_RestoreId s) resticSnapshotId metadata)) (\<lambda>_.
         wait_for_restore v app (sr_RestoreId s) (v_fuel v)))))"

definition restore_result_spec :: "timestamp \<Rightarrow> StorageRestore \<Rightarrow> restore_result \<Rightarrow> RestoreSpec \<Rightarrow> RestoreSpec" where
  "restore_result_spec now s = (\<lambda>(output, metadata, totalBytes, err) spec.
     let sp = (case err of
           Some e \<Rightarrow> spec\<lparr>rs_Phase := Some (phase_String Failed), rs_Message := Some (err_text e), rs_ResticPhase := Some (phase_String Failed)\<rparr>
         | None \<Rightarrow> spec\<lparr>rs_Size := Some totalBytes, rs_Progress := progressDone, rs_Phase := Some (phase_String Completed),
             rs_Message := Some (phase_String Completed), rs_ResticPhase := Some (phase_String Completed),
             rs_ResticMessage := Some (ToJSON output)\<rparr>);
         e1 = (if metadata = [] then entries (rs_Extra sp) else mput (entries (rs_Extra sp)) ''metadata'' metadata);
         e2 = (case sr_RestoreAppStatus s of None \<Rightarrow> e1 | Some st \<Rightarrow> mput e1 ''restore_app_status'' (ToJSON (restore_app_status_json st)))
     in sp\<lparr>rs_Extra := Some e2, rs_EndAt := Some now\<rparr>)"

definition restore_result_event :: "timestamp \<Rightarrow> string \<Rightarrow> int \<Rightarrow> gerr option \<Rightarrow> (string \<times> json) list" where
  "restore_result_event now restoreId progress err =
     [(''id'', JStr restoreId), (''type'', JStr ''restore''),
      (''progress'', jint (if err = None then progressDone else progress)), (''endat'', jint (now div 1000000000)),
      (''status'', JStr (phase_String (if err = None then Completed else Failed))),
      (''message'', JStr (case err of None \<Rightarrow> phase_String Completed | Some e \<Rightarrow> err_text e))]"

text \<open>
  A restore that cannot be read for another reason than a lost connection is nil here (\<open>GetRestore\<close>
  returns no object with its error), and the attempt panics. A restore that is gone is an error.
\<close>

definition restore_update_attempt :: "('w, 'm) services_scheme \<Rightarrow> restore_result \<Rightarrow> ('w, bool) rgo" where
  "restore_update_attempt v result = (\<lambda>(w, s0). if v_done v w then (Ret True, (w, s0)) else
     tryG (up (GetRestore v (sr_RestoreId s0)))
       (\<lambda>restore. bindG r_Restore (\<lambda>own. bindG r_RestoreType (\<lambda>rt (w1, s1).
          let now = k_now v w1; err = snd (snd (snd result)); spec = restore_result_spec now s0 result (re_Spec restore) in
          bindG (up (Send v (rt_Owner rt) (restore_result_event now (re_Name own) (rs_Progress (re_Spec restore)) err))) (\<lambda>_.
          bindG (up (restore_Update v (sr_RestoreId s0) spec)) (\<lambda>_. ret True)) (w1, s1))))
       (\<lambda>e. if IsNotFound e then raise e
            else if ListMatchContains ConnectErrors (err_text e) then ret False
            else panicG nil_deref) (w, s0))"

definition updateRestoreResult :: "('w, 'm) services_scheme \<Rightarrow> restore_result \<Rightarrow> ('w, unit) rgo" where
  "updateRestoreResult v result = poll (up (v_sleep v)) (v_polls v) (restore_update_attempt v result)"

definition restore_prepare :: "('w, 'm) services_scheme \<Rightarrow> ('w, unit) rgo" where
  "restore_prepare v = bindG (restore_getUserspacePvc v) (\<lambda>_. bindG (prepareRestoreParams v) (\<lambda>_.
     bindG (restore_checkDiskSize v) (\<lambda>_. restore_prepareForRun v)))"

text \<open>What follows the restore itself: the files, the application, the result. Errors of the update are logged.\<close>

definition finish_restore :: "('w, 'm) services_scheme \<Rightarrow> restore_result \<Rightarrow> ('w, unit) rgo" where
  "finish_restore v = (\<lambda>(output, metadata, totalBytes, err).
     bindG (case err of
         Some e \<Rightarrow> bindG (removeRestoreFiles v) (\<lambda>_. ret (Some e))
       | None \<Rightarrow> bindG (renameRestoreDirectory v) (\<lambda>_. bindG r_RestoreType (\<lambda>rt.
           tryG (readyForRestoreApp v (rt_ResticSnapshotId rt) metadata) (\<lambda>_. ret None) (\<lambda>e. ret (Some e))))) (\<lambda>err'.
     ignore_error (updateRestoreResult v (output, metadata, totalBytes, err'))))"

definition RunRestore :: "('w, 'm) services_scheme \<Rightarrow> 'w restore_sdk \<Rightarrow> ('w, unit) rgo" where
  "RunRestore v sdk = bindG (checkRestoreExists v) (\<lambda>_.
     tryG (restore_prepare v)
       (\<lambda>_. bindG (restore_execute v sdk) (finish_restore v))
       (\<lambda>e. ignore_error (updateRestoreResult v (JNull, [], 0, Some e))))"

section \<open>Snapshots of a repository (storage_snapshots.go)\<close>

text \<open>\<open>sdk_Snapshots\<close> lists the snapshots of the options; the first one is the answer of \<open>GetSnapshot\<close>.\<close>

definition snapshots_option :: "string \<Rightarrow> string \<Rightarrow> string \<Rightarrow> string \<Rightarrow> repo_access \<Rightarrow> SnapshotsOption" where
  "snapshots_option password snapshotId backupId backupName access = \<lparr>po_Password = password, po_Operator = ''app'',
     po_SnapshotId = snapshotId, po_RepoId = backupId, po_RepoName = backupName, po_Access = Some access\<rparr>"

definition repository_access :: "('w, 'm) services_scheme \<Rightarrow> string \<Rightarrow> string \<Rightarrow> string \<Rightarrow> ('w, repo_access) go" where
  "repository_access v owner location endpoint =
     (if location = location_String BackupLocationAwsS3 then
        bindG (v_cloudAccount v owner location endpoint) (\<lambda>t. ret (AwsAccess endpoint (it_AccessKey t) (it_SecretKey t)))
      else if location = location_String BackupLocationTencentCloud then
        bindG (v_cloudAccount v owner location endpoint) (\<lambda>t. ret (TencentCloudAccess endpoint (it_AccessKey t) (it_SecretKey t)))
      else if location = location_String BackupLocationFileSystem then ret (FilesystemAccess endpoint)
      else panicG nil_deref)"

type_synonym repo_name = string
type_synonym uid = string

definition getSpaceSnapshot ::
  "('w, 'm) services_scheme \<Rightarrow> (SnapshotsOption \<Rightarrow> ('w, 'l) go) \<Rightarrow> ('l \<Rightarrow> 'sn) \<Rightarrow> (string \<Rightarrow> ('w, string) go) \<Rightarrow>
    string \<Rightarrow> string \<Rightarrow> uid \<Rightarrow> repo_name \<Rightarrow> string \<Rightarrow> string \<Rightarrow> uid \<Rightarrow> uid \<Rightarrow> ('w, 'sn) go" where
  "getSpaceSnapshot v sdk_Snapshots first_of GetOlaresId owner password backupId backupName cloudName regionId snapshotId clusterId =
     bindG (GetOlaresId owner) (\<lambda>account. bindG (v_spaceToken v owner account) (\<lambda>t.
     bindG (sdk_Snapshots (snapshots_option password snapshotId backupId backupName
        (SpaceAccess (st_OlaresDid t) (st_AccessToken t) clusterId cloudName regionId (v_SyncServerURL v)))) (\<lambda>l. ret (first_of l))))"

definition GetSnapshot ::
  "('w, 'm) services_scheme \<Rightarrow> (SnapshotsOption \<Rightarrow> ('w, 'l) go) \<Rightarrow> ('l \<Rightarrow> 'sn) \<Rightarrow> (string \<Rightarrow> ('w, string) go) \<Rightarrow>
    string \<Rightarrow> string \<Rightarrow> string \<Rightarrow> string \<Rightarrow> repo_name \<Rightarrow> uid \<Rightarrow> uid \<Rightarrow> string \<Rightarrow> string \<Rightarrow> uid \<Rightarrow> ('w, 'sn) go" where
  "GetSnapshot v sdk_Snapshots first_of GetOlaresId password owner location endpoint backupName backupId snapshotId cloudName regionId clusterId =
     (if location = location_String BackupLocationSpace
      then getSpaceSnapshot v sdk_Snapshots first_of GetOlaresId owner password backupId backupName cloudName regionId snapshotId clusterId
      else bindG (repository_access v owner location endpoint) (\<lambda>access.
           bindG (sdk_Snapshots (snapshots_option password snapshotId backupId backupName access)) (\<lambda>l. ret (first_of l))))"

definition GetSnapshots ::
  "('w, 'm) services_scheme \<Rightarrow> (SnapshotsOption \<Rightarrow> ('w, 'l) go) \<Rightarrow> string \<Rightarrow> string \<Rightarrow> string \<Rightarrow> string \<Rightarrow> string \<Rightarrow> string \<Rightarrow> ('w, 'l) go" where
  "GetSnapshots v sdk_Snapshots password owner location endpoint backupName backupId =
     bindG (repository_access v owner location endpoint) (\<lambda>access.
       sdk_Snapshots (snapshots_option password [] backupId backupName access))"

section \<open>Regions (storage_region.go)\<close>

definition GetRegions :: "('w, 'm) services_scheme \<Rightarrow> (string \<Rightarrow> string \<Rightarrow> string \<Rightarrow> ('w, 'r) go) \<Rightarrow> string \<Rightarrow> string \<Rightarrow> ('w, 'r) go" where
  "GetRegions v sdk_Regions owner olaresId = tryG (v_spaceToken v owner olaresId)
     (\<lambda>t. sdk_Regions (st_OlaresDid t) (st_AccessToken t) (v_SyncServerURL v))
     (\<lambda>e. raise (Errorf (''get space token error: '' @ err_text e)))"

end
