(* ===== verification/RestoreRunFacts.thy ===== *)
theory RestoreRunFacts
  imports RestoreRun BackupRunFacts
begin

text \<open>What the run of a restore guarantees: what is done with its files and what is recorded of it.\<close>

lemma r_objects [go_simps]:
  "sr_RestoreType s = Some rt \<Longrightarrow> bindG r_RestoreType f (w, s) = f rt (w, s)"
  "sr_Restore s = Some r \<Longrightarrow> bindG r_Restore g (w, s) = g r (w, s)"
  "sr_Params s = Some p \<Longrightarrow> bindG r_Params h (w, s) = h p (w, s)"
  by (simp_all add: bindG_Ret r_RestoreType_def r_Restore_def r_Params_def)

lemma restore_result_spec_phase:
  "rs_Phase (restore_result_spec now s (o', m, n, err) sp) = Some (phase_String (if err = None then Completed else Failed))"
  "rs_Message (restore_result_spec now s (o', m, n, err) sp) = Some (case err of None \<Rightarrow> phase_String Completed | Some e \<Rightarrow> err_text e)"
  "rs_EndAt (restore_result_spec now s (o', m, n, err) sp) = Some now"
  "rs_Progress (restore_result_spec now s (o', m, n, err) sp) = (if err = None then progressDone else rs_Progress sp)"
  by (cases err; simp add: restore_result_spec_def Let_def)+

text \<open>Recording a result: the stored restore is read and written back with the new spec.\<close>

lemma updateRestoreResult_Ret:
  assumes "\<not> v_done v w" "0 < v_polls v" "sr_Restore s = Some own" "sr_RestoreType s = Some rt"
    and "GetRestore v (sr_RestoreId s) w = (Ret r, w1)"
    and "sp = restore_result_spec (k_now v w1) s result (re_Spec r)"
    and "Send v (rt_Owner rt) (restore_result_event (k_now v w1) (re_Name own) (rs_Progress (re_Spec r)) (snd (snd (snd result)))) w1 = (Ret (), w2)"
    and "restore_Update v (sr_RestoreId s) sp w2 = (Ret (), w3)"
  shows "updateRestoreResult v result (w, s) = (Ret (), (w3, s))"
proof -
  have "restore_update_attempt v result (w, s) = (Ret True, (w3, s))"
    using assms(1,6)
    by (simp add: restore_update_attempt_def Let_def up_try_Ret[of "GetRestore v _", OF assms(5)] r_objects(1)[OF assms(4)]
        r_objects(2)[OF assms(3)] up_Ret[of "Send v _ _", OF assms(7)] up_Ret[of "restore_Update v _ _", OF assms(8)[unfolded assms(6)]])
  thus ?thesis unfolding updateRestoreResult_def by (rule poll_done[OF assms(2)])
qed

text \<open>With a cancelled context nothing is recorded: the first poll of the result ends at once, without an error.\<close>

lemma updateRestoreResult_done:
  "v_done v w \<Longrightarrow> 0 < v_polls v \<Longrightarrow> updateRestoreResult v result (w, s) = (Ret (), (w, s))"
  unfolding updateRestoreResult_def by (rule poll_done) (simp_all add: restore_update_attempt_def)

text \<open>A restore that fails while it is prepared removes no files: its error is recorded, and that is all.\<close>

lemma RunRestore_prepare_fails:
  assumes "checkRestoreExists v ws0 = (Ret (), ws1)" "restore_prepare v ws1 = (Fail e, ws2)"
  shows "RunRestore v sdk ws0 = ignore_error (updateRestoreResult v (JNull, [], 0, Some e)) ws2"
  using assms by (simp add: RunRestore_def bindG_Ret tryG_Fail)

lemma RunRestore_executed:
  assumes "checkRestoreExists v ws0 = (Ret (), ws1)" "restore_prepare v ws1 = (Ret (), ws2)" "restore_execute v sdk ws2 = (Ret result, ws3)"
  shows "RunRestore v sdk ws0 = finish_restore v result ws3"
  using assms by (simp add: RunRestore_def bindG_Ret tryG_Ret)

text \<open>C24: a restore that is prepared and whose execution then ends with an error. A file restore removes the
  directory it was restoring into (whether the removal succeeds or not), an application restore leaves all
  files. Then, when the context is live, the stored restore becomes Failed with the text of the error, whatever
  that text is (a backup with the same error becomes Canceled if the text mentions \<open>canceled\<close>), and its progress
  is kept; this is shown for a read and a write of the stored restore that succeed. When the context is over
  (the restore was cancelled, or the process stops), nothing is recorded: the files are removed and the stored
  restore stays as it is.\<close>

theorem failed_restore_cleans_up:
  assumes "checkRestoreExists v ws0 = (Ret (), ws1)" "restore_prepare v ws1 = (Ret (), ws2)"
    and "restore_execute v sdk ws2 = (Ret (o', m, n, Some e), (w, s))"
    and "sr_Params s = Some p" "0 < v_polls v"
    and "if sr_BackupType s = BackupTypeApp then w1 = w else \<exists>r0. settles r0 \<and> v_RemoveAll v (rp_Path p) w = (r0, w1)"
    and "sp = restore_result_spec (k_now v w2) s (o', m, n, Some e) (re_Spec r)"
    and "v_done v w1 \<or> sr_Restore s = Some own \<and> sr_RestoreType s = Some rt \<and> GetRestore v (sr_RestoreId s) w1 = (Ret r, w2)
      \<and> Send v (rt_Owner rt) (restore_result_event (k_now v w2) (re_Name own) (rs_Progress (re_Spec r)) (Some e)) w2 = (Ret (), w3)
      \<and> restore_Update v (sr_RestoreId s) sp w3 = (Ret (), w4)"
  shows "RunRestore v sdk ws0 = (Ret (), (if v_done v w1 then w1 else w4, s)) \<and> rs_Phase sp = Some ''Failed''
    \<and> rs_Message sp = Some (err_text e) \<and> rs_Progress sp = rs_Progress (re_Spec r)
    \<and> (Contains (err_text e) ''canceled'' \<longrightarrow> result_phase (Some e) = Canceled)"
proof -
  have u: "updateRestoreResult v (o', m, n, Some e) (w1, s) = (Ret (), (if v_done v w1 then w1 else w4, s))"
  proof (cases "v_done v w1")
    case True
    thus ?thesis using assms(5) by (simp add: updateRestoreResult_done)
  next
    case False
    have "updateRestoreResult v (o', m, n, Some e) (w1, s) = (Ret (), (w4, s))"
      by (rule updateRestoreResult_Ret[OF False assms(5)]) (use False assms(7,8) in auto)
    thus ?thesis using False by simp
  qed
  have "removeRestoreFiles v (w, s) = (Ret (), (w1, s))"
    using assms(6) by (auto simp: removeRestoreFiles_def r_objects(3)[OF assms(4)] intro: up_eval ignore_error_settles split: if_splits)
  hence "finish_restore v (o', m, n, Some e) (w, s) = (Ret (), (if v_done v w1 then w1 else w4, s))"
    by (simp add: finish_restore_def bindG_Ret ignore_error_def tryG_Ret[of "updateRestoreResult v _", OF u])
  hence "RunRestore v sdk ws0 = (Ret (), (if v_done v w1 then w1 else w4, s))"
    by (simp only: RunRestore_executed[OF assms(1-3)])
  moreover have "rs_Phase sp = Some ''Failed''" "rs_Message sp = Some (err_text e)" "rs_Progress sp = rs_Progress (re_Spec r)"
    unfolding assms(7) by (simp_all add: restore_result_spec_phase)
  moreover have "Contains (err_text e) ''canceled'' \<longrightarrow> result_phase (Some e) = Canceled"
    using ToLower_Canceled by (simp add: result_phase_def failure_phase_def)
  ultimately show ?thesis by blast
qed

text \<open>The wait for the application that restores itself has a deadline of 15 seconds. When the deadline ends
  the wait, the restore counts as done although the application never said so: it becomes Completed with
  full progress.\<close>

theorem unfinished_app_restore_is_completed:
  assumes "sr_BackupType s = BackupTypeApp" "sr_Restore s = Some own" "sr_RestoreType s = Some rt" "0 < v_polls v" "0 < v_fuel v"
    and "GetRestoreAppName own = Ret app"
    and "StartAppRestore v (NewAppHandler app (rs_Owner (re_Spec own))) (sr_RestoreId s) (rt_ResticSnapshotId rt) m w = (Ret (), w1)"
    and "v_tick15 v w1 = (Ret False, w2)"
    and "\<not> v_done v w2" "GetRestore v (sr_RestoreId s) w2 = (Ret r, w3)"
    and "sp = restore_result_spec (k_now v w3) s (o', m, n, None) (re_Spec r)"
    and "Send v (rt_Owner rt) (restore_result_event (k_now v w3) (re_Name own) (rs_Progress (re_Spec r)) None) w3 = (Ret (), w4)"
    and "restore_Update v (sr_RestoreId s) sp w4 = (Ret (), w5)"
  shows "finish_restore v (o', m, n, None) (w, s) = (Ret (), (w5, s)) \<and> rs_Phase sp = Some ''Completed'' \<and> rs_Progress sp = progressDone"
proof -
  have u: "updateRestoreResult v (o', m, n, None) (w2, s) = (Ret (), (w5, s))"
    by (rule updateRestoreResult_Ret[OF assms(9,4,2,3,10,11)]) (use assms(12,13) in simp_all)
  obtain k where k: "v_fuel v = Suc k" using assms(5) by (cases "v_fuel v") simp_all
  have "readyForRestoreApp v (rt_ResticSnapshotId rt) m (w, s) = (Ret (), (w2, s))"
    using assms(1,6) by (simp add: readyForRestoreApp_def r_objects(2)[OF assms(2)] Let_def k up_Ret[of "v_tick15 v", OF assms(8)]
        up_Ret[of "StartAppRestore v _ _ _ _", OF assms(7)])
  moreover have "renameRestoreDirectory v (w, s) = (Ret (), (w, s))" using assms(1) by (simp add: renameRestoreDirectory_def)
  ultimately have "finish_restore v (o', m, n, None) (w, s) = (Ret (), (w5, s))"
    by (simp add: finish_restore_def bindG_Ret tryG_Ret r_objects(1)[OF assms(3)] ignore_error_def tryG_Ret[of "updateRestoreResult v _", OF u])
  thus ?thesis unfolding assms(11) by (simp add: restore_result_spec_phase)
qed

section \<open>Instances\<close>

definition demo_restore :: Restore where
  "demo_restore = set_re_spec (\<lambda>s. s\<lparr>rs_Phase := Some (phase_String Running)\<rparr>) (new_restore ''r1'' 1 ''file'' sample_restore_type)"

definition restore_store :: store where
  "restore_store = sample_store\<lparr>st_restores := [demo_restore]\<rparr>"

definition demo_restore_run :: "string \<Rightarrow> StorageRestore" where
  "demo_restore_run backupType = \<lparr>sr_RestoreId = ''r1'', sr_Backup = None, sr_Snapshot = None, sr_Restore = Some demo_restore,
     sr_RestoreType = Some sample_restore_type, sr_BackupType = backupType, sr_RestoreAppStatus = None, sr_UserspacePvcName = [],
     sr_UserspacePvcPath = [], sr_AppcachePvcName = [], sr_AppcachePvcPath = [],
     sr_Params = Some \<lparr>rp_BackupId = [], rp_BackupName = [], rp_Password = [], rp_RootPath = [], rp_Path = ''/d'', rp_Location = []\<rparr>,
     sr_LastProgressPercent = 0, sr_LastProgressTime = None\<rparr>"

lemma demo_restore_calls:
  "GetRestore mem_services ''r1'' restore_store = (Ret demo_restore, restore_store)"
  "\<exists>w. restore_Update mem_services ''r1'' sp restore_store = (Ret (), w)"
  "Send mem_services o' d w' = (Ret (), w')" "v_RemoveAll mem_services q w' = (Ret (), w')"
  by (simp_all add: GetRestore_def restore_Update_def mem_services_sel mem_get_def mem_update_def find_by_def restore_store_def
      demo_restore_def new_restore_def eval_nat_numeral go_simps Send_def ignore_error_def tryG_def)

text \<open>A restore of files from the local file system, whose restore by the SDK fails.\<close>

definition calm_services :: "store services" where
  "calm_services = mem_services\<lparr>k_restore_update := (\<lambda>_. ret ())\<rparr>"

lemmas calm_sel = calm_services_def mem_services_sel

definition failing_type :: RestoreType where
  "failing_type = sample_restore_type\<lparr>rt_Location := ''filesystem'', rt_TotalBytesProcessed := 0\<rparr>"

definition failing_restore :: Restore where
  "failing_restore = new_restore ''r1'' 1 ''file'' failing_type"

definition failing_store :: store where
  "failing_store = sample_store\<lparr>st_restores := [failing_restore]\<rparr>"

definition failing_sdk :: "store restore_sdk" where
  "failing_sdk = \<lparr>sdk_Restore = (\<lambda>opt cb. ret (JNull, [], 0, Some (Errorf ''wrong password'')))\<rparr>"

definition failing_run :: StorageRestore where
  "failing_run = (demo_restore_run [])\<lparr>sr_Restore := None, sr_RestoreType := None, sr_Params := None\<rparr>"

definition failing_run1 :: StorageRestore where
  "failing_run1 = failing_run\<lparr>sr_Restore := Some failing_restore, sr_RestoreType := Some failing_type, sr_BackupType := ''file''\<rparr>"

lemma failing_reads:
  "restore_GetById calm_services ''r1'' failing_store = (Ret failing_restore, failing_store)"
  "GetRestore calm_services ''r1'' failing_store = (Ret failing_restore, failing_store)"
  "restore_Update calm_services ''r1'' sp failing_store = (Ret (), failing_store)"
  "Send calm_services o' d w = (Ret (), w)" "v_RemoveAll calm_services q w = (Ret (), w)" "\<not> v_done calm_services w"
  by (simp_all add: restore_GetById_def GetRestore_def restore_Update_def calm_sel mem_get_def find_by_def failing_store_def
      failing_restore_def new_restore_def eval_nat_numeral go_simps Send_def ignore_error_def tryG_def)

lemma failing_check: "checkRestoreExists calm_services (failing_store, failing_run) = (Ret (), (failing_store, failing_run1))"
proof -
  have ok: "restore_type_ok failing_type" by (simp add: restore_type_ok_def failing_type_def sample_restore_type_def i64_range_def)
  have p: "ParseRestoreType ''file'' failing_restore = Ret (Some failing_type)"
    unfolding failing_restore_def by (rule new_restore_type[OF ok])
  have g: "GetRestoreType failing_restore = Ret ''file''"
    by (simp add: GetRestoreType_def failing_restore_def new_restore_def lookup_def)
  show ?thesis
    by (simp add: checkRestoreExists_def Let_def failing_run_def demo_restore_run_def bindG_Ret tryG_Ret up_eval failing_reads(1) g p
        go_simps failing_run1_def) (simp add: failing_type_def sample_restore_type_def)
qed

lemma failing_owner: "rs_Owner (re_Spec failing_restore) = ''alice''" "re_Name failing_restore = ''r1''"
  by (simp_all add: failing_restore_def new_restore_def failing_type_def sample_restore_type_def)

lemma failing_prepare:
  obtains s p where "restore_prepare calm_services (failing_store, failing_run1) = (Ret (), (failing_store, s))"
    "sr_Restore s = Some failing_restore" "sr_RestoreType s = Some failing_type" "sr_BackupType s = ''file''" "sr_RestoreId s = ''r1''"
    "sr_Params s = Some p" "mget (rp_Location p) ''location'' = ''filesystem''"
proof -
  have run1: "sr_Restore failing_run1 = Some failing_restore" "sr_RestoreType failing_run1 = Some failing_type"
    "sr_BackupType failing_run1 = ''file''" "sr_RestoreId failing_run1 = ''r1''"
    by (simp_all add: failing_run1_def failing_run_def demo_restore_run_def)
  obtain u where u: "GetUserspacePvc calm_services ''alice'' failing_store = (Ret u, failing_store)"
    by (simp add: GetUserspacePvc_def calm_sel)
  obtain s1 where s1: "restore_getUserspacePvc calm_services (failing_store, failing_run1) = (Ret (), (failing_store, s1))"
    "sr_Restore s1 = Some failing_restore" "sr_RestoreType s1 = Some failing_type" "sr_BackupType s1 = ''file''" "sr_RestoreId s1 = ''r1''"
    using run1 by (simp add: restore_getUserspacePvc_def r_objects(2)[OF run1(1)] failing_owner up_try_Ret[of "GetUserspacePvc calm_services _", OF u] go_simps)
  have url: "\<exists>ud. rt_BackupUrl failing_type = Some ud" "rt_Type failing_type \<noteq> RestoreTypeSnapshot" "rt_Location failing_type = ''filesystem''"
    "rt_TotalBytesProcessed failing_type = 0" by (simp_all add: failing_type_def sample_restore_type_def)
  have name: "v_nameByLocation calm_services a b c d w = (Ret ''A'', w)" for a b c d w by (simp add: calm_sel)
  obtain ud where ud: "rt_BackupUrl failing_type = Some ud" using url(1) by blast
  obtain path root where target: "restore_target (v_NodeName calm_services) s1 failing_type = (path, root)" by fastforce
  obtain s2 p where s2: "prepareRestoreParams calm_services (failing_store, s1) = (Ret (), (failing_store, s2))"
    "sr_Restore s2 = Some failing_restore" "sr_RestoreType s2 = Some failing_type" "sr_BackupType s2 = ''file''" "sr_RestoreId s2 = ''r1''"
    "sr_Params s2 = Some p" "mget (rp_Location p) ''location'' = ''filesystem''"
    using s1(2-)
    by (simp add: prepareRestoreParams_def r_objects(1)[OF s1(3)] ud url(2,3) target url_source_def mget_def go_simps
        up_Ret[of "v_nameByLocation calm_services _ _ _ _", OF name])
  have usage: "v_disk_usage calm_services q w = (Ret (10, 1000), w)" for q w by (simp add: calm_sel)
  have space: "restore_required_space 0 = 0"
    using f64_int[of 0] by (simp add: restore_required_space_def f64_to_int_def)
  have disk: "restore_checkDiskSize calm_services (failing_store, s2) = (Ret (), (failing_store, s2))"
    using s2 url(4) by (simp add: restore_checkDiskSize_def r_objects(1)[OF s2(3)] r_objects(3)[OF s2(6)]
        up_Ret[of "v_disk_usage calm_services _", OF usage] space FreeLimit_def)
  have phase: "restore_UpdatePhase calm_services ''r1'' ph failing_store = (Ret (), failing_store)" for ph
    by (simp add: restore_UpdatePhase_def bindG_Ret failing_reads(1,3) Let_def)
  have "restore_prepareForRun calm_services (failing_store, s2) = (Ret (), (failing_store, s2))"
    by (simp add: restore_prepareForRun_def r_objects(1)[OF s2(3)] r_objects(2)[OF s2(2)] failing_owner up_Ret[of "Send calm_services _ _", OF failing_reads(4)] up_eval[of "restore_UpdatePhase calm_services _ _", OF phase])
  thus ?thesis using that[OF _ s2(2-7)] s1(1) s2(1) disk by (simp add: restore_prepare_def bindG_Ret)
qed

theorem failed_restore_cleans_up_witness:
  "\<exists>s. RunRestore calm_services failing_sdk (failing_store, failing_run) = (Ret (), (failing_store, s))"
proof -
  obtain s p where s: "restore_prepare calm_services (failing_store, failing_run1) = (Ret (), (failing_store, s))"
    "sr_Restore s = Some failing_restore" "sr_RestoreType s = Some failing_type" "sr_BackupType s = ''file''" "sr_RestoreId s = ''r1''"
    "sr_Params s = Some p" "mget (rp_Location p) ''location'' = ''filesystem''" by (rule failing_prepare)
  have run: "restore_execute calm_services failing_sdk (failing_store, s)
      = (Ret (JNull, [], 0, Some (Errorf ''wrong password'')), (failing_store, s))"
    by (simp add: restore_execute_def r_objects(1)[OF s(3)] r_objects(3)[OF s(6)] Let_def s(7) failing_sdk_def)
  have "v_done calm_services failing_store \<or> sr_Restore s = Some failing_restore \<and> sr_RestoreType s = Some failing_type
      \<and> GetRestore calm_services (sr_RestoreId s) failing_store = (Ret failing_restore, failing_store)
      \<and> Send calm_services (rt_Owner failing_type) (restore_result_event (k_now calm_services failing_store) (re_Name failing_restore)
          (rs_Progress (re_Spec failing_restore)) (Some (Errorf ''wrong password''))) failing_store = (Ret (), failing_store)
      \<and> restore_Update calm_services (sr_RestoreId s) (restore_result_spec (k_now calm_services failing_store) s
          (JNull, [], 0, Some (Errorf ''wrong password'')) (re_Spec failing_restore)) failing_store = (Ret (), failing_store)"
    by (simp only: s(2,3,5) failing_reads) simp
  note served = this
  have files: "if sr_BackupType s = BackupTypeApp then failing_store = failing_store
      else \<exists>r0. settles r0 \<and> v_RemoveAll calm_services (rp_Path p) failing_store = (r0, failing_store)"
    using failing_reads(5) by (auto simp: settles_def)
  have polls: "0 < v_polls calm_services" by (simp add: calm_sel)
  show ?thesis
    using failed_restore_cleans_up[OF failing_check s(1) run s(6) polls files refl served] by auto
qed

theorem unfinished_app_restore_is_completed_witness:
  "\<exists>w. finish_restore mem_services (JNull, ToJSON (JObj []), 0, None) (restore_store, demo_restore_run ''app'') = (Ret (), (w, demo_restore_run ''app''))"
proof -
  let ?s = "demo_restore_run ''app''" and ?m = "ToJSON (JObj [])"
  obtain w where w: "restore_Update mem_services (sr_RestoreId ?s) (restore_result_spec (k_now mem_services restore_store) ?s (JNull, ?m, 0, None) (re_Spec demo_restore))
      restore_store = (Ret (), w)" using demo_restore_calls(2) by (auto simp: demo_restore_run_def)
  have m: "json_parse ?m = Some (JObj [])" by (rule json_parse_ToJSON) simp
  have st: "StartAppRestore mem_services app i j ?m restore_store = (Ret (), restore_store)" for app i j
    by (simp add: StartAppRestore_def m check_start_def mem_services_sel)
  have n: "GetRestoreAppName demo_restore = Ret []"
    by (simp add: GetRestoreAppName_def demo_restore_def new_restore_def lookup_def)
  note * = unfinished_app_restore_is_completed[where v = mem_services and s = ?s and own = demo_restore and rt = sample_restore_type
        and app = "[]" and r = demo_restore and w = restore_store and ?w1.0 = restore_store and ?w2.0 = restore_store and ?w3.0 = restore_store
        and ?w4.0 = restore_store and ?w5.0 = w, OF _ _ _ _ _ n st _ _ _ refl _ w]
  show ?thesis
    by (rule exI[of _ w]) (use * demo_restore_calls in \<open>simp add: demo_restore_run_def mem_services_sel\<close>)
qed

end
