(* ===== verification/Controllers.thy ===== *)
theory Controllers
  imports AppService Worker
begin

text \<open>
  \<open>pkg/controllers\<close>: the reconcilers of the three custom resources and the filters of their events.
  They act on the world of the services and on the node: the worker pool and the cron schedule of
  this process. An answer of \<open>Reconcile\<close> is a \<open>Result\<close> and an error; both are values here, because
  the controller runtime looks at both.
\<close>

section \<open>State\<close>

record 'c node =
  nd_worker :: WorkerPool
  nd_cron :: 'c

type_synonym ('w, 'c, 'a) ctl = "('w \<times> 'c node, 'a) go"

definition in_worker :: "(WorkerPool, 'a) go \<Rightarrow> ('w, 'c, 'a) ctl" where
  "in_worker m = (\<lambda>(w, n). case m (nd_worker n) of (r, p) \<Rightarrow> (r, (w, n\<lparr>nd_worker := p\<rparr>)))"

definition in_cron :: "('c, 'a) go \<Rightarrow> ('w, 'c, 'a) ctl" where
  "in_cron m = (\<lambda>(w, n). case m (nd_cron n) of (r, c) \<Rightarrow> (r, (w, n\<lparr>nd_cron := c\<rparr>)))"

text \<open>\<open>RequeueAfter\<close> in seconds; 0 with \<open>Requeue\<close> false is the empty result.\<close>

record Result =
  rq_Requeue :: bool
  rq_RequeueAfter :: nat

definition no_requeue :: Result where
  "no_requeue = \<lparr>rq_Requeue = False, rq_RequeueAfter = 0\<rparr>"

definition requeue :: "nat \<Rightarrow> Result" where
  "requeue n = \<lparr>rq_Requeue = True, rq_RequeueAfter = n\<rparr>"

definition unix :: "timestamp \<Rightarrow> int" where
  "unix t = t div 1000000000"

section \<open>Comparing two versions of an object\<close>

text \<open>\<open>reflect.DeepEqual\<close>: maps are equal when they have the same entries; a nil map equals only nil.\<close>

definition submap :: "smap \<Rightarrow> smap \<Rightarrow> bool" where
  "submap a b \<longleftrightarrow> list_all (\<lambda>(k, _). map_of b k = map_of a k) a"

definition gomap_equal :: "gomap \<Rightarrow> gomap \<Rightarrow> bool" where
  "gomap_equal a b = (case (a, b) of
      (None, None) \<Rightarrow> True
    | (Some x, Some y) \<Rightarrow> submap x y \<and> submap y x
    | _ \<Rightarrow> False)"

definition backup_spec_equal :: "BackupSpec \<Rightarrow> BackupSpec \<Rightarrow> bool" where
  "backup_spec_equal a b \<longleftrightarrow>
     gomap_equal (bs_Location a) (bs_Location b) \<and> gomap_equal (bs_BackupType a) (bs_BackupType b) \<and>
     gomap_equal (bs_Extra a) (bs_Extra b) \<and>
     a\<lparr>bs_Location := None, bs_BackupType := None, bs_Extra := None\<rparr> =
     b\<lparr>bs_Location := None, bs_BackupType := None, bs_Extra := None\<rparr>"

definition snapshot_spec_equal :: "SnapshotSpec \<Rightarrow> SnapshotSpec \<Rightarrow> bool" where
  "snapshot_spec_equal a b \<longleftrightarrow> gomap_equal (ss_Extra a) (ss_Extra b) \<and> a\<lparr>ss_Extra := None\<rparr> = b\<lparr>ss_Extra := None\<rparr>"

definition restore_spec_equal :: "RestoreSpec \<Rightarrow> RestoreSpec \<Rightarrow> bool" where
  "restore_spec_equal a b \<longleftrightarrow> gomap_equal (rs_RestoreType a) (rs_RestoreType b) \<and> gomap_equal (rs_Extra a) (rs_Extra b) \<and>
     a\<lparr>rs_RestoreType := None, rs_Extra := None\<rparr> = b\<lparr>rs_RestoreType := None, rs_Extra := None\<rparr>"

lemma map_of_Some_fst: "map_of m k = Some v \<Longrightarrow> \<exists>u. (k, u) \<in> set m"
  using map_of_SomeD by fast

lemma submap_iff: "submap a b \<longleftrightarrow> (\<forall>k. map_of a k \<noteq> None \<longrightarrow> map_of b k = map_of a k)"
  by (force simp: submap_def list_all_iff map_of_eq_None_iff)

lemma gomap_equal_iff: "gomap_equal a b \<longleftrightarrow> (a = None \<longleftrightarrow> b = None) \<and> lookup a = lookup b"
proof (cases a; cases b)
  fix x y assume "a = Some x" "b = Some y"
  moreover have "submap x y \<and> submap y x \<longleftrightarrow> map_of x = map_of y"
    unfolding submap_iff by (metis ext)
  ultimately show ?thesis by (simp add: gomap_equal_def lookup_def fun_eq_iff)
qed (simp_all add: gomap_equal_def)

lemma gomap_equal_refl [simp]: "gomap_equal a a"
  by (simp add: gomap_equal_iff)

section \<open>The plans (backup_controller.go)\<close>

definition reconcileBackupPolicies :: "'c cron_lib \<Rightarrow> Backup \<Rightarrow> ('w, 'c, unit) ctl" where
  "reconcileBackupPolicies lib backup = (case bs_BackupPolicy (bk_Spec backup) of
      None \<Rightarrow> ret ()
    | Some p \<Rightarrow> let cron = (case ParseToCron (bp_SnapshotFrequency p) (bp_TimesOfDay p) (bp_DayOfWeek p) (bp_DateOfMonth p) of
            Ret s \<Rightarrow> s | _ \<Rightarrow> [])
        in in_cron (CreateSchedule lib backup cron))"

definition notify_plan :: "('w, 'm) services_scheme \<Rightarrow> Backup \<Rightarrow> ('w, unit) go" where
  "notify_plan v backup = tryG (liftO (GetBackupLocationConfig backup))
     (\<lambda>cfg. case cfg of
        None \<Rightarrow> raise (Errorf ''backup location config not exists'')
      | Some l \<Rightarrow>
          if mget l ''location'' \<noteq> location_String BackupLocationSpace then UpdateNotifyState v (bk_Name backup) True
          else bindG (v_spaceToken v (bs_Owner (bk_Spec backup)) (mget l ''name'')) (\<lambda>t.
               bindG (derefG nil_deref (bs_CreateAt (bk_Spec backup))) (\<lambda>createAt.
               tryG (NotifyBackup v (v_SyncServerURL v) \<lparr>nb_UserId = st_OlaresDid t, nb_Token = st_AccessToken t,
                       nb_BackupId = bk_Name backup, nb_Name = bs_Name (bk_Spec backup), nb_BackupType = GetBackupType backup,
                       nb_BackupTime = unix createAt, nb_BackupPath = GetBackupPath backup, nb_BackupLocation = mget l ''location''\<rparr>)
                 (\<lambda>_. UpdateNotifyState v (bk_Name backup) True)
                 (\<lambda>e. raise (Errorf (''[push] notify backup obj error: '' @ err_text e))))))
     (\<lambda>e. raise (Errorf (''get backup location config error: '' @ err_text e)))"

text \<open>The policy is read for a log line before anything else, and a plan without one panics there.\<close>

definition Reconcile_Backup :: "('w, 'm) services_scheme \<Rightarrow> 'c cron_lib \<Rightarrow> string \<Rightarrow> ('w, 'c, Result \<times> gerr option) ctl" where
  "Reconcile_Backup v lib name = tryG (up (k_client v))
     (\<lambda>_. tryG (up (k_backup_get v name))
        (\<lambda>backup. let spec = bk_Spec backup; remove = in_cron (\<lambda>c. (Ret (), RemoveFromSchedule lib backup c)) in
           bindG (derefG nil_deref (bs_BackupPolicy spec)) (\<lambda>policy.
             if bs_Deleted spec then
               bindG (in_worker (CancelBackup (bs_Owner spec) (bk_Name backup))) (\<lambda>_. bindG remove (\<lambda>_.
                 tryG (up (DeleteBackup v backup)) (\<lambda>_. ret (no_requeue, None)) (\<lambda>e. ret (requeue 5, Some e))))
             else
               tryG (if bs_Notified spec then ret () else up (notify_plan v backup))
                 (\<lambda>_. if \<not> bp_Enabled policy then bindG remove (\<lambda>_. ret (no_requeue, None))
                      else tryG (reconcileBackupPolicies lib backup)
                        (\<lambda>_. ret (no_requeue, None)) (\<lambda>e. ret (no_requeue, Some e)))
                 (\<lambda>e. ret (requeue 5, None))))
        (\<lambda>e. if IsNotFound e then ret (no_requeue, None) else ret (no_requeue, Some e)))
     (\<lambda>e. ret (requeue 3, Some e))"

text \<open>\<open>isPolicyUpdated\<close> answers whether the policies are equal; its caller negates it.\<close>

definition isSizeUpdated :: "Backup \<Rightarrow> Backup \<Rightarrow> bool outcome" where
  "isSizeUpdated old new = (case (lookup (bs_Extra (bk_Spec old)) ''size_updated'', lookup (bs_Extra (bk_Spec new)) ''size_updated'') of
      (Some a, Some b) \<Rightarrow> Ret (a \<noteq> b)
    | _ \<Rightarrow> errf ''backup size_updated invalid'')"

definition isPolicyUpdated :: "Backup \<Rightarrow> Backup \<Rightarrow> bool" where
  "isPolicyUpdated old new \<longleftrightarrow> bs_BackupPolicy (bk_Spec old) = bs_BackupPolicy (bk_Spec new)"

definition backup_update_event :: "Backup \<Rightarrow> Backup \<Rightarrow> bool" where
  "backup_update_event old new =
     (if backup_spec_equal (bk_Spec old) (bk_Spec new) then False
      else if bs_Deleted (bk_Spec new) then True
      else (case isSizeUpdated old new of Ret flag \<Rightarrow> flag \<or> \<not> isPolicyUpdated old new | _ \<Rightarrow> False))"

section \<open>The snapshots (snapshot_controller.go)\<close>

text \<open>
  \<open>ParseSnapshotInfo\<close> of the snapshot handler decodes two types of the SDK; the decoders are arguments
  (an answer that does not decode leaves what they give).
\<close>

record sdk_decode =
  dec_StorageInfo :: "string \<Rightarrow> StorageInfo option"
  dec_SummaryOutput :: "string \<Rightarrow> SummaryOutput option"

definition ParseSnapshotInfo :: "sdk_decode \<Rightarrow> Snapshot \<Rightarrow> StorageInfo option \<times> SummaryOutput option" where
  "ParseSnapshotInfo dec snapshot =
    (case lookup (ss_Extra (sn_Spec snapshot)) ''storage'' of
        Some s \<Rightarrow> if s = [] then None else dec_StorageInfo dec s | None \<Rightarrow> None,
     case ss_ResticMessage (sn_Spec snapshot) of
        Some m \<Rightarrow> if m = [] then None else dec_SummaryOutput dec m | None \<Rightarrow> None)"

definition DefaultSnapshotSizeUnit :: string where "DefaultSnapshotSizeUnit = ''byte''"

definition snapshot_record :: "SpaceToken \<Rightarrow> Backup \<Rightarrow> Snapshot \<Rightarrow> int \<Rightarrow> string \<Rightarrow> string \<Rightarrow> notify_Snapshot" where
  "snapshot_record t backup snapshot time status typ = \<lparr>ny_UserId = st_OlaresDid t, ny_BackupId = bk_Name backup,
     ny_SnapshotId = sn_Name snapshot, ny_ResticSnapshotId = [], ny_Size = 0, ny_BackupSize = 0,
     ny_Unit = DefaultSnapshotSizeUnit, ny_SnapshotTime = time, ny_Status = status, ny_Type = typ, ny_Url = [],
     ny_CloudName = [], ny_RegionId = [], ny_Bucket = [], ny_Prefix = [], ny_Message = []\<rparr>"

definition notifySnapshot :: "('w, 'm) services_scheme \<Rightarrow> Backup \<Rightarrow> Snapshot \<Rightarrow> string \<Rightarrow> ('w, unit) go" where
  "notifySnapshot v backup snapshot status = bindG (liftO (location_config0 backup)) (\<lambda>cfg.
     if lookup0 cfg ''location'' \<noteq> location_String BackupLocationSpace then ret ()
     else bindG (v_spaceToken v (bs_Owner (bk_Spec backup)) (lookup0 cfg ''name'')) (\<lambda>t.
          bindG (derefG nil_deref (ss_CreateAt (sn_Spec snapshot))) (\<lambda>createAt.
          bindG (liftO (ParseSnapshotTypeText (ss_SnapshotType (sn_Spec snapshot)))) (\<lambda>typ.
            NotifySnapshot v (v_SyncServerURL v) (snapshot_record t backup snapshot (unix createAt) status typ)))))"

text \<open>The two optional parts of the record of a finished snapshot.\<close>

definition with_storage :: "StorageInfo option \<Rightarrow> notify_Snapshot \<Rightarrow> notify_Snapshot" where
  "with_storage storageInfo r = (case storageInfo of None \<Rightarrow> r
     | Some s \<Rightarrow> r\<lparr>ny_Url := si_Url s, ny_CloudName := si_CloudName s, ny_RegionId := si_RegionId s,
         ny_Bucket := si_Bucket s, ny_Prefix := si_Prefix s\<rparr>)"

definition with_output :: "Backup \<Rightarrow> Snapshot \<Rightarrow> SummaryOutput option \<Rightarrow> notify_Snapshot \<Rightarrow> ('w, notify_Snapshot) go" where
  "with_output backup snapshot resticInfo r = (case resticInfo of
      Some o' \<Rightarrow> bindG (derefG nil_deref (bs_Size (bk_Spec backup))) (\<lambda>sz.
        ret (r\<lparr>ny_Message := so_json o', ny_Size := so_TotalBytesProcessed o', ny_BackupSize := sz,
               ny_ResticSnapshotId := so_SnapshotID o'\<rparr>))
    | None \<Rightarrow> ret (case ss_Message (sn_Spec snapshot) of None \<Rightarrow> r | Some m \<Rightarrow> r\<lparr>ny_Message := m\<rparr>))"

definition notifySnapshotResult :: "('w, 'm) services_scheme \<Rightarrow> sdk_decode \<Rightarrow> Backup \<Rightarrow> Snapshot \<Rightarrow> ('w, unit) go" where
  "notifySnapshotResult v dec backup snapshot = bindG (liftO (location_config0 backup)) (\<lambda>cfg.
     if lookup0 cfg ''location'' \<noteq> location_String BackupLocationSpace then ret ()
     else tryG (v_spaceToken v (bs_Owner (bk_Spec backup)) (lookup0 cfg ''name''))
       (\<lambda>t. bindG (derefG nil_deref (ss_CreateAt (sn_Spec snapshot))) (\<lambda>createAt.
            bindG (liftO (ParseSnapshotTypeText (ss_SnapshotType (sn_Spec snapshot)))) (\<lambda>typ.
            bindG (derefG nil_deref (ss_Phase (sn_Spec snapshot))) (\<lambda>phase.
            let (storageInfo, resticInfo) = ParseSnapshotInfo dec snapshot in
            bindG (with_output backup snapshot resticInfo
                (with_storage storageInfo (snapshot_record t backup snapshot (unix createAt) phase typ)))
              (NotifySnapshot v (v_SyncServerURL v))))))
       (\<lambda>e. raise (Errorf (''get space token error: '' @ err_text e))))"

definition addToWorkerManager ::
  "('w, 'm) services_scheme \<Rightarrow> (TaskPool \<Rightarrow> bool) \<Rightarrow> Backup \<Rightarrow> Snapshot \<Rightarrow> ('w, 'c, unit) ctl" where
  "addToWorkerManager v accept backup snapshot =
     bindG (up (ignore_error (notifySnapshot v backup snapshot (phase_String Pending)))) (\<lambda>_.
       in_worker (AddBackupTask accept (bs_Owner (bk_Spec backup)) (bk_Name backup) (sn_Name snapshot)))"

definition final_phases :: "string list" where
  "final_phases = map phase_String [Completed, Failed, Canceled, Rejected]"

definition fail_snapshot :: "('w, 'm) services_scheme \<Rightarrow> Snapshot \<Rightarrow> string \<Rightarrow> ('w, 'c, unit) ctl" where
  "fail_snapshot v snapshot msg = up (ignore_error (snapshot_UpdatePhase v (sn_Name snapshot) (phase_String Failed) msg))"

text \<open>What is done with a snapshot in a phase; \<open>started\<close> is the start of this process.\<close>

definition reconcile_phase :: "('w, 'm) services_scheme \<Rightarrow> sdk_decode \<Rightarrow> (TaskPool \<Rightarrow> bool) \<Rightarrow> timestamp \<Rightarrow>
    Backup \<Rightarrow> Snapshot \<Rightarrow> string \<Rightarrow> ('w, 'c, Result \<times> gerr option) ctl" where
  "reconcile_phase v dec accept started backup snapshot phase =
    (let isNewlyCreated = started < om_CreationTimestamp (sn_meta snapshot); finished = ret (no_requeue, None) in
     if phase = phase_String Pending then
       (if isNewlyCreated
        then tryG (addToWorkerManager v accept backup snapshot) (\<lambda>_. finished)
               (\<lambda>e. bindG (fail_snapshot v snapshot (err_text e)) (\<lambda>_. finished))
        else bindG (fail_snapshot v snapshot MessageBackupServerRestart) (\<lambda>_. finished))
     else if phase = phase_String Running then
       (if isNewlyCreated then finished
        else bindG (fail_snapshot v snapshot MessageBackupServerRestart) (\<lambda>_. finished))
     else if phase \<in> set final_phases then
       bindG (if phase = phase_String Canceled
              then in_worker (CancelSnapshot (bs_Owner (bk_Spec backup)) (sn_Name snapshot)) else ret ()) (\<lambda>_.
         tryG (up (notifySnapshotResult v dec backup snapshot))
           (\<lambda>_. bindG (up (ignore_error (UpdateNotifyResultState v snapshot))) (\<lambda>_. finished))
           (\<lambda>e. ret (requeue 5, Some (Errorf (''notify snapshot error: '' @ err_text e)))))
     else finished)"

definition Reconcile_Snapshot :: "('w, 'm) services_scheme \<Rightarrow> sdk_decode \<Rightarrow> (TaskPool \<Rightarrow> bool) \<Rightarrow> timestamp \<Rightarrow>
    string \<Rightarrow> ('w, 'c, Result \<times> gerr option) ctl" where
  "Reconcile_Snapshot v dec accept started name = (let gone = (\<lambda>e. if IsNotFound e then ret (no_requeue, None) else ret (no_requeue, Some e)) in
     tryG (up (k_client v))
       (\<lambda>_. tryG (up (k_snapshot_get v name))
          (\<lambda>snapshot. bindG (derefG nil_deref (ss_Phase (sn_Spec snapshot))) (\<lambda>phase.
             tryG (up (backup_GetById v (ss_BackupId (sn_Spec snapshot))))
               (\<lambda>backup. reconcile_phase v dec accept started backup snapshot phase) gone)) gone)
       (\<lambda>e. ret (requeue 3, Some e)))"

text \<open>The filters. Results that were reported already are not reconciled again.\<close>

definition not_notified :: "Snapshot \<Rightarrow> bool outcome" where
  "not_notified snapshot = (case CheckSnapshotNotifyState snapshot ''result'' of
      Ret notified \<Rightarrow> Ret (\<not> notified) | Fail e \<Rightarrow> Ret False | Panic p \<Rightarrow> Panic p | Diverge \<Rightarrow> Diverge)"

definition snapshot_create_event :: "Snapshot \<Rightarrow> bool outcome" where
  "snapshot_create_event snapshot = (case ss_Phase (sn_Spec snapshot) of
      None \<Rightarrow> Panic nil_deref
    | Some phase \<Rightarrow> if phase \<in> set final_phases then not_notified snapshot else Ret True)"

definition isRunningProgress :: "string option \<Rightarrow> string option \<Rightarrow> bool outcome" where
  "isRunningProgress old new = (case (new, old) of
      (Some p', Some p) \<Rightarrow> Ret (p' = p \<and> p' = phase_String Running)
    | _ \<Rightarrow> Panic nil_deref)"

definition snapshot_update_event :: "Snapshot \<Rightarrow> Snapshot \<Rightarrow> bool outcome" where
  "snapshot_update_event old new =
     (if snapshot_spec_equal (sn_Spec old) (sn_Spec new) then Ret False
      else bindO (isRunningProgress (ss_Phase (sn_Spec old)) (ss_Phase (sn_Spec new))) (\<lambda>progress.
        if progress then Ret False else not_notified new))"

section \<open>The restores (restore_controller.go)\<close>

text \<open>\<open>Reconcile\<close> does nothing: all is done in the filters, which never let an event through.\<close>

definition Reconcile_Restore :: "string \<Rightarrow> ('w, 'c, Result \<times> gerr option) ctl" where
  "Reconcile_Restore name = ret (no_requeue, None)"

definition fail_restore :: "('w, 'm) services_scheme \<Rightarrow> Restore \<Rightarrow> ('w, 'c, unit) ctl" where
  "fail_restore v restore = up (ignore_error (SetRestorePhase v (re_Name restore) Failed))"

definition restore_create_event ::
  "('w, 'm) services_scheme \<Rightarrow> (TaskPool \<Rightarrow> bool) \<Rightarrow> timestamp \<Rightarrow> Restore \<Rightarrow> ('w, 'c, bool) ctl" where
  "restore_create_event v accept started restore = (let skip = ret False; fail = bindG (fail_restore v restore) (\<lambda>_. ret False) in
     tryG (liftO (GetRestoreType restore))
       (\<lambda>backupType. tryG (liftO (ParseRestoreType backupType restore))
          (\<lambda>rt. bindG (derefG nil_deref (rs_Phase (re_Spec restore))) (\<lambda>phase.
             bindG (derefG nil_deref rt) (\<lambda>_.
             if phase = phase_String Pending then
               (if started < om_CreationTimestamp (re_meta restore)
                then tryG (in_worker (AddRestoreTask accept (rs_Owner (re_Spec restore)) (re_Name restore))) (\<lambda>_. skip) (\<lambda>e. fail)
                else fail)
             else if phase = phase_String Running then fail
             else skip)))
          (\<lambda>e. fail))
       (\<lambda>e. skip))"

definition restore_update_event :: "('w, 'm) services_scheme \<Rightarrow> Restore \<Rightarrow> Restore \<Rightarrow> ('w, 'c, bool) ctl" where
  "restore_update_event v old new =
     (if restore_spec_equal (re_Spec old) (re_Spec new) then ret False
      else bindG (derefG nil_deref (rs_Phase (re_Spec new))) (\<lambda>phase.
        bindG (liftO (isRunningProgress (rs_Phase (re_Spec old)) (rs_Phase (re_Spec new)))) (\<lambda>progress.
          if progress \<or> phase = phase_String Failed then ret False
          else if phase = phase_String Canceled then
            bindG (in_worker (CancelRestore (rs_Owner (re_Spec new)) (re_Name new))) (\<lambda>_. ret False)
          else if phase = phase_String Deleted then
            bindG (up (ignore_error (DeleteRestore v (re_Name new)))) (\<lambda>_. ret False)
          else ret False)))"

end
