(* ===== verification/ControllersFacts.thy ===== *)
theory ControllersFacts
  imports Controllers
begin

text \<open>
  What the controllers guarantee: the schedule follows the plan, open snapshots of an earlier process
  are failed, a second snapshot of a busy plan is refused, results are reported once.
\<close>

section \<open>Rules for the world of a controller\<close>

lemma in_worker_iff:
  "in_worker m (w, n) = (r, (w', n')) \<longleftrightarrow> w' = w \<and> (\<exists>p. m (nd_worker n) = (r, p) \<and> n' = n\<lparr>nd_worker := p\<rparr>)"
  by (auto simp: in_worker_def split: prod.splits)

lemma in_cron_iff:
  "in_cron m (w, n) = (r, (w', n')) \<longleftrightarrow> w' = w \<and> (\<exists>c. m (nd_cron n) = (r, c) \<and> n' = n\<lparr>nd_cron := c\<rparr>)"
  by (auto simp: in_cron_def split: prod.splits)

lemmas ctl_iff = bindG_Ret_iff tryG_Ret_iff up_iff in_worker_iff in_cron_iff

lemma ctl_eval:
  "m w = (r, w') \<Longrightarrow> up m (w, n) = (r, (w', n))"
  "m2 (nd_worker n) = (r2, p) \<Longrightarrow> in_worker m2 (w, n) = (r2, (w, n\<lparr>nd_worker := p\<rparr>))"
  "m3 (nd_cron n) = (r3, c) \<Longrightarrow> in_cron m3 (w, n) = (r3, (w, n\<lparr>nd_cron := c\<rparr>))"
  by (simp_all add: up_def in_worker_def in_cron_def)

section \<open>The schedule follows the plan\<close>

definition own_jobs :: "'c cron_lib \<Rightarrow> string \<Rightarrow> 'c \<Rightarrow> backupJob multiset" where
  "own_jobs lib name c = {# j \<in># image_mset snd (mset (c_entries lib c)). bj_name j = name #}"

definition other_jobs :: "'c cron_lib \<Rightarrow> string \<Rightarrow> 'c \<Rightarrow> backupJob multiset" where
  "other_jobs lib name c = {# j \<in># image_mset snd (mset (c_entries lib c)). bj_name j \<noteq> name #}"

lemma jobs_removed:
  assumes "cron_laws lib" and "distinct (map fst (c_entries lib c))"
  shows "own_jobs lib name (remove_named lib name (c_entries lib c) c) = {#}"
    and "other_jobs lib name (remove_named lib name (c_entries lib c) c) = other_jobs lib name c"
  unfolding own_jobs_def other_jobs_def remove_named_all[OF assms]
  by (simp_all add: filter_mset_image_mset flip: mset_filter)

lemma jobs_added:
  assumes "cron_laws lib" and "c_add lib s j c = (Ret (), c')"
  shows "own_jobs lib name c' = (if bj_name j = name then {#j#} else {#}) + own_jobs lib name c"
    and "other_jobs lib name c' = (if bj_name j = name then {#} else {#j#}) + other_jobs lib name c"
proof -
  obtain i where "mset (c_entries lib c') = add_mset (i, j) (mset (c_entries lib c))"
    using assms unfolding cron_laws_def by blast
  then show "own_jobs lib name c' = (if bj_name j = name then {#j#} else {#}) + own_jobs lib name c"
    and "other_jobs lib name c' = (if bj_name j = name then {#} else {#j#}) + other_jobs lib name c"
    by (simp_all add: own_jobs_def other_jobs_def)
qed

lemma jobs_refused:
  assumes "cron_laws lib" and "c_add lib s j c = (Fail e, c')"
  shows "own_jobs lib name c' = own_jobs lib name c" and "other_jobs lib name c' = other_jobs lib name c"
proof -
  have "c_entries lib c' = c_entries lib c" using assms unfolding cron_laws_def by blast
  then show "own_jobs lib name c' = own_jobs lib name c" and "other_jobs lib name c' = other_jobs lib name c"
    by (simp_all add: own_jobs_def other_jobs_def)
qed

definition plan_scheduled :: "Backup \<Rightarrow> bool" where
  "plan_scheduled backup \<longleftrightarrow> \<not> bs_Deleted (bk_Spec backup) \<and>
     (case bs_BackupPolicy (bk_Spec backup) of None \<Rightarrow> False | Some p \<Rightarrow> bp_Enabled p)"

text \<open>C8: when a reconciliation of a plan ends without an error and without a request to try again, the
  schedule has exactly one job of the plan, made from the plan as it was read, when the plan is enabled
  and not deleted, and no job of it otherwise; the jobs of all other plans are as they were.\<close>

theorem schedule_follows_plan:
  assumes "cron_laws lib" and "distinct (map fst (c_entries lib (nd_cron n)))"
    and "k_client v w = (Ret (), w1)" and "k_backup_get v name w1 = (Ret backup, w2)" and "bk_Name backup = name"
    and "Reconcile_Backup v lib name (w, n) = (Ret (no_requeue, None), (w', n'))"
  shows "own_jobs lib name (nd_cron n') = (if plan_scheduled backup then {#\<lparr>bj_name = name, bj_backup = backup\<rparr>#} else {#})
    \<and> other_jobs lib name (nd_cron n') = other_jobs lib name (nd_cron n)"
proof -
  note R = assms(6)[unfolded Reconcile_Backup_def Let_def, simplified up_try_Ret[of "k_client v", OF assms(3)] up_try_Ret[of "k_backup_get v name", OF assms(4)]]
  note J = jobs_removed[OF assms(1,2)] jobs_added[OF assms(1)]
  obtain p where p: "bs_BackupPolicy (bk_Spec backup) = Some p"
    using R by (cases "bs_BackupPolicy (bk_Spec backup)") simp_all
  show ?thesis
  proof (cases "bs_Deleted (bk_Spec backup)")
    case True
    then show ?thesis
      using R p assms(5) J(1,2) by (auto simp: ctl_iff requeue_def no_requeue_def RemoveFromSchedule_def plan_scheduled_def)
  next
    case False
    then show ?thesis
      using R p assms(5) J
      by (auto simp: ctl_iff requeue_def no_requeue_def RemoveFromSchedule_def plan_scheduled_def
            reconcileBackupPolicies_def CreateSchedule_def split: if_splits)
  qed
qed

definition demo_policy :: BackupPolicy where
  "demo_policy = \<lparr>bp_Enabled = True, bp_SnapshotFrequency = ''@daily'', bp_TimesOfDay = ''03:30'', bp_TimespanOfDay = ''03:30'',
     bp_DayOfWeek = 1, bp_DateOfMonth = 1\<rparr>"

definition demo_plan :: "BackupPolicy \<Rightarrow> Backup" where
  "demo_plan p = set_bk_spec (\<lambda>s. s\<lparr>bs_BackupPolicy := Some p, bs_Notified := True\<rparr>) (sample_backup ''b1'' 10 False)"

definition plan_store :: "Backup \<Rightarrow> store" where
  "plan_store b = sample_store\<lparr>st_backups := [b]\<rparr>"

definition demo_node :: "(nat \<times> (nat \<times> backupJob) list) node" where
  "demo_node = \<lparr>nd_worker = NewWorkerPool, nd_cron = (1, [(1, \<lparr>bj_name = ''b1'', bj_backup = sample_backup ''b1'' 1 False\<rparr>)])\<rparr>"

lemma demo_plan_simps [simp]:
  "bk_Name (demo_plan p) = ''b1''" "bs_Deleted (bk_Spec (demo_plan p)) = False" "bs_Notified (bk_Spec (demo_plan p)) = True"
  "bs_BackupPolicy (bk_Spec (demo_plan p)) = Some p" "bs_Owner (bk_Spec (demo_plan p)) = ''alice''"
  "plan_scheduled (demo_plan p) = bp_Enabled p"
  by (simp_all add: demo_plan_def sample_backup_def sample_spec_def plan_scheduled_def)

lemma demo_calls:
  "k_client mem_services w = (Ret (), w)" "k_backup_get mem_services ''b1'' (plan_store (demo_plan p)) = (Ret (demo_plan p), plan_store (demo_plan p))"
  by (simp_all add: mem_services_sel mem_get_def find_by_def plan_store_def)

lemma demo_cron: "distinct (map fst (c_entries list_cron (nd_cron demo_node)))"
  by (simp add: demo_node_def list_cron_def)

theorem schedule_follows_plan_witness:
  "\<exists>c'. own_jobs list_cron ''b1'' c' = {#\<lparr>bj_name = ''b1'', bj_backup = demo_plan demo_policy\<rparr>#}
     \<and> other_jobs list_cron ''b1'' c' = other_jobs list_cron ''b1'' (nd_cron demo_node)"
proof -
  have c: "ParseToCron ''@daily'' ''03:30'' 1 1 = Ret ''30 03 * * *''" by code_simp
  have add: "\<exists>c'. c_add list_cron ''30 03 * * *'' j d = (Ret (), c')" for j d
    by (cases d) (simp add: list_cron_def Let_def)
  obtain c' where "CreateSchedule list_cron (demo_plan demo_policy) ''30 03 * * *'' (nd_cron demo_node) = (Ret (), c')"
    using add unfolding CreateSchedule_def by blast
  then obtain n' where "reconcileBackupPolicies list_cron (demo_plan demo_policy) (plan_store (demo_plan demo_policy), demo_node) =
      (Ret (), (plan_store (demo_plan demo_policy), n'))"
    using c by (simp add: reconcileBackupPolicies_def in_cron_def) (simp add: demo_policy_def)
  hence "Reconcile_Backup mem_services list_cron ''b1'' (plan_store (demo_plan demo_policy), demo_node) =
      (Ret (no_requeue, None), (plan_store (demo_plan demo_policy), n'))"
    by (simp add: Reconcile_Backup_def tryG_Ret up_try_Ret[of "k_client mem_services", OF demo_calls(1)]
        up_try_Ret[of "k_backup_get mem_services ''b1''", OF demo_calls(2)]) (simp add: demo_policy_def)
  from schedule_follows_plan[OF list_cron_laws demo_cron demo_calls demo_plan_simps(1) this]
  moreover have "bp_Enabled demo_policy" by (simp add: demo_policy_def)
  ultimately show ?thesis by - (rule exI[of _ "nd_cron n'"], simp)
qed

text \<open>C32: a policy whose time does not give a cron expression: the reconciliation of the enabled plan, whose
  notification has been sent before, ends with the error of the cron library, after it has already removed the
  job that the plan had.\<close>

theorem invalid_policy_drops_schedule:
  assumes "cron_laws lib" and "distinct (map fst (c_entries lib (nd_cron n)))"
    and "k_client v w = (Ret (), w1)" and "k_backup_get v name w1 = (Ret backup, w2)" and "bk_Name backup = name"
    and "plan_scheduled backup" and "bs_Notified (bk_Spec backup)" and "bs_BackupPolicy (bk_Spec backup) = Some p"
    and "ParseToCron (bp_SnapshotFrequency p) (bp_TimesOfDay p) (bp_DayOfWeek p) (bp_DateOfMonth p) = Fail bad"
    and "\<And>j c. \<exists>c'. c_add lib [] j c = (Fail e, c')"
  shows "\<exists>n'. Reconcile_Backup v lib name (w, n) = (Ret (no_requeue, Some e), (w2, n'))
    \<and> own_jobs lib name (nd_cron n') = {#}"
proof -
  let ?c = "remove_named lib name (c_entries lib (nd_cron n)) (nd_cron n)"
  obtain c' where c': "c_add lib [] \<lparr>bj_name = name, bj_backup = backup\<rparr> ?c = (Fail e, c')" using assms(10) by blast
  have "reconcileBackupPolicies lib backup (w2, n) = (Fail e, (w2, n\<lparr>nd_cron := c'\<rparr>))"
    using assms(5,8,9) c' by (simp add: reconcileBackupPolicies_def CreateSchedule_def in_cron_def)
  hence "Reconcile_Backup v lib name (w, n) = (Ret (no_requeue, Some e), (w2, n\<lparr>nd_cron := c'\<rparr>))"
    using assms(6,7,8)
    by (simp add: Reconcile_Backup_def plan_scheduled_def tryG_Fail up_try_Ret[of "k_client v", OF assms(3)]
        up_try_Ret[of "k_backup_get v name", OF assms(4)])
  thus ?thesis using jobs_refused(1)[OF assms(1) c', of name] jobs_removed(1)[OF assms(1,2), of name] by simp
qed

theorem invalid_policy_drops_schedule_witness:
  "\<exists>n'. own_jobs list_cron ''b1'' (nd_cron n') = {#} \<and>
     Reconcile_Backup mem_services list_cron ''b1'' (plan_store (demo_plan (demo_policy\<lparr>bp_TimesOfDay := ''0330''\<rparr>)), demo_node) =
       (Ret (no_requeue, Some (Errorf ''empty spec string'')), (plan_store (demo_plan (demo_policy\<lparr>bp_TimesOfDay := ''0330''\<rparr>)), n'))"
proof -
  let ?p = "demo_policy\<lparr>bp_TimesOfDay := ''0330''\<rparr>"
  have s: "Split ''0330'' '':'' = [''0330'']" by code_simp
  obtain bad where bad: "ParseToCron (bp_SnapshotFrequency ?p) (bp_TimesOfDay ?p) (bp_DayOfWeek ?p) (bp_DateOfMonth ?p) = Fail bad"
    by (simp add: ParseToCron_def s errf_def)
  have add: "\<exists>c'. c_add list_cron [] j c = (Fail (Errorf ''empty spec string''), c')" for j c
    by (cases c) (simp add: list_cron_def)
  from invalid_policy_drops_schedule[OF list_cron_laws demo_cron demo_calls demo_plan_simps(1) _ _ demo_plan_simps(4) bad add]
  show ?thesis by (auto simp: demo_policy_def)
qed

section \<open>Snapshots of an earlier process\<close>

lemma Reconcile_Snapshot_phase:
  assumes "k_client v w = (Ret (), w1)" and "k_snapshot_get v name w1 = (Ret s, w2)"
    and "ss_Phase (sn_Spec s) = Some phase" and "backup_GetById v (ss_BackupId (sn_Spec s)) w2 = (Ret b, w3)"
  shows "Reconcile_Snapshot v dec accept started name (w, n) = reconcile_phase v dec accept started b s phase (w3, n)"
  using assms(3)
  by (simp add: Reconcile_Snapshot_def Let_def up_try_Ret[of "k_client v", OF assms(1)]
      up_try_Ret[of "k_snapshot_get v name", OF assms(2)] up_try_Ret[of "backup_GetById v (ss_BackupId (sn_Spec s))", OF assms(4)])

lemma final_phases_iff [simp]: "phase_String p \<in> set final_phases \<longleftrightarrow> p \<in> {Completed, Failed, Canceled, Rejected}"
  by (simp add: final_phases_def del: phase_String.simps)

declare phase_String.simps [simp del]

text \<open>C9: after a restart, a snapshot that is still Pending or Running from before the start of the process
  is set to Failed with the restart message, and the worker pool and the schedule are left alone.\<close>

theorem restart_fails_open_snapshots:
  assumes "k_client v w = (Ret (), w1)" and "k_snapshot_get v name w1 = (Ret s, w2)"
    and "ss_Phase (sn_Spec s) = Some phase" and "backup_GetById v (ss_BackupId (sn_Spec s)) w2 = (Ret b, w3)"
    and "phase = phase_String Pending \<or> phase = phase_String Running"
    and "om_CreationTimestamp (sn_meta s) \<le> started"
    and "snapshot_UpdatePhase v (sn_Name s) (phase_String Failed) MessageBackupServerRestart w3 = (r, w4)" and "settles r"
  shows "Reconcile_Snapshot v dec accept started name (w, n) = (Ret (no_requeue, None), (w4, n))"
  unfolding Reconcile_Snapshot_phase[OF assms(1-4)]
  using assms(5,6)
  by (auto simp: reconcile_phase_def fail_snapshot_def Let_def
      up_ignore_settles[of "snapshot_UpdatePhase v (sn_Name s) (phase_String Failed) MessageBackupServerRestart", OF assms(7,8)])

definition snap_node_store :: "Snapshot \<Rightarrow> store" where
  "snap_node_store s = (plan_store (demo_plan demo_policy))\<lparr>st_snapshots := [s]\<rparr>"

definition made_at :: "timestamp \<Rightarrow> Snapshot \<Rightarrow> Snapshot" where
  "made_at t s = s\<lparr>sn_meta := (sn_meta s)\<lparr>om_CreationTimestamp := t\<rparr>\<rparr>"

lemma made_at_simps [simp]:
  "sn_Name (made_at t (sample_snapshot i ph)) = i" "om_CreationTimestamp (sn_meta (made_at t s)) = t"
  "ss_Phase (sn_Spec (made_at t (sample_snapshot i ph))) = Some (phase_String ph)"
  "ss_BackupId (sn_Spec (made_at t (sample_snapshot i ph))) = ''b1''"
  by (simp_all add: made_at_def sample_snapshot_def new_snapshot_def sample_backup_def)

lemma demo_snapshot_calls:
  assumes "sn_Name s = ''s1''"
  shows "k_snapshot_get mem_services ''s1'' (snap_node_store s) = (Ret s, snap_node_store s)"
    and "backup_GetById mem_services ''b1'' (snap_node_store s) = (Ret (demo_plan demo_policy), snap_node_store s)"
    and "\<exists>w. snapshot_UpdatePhase mem_services ''s1'' ph m (snap_node_store s) = (Ret (), w)"
  using assms
  by (simp_all add: mem_services_sel mem_get_def find_by_def snap_node_store_def plan_store_def backup_GetById_def
      snapshot_UpdatePhase_def snapshot_GetById_def snapshot_update_def mem_update_def go_simps eval_nat_numeral)

theorem restart_fails_open_snapshots_witness:
  "\<forall>dec accept. \<exists>w. Reconcile_Snapshot mem_services dec accept 50 ''s1'' (snap_node_store (made_at 40 (sample_snapshot ''s1'' Running)), demo_node) =
     (Ret (no_requeue, None), (w, demo_node))"
proof -
  let ?s = "made_at 40 (sample_snapshot ''s1'' Running)"
  obtain w where w: "snapshot_UpdatePhase mem_services (sn_Name ?s) (phase_String Failed) MessageBackupServerRestart (snap_node_store ?s) = (Ret (), w)"
    using demo_snapshot_calls(3)[of ?s] by auto
  show ?thesis
    by (intro allI exI, rule restart_fails_open_snapshots[where phase = "phase_String Running", OF demo_calls(1) demo_snapshot_calls(1) _ _ _ _ w])
       (simp_all add: demo_snapshot_calls(2) settles_def)
qed

text \<open>C10: a new snapshot of a plan that already has a task queued or running in the pool of its owner is
  not queued: it is set to Failed with the message that says so, and the pool stays as it is.\<close>

theorem busy_plan_refuses_snapshot:
  assumes "k_client v w = (Ret (), w1)" and "k_snapshot_get v name w1 = (Ret s, w2)"
    and "ss_Phase (sn_Spec s) = Some (phase_String Pending)" and "backup_GetById v (ss_BackupId (sn_Spec s)) w2 = (Ret b, w3)"
    and "started < om_CreationTimestamp (sn_meta s)"
    and "notifySnapshot v b s (phase_String Pending) w3 = (r, w4)" and "settles r"
    and "pool_of (nd_worker n) (bs_Owner (bk_Spec b)) = Some p" and "e \<in> set (tp_tasks p)"
    and "live (wp_heap (nd_worker n)) (bk_Name b) (snd e)"
    and "snapshot_UpdatePhase v (sn_Name s) (phase_String Failed) MessageTaskExists w4 = (r', w5)" and "settles r'"
  shows "Reconcile_Snapshot v dec accept started name (w, n) = (Ret (no_requeue, None), (w5, n))"
proof -
  have "AddBackupTask accept (bs_Owner (bk_Spec b)) (bk_Name b) (sn_Name s) (nd_worker n) =
      (Fail (Errorf MessageTaskExists), nd_worker n)"
    using assms(8,9,10) by (auto simp: AddBackupTask_def ExistsTask_def table_exists_iff)
  hence "addToWorkerManager v accept b s (w3, n) = (Fail (Errorf MessageTaskExists), (w4, n))"
    by (simp add: addToWorkerManager_def in_worker_def
        up_ignore_settles[of "notifySnapshot v b s (phase_String Pending)", OF assms(6,7)])
  thus ?thesis
    unfolding Reconcile_Snapshot_phase[OF assms(1-4)]
    using assms(5)
    by (simp add: reconcile_phase_def fail_snapshot_def tryG_Fail Errorf_def Let_def
        up_ignore_settles[of "snapshot_UpdatePhase v (sn_Name s) (phase_String Failed) MessageTaskExists", OF assms(11,12)])
qed

definition busy_node :: "TaskKind \<Rightarrow> (nat \<times> (nat \<times> backupJob) list) node" where
  "busy_node kind = demo_node\<lparr>nd_worker := \<lparr>wp_pools = [(''alice'', \<lparr>tp_queue = [], tp_running = Some (''t'', 0), tp_tasks = [(''t'', 0)], tp_active = Some 0\<rparr>)],
     wp_heap = [0 \<mapsto> \<lparr>bt_id = ''t'', bt_owner = ''alice'', bt_kind = kind, bt_canceled = False, bt_ctx_done = False\<rparr>], wp_next = 1, wp_events = []\<rparr>\<rparr>"

theorem busy_plan_refuses_snapshot_witness:
  "\<forall>dec. \<exists>w. Reconcile_Snapshot mem_services dec (\<lambda>_. True) 50 ''s1'' (snap_node_store (made_at 60 (sample_snapshot ''s1'' Pending)), busy_node (BackupTask ''b1'' ''s0'')) =
     (Ret (no_requeue, None), (w, busy_node (BackupTask ''b1'' ''s0'')))"
proof -
  let ?s = "made_at 60 (sample_snapshot ''s1'' Pending)" and ?b = "demo_plan demo_policy"
  obtain w where w: "snapshot_UpdatePhase mem_services (sn_Name ?s) (phase_String Failed) MessageTaskExists (snap_node_store ?s) = (Ret (), w)"
    using demo_snapshot_calls(3)[of ?s] by auto
  have loc: "bs_Location (bk_Spec ?b) = Some []" by (simp add: demo_plan_def sample_backup_def sample_spec_def)
  have nt: "notifySnapshot mem_services ?b ?s (phase_String Pending) (snap_node_store ?s) = (Ret (), snap_node_store ?s)"
    by (simp add: notifySnapshot_def location_config0_def GetBackupLocationConfig_def loc lookup0_def mget_def)
  show ?thesis
    by (intro allI exI, rule busy_plan_refuses_snapshot[OF demo_calls(1) demo_snapshot_calls(1) _ _ _ nt _ _ _ _ w])
       (auto simp: demo_snapshot_calls(2) settles_def busy_node_def pool_of_def live_def is_backup_task_def)
qed

text \<open>C33: cancelling a snapshot of an owner whose active task is a restore: the reconciliation of the
  cancelled snapshot panics on the type of that task.\<close>

theorem canceled_snapshot_panics_during_restore:
  assumes "k_client v w = (Ret (), w1)" and "k_snapshot_get v name w1 = (Ret s, w2)"
    and "ss_Phase (sn_Spec s) = Some (phase_String Canceled)" and "backup_GetById v (ss_BackupId (sn_Spec s)) w2 = (Ret b, w3)"
    and "pool_of (nd_worker n) (bs_Owner (bk_Spec b)) = Some p" and "tp_active p = Some i"
    and "wp_heap (nd_worker n) i = Some t" and "bt_kind t = RestoreTask restoreId"
  shows "fst (Reconcile_Snapshot v dec accept started name (w, n)) = Panic conversion_panic"
proof -
  obtain pool where "CancelSnapshot (bs_Owner (bk_Spec b)) (sn_Name s) (nd_worker n) = (Panic conversion_panic, pool)"
    using assms(5-8) by (simp add: CancelSnapshot_def mark_canceled_def is_snapshot_task_def)
  hence "in_worker (CancelSnapshot (bs_Owner (bk_Spec b)) (sn_Name s)) (w3, n) =
      (Panic conversion_panic, (w3, n\<lparr>nd_worker := pool\<rparr>))" by (simp add: in_worker_def)
  thus ?thesis
    unfolding Reconcile_Snapshot_phase[OF assms(1-4)]
    by (simp add: reconcile_phase_def bindG_Panic)
qed

theorem canceled_snapshot_panics_during_restore_witness:
  "\<forall>dec accept. fst (Reconcile_Snapshot mem_services dec accept 50 ''s1'' (snap_node_store (made_at 60 (sample_snapshot ''s1'' Canceled)), busy_node (RestoreTask ''r1''))) =
     Panic conversion_panic"
  by (intro allI, rule canceled_snapshot_panics_during_restore[where b = "demo_plan demo_policy" and p = "the (pool_of (nd_worker (busy_node (RestoreTask ''r1''))) ''alice'')" and i = 0
        and t = "the (wp_heap (nd_worker (busy_node (RestoreTask ''r1''))) 0)" and restoreId = "''r1''", OF demo_calls(1) demo_snapshot_calls(1)])
     (simp_all add: demo_snapshot_calls(2) busy_node_def pool_of_def)

section \<open>The filters\<close>

text \<open>An update of a plan is reconciled exactly when the plan changed and is marked deleted, or both
  versions carry the mark of the last size update and that mark or the policy differs. (In particular the
  update that records the notification is not reconciled again.)\<close>

theorem backup_update_event_iff:
  "backup_update_event old new \<longleftrightarrow> \<not> backup_spec_equal (bk_Spec old) (bk_Spec new) \<and>
     (bs_Deleted (bk_Spec new) \<or>
      (\<exists>a b. lookup (bs_Extra (bk_Spec old)) ''size_updated'' = Some a \<and> lookup (bs_Extra (bk_Spec new)) ''size_updated'' = Some b \<and>
         \<not> (a = b \<and> bs_BackupPolicy (bk_Spec old) = bs_BackupPolicy (bk_Spec new))))"
  by (auto simp: backup_update_event_def isSizeUpdated_def isPolicyUpdated_def errf_def split: option.splits)

text \<open>Once the result of a finished snapshot is marked as reported, neither the update that marks it
  nor a later create event (a restart lists every snapshot) is reconciled: it is not reported again.\<close>

theorem reported_once:
  assumes "UpdateNotifyResultState k s w = (Ret (), w')" and "ss_Phase (sn_Spec s) = Some phase" and "phase \<in> set final_phases"
  shows "\<exists>s'. snapshot_update k s' w = (Ret (), w') \<and> snapshot_update_event s s' = Ret False
    \<and> (\<forall>later. sn_Spec later = sn_Spec s' \<and> sn_meta later = sn_meta s' \<longrightarrow> snapshot_create_event later = Ret False)"
proof -
  obtain s' extra where s': "snapshot_update k s' w = (Ret (), w')"
    "s' = set_sn_spec (\<lambda>sp. sp\<lparr>ss_Extra := Some extra\<rparr>) s" "CheckSnapshotNotifyState s' ''result'' = Ret True"
    using UpdateNotifyResultState_writes[OF assms(1)] by metis
  have n: "not_notified s' = Ret False" using s'(3) by (simp add: not_notified_def)
  have "snapshot_update_event s s' = Ret False"
    using assms(2) n s'(2) by (simp add: snapshot_update_event_def isRunningProgress_def)
  moreover have "snapshot_create_event s' = Ret False"
    using assms(2,3) n s'(2) by (simp add: snapshot_create_event_def)
  ultimately show ?thesis using s'(1) by (metis Snapshot.equality old.unit.exhaust)
qed

theorem reported_once_witness:
  "\<exists>s'. snapshot_update_event (sample_snapshot ''s1'' Completed) s' = Ret False"
proof -
  let ?w = "snap_store [sample_snapshot ''s1'' Completed]"
  have "UpdateNotifyResultState mem_api (sample_snapshot ''s1'' Completed) ?w =
      (Ret (), snd (UpdateNotifyResultState mem_api (sample_snapshot ''s1'' Completed) ?w))"
    by (simp add: UpdateNotifyResultState_def sample_snapshot_def new_snapshot_def snapshot_update_def mem_api_def
          go_simps mem_update_def find_by_def snap_store_def eval_nat_numeral)
  from reported_once[OF this, of "phase_String Completed"] show ?thesis by (auto simp: sample_snapshot_def)
qed

end
