(* ===== verification/ApiModel.thy ===== *)
theory ApiModel
  imports NextBackup RepoUrl Pager Services
begin

text \<open>
  \<open>pkg/modules/backup/v1/model.go\<close>: the requests of the HTTP API with their checks and the answers built
  from the stored objects. An answer that is a Go map is written with its keys in order; a struct in the
  order of its fields; a nil slice is \<open>null\<close>. The title case of \<open>golang.org/x/text\<close> is the argument
  \<open>title\<close> and the next time of a plan the argument \<open>next\<close>.
\<close>

section \<open>Lists of answers\<close>

fun mapO :: "('a \<Rightarrow> 'b outcome) \<Rightarrow> 'a list \<Rightarrow> 'b list outcome" where
  "mapO f [] = Ret []"
| "mapO f (x # xs) = bindO (f x) (\<lambda>y. bindO (mapO f xs) (\<lambda>ys. Ret (y # ys)))"

text \<open>The loops that skip an element with \<open>continue\<close>.\<close>

definition collectO :: "('a \<Rightarrow> 'b option outcome) \<Rightarrow> 'a list \<Rightarrow> 'b list outcome" where
  "collectO f xs = bindO (mapO f xs) (\<lambda>ys. Ret (List.map_filter id ys))"

definition jslice :: "json list \<Rightarrow> json" where
  "jslice xs = (if xs = [] then JNull else JArr xs)"

definition derefO :: "'a option \<Rightarrow> 'a outcome" where
  "derefO p = (case p of None \<Rightarrow> Panic nil_deref | Some x \<Rightarrow> Ret x)"

definition unix_of :: "timestamp option \<Rightarrow> int outcome" where
  "unix_of t = bindO (derefO t) (\<lambda>x. Ret (x div 1000000000))"

lemma mapO_Ret: "mapO f xs = Ret ys \<longleftrightarrow> list_all2 (\<lambda>x y. f x = Ret y) xs ys"
  by (induction xs arbitrary: ys) (auto simp: bindO_Ret_iff list_all2_Cons1)

section \<open>Requests\<close>

record LocationConfig =
  lc_Name :: string
  lc_CloudName :: string
  lc_RegionId :: string
  lc_Path :: string

record BackupCreateType =
  ct_Type :: string
  ct_Name :: string

record BackupCreate =
  bc_Name :: string
  bc_Path :: string
  bc_Location :: string
  bc_BackupCreateType :: "BackupCreateType option"
  bc_LocationConfig :: "LocationConfig option"
  bc_BackupPolicies :: "BackupPolicy option"
  bc_Password :: string
  bc_ConfirmPassword :: string

definition getBackupType :: "BackupCreate \<Rightarrow> string" where
  "getBackupType b = (case bc_BackupCreateType b of
      Some t \<Rightarrow> if ct_Type t = BackupTypeApp then BackupTypeApp else BackupTypeFile | None \<Rightarrow> BackupTypeFile)"

definition isBackupApp :: "string \<Rightarrow> bool" where
  "isBackupApp backupType \<longleftrightarrow> backupType = BackupTypeApp"

definition verifyBackupApp :: "BackupCreateType \<Rightarrow> unit outcome" where
  "verifyBackupApp t = (if ct_Name t = [] then errf ''app name is empty'' else Ret ())"

definition verifyBackupFiles :: "BackupCreate \<Rightarrow> unit outcome" where
  "verifyBackupFiles b = (let name = bc_Name b in
     if IsOnlyWhitespace name then errf ''backup name cannot consist of only spaces''
     else if IsReservedName name then errf ''backup name cannot be a reserved name''
     else if HasPrefix name ''.'' then errf (''backup name must not start with '' @ [CHR 0x27, CHR ''.'', CHR 0x27])
     else if 0 \<in> set (runes name) then errf ''backup name cannot contain null character''
     else (case ContainsIllegalChars name of
        Some r \<Rightarrow> errf (''backup name cannot contain illegal characters: '' @ encode_rune r)
      | None \<Rightarrow> if bc_Path b = [] then errf ''backup path is required'' else Ret ()))"

definition verify_backup :: "BackupCreate \<Rightarrow> unit outcome" where
  "verify_backup b =
    (if bc_Name b = [] then errf ''backup name is empty''
     else (case bc_BackupCreateType b of
        Some t \<Rightarrow> if ct_Type t = BackupTypeApp then verifyBackupApp t else verifyBackupFiles b
      | None \<Rightarrow> verifyBackupFiles b))"

record RestoreCreate =
  rc_BackupUrl :: string
  rc_Password :: string
  rc_SnapshotId :: string
  rc_Path :: string
  rc_SubPath :: string

record RestoreCheckBackupUrl =
  ru_BackupUrl :: string
  ru_Password :: string
  ru_Limit :: int
  ru_Offset :: int

definition verify_restore :: "RestoreCreate \<Rightarrow> unit outcome" where
  "verify_restore r = (let backupUrl = TrimSpace (rc_BackupUrl r); snapshotId = TrimSpace (rc_SnapshotId r);
       password = TrimSpace (rc_Password r) in
     if (backupUrl = []) = (snapshotId = []) then errf ''snapshotId is required''
     else if backupUrl \<noteq> [] \<and> password = [] then errf ''password is required''
     else Ret ())"

section \<open>Snapshots\<close>

definition parseMessage :: "string option \<Rightarrow> string" where
  "parseMessage msg = (case msg of None \<Rightarrow> [] | Some m \<Rightarrow> m)"

record ResponseSnapshotList =
  sl_Id :: string
  sl_CreateAt :: int
  sl_Size :: string
  sl_Progress :: int
  sl_Status :: string

definition snapshot_item :: "Snapshot \<Rightarrow> ResponseSnapshotList outcome" where
  "snapshot_item snapshot = (let s = sn_Spec snapshot in bindO (unix_of (ss_CreateAt s)) (\<lambda>t.
     Ret \<lparr>sl_Id = sn_Name snapshot, sl_CreateAt = t, sl_Size = ParseSnapshotSize (ss_Size s),
          sl_Progress = ss_Progress s, sl_Status = parseMessage (ss_Phase s)\<rparr>))"

definition snapshot_item_json :: "ResponseSnapshotList \<Rightarrow> json" where
  "snapshot_item_json r = JObj [(''id'', JStr (sl_Id r)), (''createAt'', jint (sl_CreateAt r)), (''size'', JStr (sl_Size r)),
     (''progress'', jint (sl_Progress r)), (''status'', JStr (sl_Status r))]"

definition parseResponseSnapshotList :: "Snapshot list \<Rightarrow> int \<Rightarrow> int \<Rightarrow> json outcome" where
  "parseResponseSnapshotList snapshots totalPage totalCount =
    (if snapshots = [] then Ret (JObj [(''snapshots'', JArr []), (''totalCount'', jint 0), (''totalPage'', jint 1)])
     else bindO (mapO snapshot_item snapshots) (\<lambda>ss.
       Ret (JObj [(''snapshots'', JArr (map snapshot_item_json ss)), (''totalCount'', jint totalCount), (''totalPage'', jint totalPage)])))"

definition parseResponseSnapshotOne :: "Snapshot \<Rightarrow> json outcome" where
  "parseResponseSnapshotOne snapshot = (let s = sn_Spec snapshot in bindO (unix_of (ss_CreateAt s)) (\<lambda>t.
     Ret (JObj [(''createAt'', jint t), (''id'', JStr (sn_Name snapshot)), (''progress'', jint (ss_Progress s)),
       (''size'', JStr (ParseSnapshotSize (ss_Size s))), (''status'', JStr (parseMessage (ss_Phase s)))])))"

definition parseResponseSnapshotDetail :: "(string \<Rightarrow> string) \<Rightarrow> Snapshot \<Rightarrow> json" where
  "parseResponseSnapshotDetail title snapshot = (let s = sn_Spec snapshot in
     JObj [(''id'', JStr (sn_Name snapshot)), (''size'', JStr (ParseSnapshotSize (ss_Size s))),
       (''snapshotType'', JStr (ParseSnapshotTypeTitle title (ss_SnapshotType s))), (''progress'', jint (ss_Progress s)),
       (''status'', JStr (parseMessage (ss_Phase s))), (''message'', JStr (parseMessage (ss_Message s)))])"

section \<open>Plans\<close>

definition omitempty :: "string \<Rightarrow> string \<Rightarrow> (string \<times> json) list" where
  "omitempty key s = (if s = [] then [] else [(key, JStr s)])"

definition policy_json :: "BackupPolicy \<Rightarrow> json" where
  "policy_json p = JObj [(''enabled'', JBool (bp_Enabled p)), (''snapshotFrequency'', JStr (bp_SnapshotFrequency p)),
     (''timesOfDay'', JStr (bp_TimesOfDay p)), (''timespanOfDay'', JStr (bp_TimespanOfDay p)),
     (''dayOfWeek'', jint (bp_DayOfWeek p)), (''dateOfMonth'', jint (bp_DateOfMonth p))]"

definition app_name_of :: "Backup \<Rightarrow> string" where
  "app_name_of backup = (if GetBackupType backup = BackupTypeApp then GetBackupAppName backup else [])"

definition parseResponseBackupDetail :: "Backup \<Rightarrow> json" where
  "parseResponseBackupDetail backup = (let s = bk_Spec backup in
     JObj ([(''id'', JStr (bk_Name backup)), (''name'', JStr (bs_Name s)), (''backupType'', JStr (GetBackupType backup))] @
       omitempty ''backupAppTypeName'' (app_name_of backup) @
       [(''path'', JStr (ParseBackupTypePath (bs_BackupType s)))] @
       (case bs_BackupPolicy s of None \<Rightarrow> [] | Some p \<Rightarrow> [(''backupPolicies'', policy_json p)]) @
       [(''size'', JStr (ParseSnapshotSize (bs_Size s))), (''restoreSize'', JStr (ParseSnapshotSize (bs_RestoreSize s)))]))"

text \<open>The location shown for a plan: its kind, and the account or, for a file system, the path.\<close>

definition shown_location :: "gomap \<Rightarrow> string \<times> string" where
  "shown_location cfg = (let location = lookup0 cfg ''location'' in
     (location, if location = location_String BackupLocationFileSystem then lookup0 cfg ''path'' else lookup0 cfg ''name''))"

definition app_entry :: "Backup \<Rightarrow> (string \<times> json) list" where
  "app_entry backup = (if GetBackupType backup = BackupTypeApp then [(''backupAppTypeName'', JStr (GetBackupAppName backup))] else [])"

definition parseResponseBackupCreate :: "(BackupPolicy \<Rightarrow> int option outcome) \<Rightarrow> Backup \<Rightarrow> json outcome" where
  "parseResponseBackupCreate next backup = (case GetBackupLocationConfig backup of
      Fail e \<Rightarrow> Ret (JObj [])
    | Panic m \<Rightarrow> Panic m | Diverge \<Rightarrow> Diverge
    | Ret cfg \<Rightarrow> let (location, name) = shown_location cfg; s = bk_Spec backup in
        bindO (derefO (bs_BackupPolicy s)) (\<lambda>policy. bindO (next policy) (\<lambda>t. bindO (derefO t) (\<lambda>nextBackup.
        bindO (unix_of (bs_CreateAt s)) (\<lambda>createAt.
          Ret (JObj (app_entry backup @ [(''backupType'', JStr (GetBackupType backup)), (''createAt'', jint createAt),
            (''id'', JStr (bk_Name backup)), (''location'', JStr location), (''locationConfigName'', JStr name),
            (''name'', JStr (bs_Name s)), (''nextBackupTimestamp'', jint nextBackup),
            (''path'', JStr (ParseBackupTypePath (bs_BackupType s))), (''size'', JStr ''0''),
            (''status'', JStr (phase_String Pending))])))))))"

definition joption :: "int option \<Rightarrow> json" where
  "joption t = (case t of None \<Rightarrow> JNull | Some i \<Rightarrow> jint i)"

definition parseResponseBackupOne :: "(BackupPolicy \<Rightarrow> int option outcome) \<Rightarrow> Backup \<Rightarrow> Snapshot option \<Rightarrow> json outcome" where
  "parseResponseBackupOne next backup snapshot = bindO (GetBackupLocationConfig backup) (\<lambda>cfg.
     let (location, name) = shown_location cfg; s = bk_Spec backup in
     bindO (derefO (bs_BackupPolicy s)) (\<lambda>policy. bindO (next policy) (\<lambda>t.
     bindO (derefO (bs_Size s)) (\<lambda>sz. bindO (unix_of (bs_CreateAt s)) (\<lambda>createAt.
     bindO (case snapshot of None \<Rightarrow> Ret (phase_String Pending) | Some sn \<Rightarrow> derefO (ss_Phase (sn_Spec sn))) (\<lambda>status.
       Ret (JObj (app_entry backup @ [(''backupType'', JStr (GetBackupType backup)), (''createAt'', jint createAt),
         (''id'', JStr (bk_Name backup)), (''location'', JStr location), (''locationConfigName'', JStr name),
         (''name'', JStr (bs_Name s)), (''nextBackupTimestamp'', joption t),
         (''path'', JStr (ParseBackupTypePath (bs_BackupType s))), (''size'', JStr (Itoa (uint sz))),
         (''status'', JStr status)]))))))))"

record ResponseBackupList =
  bl_Id :: string
  bl_Name :: string
  bl_BackupType :: string
  bl_BackupAppTypeName :: string
  bl_SnapshotFrequency :: string
  bl_Location :: string
  bl_LocationConfigName :: string
  bl_SnapshotId :: string
  bl_NextBackupTimestamp :: "int option"
  bl_CreateAt :: int
  bl_Status :: string
  bl_Size :: string
  bl_RestoreSize :: string
  bl_Path :: string

text \<open>The nil slice of the source is \<open>None\<close>.\<close>

record ResponseBackupListInfo =
  li_TotalPage :: int
  li_Backups :: "ResponseBackupList list option"

text \<open>The first Completed snapshot of every plan in the order of the list.\<close>

fun completed_of :: "(string \<times> Snapshot) list \<Rightarrow> Snapshot list \<Rightarrow> (string \<times> Snapshot) list outcome" where
  "completed_of bs [] = Ret bs"
| "completed_of bs (s # r) = bindO (derefO (ss_Phase (sn_Spec s))) (\<lambda>phase.
     if phase \<noteq> phase_String Completed \<or> map_of bs (ss_BackupId (sn_Spec s)) \<noteq> None then completed_of bs r
     else completed_of (mput bs (ss_BackupId (sn_Spec s)) s) r)"

definition backup_item :: "(string \<Rightarrow> string) \<Rightarrow> (BackupPolicy \<Rightarrow> int option outcome) \<Rightarrow> (string \<times> Snapshot) list \<Rightarrow>
    Backup \<Rightarrow> ResponseBackupList option outcome" where
  "backup_item title next bs backup = (case GetBackupLocationConfig backup of
      Fail e \<Rightarrow> Ret None
    | Panic m \<Rightarrow> Panic m | Diverge \<Rightarrow> Diverge
    | Ret cfg \<Rightarrow> let (location, name) = shown_location cfg; s = bk_Spec backup in
        bindO (derefO (bs_BackupPolicy s)) (\<lambda>policy. bindO (next policy) (\<lambda>t. bindO (unix_of (bs_CreateAt s)) (\<lambda>createAt.
        bindO (case map_of bs (bk_Name backup) of
            None \<Rightarrow> Ret ([], ''0'', phase_String Pending)
          | Some sn \<Rightarrow> bindO (derefO (ss_Phase (sn_Spec sn))) (\<lambda>ph. Ret (sn_Name sn, ParseSnapshotSize (ss_Size (sn_Spec sn)), ph)))
          (\<lambda>(snapshotId, sz, status).
            Ret (Some \<lparr>bl_Id = bk_Name backup, bl_Name = bs_Name s, bl_BackupType = GetBackupType backup,
              bl_BackupAppTypeName = app_name_of backup,
              bl_SnapshotFrequency = ParseBackupSnapshotFrequency title (bp_SnapshotFrequency policy),
              bl_Location = location, bl_LocationConfigName = name, bl_SnapshotId = snapshotId, bl_NextBackupTimestamp = t,
              bl_CreateAt = createAt, bl_Status = status, bl_Size = sz, bl_RestoreSize = ParseSnapshotSize (bs_RestoreSize s),
              bl_Path = ParseBackupTypePath (bs_BackupType s)\<rparr>))))))"

definition parseResponseBackupList :: "(string \<Rightarrow> string) \<Rightarrow> (BackupPolicy \<Rightarrow> int option outcome) \<Rightarrow>
    Backup list \<Rightarrow> Snapshot list \<Rightarrow> int \<Rightarrow> ResponseBackupListInfo outcome" where
  "parseResponseBackupList title next data snapshots totalPage =
    (if data = [] then Ret \<lparr>li_TotalPage = 0, li_Backups = Some []\<rparr>
     else bindO (completed_of [] snapshots) (\<lambda>bs. bindO (collectO (backup_item title next bs) data) (\<lambda>res.
       Ret \<lparr>li_TotalPage = totalPage, li_Backups = (if res = [] then None else Some res)\<rparr>)))"

definition backup_item_json :: "ResponseBackupList \<Rightarrow> json" where
  "backup_item_json r = JObj ([(''id'', JStr (bl_Id r)), (''name'', JStr (bl_Name r)), (''backupType'', JStr (bl_BackupType r))] @
     omitempty ''backupAppTypeName'' (bl_BackupAppTypeName r) @
     [(''snapshotFrequency'', JStr (bl_SnapshotFrequency r)), (''location'', JStr (bl_Location r)),
      (''locationConfigName'', JStr (bl_LocationConfigName r)), (''snapshotId'', JStr (bl_SnapshotId r))] @
     (case bl_NextBackupTimestamp r of None \<Rightarrow> [] | Some t \<Rightarrow> [(''nextBackupTimestamp'', jint t)]) @
     [(''createAt'', jint (bl_CreateAt r)), (''status'', JStr (bl_Status r)), (''size'', JStr (bl_Size r)),
      (''restoreSize'', JStr (bl_RestoreSize r)), (''path'', JStr (bl_Path r))])"

definition backup_list_json :: "ResponseBackupListInfo \<Rightarrow> json" where
  "backup_list_json r = JObj [(''totalPage'', jint (li_TotalPage r)),
     (''backups'', case li_Backups r of None \<Rightarrow> JNull | Some xs \<Rightarrow> JArr (map backup_item_json xs))]"

section \<open>Restores\<close>

record ResponseRestoreDetail =
  rd_BackupName :: string
  rd_BackupPath :: string
  rd_BackupType :: string
  rd_BackupAppTypeName :: string
  rd_SnapshotTime :: int
  rd_RestorePath :: string
  rd_Progress :: int
  rd_Status :: string
  rd_EndAt :: int
  rd_Message :: string

definition empty_restore_detail :: ResponseRestoreDetail where
  "empty_restore_detail = \<lparr>rd_BackupName = [], rd_BackupPath = [], rd_BackupType = [], rd_BackupAppTypeName = [],
     rd_SnapshotTime = 0, rd_RestorePath = [], rd_Progress = 0, rd_Status = [], rd_EndAt = 0, rd_Message = []\<rparr>"

definition restore_type_of :: "Restore \<Rightarrow> string" where
  "restore_type_of restore = (case GetRestoreType restore of Ret t \<Rightarrow> t | _ \<Rightarrow> [])"

definition restore_app_name :: "string \<Rightarrow> Restore \<Rightarrow> string outcome" where
  "restore_app_name backupType restore = (if backupType = BackupTypeApp then GetRestoreAppName restore else Ret [])"

text \<open>A member of the decoded object that is not a string fails the type assertion.\<close>

definition str_member :: "(string \<times> json) list \<Rightarrow> string \<Rightarrow> string outcome" where
  "str_member kvs key = (case map_of (rev kvs) key of
      None \<Rightarrow> Ret [] | Some (JStr s) \<Rightarrow> Ret s | Some _ \<Rightarrow> Panic ''interface conversion'')"

definition end_at :: "Restore \<Rightarrow> int" where
  "end_at restore = (case rs_EndAt (re_Spec restore) of None \<Rightarrow> 0 | Some t \<Rightarrow> t div 1000000000)"

text \<open>When the type data of the restore does not decode, the answer is the empty detail.\<close>

definition parseResponseRestoreDetailFromBackupUrl :: "Restore \<Rightarrow> ResponseRestoreDetail outcome" where
  "parseResponseRestoreDetailFromBackupUrl restore = (let backupType = restore_type_of restore; s = re_Spec restore in
     case json_parse (lookup0 (rs_RestoreType s) backupType) of
       Some j \<Rightarrow> (case (case j of JObj kvs \<Rightarrow> Some kvs | JNull \<Rightarrow> Some [] | _ \<Rightarrow> None) of
           None \<Rightarrow> Ret empty_restore_detail
         | Some kvs \<Rightarrow>
             bindO (restore_app_name backupType restore) (\<lambda>appName. bindO (str_member kvs ''backupName'') (\<lambda>backupName.
             bindO (str_member kvs ''backupPath'') (\<lambda>backupPath. bindO (str_member kvs ''snapshotTime'') (\<lambda>snapshotTime.
             bindO (str_member kvs ''path'') (\<lambda>p. bindO (str_member kvs ''subPath'') (\<lambda>subPath.
             bindO (derefO (rs_Phase s)) (\<lambda>phase.
               Ret \<lparr>rd_BackupName = backupName, rd_BackupPath = backupPath, rd_BackupType = backupType,
                 rd_BackupAppTypeName = appName, rd_SnapshotTime = ParseToInt64 snapshotTime,
                 rd_RestorePath = path_Join [p, subPath], rd_Progress = rs_Progress s, rd_Status = phase,
                 rd_EndAt = end_at restore, rd_Message = parseMessage (rs_Message s)\<rparr>))))))))
     | None \<Rightarrow> Ret empty_restore_detail)"

definition parseResponseRestoreDetail :: "Backup \<Rightarrow> Snapshot \<Rightarrow> Restore \<Rightarrow> ResponseRestoreDetail outcome" where
  "parseResponseRestoreDetail backup snapshot restore = (let s = re_Spec restore in
     bindO (unix_of (ss_CreateAt (sn_Spec snapshot))) (\<lambda>t. bindO (derefO (rs_Phase s)) (\<lambda>phase.
       Ret (empty_restore_detail\<lparr>rd_BackupName := bs_Name (bk_Spec backup), rd_BackupPath := GetBackupPath backup,
         rd_SnapshotTime := t, rd_RestorePath := GetRestorePath restore, rd_Progress := rs_Progress s, rd_Status := phase,
         rd_Message := parseMessage (rs_Message s)\<rparr>))))"

definition omit0 :: "string \<Rightarrow> int \<Rightarrow> (string \<times> json) list" where
  "omit0 key i = (if i = 0 then [] else [(key, jint i)])"

definition restore_detail_json :: "ResponseRestoreDetail \<Rightarrow> json" where
  "restore_detail_json r = JObj ([(''name'', JStr (rd_BackupName r))] @ omitempty ''backupPath'' (rd_BackupPath r) @
     [(''backupType'', JStr (rd_BackupType r))] @ omitempty ''backupAppTypeName'' (rd_BackupAppTypeName r) @
     [(''snapshotTime'', jint (rd_SnapshotTime r))] @ omitempty ''restorePath'' (rd_RestorePath r) @
     omit0 ''progress'' (rd_Progress r) @ [(''status'', JStr (rd_Status r))] @ omit0 ''endAt'' (rd_EndAt r) @
     [(''message'', JStr (rd_Message r))])"

definition parseResponseRestoreCreate :: "Restore \<Rightarrow> string \<Rightarrow> string \<Rightarrow> string \<Rightarrow> json outcome" where
  "parseResponseRestoreCreate restore backupName snapshotTime restorePath = (let backupType = restore_type_of restore in
     bindO (restore_app_name backupType restore) (\<lambda>appName. bindO (unix_of (rs_CreateAt (re_Spec restore))) (\<lambda>createAt.
       Ret (JObj ((if backupType = BackupTypeApp then [(''backupAppTypeName'', JStr appName)] else []) @
         [(''backupType'', JStr backupType), (''createAt'', jint createAt), (''endAt'', jint 0), (''id'', JStr (re_Name restore)),
          (''name'', JStr backupName), (''path'', JStr restorePath), (''progress'', jint 0),
          (''snapshotTime'', jint (ParseToInt64 snapshotTime)), (''status'', JStr (phase_String Pending))])))))"

text \<open>
  A \<open>time.Time\<close> is written in RFC 3339 with the offset of the local zone (\<open>zone\<close>, in seconds at a Unix
  time), for the years from 0 to 9999 that the encoder accepts.
\<close>

definition pad_digits :: "nat \<Rightarrow> int \<Rightarrow> string" where
  "pad_digits n i = (let d = Itoa i in replicate (n - length d) (CHR ''0'') @ d)"

definition rfc3339 :: "(int \<Rightarrow> int) \<Rightarrow> int \<Rightarrow> string" where
  "rfc3339 zone t = (let off = zone t; l = t + off + unix_epoch; sec = l mod 86400; m = \<bar>off\<bar> div 60 in
     case civil (l div 86400) of (y, mo, d) \<Rightarrow>
       pad_digits 4 y @ ''-'' @ pad_digits 2 mo @ ''-'' @ pad_digits 2 d @ ''T'' @ pad_digits 2 (sec div 3600) @ '':'' @
       pad_digits 2 (sec mod 3600 div 60) @ '':'' @ pad_digits 2 (sec mod 60) @
       (if off = 0 then ''Z'' else (if off < 0 then ''-'' else ''+'') @ pad_digits 2 (m div 60) @ '':'' @ pad_digits 2 (m mod 60)))"

definition parseResponseRestoreOne :: "(int \<Rightarrow> int) \<Rightarrow> Restore \<Rightarrow> string \<Rightarrow> string \<Rightarrow> string \<Rightarrow> string \<Rightarrow> string \<Rightarrow> json outcome" where
  "parseResponseRestoreOne zone restore backupAppTypeName backupName snapshotTime restorePath subPath = (let s = re_Spec restore in
     bindO (unix_of (rs_CreateAt s)) (\<lambda>createAt. bindO (derefO (rs_Phase s)) (\<lambda>phase.
       Ret (JObj (omitempty ''backupAppTypeName'' backupAppTypeName @ [(''createAt'', jint createAt)] @
         (if rs_EndAt s = None then [] else [(''endAt'', jint (end_at restore))]) @
         [(''id'', JStr (re_Name restore)), (''name'', JStr backupName), (''path'', JStr (path_Join [restorePath, subPath])),
          (''progress'', jint (rs_Progress s)), (''snapshotTime'', JStr (rfc3339 zone (ParseToInt64 snapshotTime))),
          (''status'', JStr phase)])))))"

record ResponseRestoreList =
  wl_Id :: string
  wl_BackupName :: string
  wl_BackupType :: string
  wl_BackupAppTypeName :: string
  wl_Path :: string
  wl_CreateAt :: int
  wl_SnapshotTime :: int
  wl_EndAt :: int
  wl_Status :: string

definition restore_item :: "Restore \<Rightarrow> ResponseRestoreList option outcome" where
  "restore_item restore = (let s = re_Spec restore in case GetRestoreType restore of
      Ret backupType \<Rightarrow> bindO (restore_app_name backupType restore) (\<lambda>appName.
        (case ParseRestoreType backupType restore of
           Ret d0 \<Rightarrow> bindO (derefO d0) (\<lambda>d. bindO (unix_of (rs_CreateAt s)) (\<lambda>createAt. bindO (derefO (rs_Phase s)) (\<lambda>phase.
             Ret (Some \<lparr>wl_Id = re_Name restore, wl_BackupName = rt_BackupName d, wl_BackupType = backupType,
               wl_BackupAppTypeName = appName, wl_Path = path_Join [rt_Path d, rt_SubPath d], wl_CreateAt = createAt,
               wl_SnapshotTime = ParseToInt64 (rt_SnapshotTime d), wl_EndAt = end_at restore, wl_Status = phase\<rparr>))))
         | Fail e \<Rightarrow> Ret None
         | Panic m \<Rightarrow> Panic m | Diverge \<Rightarrow> Diverge))
    | Fail e \<Rightarrow> Ret None
    | Panic m \<Rightarrow> Panic m | Diverge \<Rightarrow> Diverge)"

text \<open>The progress of an item is never set, and a zero progress is left out.\<close>

definition restore_item_json :: "ResponseRestoreList \<Rightarrow> json" where
  "restore_item_json r = JObj ([(''id'', JStr (wl_Id r)), (''name'', JStr (wl_BackupName r)), (''backupType'', JStr (wl_BackupType r))] @
     omitempty ''backupAppTypeName'' (wl_BackupAppTypeName r) @
     [(''path'', JStr (wl_Path r)), (''createAt'', jint (wl_CreateAt r)), (''snapshotTime'', jint (wl_SnapshotTime r)),
      (''endAt'', jint (wl_EndAt r)), (''status'', JStr (wl_Status r))])"

definition parseResponseRestoreList :: "Restore list \<Rightarrow> int \<Rightarrow> json outcome" where
  "parseResponseRestoreList data totalPage =
    (if data = [] then Ret (JObj [(''restores'', JArr []), (''totalPage'', jint totalPage)])
     else bindO (collectO restore_item data) (\<lambda>result.
       Ret (JObj [(''restores'', jslice (map restore_item_json result)), (''totalPage'', jint totalPage)])))"

section \<open>The snapshots behind a URL\<close>

definition check_item :: "Snapshot \<Rightarrow> json outcome" where
  "check_item snapshot = (let s = sn_Spec snapshot in bindO (unix_of (ss_CreateAt s)) (\<lambda>t. bindO (derefO (ss_Size s)) (\<lambda>sz.
     Ret (JObj [(''createAt'', jint t), (''id'', case ss_SnapshotId s of None \<Rightarrow> JNull | Some i \<Rightarrow> JStr i),
       (''size'', JStr (Itoa (uint sz)))]))))"

definition parseCheckBackupUrl ::
  "Snapshot list \<Rightarrow> string \<Rightarrow> string \<Rightarrow> string \<Rightarrow> string \<Rightarrow> string \<Rightarrow> int \<Rightarrow> int \<Rightarrow> json outcome" where
  "parseCheckBackupUrl snapshots backupName backupTypeTag backupTypeAppName location userspacePath totalCount totalPage =
    (case snapshots of
       [] \<Rightarrow> Ret (JObj [(''snapshots'', JArr []), (''totalCount'', jint totalCount), (''totalPage'', jint totalPage)])
     | s # _ \<Rightarrow> bindO (mapO check_item snapshots) (\<lambda>items.
         Ret (JObj ([(''backupName'', JStr backupName),
           (''backupPath'', JStr (ReplacePathPrefix (ss_Location (sn_Spec s)) userspacePath ExternalPath)),
           (''backupType'', JStr backupTypeTag)] @
           (if backupTypeTag = BackupTypeApp then [(''backupTypeAppName'', JStr backupTypeAppName)] else []) @
           [(''snapshots'', JArr items), (''totalCount'', jint totalCount), (''totalPage'', jint totalPage), (''type'', JStr location)]))))"

section \<open>Form data\<close>

text \<open>The dynamic types that \<open>toString\<close> distinguishes.\<close>

datatype any = AInt64 int | AInt64Ptr "int option" | AStringPtr "string option" | AString string | AOther

fun toString :: "any \<Rightarrow> string" where
  "toString (AInt64 i) = Itoa i"
| "toString (AInt64Ptr None) = []"
| "toString (AInt64Ptr (Some i)) = Itoa i"
| "toString (AStringPtr None) = []"
| "toString (AStringPtr (Some s)) = s"
| "toString (AString s) = s"
| "toString AOther = []"

record SyncBackup =
  sy_UID :: string
  sy_CreationTimestamp :: int
  sy_Name :: string
  sy_Namespace :: string
  sy_BackupConfigName :: string
  sy_Size :: "int option"
  sy_Phase :: "string option"
  sy_FailedMessage :: string
  sy_Owner :: "string option"
  sy_OlaresVersion :: "string option"
  sy_Expiration :: "int option"
  sy_CompletionTimestamp :: "int option"
  sy_BackupType :: string
  sy_SnapshotId :: string
  sy_S3Repository :: string
  sy_RepositoryPasswordHash :: string
  sy_RefFullyBackupUid :: "string option"
  sy_RefFullyBackupName :: "string option"

definition FormData :: "SyncBackup \<Rightarrow> smap" where
  "FormData s = [(''backupConfigName'', sy_BackupConfigName s), (''completionTimestamp'', toString (AInt64Ptr (sy_CompletionTimestamp s))),
     (''creationTimestamp'', toString (AInt64 (sy_CreationTimestamp s))), (''expiration'', toString (AInt64Ptr (sy_Expiration s))),
     (''name'', toString (AString (sy_Name s))), (''phase'', toString (AStringPtr (sy_Phase s))),
     (''uid'', toString (AString (sy_UID s))), (''size'', toString (AInt64Ptr (sy_Size s))),
     (''olaresVersion'', toString (AStringPtr (sy_OlaresVersion s))), (''owner'', toString (AStringPtr (sy_Owner s))),
     (''backupType'', toString (AString (sy_BackupType s))), (''s3Repository'', toString (AString (sy_S3Repository s))),
     (''snapshotId'', toString (AString (sy_SnapshotId s)))]"

end
