(* ===== verification/ApiPlan.thy ===== *)
theory ApiPlan
  imports ApiModel AppService
begin

text \<open>
  \<open>pkg/modules/backup/v1/backup_schedule.go\<close>: a plan from its request. The checks fill in parts of the
  request (the account name, the policy), so they return the plan they leave. \<open>api\<close> extends the services
  with what only the HTTP API uses.
\<close>

section \<open>The services of the API\<close>

text \<open>A snapshot as the SDK lists it: the fields that the source reads.\<close>

record sdk_snapshot =
  ks_Id :: string
  ks_Tags :: "string list"
  ks_Paths :: "string list"
  ks_BackupStart :: string
  ks_TotalBytesProcessed :: int

record 'w api = "'w services" +
  a_title :: "string \<Rightarrow> string"
  a_zone :: "int \<Rightarrow> int"
  a_cluster_label :: "('w, string) go"
  a_user_email :: "string \<Rightarrow> ('w, string) go"
  a_exists :: "string \<Rightarrow> 'w \<Rightarrow> bool"
  a_validName :: "string \<Rightarrow> string \<Rightarrow> string \<Rightarrow> ('w, string) go"
  a_snapshots :: "SnapshotsOption \<Rightarrow> ('w, sdk_snapshot list) go"
  a_first :: "sdk_snapshot list \<Rightarrow> sdk_snapshot option"
  a_regions :: "string \<Rightarrow> string \<Rightarrow> string \<Rightarrow> ('w, json) go"

text \<open>The label of the cluster, tried up to five times; an empty one is an error like a failed request.\<close>

definition getClusterId :: "('w, 'm) api_scheme \<Rightarrow> ('w, string) go" where
  "getClusterId v = bindG (k_dynamic v) (\<lambda>_. k_retry_string v 5 (bindG (a_cluster_label v) (\<lambda>c.
     if c = [] then raise (Errorf ''cluster id not found'') else ret c)))"

text \<open>The same look-up in \<open>pkg/handlers/helper.go\<close>, for the restores.\<close>

definition GetClusterId :: "('w, 'm) api_scheme \<Rightarrow> ('w, string) go" where
  "GetClusterId v = bindG (k_dynamic v) (\<lambda>_. k_retry_string v 5 (bindG (a_cluster_label v) (\<lambda>c.
     if c = [] then raise (Errorf ''cluster id not found'') else ret c)))"

section \<open>The plan under construction\<close>

record BackupPlan =
  pl_owner :: string
  pl_endpoint :: string
  pl_c :: BackupCreate

definition NewBackupPlan :: "string \<Rightarrow> BackupCreate \<Rightarrow> BackupPlan" where
  "NewBackupPlan owner c = \<lparr>pl_owner = owner, pl_endpoint = [], pl_c = c\<rparr>"

definition cloud_location :: "string \<Rightarrow> bool" where
  "cloud_location l \<longleftrightarrow> l = location_String BackupLocationAwsS3 \<or> l = location_String BackupLocationTencentCloud"

definition validLocation :: "BackupPlan \<Rightarrow> unit outcome" where
  "validLocation o' = (let c = pl_c o'; location = bc_Location c; pre = ''backup '' @ bc_Name c @ '' location '' in
     if \<not> ListContains (map location_String [BackupLocationSpace, BackupLocationAwsS3, BackupLocationTencentCloud, BackupLocationFileSystem]) location
     then errf (pre @ location @ '' not support'')
     else bindO (derefO (bc_LocationConfig c)) (\<lambda>l.
       if location = location_String BackupLocationSpace then
         (if lc_CloudName l = [] \<or> lc_RegionId l = []
          then errf (pre @ ''space invalid, cloudName: '' @ lc_CloudName l @ '', regionId: '' @ lc_RegionId l) else Ret ())
       else if cloud_location location then
         (if lc_Name l = [] then errf (pre @ location @ '' invalid, please check name'') else Ret ())
       else if lc_Path l = [] then
         errf (pre @ location @ '' path '' @ lc_Path l @ '' invalid, please check target path'')
       else if (case bc_BackupCreateType c of None \<Rightarrow> True | Some t \<Rightarrow> ct_Type t = BackupTypeFile) \<and> HasPrefix (lc_Path l) (bc_Path c)
       then errf (''the path '' @ bc_Path c @ '' to be backed up contains the backup storage path '' @ lc_Path l)
       else Ret ()))"

definition validIntegration :: "('w, 'm) api_scheme \<Rightarrow> BackupPlan \<Rightarrow> ('w, BackupPlan) go" where
  "validIntegration v o' = (let c = pl_c o'; location = bc_Location c in
     if location = location_String BackupLocationFileSystem then ret o'
     else bindG (derefG nil_deref (bc_LocationConfig c)) (\<lambda>l.
       bindG (a_validName v (pl_owner o') location (lc_Name l)) (\<lambda>integrationName.
         if location = location_String BackupLocationSpace
         then ret (o'\<lparr>pl_c := c\<lparr>bc_LocationConfig := Some (l\<lparr>lc_Name := integrationName\<rparr>)\<rparr>\<rparr>)
         else if cloud_location location
         then bindG (v_cloudToken v (pl_owner o') location integrationName) (\<lambda>t. ret (o'\<lparr>pl_endpoint := it_Endpoint t\<rparr>))
         else ret o')))"

text \<open>The examples in the error texts (a word after \<open>#\<close> is not quoted).\<close>

definition example :: "string list \<Rightarrow> string" where
  "example xs = '', eg: '' @ concat (map (\<lambda>x. if hd x = CHR ''#'' then tl x else [CHR 0x27] @ x @ [CHR 0x27]) xs)"

definition plan_frequencies :: "string list" where
  "plan_frequencies = [''@hourly'', ''@daily'', ''@weekly'', ''@monthly'']"

text \<open>
  The time of a policy is a timestamp in milliseconds, which is turned into a time of day, or already has a
  colon; then only the number of colons is checked.
\<close>

definition policy_time :: "(int \<Rightarrow> int) \<Rightarrow> int \<Rightarrow> string \<Rightarrow> string \<Rightarrow> string outcome" where
  "policy_time zone now name tod =
    (if \<not> Contains tod '':'' then
       (case ParseTimestampToLocal zone now tod of
          Ret t \<Rightarrow> Ret t | _ \<Rightarrow> errf (''backup '' @ name @ '' snapshot times of day invalid'' @ example [''48600000'']))
     else if length (Split tod '':'') \<noteq> 2 then errf (''invalid times of day format'' @ example [''07:30'']) else Ret tod)"

definition validBackupPolicy :: "(int \<Rightarrow> int) \<Rightarrow> int \<Rightarrow> BackupPlan \<Rightarrow> BackupPlan outcome" where
  "validBackupPolicy zone now o' = (let c = pl_c o'; name = bc_Name c in
     bindO (derefO (bc_BackupPolicies c)) (\<lambda>p0.
     let p = p0\<lparr>bp_TimespanOfDay := bp_TimesOfDay p0, bp_Enabled := True\<rparr>; freq = bp_SnapshotFrequency p in
     if \<not> ListContains plan_frequencies freq then errf (''backup '' @ name @ '' snapshot frequency '' @ freq @ '' not support'')
     else bindO (policy_time zone now name (bp_TimesOfDay p)) (\<lambda>tod.
       if freq = ''@weekly'' \<and> (bp_DayOfWeek p < 1 \<or> bp_DayOfWeek p > 7) then errf (''backup '' @ name @ '' day of week invalid'' @ example [''1'', ''#, '', ''2'', ''#...'', ''7''])
       else if freq = ''@monthly'' \<and> (bp_DateOfMonth p < 1 \<or> bp_DateOfMonth p > 31) then errf (''backup '' @ name @ '' day of month invalid'' @ example [''1'', ''#, '', ''2'', ''#...'', ''31''])
       else Ret (o'\<lparr>pl_c := c\<lparr>bc_BackupPolicies := Some (p\<lparr>bp_TimesOfDay := tod\<rparr>)\<rparr>\<rparr>))))"

definition plan_policy :: "('w, 'm) api_scheme \<Rightarrow> BackupPlan \<Rightarrow> ('w, BackupPlan) go" where
  "plan_policy v o' = (\<lambda>w. (validBackupPolicy (a_zone v) (k_now v w div 1000000000) o', w))"

definition validate :: "('w, 'm) api_scheme \<Rightarrow> BackupPlan \<Rightarrow> ('w, BackupPlan) go" where
  "validate v o' =
    (if bc_Name (pl_c o') = [] then raise (Errorf ''name is required'')
     else if pl_owner o' = [] then raise (Errorf ''owner is required'')
     else bindG (liftO (validLocation o')) (\<lambda>_. bindG (validIntegration v o') (plan_policy v)))"

definition verifyUsage :: "('w, 'm) api_scheme \<Rightarrow> BackupPlan \<Rightarrow> ('w, unit) go" where
  "verifyUsage v o' = bindG (derefG nil_deref (bc_LocationConfig (pl_c o'))) (\<lambda>l.
     if bc_Location (pl_c o') \<noteq> location_String BackupLocationSpace then ret ()
     else tryG (v_spaceToken v (pl_owner o') (lc_Name l))
       (\<lambda>t. bindG (CheckCloudStorageQuotaAndPermission v (v_SyncServerURL v) (st_OlaresDid t) (st_AccessToken t)) (\<lambda>u.
          if us_PlanLevel u = 1 then raise (Errorf MessagePlanLevelFreeUser)
          else if \<not> us_CanBackup u then raise (Errorf MessagePlanLevelBackupSpaceForbidden)
          else ret ()))
       (\<lambda>e. raise (Errorf MessageTokenExpired)))"

definition validPassword :: "BackupPlan \<Rightarrow> unit outcome" where
  "validPassword o' = (if bc_Password (pl_c o') = bc_ConfirmPassword (pl_c o') \<and> bc_Password (pl_c o') \<noteq> []
     then Ret () else errf ''password not match'')"

section \<open>The stored object\<close>

text \<open>A map is written with its keys in order.\<close>

definition buildLocationConfig :: "string \<Rightarrow> string \<Rightarrow> string \<Rightarrow> LocationConfig \<Rightarrow> string" where
  "buildLocationConfig endpoint location clusterId l = ToJSON (JObj (
     if location = location_String BackupLocationFileSystem then [(''name'', JStr (lc_Name l)), (''path'', JStr (lc_Path l))]
     else if location = location_String BackupLocationSpace then
       [(''cloudName'', JStr (lc_CloudName l)), (''clusterId'', JStr clusterId), (''name'', JStr (lc_Name l)), (''regionId'', JStr (lc_RegionId l))]
     else if cloud_location location then [(''endpoint'', JStr endpoint), (''name'', JStr (lc_Name l))]
     else [(''name'', JStr (lc_Name l))]))"

definition buildBackupAppType :: "BackupCreateType \<Rightarrow> string" where
  "buildBackupAppType t = ToJSON (JObj [(''name'', JStr (ct_Name t))])"

definition buildBackupType :: "BackupCreate \<Rightarrow> string" where
  "buildBackupType c = ToJSON (JObj [(''path'', JStr (bc_Path c))])"

definition mergeConfig :: "timestamp \<Rightarrow> BackupPlan \<Rightarrow> string \<Rightarrow> BackupSpec outcome" where
  "mergeConfig createAt o' clusterId = (let c = pl_c o' in
     bindO (if isBackupApp (getBackupType c)
            then bindO (derefO (bc_BackupCreateType c)) (\<lambda>t. Ret [(BackupTypeApp, buildBackupAppType t)])
            else Ret [(BackupTypeFile, buildBackupType c)]) (\<lambda>types.
     Ret \<lparr>bs_Name = TrimSpace (bc_Name c), bs_Owner = pl_owner o',
       bs_Location = (case bc_LocationConfig c of
           Some l \<Rightarrow> if bc_Location c \<noteq> [] then Some [(bc_Location c, buildLocationConfig (pl_endpoint o') (bc_Location c) clusterId l)] else None
         | None \<Rightarrow> None),
       bs_BackupPolicy = map_option (bp_Enabled_update (\<lambda>_. True)) (bc_BackupPolicies c),
       bs_BackupType = Some types, bs_Size = Some 0, bs_RestoreSize = None, bs_CreateAt = Some createAt,
       bs_Notified = False, bs_Deleted = False, bs_Extra = Some [(''size_updated'', Itoa (createAt div 1000000000))]\<rparr>))"

definition apply_plan :: "('w, 'm) api_scheme \<Rightarrow> BackupPlan \<Rightarrow> ('w, Backup) go" where
  "apply_plan v o' = (let c = pl_c o' in
     tryG (getClusterId v)
       (\<lambda>clusterId w. bindG (liftO (mergeConfig (k_now v w) o' clusterId)) (\<lambda>spec.
          backup_Create v (pl_owner o') (bc_Name c) (bc_Path c) (getBackupType c)
            (case bc_BackupCreateType c of None \<Rightarrow> [] | Some t \<Rightarrow> ct_Name t) spec) w)
       (\<lambda>e. raise (Errorf (''get cluster id error: '' @ err_text e))))"

definition Apply :: "('w, 'm) api_scheme \<Rightarrow> BackupPlan \<Rightarrow> ('w, Backup) go" where
  "Apply v o0 = bindG (validate v o0) (\<lambda>o'. bindG (verifyUsage v o') (\<lambda>_. apply_plan v o'))"

text \<open>An error of the write is dropped: the update of a plan then answers as if it had been done.\<close>

definition update_plan :: "('w, 'm) api_scheme \<Rightarrow> BackupPlan \<Rightarrow> Backup \<Rightarrow> ('w, unit) go" where
  "update_plan v o' backup = UpdateBackupPolicy v (set_bk_spec (\<lambda>s. s\<lparr>bs_BackupPolicy := bc_BackupPolicies (pl_c o')\<rparr>) backup)"

definition Update :: "('w, 'm) api_scheme \<Rightarrow> BackupPlan \<Rightarrow> Backup \<Rightarrow> ('w, unit) go" where
  "Update v o0 backup = bindG (plan_policy v o0) (\<lambda>o'. ignore_error (update_plan v o' backup))"

end
