(* ===== verification/ApiHandlers.thy ===== *)
theory ApiHandlers
  imports ApiPlan RestoreRun
begin

text \<open>
  \<open>pkg/modules/backup/v1/handler.go\<close>: the handlers of the HTTP API. A handler gets the decoded request
  (\<open>Fail\<close> when \<open>ReadEntity\<close> fails) and the parameters of its path, query and header, and returns a
  response: \<open>Ok\<close> with the optional data (code 0), or \<open>Err\<close> with a text (code 1). Handing a nil error to
  \<open>HandleError\<close> panics, which the source does wherever it wraps an error variable that is nil.
\<close>

section \<open>Responses (pkg/apiserver/response)\<close>

datatype response = Ok "json option" | Err string

fun response_json :: "response \<Rightarrow> json" where
  "response_json (Ok data) = JObj ([(''code'', jint 0), (''message'', JStr ''success'')] @
     (case data of None \<Rightarrow> [] | Some d \<Rightarrow> [(''data'', d)]))"
| "response_json (Err text) = JObj [(''code'', jint 1), (''message'', JStr text)]"

abbreviation no_data :: "('w, response) go" where "no_data \<equiv> ret (Ok None)"

definition answer :: "json outcome \<Rightarrow> ('w, response) go" where
  "answer j = bindG (liftO j) (\<lambda>d. ret (Ok (Some d)))"

definition handle_error :: "gerr option \<Rightarrow> ('w, response) go" where
  "handle_error err = (case err of None \<Rightarrow> panicG nil_deref | Some e \<Rightarrow> ret (Err (err_text e)))"

text \<open>\<open>errors.WithMessage\<close>: a nil error stays nil.\<close>

definition WithMessage :: "gerr option \<Rightarrow> string \<Rightarrow> gerr option" where
  "WithMessage err msg = map_option (\<lambda>e. e\<lparr>err_text := msg @ '': '' @ err_text e\<rparr>) err"

definition fail_with :: "gerr \<Rightarrow> string \<Rightarrow> ('w, response) go" where
  "fail_with e msg = handle_error (WithMessage (Some e) msg)"

text \<open>Reading an object by its id: the two error answers that the handlers share.\<close>

definition found :: "('w, 'a) go \<Rightarrow> string \<Rightarrow> string \<Rightarrow> ('a \<Rightarrow> ('w, response) go) \<Rightarrow> ('w, response) go" where
  "found get object msg f = tryG get f
     (\<lambda>e. if IsNotFound e then ret (Err (object @ '' not found'')) else fail_with e msg)"

definition found_backup :: "('w, 'm) api_scheme \<Rightarrow> string \<Rightarrow> (Backup \<Rightarrow> ('w, response) go) \<Rightarrow> ('w, response) go" where
  "found_backup v i = found (backup_GetById v i) (''backup '' @ i) (''get backup '' @ i @ '' error'')"

definition found_snapshot :: "('w, 'm) api_scheme \<Rightarrow> string \<Rightarrow> string \<Rightarrow> (Snapshot \<Rightarrow> ('w, response) go) \<Rightarrow> ('w, response) go" where
  "found_snapshot v i msg = found (snapshot_GetById v i) (''snapshot '' @ i) msg"

definition found_restore :: "('w, 'm) api_scheme \<Rightarrow> string \<Rightarrow> (Restore \<Rightarrow> ('w, response) go) \<Rightarrow> ('w, response) go" where
  "found_restore v i = found (restore_GetById v i) (''restore '' @ i) (''get restore '' @ i @ '' error'')"

definition read_entity :: "'a outcome \<Rightarrow> ('a \<Rightarrow> ('w, response) go) \<Rightarrow> ('w, response) go" where
  "read_entity body f = tryG (liftO body) f (\<lambda>e. ret (Err (err_text e)))"

text \<open>The next time of a plan at the current time of the world.\<close>

definition next_of :: "('w, 'm) api_scheme \<Rightarrow> 'w \<Rightarrow> BackupPolicy \<Rightarrow> int option outcome" where
  "next_of v w = (let now = k_now v w in
     GetNextBackupTime (v_fuel v) (a_zone v (now div 1000000000) * 1000000000) (now + unix_epoch * 1000000000))"

section \<open>Plans\<close>

text \<open>The snapshots of the listed plans; a plan whose snapshots cannot be listed is skipped.\<close>

fun collect_snapshots :: "('w, 'm) api_scheme \<Rightarrow> string list \<Rightarrow> ('w, Snapshot list) go" where
  "collect_snapshots v [] = ret []"
| "collect_snapshots v (l # ls) = bindG (tryG (ListSnapshots v l []) (\<lambda>r. ret (case r of None \<Rightarrow> [] | Some xs \<Rightarrow> xs)) (\<lambda>e. ret []))
     (\<lambda>xs. bindG (collect_snapshots v ls) (\<lambda>ys. ret (xs @ ys)))"

definition backup_page :: "('w, 'm) api_scheme \<Rightarrow> int \<Rightarrow> int \<Rightarrow> Backup list \<Rightarrow> ('w, ResponseBackupListInfo) go" where
  "backup_page v limit offset backups = bindG (liftO (GenericPager limit offset backups)) (\<lambda>(page, _, totalPage).
     bindG (collect_snapshots v (GetBackupIdForLabels page)) (\<lambda>snapshots w.
       (parseResponseBackupList (a_title v) (next_of v w) page snapshots totalPage, w)))"

definition listBackup :: "('w, 'm) api_scheme \<Rightarrow> string \<Rightarrow> string \<Rightarrow> string \<Rightarrow> ('w, response) go" where
  "listBackup v owner limit offset = tryG (ListBackups v (''owner='' @ owner) [])
     (\<lambda>backups. bindG (backup_page v (ParseToInt64 limit) (ParseToInt64 offset) backups) (\<lambda>r. answer (Ret (backup_list_json r))))
     (\<lambda>e. answer (Ret (backup_list_json \<lparr>li_TotalPage = 0, li_Backups = Some []\<rparr>)))"

definition get_backup :: "('w, 'm) api_scheme \<Rightarrow> string \<Rightarrow> ('w, response) go" where
  "get_backup v backupId = found_backup v backupId (\<lambda>backup. answer (Ret (parseResponseBackupDetail backup)))"

definition getBackupPlan :: "('w, 'm) api_scheme \<Rightarrow> string \<Rightarrow> ('w, response) go" where
  "getBackupPlan v backupId = found_backup v backupId (\<lambda>backup.
     bindG (tryG (ListSnapshots v (backup_selector (bk_Name backup)) []) (\<lambda>r. ret (case r of None \<Rightarrow> [] | Some xs \<Rightarrow> xs)) (\<lambda>e. ret []))
       (\<lambda>snapshots w. tryG (liftO (parseResponseBackupOne (next_of v w) backup (case snapshots of [] \<Rightarrow> None | s # _ \<Rightarrow> Some s)))
          (\<lambda>j. answer (Ret j)) (\<lambda>e. ret (Err (''backup '' @ bk_Name backup @ '' '' @ err_text e))) w))"

text \<open>The name is looked up as it was sent; the label of a plan is made from the trimmed name.\<close>

definition addBackup :: "('w, 'm) api_scheme \<Rightarrow> BackupCreate outcome \<Rightarrow> string \<Rightarrow> ('w, response) go" where
  "addBackup v body owner = read_entity body (\<lambda>b.
     tryG (liftO (verify_backup b))
       (\<lambda>_. if bc_Location b = [] \<or> bc_LocationConfig b = None then ret (Err ''backup location is required'')
          else if (case bc_BackupPolicies b of None \<Rightarrow> True | Some p \<Rightarrow> bp_SnapshotFrequency p = [] \<or> bp_TimesOfDay p = [])
          then ret (Err ''backup policy is required'')
          else tryG (backup_GetByLabel v (''name='' @ k_md5 v (bc_Name b) @ '',owner='' @ owner))
            (\<lambda>backup. ret (Err (''backup plan '' @ bc_Name b @ '' already exists'')))
            (\<lambda>e. if \<not> IsNotFound e then ret (Err (''failed to get backup '' @ quote_string (bc_Name b) @ '': '' @ err_text e))
               else tryG (Apply v (NewBackupPlan owner b))
                 (\<lambda>backup w. answer (parseResponseBackupCreate (next_of v w) backup) w)
                 (\<lambda>e. ret (Err (''failed to create backup '' @ quote_string (bc_Name b) @ '': '' @ err_text e)))))
       (\<lambda>e. fail_with e ''backup name invalid''))"

definition update_backup :: "('w, 'm) api_scheme \<Rightarrow> BackupCreate outcome \<Rightarrow> string \<Rightarrow> string \<Rightarrow> ('w, response) go" where
  "update_backup v body backupId owner = read_entity body (\<lambda>b0.
     let b = b0\<lparr>bc_Name := backupId\<rparr>; msg = ''failed to update backup plan '' @ quote_string backupId in
     found_backup v backupId (\<lambda>backup.
       tryG (Update v (NewBackupPlan owner b) backup)
         (\<lambda>_. tryG (ListBackups v [] (''metadata.name='' @ backupId))
            (\<lambda>backups. bindG (backup_page v 0 0 backups) (\<lambda>r. case li_Backups r of
               Some (item # _) \<Rightarrow> answer (Ret (backup_item_json item)) | _ \<Rightarrow> no_data))
            (\<lambda>e. fail_with e msg))
         (\<lambda>e. fail_with e msg)))"

definition deleteBackupPlan :: "('w, 'm) api_scheme \<Rightarrow> string \<Rightarrow> ('w, response) go" where
  "deleteBackupPlan v backupId = found_backup v backupId (\<lambda>backup.
     tryG (backup_Delete v backup) (\<lambda>_. no_data) (\<lambda>e. fail_with e (''delete backup '' @ backupId @ '' error'')))"

definition enabledBackupPlan :: "('w, 'm) api_scheme \<Rightarrow> string outcome \<Rightarrow> string \<Rightarrow> ('w, response) go" where
  "enabledBackupPlan v body backupId = read_entity body (\<lambda>event.
     if \<not> ListContains [''pause'', ''resume''] (ToLower event)
     then handle_error (WithMessage None (''backup event invalid, event: '' @ event))
     else found_backup v backupId (\<lambda>backup.
       tryG (Enabled v backup (ToLower event)) (\<lambda>_. no_data) (\<lambda>e. fail_with e (''trigger backup '' @ backupId @ '' error''))))"

section \<open>Snapshots\<close>

definition first_location :: "Backup \<Rightarrow> string" where
  "first_location backup = (case entries (bs_Location (bk_Spec backup)) of [] \<Rightarrow> [] | (l, _) # _ \<Rightarrow> l)"

definition addSnapshot :: "('w, 'm) api_scheme \<Rightarrow> string outcome \<Rightarrow> string \<Rightarrow> ('w, response) go" where
  "addSnapshot v body backupId = read_entity body (\<lambda>event.
     if event \<noteq> ''create'' then ret (Err (''snapshot event invalid, event: '' @ event))
     else if backupId = [] then ret (Err ''backupId is empty'')
     else found_backup v backupId (\<lambda>backup.
       if bs_Deleted (bk_Spec backup) then handle_error (WithMessage None (''backup '' @ backupId @ '' is deleted''))
       else tryG (snapshot_Create v backup (first_location backup)) (\<lambda>_. no_data)
         (\<lambda>e. fail_with e (''create snapshot NOW error: '' @ err_text e @ '', backupId: '' @ backupId))))"

definition listSnapshots :: "('w, 'm) api_scheme \<Rightarrow> string \<Rightarrow> string \<Rightarrow> string \<Rightarrow> ('w, response) go" where
  "listSnapshots v backupId limit offset = tryG (ListSnapshots v (backup_selector backupId) [])
     (\<lambda>r. case r of
        None \<Rightarrow> answer (parseResponseSnapshotList [] 1 0)
      | Some items \<Rightarrow> bindG (liftO (GenericPager (ParseToInt64 limit) (ParseToInt64 offset) items)) (\<lambda>(page, _, totalPage).
          answer (parseResponseSnapshotList page totalPage (int (length items)))))
     (\<lambda>e. fail_with e (''get backup '' @ backupId @ '' snapshots error''))"

definition getSnapshot :: "('w, 'm) api_scheme \<Rightarrow> string \<Rightarrow> ('w, response) go" where
  "getSnapshot v snapshotId = found_snapshot v snapshotId (''snapshot '' @ snapshotId @ '' get error'')
     (\<lambda>snapshot. answer (Ret (parseResponseSnapshotDetail (a_title v) snapshot)))"

definition getSnapshotOne :: "('w, 'm) api_scheme \<Rightarrow> string \<Rightarrow> ('w, response) go" where
  "getSnapshotOne v snapshotId = found_snapshot v snapshotId (''snapshot '' @ snapshotId @ '' get error'')
     (\<lambda>snapshot. answer (parseResponseSnapshotOne snapshot))"

text \<open>A snapshot that is not found is the zero object of the client, whose phase is nil.\<close>

definition cancelSnapshot :: "('w, 'm) api_scheme \<Rightarrow> string outcome \<Rightarrow> string \<Rightarrow> string \<Rightarrow> ('w, response) go" where
  "cancelSnapshot v body backupId snapshotId = read_entity body (\<lambda>event.
     if event \<noteq> ''cancel'' then handle_error (WithMessage None (''snapshot event invalid, event: '' @ event))
     else found_backup v backupId (\<lambda>_.
       tryG (tryG (snapshot_GetById v snapshotId) ret (\<lambda>e. if IsNotFound e then ret zero_Snapshot else raise e))
         (\<lambda>snapshot. bindG (derefG nil_deref (ss_Phase (sn_Spec snapshot))) (\<lambda>phase.
            if ListContains (map phase_String [Failed, Completed]) phase then no_data
            else tryG (snapshot_UpdatePhase v snapshotId (phase_String Canceled) MessageTaskCanceled) (\<lambda>_. no_data)
              (\<lambda>e. fail_with e (''update snapshot '' @ snapshotId @ '' Canceled error''))))
         (\<lambda>e. fail_with e (''get snapshot '' @ snapshotId @ '' error''))))"

section \<open>Olares\<close>

definition health :: "('w, response) go" where "health = no_data"

definition getNode :: "('w, 'm) api_scheme \<Rightarrow> ('w, response) go" where
  "getNode v = answer (Ret (JStr (v_getenv v ''NODE_NAME'')))"

definition GetOlaresId :: "('w, 'm) api_scheme \<Rightarrow> string \<Rightarrow> ('w, string) go" where
  "GetOlaresId v owner = tryG (k_dynamic v) (\<lambda>_. k_retry_string v 5 (a_user_email v owner))
     (\<lambda>e. raise (Errorf (''get dynamic client error: '' @ err_text e)))"

definition getSpaceRegions :: "('w, 'm) api_scheme \<Rightarrow> string \<Rightarrow> ('w, response) go" where
  "getSpaceRegions v owner = tryG (GetOlaresId v owner)
     (\<lambda>olaresId. tryG (GetRegions v (a_regions v) owner olaresId) (\<lambda>j. answer (Ret j)) (\<lambda>e. handle_error (Some e)))
     (\<lambda>e. fail_with e ''get olares id error'')"

end
