(* ===== verification/ApiRestores.thy ===== *)
theory ApiRestores
  imports ApiHandlers
begin

text \<open>
  The restores of the HTTP API (\<open>pkg/modules/backup/v1/handler.go\<close>) and the listing of a repository as
  snapshots (\<open>SortSnapshotList\<close> of \<open>pkg/handlers/handler_snapshot.go\<close>).
\<close>

section \<open>Times in RFC 3339\<close>

text \<open>
  \<open>time.Parse(time.RFC3339, s)\<close>: the hour may have one digit, a fraction of a second may follow the seconds,
  an offset goes up to 24 hours and 60 minutes. Only the Unix time is used, so the fraction is dropped. A text
  that does not parse gives the zero time.
\<close>

fun take_digits :: "nat \<Rightarrow> string \<Rightarrow> (int \<times> string) option" where
  "take_digits n s = (if n \<le> length s \<and> list_all is_digit (take n s)
     then Some (foldl (\<lambda>a c. 10 * a + (int (of_char c) - 48)) 0 (take n s), drop n s) else None)"

definition take_hour :: "string \<Rightarrow> (int \<times> string) option" where
  "take_hour s = (case take_digits 2 s of Some r \<Rightarrow> Some r | None \<Rightarrow> take_digits 1 s)"

definition take_char :: "char \<Rightarrow> string \<Rightarrow> string option" where
  "take_char c s = (case s of [] \<Rightarrow> None | d # r \<Rightarrow> if d = c then Some r else None)"

definition skip_fraction :: "string \<Rightarrow> string" where
  "skip_fraction s = (case s of
      c # d # r \<Rightarrow> if (c = CHR ''.'' \<or> c = CHR '','') \<and> is_digit d then dropWhile is_digit (d # r) else s
    | _ \<Rightarrow> s)"

definition take_zone :: "string \<Rightarrow> int option" where
  "take_zone s = (case s of
      [] \<Rightarrow> None
    | c # r \<Rightarrow> if c = CHR ''Z'' then (if r = [] then Some 0 else None)
        else if c = CHR ''+'' \<or> c = CHR ''-'' then
          (case take_digits 2 r of None \<Rightarrow> None | Some (h, r1) \<Rightarrow> (case take_char (CHR '':'') r1 of None \<Rightarrow> None | Some r2 \<Rightarrow>
            (case take_digits 2 r2 of
               Some (m, []) \<Rightarrow> if h > 24 \<or> m > 60 then None else Some ((if c = CHR ''-'' then -1 else 1) * (h * 3600 + m * 60))
             | _ \<Rightarrow> None)))
        else None)"

definition parse_clock :: "string \<Rightarrow> (int \<times> string) option" where
  "parse_clock s = (case take_hour s of None \<Rightarrow> None | Some (h, r1) \<Rightarrow> (case take_char (CHR '':'') r1 of None \<Rightarrow> None | Some r2 \<Rightarrow>
     (case take_digits 2 r2 of None \<Rightarrow> None | Some (m, r3) \<Rightarrow> (case take_char (CHR '':'') r3 of None \<Rightarrow> None | Some r4 \<Rightarrow>
     (case take_digits 2 r4 of None \<Rightarrow> None | Some (sec, r5) \<Rightarrow>
        if h > 23 \<or> m > 59 \<or> sec > 59 then None else Some (h * 3600 + m * 60 + sec, skip_fraction r5))))))"

definition parse_rfc3339 :: "string \<Rightarrow> int option" where
  "parse_rfc3339 s = (case take_digits 4 s of None \<Rightarrow> None | Some (y, r1) \<Rightarrow> (case take_char (CHR ''-'') r1 of None \<Rightarrow> None | Some r2 \<Rightarrow>
     (case take_digits 2 r2 of None \<Rightarrow> None | Some (mo, r3) \<Rightarrow> (case take_char (CHR ''-'') r3 of None \<Rightarrow> None | Some r4 \<Rightarrow>
     (case take_digits 2 r4 of None \<Rightarrow> None | Some (d, r5) \<Rightarrow> (case take_char (CHR ''T'') r5 of None \<Rightarrow> None | Some r6 \<Rightarrow>
     (case parse_clock r6 of None \<Rightarrow> None | Some (sec, r7) \<Rightarrow> (case take_zone r7 of None \<Rightarrow> None | Some off \<Rightarrow>
        if mo < 1 \<or> mo > 12 \<or> d < 1 \<or> d > days_in y mo then None
        else Some (day_number y mo d * 86400 + sec - off - unix_epoch)))))))))"

definition parsed_time :: "string \<Rightarrow> timestamp" where
  "parsed_time s = (case parse_rfc3339 s of Some t \<Rightarrow> t | None \<Rightarrow> - unix_epoch) * 1000000000"

section \<open>The snapshots behind a URL\<close>

definition listed_snapshot :: "sdk_snapshot \<Rightarrow> Snapshot" where
  "listed_snapshot s = (let t = parsed_time (ks_BackupStart s) in
     zero_Snapshot\<lparr>sn_meta := zero_meta\<lparr>om_CreationTimestamp := t\<rparr>,
       sn_Spec := (sn_Spec zero_Snapshot)\<lparr>ss_SnapshotId := Some (ks_Id s), ss_CreateAt := Some t,
         ss_Location := (case ks_Paths s of [] \<Rightarrow> [] | p # _ \<Rightarrow> p), ss_Size := Some (word_of_int (ks_TotalBytesProcessed s))\<rparr>\<rparr>)"

definition SortSnapshotList :: "(sdk_snapshot list \<Rightarrow> sdk_snapshot option) \<Rightarrow> sdk_snapshot list \<Rightarrow> (Snapshot list \<times> string \<times> string) outcome" where
  "SortSnapshotList first_of snapshots = bindO (derefO (first_of snapshots)) (\<lambda>first.
     Ret (map listed_snapshot snapshots, GetBackupTypeFromTags (ks_Tags first), GetBackupTypeAppName (ks_Tags first)))"

text \<open>The two parsers of a backup URL ask for the volumes of the owner first.\<close>

definition parse_url :: "('w, 'm) api_scheme \<Rightarrow> string \<Rightarrow> string \<Rightarrow> ('w, BackupUrlType) go" where
  "parse_url v owner url = bindG (GetUserspacePvc v owner) (\<lambda>u w.
     (ParseBackupUrl (v_NodeName v) (\<lambda>p. a_exists v p w) (uv_userspacePath u) (uv_appcachePath u) url, w))"

definition parse_url_detail :: "('w, 'm) api_scheme \<Rightarrow> string \<Rightarrow> string \<Rightarrow> ('w, RestoreUrlInfo) go" where
  "parse_url_detail v owner url =
     (if url = [] then raise (Errorf ''backupUrl is empty'')
      else bindG (GetUserspacePvc v owner) (\<lambda>u w.
        (ParseRestoreBackupUrlDetail (v_NodeName v) (\<lambda>p. a_exists v p w) (uv_userspacePath u) (uv_appcachePath u) url, w)))"

definition checkBackupUrl :: "('w, 'm) api_scheme \<Rightarrow> RestoreCheckBackupUrl outcome \<Rightarrow> string \<Rightarrow> ('w, response) go" where
  "checkBackupUrl v body owner = tryG (liftO body)
     (\<lambda>b. tryG (parse_url v owner (ru_BackupUrl b))
        (\<lambda>u. if bu_Location u = location_String BackupLocationSpace
           then ret (Err (''backup location is space, no need to check url snapshots, url: '' @ ru_BackupUrl b))
           else tryG (GetSnapshots v (a_snapshots v) (ru_Password b) owner (bu_Location u) (bu_Endpoint u) (bu_BackupName u) (bu_BackupId u))
             (\<lambda>snapshots. if snapshots = [] then ret (Err MessageBackupUrlIncorrect)
                else bindG (liftO (SortSnapshotList (a_first v) snapshots)) (\<lambda>(items, typeTag, appName).
                  bindG (liftO (GenericPager (ru_Limit b) (ru_Offset b) items)) (\<lambda>(page, totalCount, totalPage).
                    answer (parseCheckBackupUrl page (bu_BackupName u) typeTag appName (bu_Location u) (bu_PvcPath u) totalCount totalPage))))
             (\<lambda>e. handle_error (Some e)))
        (\<lambda>e. ret (Err MessageBackupUrlIncorrect)))
     (\<lambda>e. ret (Err (''check backup url read entity error: '' @ err_text e)))"

section \<open>Creating a restore\<close>

text \<open>Without an application of that name nothing else than a file can be restored.\<close>

definition wise_app :: "string \<Rightarrow> string" where
  "wise_app owner = ''wise-'' @ owner @ ''-wise''"

definition wise_text :: string where
  "wise_text = ''Wise is not installed. Please go to the Market to install this app.''"

text \<open>The request that would be stored for a restore from a snapshot, from the URL and the snapshot of the repository.\<close>

definition snapshot_restore_type ::
  "int \<Rightarrow> RestoreCreate \<Rightarrow> string \<Rightarrow> string \<Rightarrow> Backup \<Rightarrow> string \<Rightarrow> timestamp \<Rightarrow> string \<Rightarrow> BackupUrlType \<Rightarrow> sdk_snapshot \<Rightarrow> RestoreType" where
  "snapshot_restore_type now b owner clusterId backup resticSnapshotId createAt location u s =
     \<lparr>rt_Name = [], rt_Owner = owner, rt_Type = RestoreTypeSnapshot, rt_Path = rc_Path b, rt_SubPath = TrimSpace (rc_SubPath b),
      rt_SubPathTimestamp = now, rt_BackupId = bk_Name backup, rt_BackupName = bs_Name (bk_Spec backup),
      rt_BackupPath = GetBackupPath backup, rt_Password = Base64encode (TrimSpace (rc_Password b)), rt_SnapshotId = rc_SnapshotId b,
      rt_SnapshotTime = Itoa (createAt div 1000000000), rt_ResticSnapshotId = resticSnapshotId, rt_ClusterId = clusterId,
      rt_Location = location, rt_Endpoint = bu_Endpoint u, rt_TotalBytesProcessed = ks_TotalBytesProcessed s, rt_BackupUrl = None\<rparr>"

text \<open>The end of \<open>addRestore\<close>: the restore is stored and answered.\<close>

definition store_restore :: "('w, 'm) api_scheme \<Rightarrow> string \<Rightarrow> string \<Rightarrow> string \<Rightarrow> (int \<Rightarrow> RestoreType) \<Rightarrow> ('w, response) go" where
  "store_restore v backupType backupName snapshotTime mk = (\<lambda>w. let rt = mk (k_now v w div 1000000000) in
     tryG (CreateRestore v backupType rt)
       (\<lambda>restore. answer (parseResponseRestoreCreate restore backupName snapshotTime (rt_Path rt)))
       (\<lambda>e. ret (Err (''create restore task failed: '' @ err_text e))) w)"

text \<open>
  A restore from a snapshot of a plan. The variables \<open>backupType\<close>, \<open>urlInfo\<close> and \<open>getSnapshot\<close> are set in the other
  branch only: the empty type is taken for one of an application, and after that check the nil URL is
  dereferenced. A plan that is not found is the zero object of the client, and its error variable is
  overwritten before it is tested.
\<close>

definition add_from_snapshot :: "('w, 'm) api_scheme \<Rightarrow> RestoreCreate \<Rightarrow> string \<Rightarrow> string \<Rightarrow> ('w, response) go" where
  "add_from_snapshot v b owner clusterId = (let i = rc_SnapshotId b; backupType = []; urlInfo = None; getSnapshot = None in
     found_snapshot v i (''get snapshot '' @ i @ '' error'') (\<lambda>snapshot. let backupId = ss_BackupId (sn_Spec snapshot) in
       tryG (tryG (backup_GetById v backupId) ret (\<lambda>e. if IsNotFound e then ret zero_Backup else raise e))
         (\<lambda>backup. tryG (liftO (GetBackupLocationConfig backup))
            (\<lambda>cfg. let location = (case cfg of None \<Rightarrow> [] | Some m \<Rightarrow> mget m ''location'') in
               bindG (derefG nil_deref (ss_SnapshotId (sn_Spec snapshot))) (\<lambda>resticSnapshotId.
               bindG (derefG nil_deref (ss_CreateAt (sn_Spec snapshot))) (\<lambda>createAt.
               bindG (CheckAppInstalled v (wise_app owner)) (\<lambda>installed.
                 if \<not> installed then ret (Err wise_text)
                 else bindG (derefG nil_deref urlInfo) (\<lambda>u. bindG (derefG nil_deref getSnapshot) (\<lambda>s.
                   store_restore v backupType (bs_Name (bk_Spec backup)) (Itoa (createAt div 1000000000))
                     (\<lambda>now. snapshot_restore_type now b owner clusterId backup resticSnapshotId createAt location u s)))))))
            (\<lambda>e. fail_with e (''get backup location config '' @ backupId @ '' error'')))
         (\<lambda>e. fail_with e (''get backup '' @ backupId @ '' error''))))"

text \<open>The request that is stored for a restore from a URL.\<close>

definition url_restore_type :: "int \<Rightarrow> RestoreCreate \<Rightarrow> string \<Rightarrow> string \<Rightarrow> BackupUrlType \<Rightarrow> RestoreUrlInfo \<Rightarrow> sdk_snapshot \<Rightarrow> RestoreType" where
  "url_restore_type now b owner clusterId u d s = (let isApp = (GetBackupTypeFromTags (ks_Tags s) = BackupTypeApp) in
     \<lparr>rt_Name = (if isApp then GetBackupTypeAppName (ks_Tags s) else []), rt_Owner = owner, rt_Type = RestoreTypeUrl,
      rt_Path = (if isApp then [] else rc_Path b), rt_SubPath = (if isApp then [] else TrimSpace (rc_SubPath b)),
      rt_SubPathTimestamp = (if isApp then 0 else now), rt_BackupId = rd_backupId d, rt_BackupName = rd_backupName d,
      rt_BackupPath = (if isApp then [] else GetBackupTypeFilePath (ks_Tags s)),
      rt_Password = Base64encode (TrimSpace (rc_Password b)), rt_SnapshotId = [], rt_SnapshotTime = rd_snapshotTime d,
      rt_ResticSnapshotId = rd_resticSnapshotId d, rt_ClusterId = clusterId, rt_Location = rd_location d,
      rt_Endpoint = bu_Endpoint u, rt_TotalBytesProcessed = ks_TotalBytesProcessed s, rt_BackupUrl = Some (rd_storage d)\<rparr>)"

definition create_url_restore :: "('w, 'm) api_scheme \<Rightarrow> RestoreCreate \<Rightarrow> string \<Rightarrow> string \<Rightarrow> BackupUrlType \<Rightarrow> RestoreUrlInfo \<Rightarrow>
    sdk_snapshot \<Rightarrow> ('w, response) go" where
  "create_url_restore v b owner clusterId u d s =
     store_restore v (GetBackupTypeFromTags (ks_Tags s)) (rd_backupName d) (rd_snapshotTime d)
       (\<lambda>now. url_restore_type now b owner clusterId u d s)"

text \<open>A type tag other than file and app is treated like an application by the first check.\<close>

definition add_from_url :: "('w, 'm) api_scheme \<Rightarrow> RestoreCreate \<Rightarrow> string \<Rightarrow> string \<Rightarrow> ('w, response) go" where
  "add_from_url v b owner clusterId = (case Base64decode (rc_BackupUrl b) of
      None \<Rightarrow> ret (Err MessageBackupUrlIncorrect)
    | Some text \<Rightarrow> if text = [] then ret (Err MessageBackupUrlIncorrect) else let url = TrimLineBreak text in
        tryG (parse_url v owner url) (\<lambda>u. tryG (parse_url_detail v owner url) (\<lambda>d.
          tryG (GetSnapshot v (a_snapshots v) (a_first v) (GetOlaresId v) (rc_Password b) owner (bu_Location u) (bu_Endpoint u)
                 (bu_BackupName u) (bu_BackupId u) (rd_resticSnapshotId d) (ud_CloudName (rd_storage d)) (ud_RegionId (rd_storage d)) clusterId)
            (\<lambda>s0. bindG (derefG nil_deref s0) (\<lambda>s.
               if GetBackupTypeFromTags (ks_Tags s) = BackupTypeFile then
                 (if rc_Path b = [] \<or> rc_SubPath b = [] then ret (Err ''path or subPath is empty'')
                  else create_url_restore v b owner clusterId u d s)
               else bindG (CheckAppInstalled v (wise_app owner)) (\<lambda>installed.
                 if \<not> installed then ret (Err wise_text) else create_url_restore v b owner clusterId u d s)))
            (\<lambda>e. handle_error (Some e)))
          (\<lambda>e. ret (Err MessageBackupUrlIncorrect)))
          (\<lambda>e. ret (Err MessageBackupUrlIncorrect)))"

definition addRestore :: "('w, 'm) api_scheme \<Rightarrow> RestoreCreate outcome \<Rightarrow> string \<Rightarrow> ('w, response) go" where
  "addRestore v body owner = read_entity body (\<lambda>b.
     tryG (liftO (verify_restore b))
       (\<lambda>_. tryG (GetClusterId v)
          (\<lambda>clusterId. if rc_SnapshotId b \<noteq> [] then add_from_snapshot v b owner clusterId else add_from_url v b owner clusterId)
          (\<lambda>e. ret (Err (''get clusterId error: '' @ err_text e))))
       (\<lambda>e. handle_error (Some e)))"

section \<open>Reading and cancelling restores\<close>

definition listRestore :: "('w, 'm) api_scheme \<Rightarrow> string \<Rightarrow> string \<Rightarrow> string \<Rightarrow> ('w, response) go" where
  "listRestore v owner limit offset = tryG (ListRestores v owner)
     (\<lambda>restores. bindG (liftO (GenericPager (ParseToInt64 limit) (ParseToInt64 offset) restores)) (\<lambda>(page, _, totalPage).
        answer (parseResponseRestoreList page totalPage)))
     (\<lambda>e. answer (parseResponseRestoreList [] 1))"

definition getRestore :: "('w, 'm) api_scheme \<Rightarrow> string \<Rightarrow> ('w, response) go" where
  "getRestore v restoreId = found_restore v restoreId (\<lambda>restore.
     bindG (liftO (parseResponseRestoreDetailFromBackupUrl restore)) (\<lambda>r. answer (Ret (restore_detail_json r))))"

definition getRestoreOne :: "('w, 'm) api_scheme \<Rightarrow> string \<Rightarrow> ('w, response) go" where
  "getRestoreOne v restoreId = found_restore v restoreId (\<lambda>restore.
     tryG (liftO (GetRestoreType restore))
       (\<lambda>backupType. bindG (liftO (restore_app_name backupType restore)) (\<lambda>appName.
          tryG (liftO (ParseRestoreType backupType restore))
            (\<lambda>rt0. bindG (derefG nil_deref rt0) (\<lambda>rt.
               answer (parseResponseRestoreOne (a_zone v) restore appName (rt_BackupName rt) (rt_SnapshotTime rt) (rt_Path rt) (rt_SubPath rt))))
            (\<lambda>e. ret (Err (''parse '' @ restoreId @ '' restore type error: '' @ err_text e)))))
       (\<lambda>e. fail_with e (''restore type '' @ restoreId @ '' invalid, error: '' @ err_text e)))"

definition cancelRestore :: "('w, 'm) api_scheme \<Rightarrow> string outcome \<Rightarrow> string \<Rightarrow> ('w, response) go" where
  "cancelRestore v body restoreId = read_entity body (\<lambda>event.
     if event \<noteq> ''cancel'' \<and> event \<noteq> ''delete'' then handle_error (WithMessage None (''restore event invalid, event: '' @ event))
     else found_restore v restoreId (\<lambda>restore.
       bindG (derefG nil_deref (rs_Phase (re_Spec restore))) (\<lambda>phase.
       let delete = (if event = ''delete''
             then tryG (restore_UpdatePhase v restoreId (phase_String Deleted)) (\<lambda>_. no_data) (\<lambda>e. fail_with e (''delete restore '' @ restoreId @ '' error''))
             else no_data) in
       if ListContains (map phase_String [Pending, Running]) phase
       then tryG (restore_UpdatePhase v restoreId (phase_String Canceled)) (\<lambda>_. delete)
              (\<lambda>e. fail_with e (''cancel restore '' @ restoreId @ '' error''))
       else delete)))"

end
