(* ===== verification/ApiFacts.thy ===== *)
theory ApiFacts
  imports ApiRestores
begin

text \<open>
  What the HTTP API does with its requests: the answers of \<open>addRestore\<close>, the plans that \<open>addBackup\<close>
  accepts and stores, and the list of plans.
\<close>

section \<open>Texts of stored locations and times\<close>

lemma json_strings_map: "json_strings m (map (\<lambda>(k, s). (k, JStr s)) l) = Some (fold (\<lambda>(k, s) m. mput m k s) l m)"
  by (induction l arbitrary: m) auto

lemma Unmarshal_map_ToJSON:
  assumes "\<forall>(k, s) \<in> set l. ascii k \<and> ascii s"
  shows "Unmarshal_map (ToJSON (JObj (map (\<lambda>(k, s). (k, JStr s)) l))) = Ret (Some (fold (\<lambda>(k, s) m. mput m k s) l []))"
proof -
  have "json_parse (ToJSON (JObj (map (\<lambda>(k, s). (k, JStr s)) l))) = Some (JObj (map (\<lambda>(k, s). (k, JStr s)) l))"
    using assms by (intro json_parse_ToJSON) auto
  then show ?thesis by (simp add: Unmarshal_map_def json_strings_map)
qed

text \<open>The members of a location text, in the order of their keys.\<close>

definition location_entries :: "string \<Rightarrow> string \<Rightarrow> string \<Rightarrow> LocationConfig \<Rightarrow> smap" where
  "location_entries endpoint location clusterId l =
     (if location = location_String BackupLocationFileSystem then [(''name'', lc_Name l), (''path'', lc_Path l)]
      else if location = location_String BackupLocationSpace then
        [(''cloudName'', lc_CloudName l), (''clusterId'', clusterId), (''name'', lc_Name l), (''regionId'', lc_RegionId l)]
      else if cloud_location location then [(''endpoint'', endpoint), (''name'', lc_Name l)]
      else [(''name'', lc_Name l)])"

lemma buildLocationConfig_entries:
  "buildLocationConfig endpoint location clusterId l =
     ToJSON (JObj (map (\<lambda>(k, s). (k, JStr s)) (location_entries endpoint location clusterId l)))"
  by (simp add: buildLocationConfig_def location_entries_def)

lemma stored_location:
  assumes "bs_Location (bk_Spec backup) = Some [(location, buildLocationConfig endpoint location clusterId l)]"
    and "\<forall>s \<in> {endpoint, clusterId, lc_Name l, lc_Path l, lc_CloudName l, lc_RegionId l}. ascii s"
  shows "GetBackupLocationConfig backup = Ret (Some (location_entries endpoint location clusterId l @ [(''location'', location)]))"
proof -
  have "\<forall>(k, s) \<in> set (location_entries endpoint location clusterId l). ascii k \<and> ascii s"
    using assms(2) by (simp add: location_entries_def)
  note u = Unmarshal_map_ToJSON[OF this]
  show ?thesis
    by (simp add: GetBackupLocationConfig_def assms(1) buildLocationConfig_entries u)
       (simp add: location_entries_def lookup_def)
qed

lemma digit_char_0: "digit_char 0 = CHR ''0''"
  by (simp add: digit_char_def char_eq_nat)

lemma digit_char_sign: "d < 10 \<Longrightarrow> digit_char d \<noteq> CHR ''+'' \<and> digit_char d \<noteq> CHR ''-''"
  by (auto simp: char_eq_nat)

lemma fmt_2d_small: "0 \<le> i \<Longrightarrow> i < 100 \<Longrightarrow> fmt_2d i = [digit_char (nat i div 10), digit_char (nat i mod 10)]"
  by (auto simp: fmt_2d_def Let_def nat_digits.simps digit_char_0)

lemma Atoi_fmt_2d:
  assumes "0 \<le> i" "i < 100"
  shows "Atoi (fmt_2d i) = Ret i"
proof -
  have d: "nat i div 10 < 10" "nat i mod 10 < 10" using assms by linarith+
  have "10 * (nat i div 10) + nat i mod 10 = nat i" by simp
  moreover have "i64_range (int (nat i))" using assms by (simp add: i64_range_def)
  ultimately show ?thesis
    using assms d digit_char_sign[OF d(1)] by (simp add: fmt_2d_small Atoi_def parse_int_def Let_def)
qed

lemma Split_fmt_2d:
  assumes "0 \<le> h" "h < 100" "0 \<le> m" "m < 100"
  shows "Split (fmt_2d h @ '':'' @ fmt_2d m) '':'' = [fmt_2d h, fmt_2d m]"
proof -
  have "CHR '':'' \<notin> set (fmt_2d i)" if "0 \<le> i" "i < 100" for i
    using that by (auto simp: fmt_2d_small digit_char_def char_eq_nat)
  then show ?thesis using Split_append_char[of "CHR '':''" "fmt_2d h" "fmt_2d m"] assms by simp
qed

lemma ParseTimestampToLocal_zone_UTC:
  "i64_range v \<Longrightarrow> ParseTimestampToLocal (\<lambda>_. 0) now (Itoa v) =
     Ret (fmt_2d (v div 1000 mod 86400 div 3600) @ '':'' @ fmt_2d (v div 1000 mod 3600 div 60))"
  by (simp add: ParseTimestampToLocal_def ParseInt_def parse_int_Itoa Let_def)

section \<open>Creating a restore from a snapshot\<close>

text \<open>C35: a request to restore from a snapshot of a plan never succeeds: whatever the services answer,
  \<open>addRestore\<close> does not answer with a created restore. (The type of the backup is not read in this branch,
  and after the check for the application the source reads the URL that this branch never sets.)\<close>

theorem addRestore_from_snapshot_never:
  assumes "rc_SnapshotId b \<noteq> []"
  shows "fst (addRestore v (Ret b) owner w) \<noteq> Ret (Ok data)"
proof -
  have "addRestore v (Ret b) owner w \<noteq> (Ret (Ok data), w')" for w'
    using assms
    by (auto simp: addRestore_def read_entity_def add_from_snapshot_def found_snapshot_def found_def fail_with_def
        handle_error_def WithMessage_def Let_def derefG_def tryG_Ret_iff bindG_Ret_iff split: if_splits option.splits outcome.splits)
  then show ?thesis by (metis prod.collapse)
qed

text \<open>An API with the services in memory, the cluster known and no snapshot behind a URL.\<close>

definition mem_web :: "store api" where
  "mem_web = services.extend mem_services (api.fields (\<lambda>s. s) (\<lambda>_. 0) (ret ''cluster'') (\<lambda>o'. ret ''alice@olares.com'') (\<lambda>_ _. False)
     (\<lambda>_ _ n. ret n) (\<lambda>_. ret []) (\<lambda>ss. case ss of [] \<Rightarrow> None | s # _ \<Rightarrow> Some s) (\<lambda>_ _ _. ret JNull))"

lemmas mem_web_sel = mem_web_def mem_services_sel api.defs

definition web_store :: store where
  "web_store = snap_store [set_sn_spec (\<lambda>s. s\<lparr>ss_SnapshotId := Some ''abc''\<rparr>) (sample_snapshot ''s1'' Completed)]"

theorem addRestore_from_snapshot_never_witness:
  "let b = \<lparr>rc_BackupUrl = [], rc_Password = ''pw'', rc_SnapshotId = ''s1'', rc_Path = ''/Home'', rc_SubPath = ''r''\<rparr> in
   fst (addRestore mem_web (Ret b) ''alice'' web_store) \<noteq> Ret (Ok None)"
  unfolding Let_def by (rule addRestore_from_snapshot_never) simp

text \<open>In this world every check passes; the request ends in a panic.\<close>

lemma demo_restore_panics:
  "fst (addRestore mem_web (Ret \<lparr>rc_BackupUrl = [], rc_Password = ''pw'', rc_SnapshotId = ''s1'', rc_Path = ''/Home'', rc_SubPath = ''r''\<rparr>)
     ''alice'' web_store) = Panic nil_deref"
proof -
  let ?s = "set_sn_spec (\<lambda>s. s\<lparr>ss_SnapshotId := Some ''abc''\<rparr>) (sample_snapshot ''s1'' Completed)"
  have g: "snapshot_GetById mem_web ''s1'' web_store = (Ret ?s, web_store)"
    by (simp add: snapshot_GetById_def mem_web_sel mem_get_def find_by_def web_store_def snap_store_def go_simps
        sample_snapshot_def new_snapshot_def set_sn_spec_def)
  have b: "backup_GetById mem_web ''b1'' web_store = (Ret (sample_backup ''b1'' 10 False), web_store)"
    by (simp add: backup_GetById_def mem_web_sel mem_get_def find_by_def web_store_def snap_store_def go_simps
        sample_store_def sample_backup_def)
  have c: "GetClusterId mem_web = ret ''cluster''" by (simp add: GetClusterId_def mem_web_sel)
  have i: "CheckAppInstalled mem_web n = ret True" for n
    by (simp add: CheckAppInstalled_def mem_web_sel fun_eq_iff go_simps)
  have l: "GetBackupLocationConfig (sample_backup ''b1'' 10 False) = Ret None"
    by (simp add: GetBackupLocationConfig_def sample_backup_def sample_spec_def)
  have s: "ss_BackupId (sn_Spec (sample_snapshot n ph)) = ''b1''" "ss_CreateAt (sn_Spec (sample_snapshot n ph)) = Some 1" for n ph
    by (simp_all add: sample_snapshot_def new_snapshot_def set_sn_spec_def sample_backup_def)
  have t: "TrimSpace ''s1'' = ''s1''" "TrimSpace ''pw'' = ''pw''" "TrimSpace [] = []"
    by (simp_all add: TrimSpace_def decode_rune_ascii IsSpace_def trim_space_right.simps decode_last_rune_def)
  have v: "verify_restore \<lparr>rc_BackupUrl = [], rc_Password = ''pw'', rc_SnapshotId = ''s1'', rc_Path = ''/Home'', rc_SubPath = ''r''\<rparr> = Ret ()"
    by (simp add: verify_restore_def t)
  show ?thesis
    unfolding addRestore_def read_entity_def c
    by (simp add: v add_from_snapshot_def Let_def found_snapshot_def found_def
        tryG_Ret[of "snapshot_GetById mem_web ''s1''", OF g])
       (simp add: tryG_def set_sn_spec_def s b l i)
qed

section \<open>Plans\<close>

text \<open>C12: the location of a plan that was created is read back as it was sent: the object built by
  \<open>mergeConfig\<close> for a request with a location gives, by \<open>GetBackupLocationConfig\<close>, the kind of the
  location, the name of the account, and the path of a file system, the cloud, region and cluster of a Space
  location, or the endpoint of a cloud location (texts without bytes above 127).\<close>

theorem created_plan_location:
  assumes "mergeConfig t o' clusterId = Ret (bk_Spec backup)" and "bc_LocationConfig (pl_c o') = Some l"
    and "bc_Location (pl_c o') = location" and "location \<noteq> []"
    and "\<forall>s \<in> {pl_endpoint o', clusterId, lc_Name l, lc_Path l, lc_CloudName l, lc_RegionId l}. ascii s"
  shows "\<exists>m. GetBackupLocationConfig backup = Ret (Some m) \<and> mget m ''location'' = location \<and> mget m ''name'' = lc_Name l
    \<and> (location = location_String BackupLocationFileSystem \<longrightarrow> mget m ''path'' = lc_Path l)
    \<and> (location = location_String BackupLocationSpace \<longrightarrow> mget m ''cloudName'' = lc_CloudName l \<and>
         mget m ''regionId'' = lc_RegionId l \<and> mget m ''clusterId'' = clusterId)
    \<and> (cloud_location location \<longrightarrow> mget m ''endpoint'' = pl_endpoint o')"
proof -
  have "bs_Location spec = Some [(location, buildLocationConfig (pl_endpoint o') location clusterId l)]"
    if "mergeConfig t o' clusterId = Ret spec" for spec
    using that assms(2-4) by (auto simp: mergeConfig_def Let_def bindO_Ret_iff)
  note this[OF assms(1)]
  note m = stored_location[OF this assms(5)]
  show ?thesis unfolding m by (simp add: location_entries_def mget_def cloud_location_def)
qed

definition web_plan :: "BackupPolicy \<Rightarrow> BackupPlan" where
  "web_plan p = NewBackupPlan ''alice'' \<lparr>bc_Name = ''docs'', bc_Path = ''/Home/docs'', bc_Location = ''filesystem'', bc_BackupCreateType = None,
     bc_LocationConfig = Some \<lparr>lc_Name = ''disk'', lc_CloudName = [], lc_RegionId = [], lc_Path = ''/External/hdd''\<rparr>,
     bc_BackupPolicies = Some p, bc_Password = ''pw'', bc_ConfirmPassword = ''pw''\<rparr>"

definition web_policy :: "string \<Rightarrow> BackupPolicy" where
  "web_policy tod = \<lparr>bp_Enabled = True, bp_SnapshotFrequency = ''@daily'', bp_TimesOfDay = tod, bp_TimespanOfDay = [],
     bp_DayOfWeek = 0, bp_DateOfMonth = 0\<rparr>"

theorem created_plan_location_witness:
  "\<exists>spec m. mergeConfig 0 (web_plan (web_policy ''07:30'')) ''c'' = Ret spec \<and>
     GetBackupLocationConfig \<lparr>bk_meta = zero_meta, bk_Spec = spec\<rparr> = Ret (Some m) \<and> mget m ''path'' = ''/External/hdd''"
proof -
  let ?o = "web_plan (web_policy ''07:30'')"
  have "\<exists>spec. mergeConfig 0 ?o ''c'' = Ret spec"
    by (simp add: mergeConfig_def web_plan_def NewBackupPlan_def Let_def isBackupApp_def getBackupType_def)
  then obtain spec where s: "mergeConfig 0 ?o ''c'' = Ret (bk_Spec \<lparr>bk_meta = zero_meta, bk_Spec = spec\<rparr>)" by auto
  note r = created_plan_location[OF s, of "the (bc_LocationConfig (pl_c ?o))" "''filesystem''"]
  show ?thesis using r s by (auto simp: web_plan_def NewBackupPlan_def)
qed

text \<open>C13: what becomes of a request that gives the time of its policy as a timestamp (a text without a colon). If
  \<open>validBackupPolicy\<close> accepts the plan, the stored policy is enabled, keeps the text that was sent in
  \<open>TimespanOfDay\<close> and has a time of day with an hour from 0 to 23 and a minute from 0 to 59. \<open>ParseToCron\<close> makes a
  cron text of it: minute and hour, and for a weekly plan a day of the week from 0 to 6, for a monthly one a day
  from 1 to 31, so all its fields are in the ranges of cron. An hourly plan has the minute in the step field
  instead, which is a step of 0, no valid one, for minute 0. Daily and weekly plans, and hourly
  ones with a minute other than 0, have a next time; for an hourly plan at minute 0 its computation panics.\<close>

theorem accepted_timestamp_schedules:
  assumes "validBackupPolicy zone now o' = Ret o''" and "bc_BackupPolicies (pl_c o') = Some p"
    and "\<not> Contains (bp_TimesOfDay p) '':''"
  shows "\<exists>q h m. bc_BackupPolicies (pl_c o'') = Some q \<and> bp_Enabled q \<and> bp_TimespanOfDay q = bp_TimesOfDay p
    \<and> bp_SnapshotFrequency q = bp_SnapshotFrequency p
    \<and> 0 \<le> h \<and> h \<le> 23 \<and> 0 \<le> m \<and> m \<le> 59 \<and> bp_TimesOfDay q = fmt_2d h @ '':'' @ fmt_2d m
    \<and> (let cron = ParseToCron (bp_SnapshotFrequency q) (bp_TimesOfDay q) (bp_DayOfWeek q) (bp_DateOfMonth q) in
         bp_SnapshotFrequency q = ''@daily'' \<and> cron = Ret (fmt_2d m @ '' '' @ fmt_2d h @ '' * * *'')
       \<or> bp_SnapshotFrequency q = ''@weekly'' \<and> 1 \<le> bp_DayOfWeek q \<and> bp_DayOfWeek q \<le> 7
           \<and> cron = Ret (fmt_2d m @ '' '' @ fmt_2d h @ '' * * '' @ Itoa (bp_DayOfWeek q - 1))
       \<or> bp_SnapshotFrequency q = ''@monthly'' \<and> 1 \<le> bp_DateOfMonth q \<and> bp_DateOfMonth q \<le> 31
           \<and> cron = Ret (fmt_2d m @ '' '' @ fmt_2d h @ '' '' @ Itoa (bp_DateOfMonth q) @ '' * *'')
       \<or> bp_SnapshotFrequency q = ''@hourly'' \<and> cron = Ret (''*/'' @ Itoa m @ '' * * * *''))
    \<and> (bp_SnapshotFrequency q \<in> {''@daily'', ''@weekly''} \<or> bp_SnapshotFrequency q = ''@hourly'' \<and> m \<noteq> 0 \<longrightarrow>
         (\<exists>t. GetNextBackupTime fuel z n q = Ret (Some t)))
    \<and> (bp_SnapshotFrequency q = ''@hourly'' \<and> m = 0 \<longrightarrow> (\<exists>msg. GetNextBackupTime fuel z n q = Panic msg))"
proof -
  let ?q = "\<lambda>tod. p\<lparr>bp_TimespanOfDay := bp_TimesOfDay p, bp_Enabled := True, bp_TimesOfDay := tod\<rparr>"
  obtain tod where f: "bp_SnapshotFrequency p \<in> set plan_frequencies"
    and t: "policy_time zone now (bc_Name (pl_c o')) (bp_TimesOfDay p) = Ret tod"
    and wk: "bp_SnapshotFrequency p = ''@weekly'' \<Longrightarrow> 1 \<le> bp_DayOfWeek p \<and> bp_DayOfWeek p \<le> 7"
    and mo: "bp_SnapshotFrequency p = ''@monthly'' \<Longrightarrow> 1 \<le> bp_DateOfMonth p \<and> bp_DateOfMonth p \<le> 31"
    and q: "o'' = o'\<lparr>pl_c := (pl_c o')\<lparr>bc_BackupPolicies := Some (?q tod)\<rparr>\<rparr>"
    using assms(1,2) by (auto simp: validBackupPolicy_def derefO_def Let_def errf_def bindO_Ret_iff split: if_splits)
  obtain h m where tod: "tod = fmt_2d h @ '':'' @ fmt_2d m" and hm: "0 \<le> h" "h < 24" "0 \<le> m" "m < 60"
    using t assms(3) by (fastforce simp: policy_time_def ParseTimestampToLocal_def Let_def errf_def bindO_Ret_iff split: outcome.splits)
  have s: "Split tod '':'' = [fmt_2d h, fmt_2d m]" unfolding tod using hm by (intro Split_fmt_2d) auto
  have a: "Atoi (fmt_2d h) = Ret h" "Atoi (fmt_2d m) = Ret m" using hm by (simp_all add: Atoi_fmt_2d)
  have "i64 (bp_DayOfWeek p - 1) = bp_DayOfWeek p - 1" if "bp_SnapshotFrequency p = ''@weekly''"
    using wk[OF that] by (intro i64_id) (simp_all add: i64_range_def)
  then have "let cron = ParseToCron (bp_SnapshotFrequency p) tod (bp_DayOfWeek p) (bp_DateOfMonth p) in
         bp_SnapshotFrequency p = ''@daily'' \<and> cron = Ret (fmt_2d m @ '' '' @ fmt_2d h @ '' * * *'')
       \<or> bp_SnapshotFrequency p = ''@weekly'' \<and> 1 \<le> bp_DayOfWeek p \<and> bp_DayOfWeek p \<le> 7
           \<and> cron = Ret (fmt_2d m @ '' '' @ fmt_2d h @ '' * * '' @ Itoa (bp_DayOfWeek p - 1))
       \<or> bp_SnapshotFrequency p = ''@monthly'' \<and> 1 \<le> bp_DateOfMonth p \<and> bp_DateOfMonth p \<le> 31
           \<and> cron = Ret (fmt_2d m @ '' '' @ fmt_2d h @ '' '' @ Itoa (bp_DateOfMonth p) @ '' * *'')
       \<or> bp_SnapshotFrequency p = ''@hourly'' \<and> cron = Ret (''*/'' @ Itoa m @ '' * * * *'')"
    using f hm wk mo by (auto simp: ParseToCron_def s a Let_def plan_frequencies_def)
  moreover have "(bp_SnapshotFrequency p \<in> {''@daily'', ''@weekly''} \<or> bp_SnapshotFrequency p = ''@hourly'' \<and> m \<noteq> 0 \<longrightarrow>
         (\<exists>t. GetNextBackupTime fuel z n (?q tod) = Ret (Some t)))
    \<and> (bp_SnapshotFrequency p = ''@hourly'' \<and> m = 0 \<longrightarrow> (\<exists>msg. GetNextBackupTime fuel z n (?q tod) = Panic msg))"
    using a(2) by (auto simp: GetNextBackupTime_def s a(1) Let_def getNextBackupTimeByHourly_def)
  ultimately show ?thesis
    using hm tod by - (rule exI[of _ "?q tod"], rule exI[of _ h], rule exI[of _ m], simp add: q)
qed

theorem accepted_timestamp_schedules_witness:
  "\<exists>o'' q t. validBackupPolicy (\<lambda>_. 0) 0 (web_plan (web_policy (Itoa 48600000))) = Ret o'' \<and>
     bc_BackupPolicies (pl_c o'') = Some q \<and> GetNextBackupTime 1 0 0 q = Ret (Some t)"
proof -
  let ?o = "web_plan (web_policy (Itoa 48600000))"
  have c: "\<not> Contains (Itoa i) '':''" for i
    using Itoa_no_colon[of i] by (auto simp: Contains_iff)
  have "i64_range 48600000" by (simp add: i64_range_def)
  note t = ParseTimestampToLocal_zone_UTC[OF this]
  have "\<exists>o''. validBackupPolicy (\<lambda>_. 0) 0 ?o = Ret o''"
    by (simp add: validBackupPolicy_def web_plan_def NewBackupPlan_def web_policy_def derefO_def Let_def plan_frequencies_def
        policy_time_def c t)
  then obtain o'' where v: "validBackupPolicy (\<lambda>_. 0) 0 ?o = Ret o''" ..
  have p: "bc_BackupPolicies (pl_c ?o) = Some (web_policy (Itoa 48600000))" by (simp add: web_plan_def NewBackupPlan_def)
  have "\<not> Contains (bp_TimesOfDay (web_policy (Itoa 48600000))) '':''" by (simp add: web_policy_def c)
  from accepted_timestamp_schedules[OF v p this, of 1 0 0] v obtain q where q: "bc_BackupPolicies (pl_c o'') = Some q"
    and d: "bp_SnapshotFrequency q \<in> {''@daily'', ''@weekly''} \<Longrightarrow> \<exists>t. GetNextBackupTime 1 0 0 q = Ret (Some t)" by blast
  have "bp_SnapshotFrequency q = ''@daily''"
    using v q by (auto simp: validBackupPolicy_def web_plan_def NewBackupPlan_def web_policy_def derefO_def Let_def plan_frequencies_def
        bindO_Ret_iff)
  then show ?thesis using v q d by auto
qed

lemma policy_time_colon:
  assumes "Split tod '':'' = [hour, minute]"
  shows "policy_time zone now name tod = Ret tod"
proof -
  have "Contains tod '':''"
  proof (rule ccontr)
    assume "\<not> Contains tod '':''"
    then have "CHR '':'' \<notin> set tod" by (auto simp: Contains_iff in_set_conv_decomp)
    then show False using assms by simp
  qed
  then show ?thesis by (simp add: policy_time_def assms)
qed

text \<open>A time with a colon is only checked to have one: \<open>validBackupPolicy\<close> accepts an hour that is no
  number, as it is. For the plan that was then stored there is no next time, and building the answer of
  \<open>addBackup\<close> dereferences it: a panic after the plan has been created.\<close>

theorem accepted_policy_breaks_the_answer:
  assumes "bc_BackupPolicies (pl_c o') = Some p" and "bp_SnapshotFrequency p \<in> {''@hourly'', ''@daily''}"
    and "Split (bp_TimesOfDay p) '':'' = [hour, minute]" and "Atoi hour = Fail e"
    and "GetBackupLocationConfig backup = Ret cfg" and "bs_BackupPolicy (bk_Spec backup) = Some q"
    and "q = p\<lparr>bp_TimespanOfDay := bp_TimesOfDay p, bp_Enabled := True\<rparr>"
  shows "validBackupPolicy zone now o' = Ret (o'\<lparr>pl_c := (pl_c o')\<lparr>bc_BackupPolicies := Some q\<rparr>\<rparr>)
    \<and> parseResponseBackupCreate (GetNextBackupTime fuel z n) backup = Panic nil_deref"
proof
  have "policy_time zone now (bc_Name (pl_c o')) (bp_TimesOfDay p) = Ret (bp_TimesOfDay p)"
    by (rule policy_time_colon[OF assms(3)])
  then show "validBackupPolicy zone now o' = Ret (o'\<lparr>pl_c := (pl_c o')\<lparr>bc_BackupPolicies := Some q\<rparr>\<rparr>)"
    using assms(1,2,7) by (auto simp: validBackupPolicy_def derefO_def Let_def plan_frequencies_def)
  have "GetNextBackupTime fuel z n q = Ret None"
    using assms(3,4,7) by (simp add: GetNextBackupTime_def Let_def)
  then show "parseResponseBackupCreate (GetNextBackupTime fuel z n) backup = Panic nil_deref"
    using assms(5,6) by (simp add: parseResponseBackupCreate_def derefO_def Let_def split: prod.split)
qed

theorem accepted_policy_breaks_the_answer_witness:
  "\<exists>o''. validBackupPolicy (\<lambda>_. 0) 0 (web_plan (web_policy ''a:b'')) = Ret o''"
proof -
  let ?p = "web_policy ''a:b''"
  let ?q = "?p\<lparr>bp_TimespanOfDay := bp_TimesOfDay ?p, bp_Enabled := True\<rparr>"
  let ?b = "set_bk_spec (\<lambda>s. s\<lparr>bs_BackupPolicy := Some ?q\<rparr>) (sample_backup ''b1'' 10 False)"
  have a: "\<exists>e. Atoi ''a'' = Fail e" by (simp add: Atoi_def parse_int_def digit_val_def Let_def)
  then obtain e where a: "Atoi ''a'' = Fail e" ..
  have s: "Split (bp_TimesOfDay ?p) '':'' = [''a'', ''b'']"
    using Split_append_char[of "CHR '':''" "''a''" "''b''"] by (simp add: web_policy_def)
  have l: "GetBackupLocationConfig ?b = Ret None"
    by (simp add: GetBackupLocationConfig_def set_bk_spec_def sample_backup_def sample_spec_def)
  have p: "bc_BackupPolicies (pl_c (web_plan ?p)) = Some ?p" by (simp add: web_plan_def NewBackupPlan_def)
  have f: "bp_SnapshotFrequency ?p \<in> {''@hourly'', ''@daily''}" by (simp add: web_policy_def)
  have q: "bs_BackupPolicy (bk_Spec ?b) = Some ?q" by (simp add: set_bk_spec_def)
  show ?thesis
    using accepted_policy_breaks_the_answer[OF p f s a l q refl, of "\<lambda>_. 0" 0 1 0 0] by blast
qed

text \<open>C36: a monthly plan whose time is two numbers around a colon, of which the hour is not in 0 to 23 or the minute
  not in 0 to 59, on a day from 1 to 31 (any other day is refused). \<open>validBackupPolicy\<close> accepts the request and
  keeps the time as it is; for the plan that was then stored, its location being readable, the search for its
  next time never ends at any time after the start of the year 1, so building the answer of \<open>addBackup\<close> does not
  return either. (A time that
  comes as a timestamp is never out of range.)\<close>

theorem accepted_monthly_policy_hangs:
  assumes "bc_BackupPolicies (pl_c o') = Some p" and "bp_SnapshotFrequency p = ''@monthly''"
    and "1 \<le> bp_DateOfMonth p" "bp_DateOfMonth p \<le> 31" and "Split (bp_TimesOfDay p) '':'' = [hour, minute]"
    and "Atoi hour = Ret h" "Atoi minute = Ret m" "\<not> (0 \<le> h \<and> h \<le> 23) \<or> \<not> (0 \<le> m \<and> m \<le> 59)" and "0 < n"
    and "GetBackupLocationConfig backup = Ret cfg" and "bs_BackupPolicy (bk_Spec backup) = Some q"
    and "q = p\<lparr>bp_TimespanOfDay := bp_TimesOfDay p, bp_Enabled := True\<rparr>"
  shows "validBackupPolicy zone now o' = Ret (o'\<lparr>pl_c := (pl_c o')\<lparr>bc_BackupPolicies := Some q\<rparr>\<rparr>)
    \<and> GetNextBackupTime fuel z n q = Diverge
    \<and> parseResponseBackupCreate (GetNextBackupTime fuel z n) backup = Diverge"
proof (intro conjI)
  have "policy_time zone now (bc_Name (pl_c o')) (bp_TimesOfDay p) = Ret (bp_TimesOfDay p)"
    by (rule policy_time_colon[OF assms(5)])
  then show "validBackupPolicy zone now o' = Ret (o'\<lparr>pl_c := (pl_c o')\<lparr>bc_BackupPolicies := Some q\<rparr>\<rparr>)"
    using assms(1-4,12) by (simp add: validBackupPolicy_def derefO_def Let_def plan_frequencies_def)
  have "getNextBackupTimeByMonthly fuel n h m (bp_DateOfMonth p) = None"
    by (rule monthly_invalid_never_returns) (use assms(8,9) in auto)
  then show d: "GetNextBackupTime fuel z n q = Diverge"
    using assms(2,5-7,12) by (simp add: GetNextBackupTime_def Let_def)
  show "parseResponseBackupCreate (GetNextBackupTime fuel z n) backup = Diverge"
    using assms(10,11) d by (simp add: parseResponseBackupCreate_def derefO_def Let_def split: prod.split)
qed

theorem accepted_monthly_policy_hangs_witness:
  "\<exists>o''. validBackupPolicy (\<lambda>_. 0) 0 (web_plan midnight_policy) = Ret o''
    \<and> (\<forall>fuel. GetNextBackupTime fuel 0 1 (midnight_policy\<lparr>bp_TimespanOfDay := bp_TimesOfDay midnight_policy, bp_Enabled := True\<rparr>) = Diverge)"
proof -
  let ?p = midnight_policy
  let ?q = "?p\<lparr>bp_TimespanOfDay := bp_TimesOfDay ?p, bp_Enabled := True\<rparr>"
  let ?b = "set_bk_spec (\<lambda>s. s\<lparr>bs_BackupPolicy := Some ?q\<rparr>) (sample_backup ''b1'' 10 False)"
  have s: "Split (bp_TimesOfDay ?p) '':'' = [Itoa 24, Itoa 0]" by (simp only: midnight_policy_def BackupPolicy.simps Split_times)
  have a: "Atoi (Itoa 24) = Ret 24" "Atoi (Itoa 0) = Ret 0" by (rule Atoi_Itoa, simp add: i64_range_def)+
  have l: "GetBackupLocationConfig ?b = Ret None"
    by (simp add: GetBackupLocationConfig_def set_bk_spec_def sample_backup_def sample_spec_def)
  have p: "bc_BackupPolicies (pl_c (web_plan ?p)) = Some ?p" by (simp add: web_plan_def NewBackupPlan_def)
  have f: "bp_SnapshotFrequency ?p = ''@monthly''" "1 \<le> bp_DateOfMonth ?p" "bp_DateOfMonth ?p \<le> 31" by (simp_all add: midnight_policy_def)
  have q: "bs_BackupPolicy (bk_Spec ?b) = Some ?q" by (simp add: set_bk_spec_def)
  have *: "validBackupPolicy (\<lambda>_. 0) 0 (web_plan ?p) = Ret ((web_plan ?p)\<lparr>pl_c := (pl_c (web_plan ?p))\<lparr>bc_BackupPolicies := Some ?q\<rparr>\<rparr>)
      \<and> GetNextBackupTime fuel 0 1 ?q = Diverge \<and> parseResponseBackupCreate (GetNextBackupTime fuel 0 1) ?b = Diverge" for fuel
    by (rule accepted_monthly_policy_hangs[OF p f s a _ _ l q refl]) simp_all
  then show ?thesis by blast
qed

lemma addBackup_checks:
  assumes "addBackup v (Ret b) owner w = (Ret (Ok d), w')"
  shows "verify_backup b = Ret () \<and> bc_Location b \<noteq> [] \<and> bc_LocationConfig b \<noteq> None \<and> owner \<noteq> []
    \<and> validLocation (NewBackupPlan owner b) = Ret ()
    \<and> (\<exists>e w1. backup_GetByLabel v (''name='' @ k_md5 v (bc_Name b) @ '',owner='' @ owner) w = (Fail e, w1) \<and> IsNotFound e)"
proof -
  obtain e w1 w2 backup where c: "verify_backup b = Ret ()" "bc_Location b \<noteq> []" "bc_LocationConfig b \<noteq> None"
    and e: "backup_GetByLabel v (''name='' @ k_md5 v (bc_Name b) @ '',owner='' @ owner) w = (Fail e, w1)" "IsNotFound e"
    and a: "Apply v (NewBackupPlan owner b) w1 = (Ret backup, w2)"
    using assms by (auto simp: addBackup_def read_entity_def fail_with_def handle_error_def WithMessage_def tryG_Ret_iff split: if_splits)
  from a have "owner \<noteq> [] \<and> validLocation (NewBackupPlan owner b) = Ret ()"
    by (auto simp: Apply_def validate_def NewBackupPlan_def bindG_Ret_iff split: if_splits)
  with c e show ?thesis by blast
qed

text \<open>C14: a request that fails one of the checks is never answered with a created plan, whatever the
  services answer: the request must be verified, name a location and its configuration, the location must be
  one of the four kinds with what that kind needs, an owner must be given, and the lookup by the name label
  of this owner must report that no plan has it (a lookup that fails otherwise refuses too).\<close>

theorem addBackup_refuses:
  assumes "verify_backup b \<noteq> Ret () \<or> bc_Location b = [] \<or> bc_LocationConfig b = None \<or> owner = []
    \<or> validLocation (NewBackupPlan owner b) \<noteq> Ret ()
    \<or> (\<forall>e w1. backup_GetByLabel v (''name='' @ k_md5 v (bc_Name b) @ '',owner='' @ owner) w = (Fail e, w1) \<longrightarrow> \<not> IsNotFound e)"
  shows "fst (addBackup v (Ret b) owner w) \<noteq> Ret (Ok d)"
  using assms addBackup_checks[of v b owner w d] by (metis prod.collapse)

theorem addBackup_refuses_witness:
  "fst (addBackup mem_web (Ret (pl_c (web_plan (web_policy ''07:30'')))) [] web_store) \<noteq> Ret (Ok None)"
  by (rule addBackup_refuses) simp

section \<open>The list of plans\<close>

text \<open>An item is well formed for a list of snapshots: it is Completed and names a Completed snapshot of its
  plan, with that snapshot's size, or it is Pending, without a snapshot and of size 0.\<close>

definition item_ok :: "Snapshot list \<Rightarrow> ResponseBackupList \<Rightarrow> bool" where
  "item_ok ss r \<longleftrightarrow>
     (bl_Status r = phase_String Completed \<and> (\<exists>s \<in> set ss. sn_Name s = bl_SnapshotId r \<and> ss_BackupId (sn_Spec s) = bl_Id r
        \<and> ss_Phase (sn_Spec s) = Some (phase_String Completed) \<and> bl_Size r = ParseSnapshotSize (ss_Size (sn_Spec s))))
     \<or> (bl_Status r = phase_String Pending \<and> bl_SnapshotId r = [] \<and> bl_Size r = ''0''
        \<and> (\<forall>s \<in> set ss. ss_BackupId (sn_Spec s) = bl_Id r \<longrightarrow> ss_Phase (sn_Spec s) \<noteq> Some (phase_String Completed)))"

definition completed_table :: "Snapshot list \<Rightarrow> (string \<times> Snapshot) list \<Rightarrow> bool" where
  "completed_table ss bs \<longleftrightarrow> (\<forall>k s. map_of bs k = Some s \<longrightarrow>
     s \<in> set ss \<and> ss_BackupId (sn_Spec s) = k \<and> ss_Phase (sn_Spec s) = Some (phase_String Completed))"

lemma completed_of_table:
  "completed_of bs ss = Ret bs' \<Longrightarrow> completed_table (done @ ss) bs \<Longrightarrow> completed_table (done @ ss) bs' \<and>
     (\<forall>k. map_of bs k \<noteq> None \<longrightarrow> map_of bs' k \<noteq> None) \<and>
     (\<forall>s \<in> set ss. ss_Phase (sn_Spec s) = Some (phase_String Completed) \<longrightarrow> map_of bs' (ss_BackupId (sn_Spec s)) \<noteq> None)"
proof (induction bs ss arbitrary: "done" rule: completed_of.induct)
  case (2 bs s r)
  obtain phase where p: "ss_Phase (sn_Spec s) = Some phase"
    using 2(3) by (cases "ss_Phase (sn_Spec s)") (simp_all add: derefO_def)
  show ?case
  proof (cases "phase \<noteq> phase_String Completed \<or> map_of bs (ss_BackupId (sn_Spec s)) \<noteq> None")
    case True
    then have c: "completed_of bs r = Ret bs'" using 2(3) p by (simp add: derefO_def)
    have "completed_table ((done @ [s]) @ r) bs" using 2(4) by simp
    from 2(1)[OF True c this] show ?thesis using True p by auto
  next
    case False
    then have c: "completed_of (mput bs (ss_BackupId (sn_Spec s)) s) r = Ret bs'" using 2(3) p by (simp add: derefO_def)
    have "completed_table ((done @ [s]) @ r) (mput bs (ss_BackupId (sn_Spec s)) s)"
      using 2(4) False p by (auto simp: completed_table_def)
    from 2(2)[OF False c this] show ?thesis by (auto split: if_splits)
  qed
qed auto

lemma backup_item_ok:
  assumes "completed_table ss bs" and "backup_item title next bs backup = Ret (Some r)"
    and "\<forall>s \<in> set ss. ss_Phase (sn_Spec s) = Some (phase_String Completed) \<longrightarrow> map_of bs (ss_BackupId (sn_Spec s)) \<noteq> None"
  shows "item_ok ss r"
proof (cases "map_of bs (bk_Name backup)")
  case None
  then have "bl_Id r = bk_Name backup \<and> bl_Status r = phase_String Pending \<and> bl_SnapshotId r = [] \<and> bl_Size r = ''0''"
    using assms(2) by (auto simp: backup_item_def Let_def bindO_Ret_iff split: outcome.splits prod.splits)
  then show ?thesis using assms(3) None by (auto simp: item_ok_def)
next
  case (Some s)
  then have s: "s \<in> set ss" "ss_BackupId (sn_Spec s) = bk_Name backup" "ss_Phase (sn_Spec s) = Some (phase_String Completed)"
    using assms(1) by (auto simp: completed_table_def)
  then have "bl_Id r = bk_Name backup \<and> bl_Status r = phase_String Completed \<and> bl_SnapshotId r = sn_Name s \<and>
      bl_Size r = ParseSnapshotSize (ss_Size (sn_Spec s))"
    using assms(2) Some by (auto simp: backup_item_def derefO_def Let_def bindO_Ret_iff split: outcome.splits prod.splits)
  then show ?thesis using s by (auto simp: item_ok_def)
qed

lemma collectO_set: "collectO f xs = Ret ys \<Longrightarrow> y \<in> set ys \<Longrightarrow> \<exists>x. f x = Ret (Some y)"
proof -
  assume "collectO f xs = Ret ys" and y: "y \<in> set ys"
  then obtain zs where z: "mapO f xs = Ret zs" and "ys = List.map_filter id zs"
    by (auto simp: collectO_def bindO_Ret_iff)
  then have y: "Some y \<in> set zs" using y by (auto simp: List.map_filter_def)
  have "list_all2 (\<lambda>x z. f x = Ret z) xs zs" using z by (simp only: mapO_Ret)
  then show ?thesis using y by (induction rule: list_all2_induct) auto
qed

text \<open>C15: every item of the list of plans is well formed: its status is Completed or Pending only,
  Completed with the name and size of a Completed snapshot of that plan, Pending exactly when the plan has
  no Completed snapshot (a running, failed or cancelled last snapshot does not show).\<close>

theorem backup_list_items_ok:
  assumes "parseResponseBackupList title next data ss totalPage = Ret info" and "li_Backups info = Some items"
    and "r \<in> set items"
  shows "item_ok ss r"
proof -
  obtain bs where bs: "completed_of [] ss = Ret bs" and c2: "collectO (backup_item title next bs) data = Ret items"
  proof -
    have "data \<noteq> []" using assms by (auto simp: parseResponseBackupList_def)
    then obtain bs res where c: "completed_of [] ss = Ret bs" "collectO (backup_item title next bs) data = Ret res"
      and i: "info = \<lparr>li_TotalPage = totalPage, li_Backups = (if res = [] then None else Some res)\<rparr>"
      using assms(1) by (simp add: parseResponseBackupList_def bindO_Ret_iff) blast
    then have "res = items" using assms(2) by (simp split: if_splits)
    with c that show ?thesis by simp
  qed
  obtain backup where "backup_item title next bs backup = Ret (Some r)"
    using collectO_set[OF c2 assms(3)] by blast
  moreover have "completed_table ss [] " by (simp add: completed_table_def)
  ultimately show ?thesis
    using completed_of_table[OF bs, of "[]"] by (auto intro: backup_item_ok)
qed

text \<open>A plan with a failed snapshot after a completed one.\<close>

theorem backup_list_items_ok_witness:
  "\<exists>info items. parseResponseBackupList (\<lambda>s. s) (\<lambda>_. Ret None)
       [set_bk_spec (\<lambda>s. s\<lparr>bs_BackupPolicy := Some (web_policy ''07:30''), bs_CreateAt := Some 0\<rparr>) (sample_backup ''b1'' 10 False)]
       [sample_snapshot ''s2'' Failed, sample_snapshot ''s1'' Completed] 1 = Ret info \<and> li_Backups info = Some items \<and>
     item_ok [sample_snapshot ''s2'' Failed, sample_snapshot ''s1'' Completed] (hd items) \<and> items \<noteq> []"
proof -
  let ?b = "set_bk_spec (\<lambda>s. s\<lparr>bs_BackupPolicy := Some (web_policy ''07:30''), bs_CreateAt := Some 0\<rparr>) (sample_backup ''b1'' 10 False)"
  let ?ss = "[sample_snapshot ''s2'' Failed, sample_snapshot ''s1'' Completed]"
  have s: "ss_Phase (sn_Spec (sample_snapshot n ph)) = Some (phase_String ph)" "ss_BackupId (sn_Spec (sample_snapshot n ph)) = ''b1''" for n ph
    by (simp_all add: sample_snapshot_def new_snapshot_def set_sn_spec_def sample_backup_def)
  have c: "completed_of [] ?ss = Ret [(''b1'', sample_snapshot ''s1'' Completed)]"
    by (simp add: s derefO_def)
  have "GetBackupLocationConfig ?b = Ret None" "bk_Name ?b = ''b1''" "bs_BackupPolicy (bk_Spec ?b) = Some (web_policy ''07:30'')"
    "bs_CreateAt (bk_Spec ?b) = Some 0"
    by (simp_all add: GetBackupLocationConfig_def set_bk_spec_def sample_backup_def sample_spec_def)
  then have "\<exists>r. backup_item (\<lambda>s. s) (\<lambda>_. Ret None) [(''b1'', sample_snapshot ''s1'' Completed)] ?b = Ret (Some r)"
    by (simp add: backup_item_def shown_location_def Let_def derefO_def unix_of_def s)
  then obtain r where "backup_item (\<lambda>s. s) (\<lambda>_. Ret None) [(''b1'', sample_snapshot ''s1'' Completed)] ?b = Ret (Some r)" ..
  then have "parseResponseBackupList (\<lambda>s. s) (\<lambda>_. Ret None) [?b] ?ss 1 = Ret \<lparr>li_TotalPage = 1, li_Backups = Some [r]\<rparr>"
    unfolding parseResponseBackupList_def c by (simp add: collectO_def List.map_filter_def)
  from backup_list_items_ok[OF this, of "[r]" r] this show ?thesis by force
qed

end
