(* ===== verification/WorkerRefine.thy ===== *)
theory WorkerRefine
  imports Worker
begin

text \<open>
  What \<open>pkg/worker\<close> promises to its callers: every owner has a first-in first-out queue of jobs that run
  one at a time, a job can be cancelled while it waits, and the owners do not see each other. The pools,
  with their tables, references and flags, refine this specification as long as no task is submitted
  under the id of a task that is still in the table (\<open>resubmitted_snapshot_queued_twice\<close> in the theory
  \<open>Worker\<close> shows what happens otherwise).
\<close>

section \<open>The specification\<close>

text \<open>The jobs that wait, each with its cancelled flag, and the job that runs.\<close>

record apool =
  ap_waiting :: "(TaskKind \<times> bool) list"
  ap_running :: "TaskKind option"

datatype action = Skip | Submit string TaskKind | Cancel string "TaskKind \<Rightarrow> bool" | Take string | Done string

definition apool_idle :: apool where
  "apool_idle = \<lparr>ap_waiting = [], ap_running = None\<rparr>"

definition a_submit :: "TaskKind \<Rightarrow> apool \<Rightarrow> apool" where
  "a_submit k a = a\<lparr>ap_waiting := ap_waiting a @ [(k, False)]\<rparr>"

definition a_cancel :: "(TaskKind \<Rightarrow> bool) \<Rightarrow> apool \<Rightarrow> apool" where
  "a_cancel P a = a\<lparr>ap_waiting := map (\<lambda>(k, c). (k, c \<or> P k)) (ap_waiting a)\<rparr>"

definition a_take :: "apool \<Rightarrow> apool" where
  "a_take a = (case ap_waiting a of [] \<Rightarrow> a
     | (k, c) # q \<Rightarrow> a\<lparr>ap_waiting := q, ap_running := (if c then None else Some k)\<rparr>)"

definition a_done :: "apool \<Rightarrow> apool" where
  "a_done a = a\<lparr>ap_running := None\<rparr>"

fun aexec :: "string \<Rightarrow> action \<Rightarrow> apool \<Rightarrow> apool" where
  "aexec o' Skip a = a"
| "aexec o' (Submit owner k) a = (if owner = o' then a_submit k a else a)"
| "aexec o' (Cancel owner P) a = (if owner = o' then a_cancel P a else a)"
| "aexec o' (Take owner) a = (if owner = o' then a_take a else a)"
| "aexec o' (Done owner) a = (if owner = o' then a_done a else a)"

section \<open>The steps of the worker\<close>

definition fresh_task :: "WorkerPool \<Rightarrow> string \<Rightarrow> string \<Rightarrow> bool" where
  "fresh_task w owner k \<longleftrightarrow> (\<forall>p. pool_of w owner = Some p \<longrightarrow> task_Load k p = None)"

definition outcome_action :: "unit outcome \<Rightarrow> action \<Rightarrow> action" where
  "outcome_action res act = (if res = Ret () then act else Skip)"

fun of_backup :: "string \<Rightarrow> TaskKind \<Rightarrow> bool" where
  "of_backup b (BackupTask b' s) = (b' = b)"
| "of_backup b (RestoreTask i) = False"

fun of_snapshot :: "string \<Rightarrow> TaskKind \<Rightarrow> bool" where
  "of_snapshot s (BackupTask b s') = (s' = s)"
| "of_snapshot s (RestoreTask i) = False"

fun of_restore :: "string \<Rightarrow> TaskKind \<Rightarrow> bool" where
  "of_restore i (RestoreTask i') = (i' = i)"
| "of_restore i (BackupTask b s) = False"

inductive gstep :: "action \<Rightarrow> WorkerPool \<Rightarrow> WorkerPool \<Rightarrow> bool" where
  submit_backup: "AddBackupTask accept owner b s w = (res, w') \<Longrightarrow> fresh_task w owner (b @ ''_'' @ s) \<Longrightarrow>
    gstep (outcome_action res (Submit owner (BackupTask b s))) w w'"
| submit_restore: "AddRestoreTask accept owner i w = (res, w') \<Longrightarrow> fresh_task w owner i \<Longrightarrow>
    gstep (outcome_action res (Submit owner (RestoreTask i))) w w'"
| cancel_backup: "CancelBackup owner b w = (res, w') \<Longrightarrow> gstep (Cancel owner (of_backup b)) w w'"
| cancel_snapshot: "CancelSnapshot owner s w = (res, w') \<Longrightarrow> gstep (Cancel owner (of_snapshot s)) w w'"
| cancel_restore: "CancelRestore owner i w = (res, w') \<Longrightarrow> gstep (Cancel owner (of_restore i)) w w'"
| start: "pool_of w owner = Some p \<Longrightarrow> task_start (wp_heap w) p = Some p' \<Longrightarrow> gstep (Take owner) w (set_pool owner p' w)"
| finish: "pool_of w owner = Some p \<Longrightarrow> tp_running p = Some (k, r) \<Longrightarrow>
    gstep (Done owner) w (set_pool owner (task_finish k p) w)"

inductive gsteps :: "action list \<Rightarrow> WorkerPool \<Rightarrow> WorkerPool \<Rightarrow> bool" where
  none: "gsteps [] w w"
| more: "gsteps acts w w' \<Longrightarrow> gstep act w' w'' \<Longrightarrow> gsteps (acts @ [act]) w w''"

text \<open>These are steps of the worker, so the invariant of \<open>Worker\<close> holds along them.\<close>

lemma gstep_wstep: "gstep act w w' \<Longrightarrow> wstep w w'"
  by (induction rule: gstep.induct) (blast intro: wstep.intros)+

section \<open>The abstraction\<close>

definition abs_entry :: "(nat \<Rightarrow> BaseTask option) \<Rightarrow> string \<times> nat \<Rightarrow> TaskKind \<times> bool" where
  "abs_entry h e = (case h (snd e) of Some t \<Rightarrow> (bt_kind t, bt_canceled t) | None \<Rightarrow> (RestoreTask [], True))"

definition abs_pool :: "(nat \<Rightarrow> BaseTask option) \<Rightarrow> TaskPool \<Rightarrow> apool" where
  "abs_pool h p = \<lparr>ap_waiting = map (abs_entry h) (tp_queue p), ap_running = map_option (fst \<circ> abs_entry h) (tp_running p)\<rparr>"

definition apool_of :: "WorkerPool \<Rightarrow> string \<Rightarrow> apool" where
  "apool_of w owner = (case pool_of w owner of None \<Rightarrow> apool_idle | Some p \<Rightarrow> abs_pool (wp_heap w) p)"

section \<open>The invariant of the simulation\<close>

definition waiting_or_running :: "TaskPool \<Rightarrow> (string \<times> nat) list" where
  "waiting_or_running p = (case tp_running p of None \<Rightarrow> [] | Some e \<Rightarrow> [e]) @ tp_queue p"

definition good_pool :: "(nat \<Rightarrow> BaseTask option) \<Rightarrow> string \<Rightarrow> TaskPool \<Rightarrow> bool" where
  "good_pool h owner p \<longleftrightarrow> distinct (map fst (waiting_or_running p)) \<and> set (tp_tasks p) = set (waiting_or_running p)
     \<and> (\<forall>e \<in> set (tp_tasks p). \<exists>t. h (snd e) = Some t \<and> bt_owner t = owner)
     \<and> tp_active p = map_option snd (tp_running p)"

definition good :: "WorkerPool \<Rightarrow> bool" where
  "good w \<longleftrightarrow> (\<forall>owner p. pool_of w owner = Some p \<longrightarrow> good_pool (wp_heap w) owner p) \<and> (\<forall>r \<ge> wp_next w. wp_heap w r = None)"

lemma good_new_pool: "good_pool h owner new_pool"
  by (simp add: good_pool_def new_pool_def waiting_or_running_def)

lemma good_init: "good NewWorkerPool"
  by (simp add: good_def NewWorkerPool_def pool_of_def)

lemma pool_of_set_pool: "pool_of (set_pool owner p w) o' = (if o' = owner then Some p else pool_of w o')"
  by (simp add: pool_of_def set_pool_def)

lemma set_pool_fields [simp]: "wp_heap (set_pool owner p w) = wp_heap w" "wp_next (set_pool owner p w) = wp_next w"
  by (simp_all add: set_pool_def)

text \<open>A change of one pool, or of the heap at the tasks of one owner only.\<close>

lemma good_set_pool: "good w \<Longrightarrow> good_pool (wp_heap w) owner p \<Longrightarrow> good (set_pool owner p w)"
  by (simp add: good_def pool_of_set_pool)

lemma apool_of_set_pool: "apool_of (set_pool owner p w) o' = (if o' = owner then abs_pool (wp_heap w) p else apool_of w o')"
  by (simp add: apool_of_def pool_of_set_pool split: option.split)

lemma good_pool_of: "good w \<Longrightarrow> pool_of w owner = Some p \<Longrightarrow> good_pool (wp_heap w) owner p"
  by (simp add: good_def)

lemma good_pool_entry: "good_pool h owner p \<Longrightarrow> e \<in> set (tp_tasks p) \<Longrightarrow> \<exists>t. h (snd e) = Some t \<and> bt_owner t = owner"
  unfolding good_pool_def by blast

lemma good_pool_heap:
  "good_pool h owner p \<Longrightarrow> (\<And>r t. h r = Some t \<Longrightarrow> \<exists>t'. h' r = Some t' \<and> bt_owner t' = bt_owner t) \<Longrightarrow> good_pool h' owner p"
  by (fastforce simp: good_pool_def)

lemma abs_entry_fresh: "good_pool h owner p \<Longrightarrow> h n = None \<Longrightarrow> e \<in> set (waiting_or_running p) \<Longrightarrow> abs_entry (h(n \<mapsto> t)) e = abs_entry h e"
  by (fastforce simp: good_pool_def abs_entry_def)

lemma abs_pool_cong:
  "(\<And>e. e \<in> set (waiting_or_running p) \<Longrightarrow> abs_entry h' e = abs_entry h e) \<Longrightarrow> abs_pool h' p = abs_pool h p"
  by (cases "tp_running p") (auto simp: abs_pool_def waiting_or_running_def)

lemma abs_pool_fresh: "good_pool h owner p \<Longrightarrow> h n = None \<Longrightarrow> abs_pool (h(n \<mapsto> t)) p = abs_pool h p"
  by (rule abs_pool_cong) (rule abs_entry_fresh)

section \<open>Submissions\<close>

lemma set_mput_fresh: "map_of m k = None \<Longrightarrow> set (mput m k v) = insert (k, v) (set m)"
  by (induction m k v rule: mput.induct) (auto split: if_splits)

text \<open>The pool that a submission starts from, and what is left of it when the pool rejects the task.\<close>

definition start_pool :: "WorkerPool \<Rightarrow> string \<Rightarrow> TaskPool" where
  "start_pool w owner = (case pool_of w owner of None \<Rightarrow> new_pool | Some p \<Rightarrow> p)"

lemma good_start_pool: "good w \<Longrightarrow> good_pool (wp_heap w) owner (start_pool w owner)"
  by (simp add: start_pool_def good_pool_of good_new_pool split: option.split)

lemma abs_start_pool: "abs_pool (wp_heap w) (start_pool w owner) = apool_of w owner"
  by (simp add: start_pool_def apool_of_def abs_pool_def new_pool_def apool_idle_def split: option.split)

lemma set_get_pool:
  "set_pool owner p (snd (GetOrCreateUserPool owner w)\<lparr>wp_heap := h, wp_next := n\<rparr>) =
   set_pool owner p (w\<lparr>wp_heap := h, wp_next := n\<rparr>) \<or> pool_of w owner = None"
  by (simp add: GetOrCreateUserPool_def split: option.split)

lemma addTask_pools:
  assumes "addTask accept owner k kind w = (res, w')"
  obtains t where "bt_kind t = kind" "bt_owner t = owner" "\<not> bt_canceled t"
    "wp_heap w' = (wp_heap w)(wp_next w \<mapsto> t)" "wp_next w' = Suc (wp_next w)"
    "\<And>o'. o' \<noteq> owner \<Longrightarrow> pool_of w' o' = pool_of w o'"
    "pool_of w' owner = Some (if res = Ret ()
       then (task_Store k (wp_next w) (start_pool w owner))\<lparr>tp_queue := tp_queue (start_pool w owner) @ [(k, wp_next w)]\<rparr>
       else task_Delete k (task_Store k (wp_next w) (start_pool w owner)))"
proof -
  have "fst (GetOrCreateUserPool owner w) = start_pool w owner" "wp_next (snd (GetOrCreateUserPool owner w)) = wp_next w"
    "wp_heap (snd (GetOrCreateUserPool owner w)) = wp_heap w"
    "\<And>o'. o' \<noteq> owner \<Longrightarrow> pool_of (snd (GetOrCreateUserPool owner w)) o' = pool_of w o'"
    by (simp_all add: GetOrCreateUserPool_def start_pool_def pool_of_set_pool split: option.split)
  then show thesis
    using assms by (intro that[of "the (wp_heap w' (wp_next w))"])
      (auto simp: addTask_def Let_def pool_of_def set_pool_def task_Store_def split: prod.splits if_splits)
qed

lemma good_pool_submit:
  assumes "good_pool h owner p" and "task_Load k p = None" and "h n = None" and "bt_owner t = owner"
  shows "good_pool (h(n \<mapsto> t)) owner ((task_Store k n p)\<lparr>tp_queue := tp_queue p @ [(k, n)]\<rparr>)"
proof -
  have "k \<notin> fst ` set (waiting_or_running p)"
    using assms(1,2) by (simp add: good_pool_def task_Load_def map_of_eq_None_iff)
  then show ?thesis
    using assms by (cases "tp_running p")
      (auto simp: good_pool_def task_Load_def task_Store_def waiting_or_running_def set_mput_fresh)
qed

lemma good_pool_reject:
  assumes "good_pool h owner p" and "task_Load k p = None" and "h n = None"
  shows "good_pool (h(n \<mapsto> t)) owner (task_Delete k (task_Store k n p))"
    and "abs_pool (h(n \<mapsto> t)) (task_Delete k (task_Store k n p)) = abs_pool h p"
proof -
  have same: "waiting_or_running (task_Delete k (task_Store k n p)) = waiting_or_running p"
    by (simp add: waiting_or_running_def task_Delete_def task_Store_def)
  have "set (tp_tasks (task_Delete k (task_Store k n p))) = set (tp_tasks p)"
    using assms(2) by (auto simp: task_Delete_def task_Store_def task_Load_def set_mput_fresh map_of_eq_None_iff image_iff)
  then show "good_pool (h(n \<mapsto> t)) owner (task_Delete k (task_Store k n p))"
    using assms(1,3) unfolding good_pool_def same by (fastforce simp: task_Delete_def task_Store_def)
  show "abs_pool (h(n \<mapsto> t)) (task_Delete k (task_Store k n p)) = abs_pool h p"
    using abs_pool_fresh[OF assms(1,3), of t] by (simp add: abs_pool_def task_Delete_def task_Store_def)
qed

lemma addTask_refines:
  assumes "good w" and "fresh_task w owner k" and "addTask accept owner k kind w = (res, w')"
  shows "good w' \<and> (\<forall>o'. apool_of w' o' = aexec o' (outcome_action res (Submit owner kind)) (apool_of w o'))"
proof -
  let ?n = "wp_next w" and ?p = "start_pool w owner"
  obtain t where t: "bt_kind t = kind" "bt_owner t = owner" "\<not> bt_canceled t" "wp_heap w' = (wp_heap w)(?n \<mapsto> t)"
    "wp_next w' = Suc ?n" and other: "\<And>o'. o' \<noteq> owner \<Longrightarrow> pool_of w' o' = pool_of w o'"
    and own: "pool_of w' owner = Some (if res = Ret ()
       then (task_Store k ?n ?p)\<lparr>tp_queue := tp_queue ?p @ [(k, ?n)]\<rparr> else task_Delete k (task_Store k ?n ?p))"
    using addTask_pools[OF assms(3)] by metis
  have n: "wp_heap w ?n = None" using assms(1) by (simp add: good_def)
  have l: "task_Load k ?p = None"
    using assms(2) by (simp add: fresh_task_def start_pool_def new_pool_def task_Load_def split: option.splits)
  note g = good_start_pool[OF assms(1), of owner]
  have ab: "abs_pool ((wp_heap w)(?n \<mapsto> t)) ((task_Store k ?n ?p)\<lparr>tp_queue := tp_queue ?p @ [(k, ?n)]\<rparr>) =
      a_submit kind (apool_of w owner)"
    using abs_pool_fresh[OF g n, of t] t unfolding abs_start_pool[symmetric]
    by (simp add: abs_pool_def a_submit_def task_Store_def abs_entry_def)
  have good_own: "good_pool (wp_heap w') owner p" if "pool_of w' owner = Some p" for p
    using that good_pool_submit[OF g l n t(2)] good_pool_reject(1)[OF g l n, of t] by (simp add: own t(4) split: if_splits)
  have good_other: "good_pool (wp_heap w') o' p" if "o' \<noteq> owner" "pool_of w' o' = Some p" for o' p
  proof (rule good_pool_heap)
    show "good_pool (wp_heap w) o' p" using good_pool_of[OF assms(1)] that other by simp
    show "\<exists>t'. wp_heap w' r = Some t' \<and> bt_owner t' = bt_owner u" if "wp_heap w r = Some u" for r u
      using that n by (auto simp: t(4))
  qed
  have "good w'"
    unfolding good_def
  proof (intro conjI allI impI)
    show "good_pool (wp_heap w') o' p" if "pool_of w' o' = Some p" for o' p
      using that good_own good_other by (cases "o' = owner") simp_all
    show "wp_heap w' r = None" if "wp_next w' \<le> r" for r
      using that assms(1) by (simp add: t(4,5) good_def)
  qed
  moreover have "apool_of w' owner = aexec owner (outcome_action res (Submit owner kind)) (apool_of w owner)"
    using ab good_pool_reject(2)[OF g l n, of t] by (simp add: apool_of_def[of w'] own t(4) outcome_action_def abs_start_pool)
  moreover have "apool_of w' o' = aexec o' (outcome_action res (Submit owner kind)) (apool_of w o')" if "o' \<noteq> owner" for o'
    using abs_pool_fresh[OF good_pool_of[OF assms(1)] n] that
    by (simp add: apool_of_def other[OF that] t(4) outcome_action_def split: option.split)
  ultimately show ?thesis by metis
qed

section \<open>Cancellations\<close>

text \<open>The three cancel methods have one effect: they mark the tasks of the owner's table that match.\<close>

fun marks :: "(TaskKind \<Rightarrow> bool) \<Rightarrow> BaseTask option \<Rightarrow> BaseTask option \<Rightarrow> bool" where
  "marks M (Some t) (Some t') \<longleftrightarrow> bt_owner t' = bt_owner t \<and> bt_kind t' = bt_kind t \<and>
     (bt_canceled t' \<longleftrightarrow> bt_canceled t \<or> M (bt_kind t))"
| "marks M None None \<longleftrightarrow> True"
| "marks M a b \<longleftrightarrow> False"

definition in_table :: "WorkerPool \<Rightarrow> string \<Rightarrow> nat \<Rightarrow> bool" where
  "in_table w owner r \<longleftrightarrow> (case pool_of w owner of None \<Rightarrow> False | Some p \<Rightarrow> r \<in> snd ` set (tp_tasks p))"

definition marked :: "(TaskKind \<Rightarrow> bool) \<Rightarrow> string \<Rightarrow> WorkerPool \<Rightarrow> WorkerPool \<Rightarrow> bool" where
  "marked P owner w w' \<longleftrightarrow> wp_pools w' = wp_pools w \<and> wp_next w' = wp_next w \<and>
     (\<forall>r. marks (\<lambda>k. P k \<and> in_table w owner r) (wp_heap w r) (wp_heap w' r))"

lemma marks_same: "(\<And>k. \<not> M k) \<Longrightarrow> marks M a a"
  by (cases a) simp_all

lemma marks_ctx: "marks M a (map_option (bt_ctx_done_update f) b) = marks M a b"
  by (cases a; cases b) simp_all

lemma of_kind: "is_backup_task b = (\<lambda>t. of_backup b (bt_kind t))" "is_snapshot_task s = (\<lambda>t. of_snapshot s (bt_kind t))"
  "is_restore_task i = (\<lambda>t. of_restore i (bt_kind t))"
  by (auto simp: is_backup_task_def is_snapshot_task_def is_restore_task_def fun_eq_iff split: TaskKind.split)

lemma marked_refl: "pool_of w owner = None \<Longrightarrow> marked P owner w w"
  by (simp add: marked_def in_table_def marks_same)

lemma marked_mark:
  assumes "pool_of w owner = Some p"
  shows "marked P owner w (w\<lparr>wp_heap := mark_canceled (\<lambda>t. P (bt_kind t)) (snd ` set (tp_tasks p)) (wp_heap w)\<rparr>)"
proof -
  have "marks (\<lambda>k. P k \<and> in_table w owner r) (wp_heap w r)
      (mark_canceled (\<lambda>t. P (bt_kind t)) (snd ` set (tp_tasks p)) (wp_heap w) r)" for r
    using assms by (cases "wp_heap w r") (auto simp: in_table_def mark_canceled_def)
  then show ?thesis by (simp add: marked_def)
qed

lemma marked_ctx: "marked P owner w w' \<Longrightarrow> marked P owner w (cancel_ctx r w')"
  by (auto simp: marked_def cancel_ctx_def marks_ctx)

lemma marked_event: "marked P owner w w' \<Longrightarrow> marked P owner w (send_event e w')"
  by (simp add: marked_def send_event_def)

lemma marked_cancel_ctx: "marked P owner w w' \<Longrightarrow> marked P owner w (cancel_ctx r (send_event e w'))"
  by (intro marked_ctx marked_event)

lemma CancelBackup_marked: "CancelBackup owner b w = (res, w') \<Longrightarrow> marked (of_backup b) owner w w'"
  by (auto simp: CancelBackup_def Let_def of_kind split: option.splits TaskKind.splits if_splits
           intro: marked_refl marked_mark marked_cancel_ctx)

lemma CancelSnapshot_marked: "CancelSnapshot owner s w = (res, w') \<Longrightarrow> marked (of_snapshot s) owner w w'"
  by (auto simp: CancelSnapshot_def Let_def of_kind split: option.splits TaskKind.splits if_splits
           intro: marked_refl marked_mark marked_cancel_ctx)

lemma CancelRestore_marked: "CancelRestore owner i w = (res, w') \<Longrightarrow> marked (of_restore i) owner w w'"
  by (auto simp: CancelRestore_def Let_def of_kind split: option.splits TaskKind.splits if_splits
           intro: marked_refl marked_mark marked_cancel_ctx)

lemma marked_at: "marked P owner w w' \<Longrightarrow> marks (\<lambda>k. P k \<and> in_table w owner r) (wp_heap w r) (wp_heap w' r)"
  by (simp add: marked_def)

lemma marks_Some: "marks M a b \<Longrightarrow> a = Some t \<Longrightarrow>
    \<exists>t'. b = Some t' \<and> bt_owner t' = bt_owner t \<and> bt_kind t' = bt_kind t \<and> (bt_canceled t' \<longleftrightarrow> bt_canceled t \<or> M (bt_kind t))"
  by (cases b) simp_all

lemma marks_None: "marks M a b \<Longrightarrow> a = None \<Longrightarrow> b = None"
  by (cases b) simp_all

lemma good_in_table:
  assumes "good w" and "pool_of w o' = Some p" and "e \<in> set (tp_tasks p)"
  shows "in_table w owner (snd e) \<longleftrightarrow> owner = o'"
proof
  obtain t where t: "wp_heap w (snd e) = Some t" "bt_owner t = o'"
    using good_pool_entry[OF good_pool_of[OF assms(1,2)] assms(3)] by blast
  assume "in_table w owner (snd e)"
  then obtain q x where "pool_of w owner = Some q" "x \<in> set (tp_tasks q)" "snd x = snd e"
    by (auto simp: in_table_def split: option.splits)
  then show "owner = o'" using good_pool_entry[OF good_pool_of[OF assms(1)]] t by fastforce
qed (use assms(2,3) in \<open>auto simp: in_table_def\<close>)

lemma marked_entry:
  assumes "good w" and "marked P owner w w'" and "pool_of w o' = Some p" and "e \<in> set (waiting_or_running p)"
  shows "abs_entry (wp_heap w') e = (case abs_entry (wp_heap w) e of (k, c) \<Rightarrow> (k, c \<or> (owner = o' \<and> P k)))"
proof -
  have e: "e \<in> set (tp_tasks p)" using good_pool_of[OF assms(1,3)] assms(4) by (simp add: good_pool_def)
  then obtain t where t: "wp_heap w (snd e) = Some t"
    using good_pool_entry[OF good_pool_of[OF assms(1,3)]] by blast
  show ?thesis
    using marks_Some[OF marked_at[OF assms(2)] t] good_in_table[OF assms(1,3) e, of owner]
    by (auto simp: abs_entry_def t)
qed

lemma marked_refines:
  assumes "good w" and "marked P owner w w'"
  shows "good w' \<and> (\<forall>o'. apool_of w' o' = aexec o' (Cancel owner P) (apool_of w o'))"
proof (intro conjI allI)
  have pools: "pool_of w' o' = pool_of w o'" for o' using assms(2) by (simp add: marked_def pool_of_def)
  have heap: "wp_heap w r = Some t \<Longrightarrow> \<exists>t'. wp_heap w' r = Some t' \<and> bt_owner t' = bt_owner t" for r t
    using marks_Some[OF marked_at[OF assms(2)]] by blast
  have none: "wp_heap w r = None \<Longrightarrow> wp_heap w' r = None" for r
    by (rule marks_None[OF marked_at[OF assms(2)]])
  have "wp_next w' = wp_next w" using assms(2) by (simp add: marked_def)
  moreover have "good_pool (wp_heap w') o' p" if "pool_of w o' = Some p" for o' p
    by (rule good_pool_heap[OF good_pool_of[OF assms(1) that]]) (rule heap)
  ultimately show "good w'"
    using assms(1) none by (simp add: good_def pools)
  show "apool_of w' o' = aexec o' (Cancel owner P) (apool_of w o')" for o'
  proof (cases "pool_of w o'")
    case (Some p)
    have "abs_entry (wp_heap w') e = (case abs_entry (wp_heap w) e of (k, c) \<Rightarrow> (k, c \<or> (owner = o' \<and> P k)))"
      if "e \<in> set (tp_queue p) \<union> set_option (tp_running p)" for e
      by (rule marked_entry[OF assms Some]) (use that in \<open>cases "tp_running p"; auto simp: waiting_or_running_def\<close>)
    then show ?thesis
      by (cases "tp_running p") (auto simp: apool_of_def pools Some abs_pool_def a_cancel_def split: prod.splits)
  qed (simp add: apool_of_def pools apool_idle_def a_cancel_def)
qed

section \<open>Starts and ends of tasks\<close>

lemma good_pool_finish:
  assumes "good_pool h owner p" and "tp_running p = Some (k, r)"
  shows "good_pool h owner (task_finish k p)" and "abs_pool h (task_finish k p) = a_done (abs_pool h p)"
proof -
  have "k \<notin> fst ` set (tp_queue p)" using assms by (simp add: good_pool_def waiting_or_running_def)
  then have "{e \<in> insert (k, r) (set (tp_queue p)). fst e \<noteq> k} = set (tp_queue p)" by force
  then show "good_pool h owner (task_finish k p)"
    using assms by (auto simp: good_pool_def task_finish_def task_Delete_def waiting_or_running_def)
  show "abs_pool h (task_finish k p) = a_done (abs_pool h p)"
    by (simp add: abs_pool_def a_done_def task_finish_def task_Delete_def)
qed

lemma good_pool_start:
  assumes "good_pool h owner p" and "task_start h p = Some p'"
  shows "good_pool h owner p' \<and> abs_pool h p' = a_take (abs_pool h p)"
proof -
  obtain k r q where q: "tp_queue p = (k, r) # q" "tp_running p = None"
    using assms(2) by (auto simp: task_start_def split: option.splits list.splits prod.splits)
  then have "(k, r) \<in> set (tp_tasks p)" and k: "k \<notin> fst ` set q"
    using assms(1) by (auto simp: good_pool_def waiting_or_running_def)
  then obtain t where t: "h r = Some t" using good_pool_entry[OF assms(1)] by fastforce
  have "{e \<in> insert (k, r) (set q). fst e \<noteq> k} = set q" using k by force
  then have "good_pool h owner (task_finish k (p\<lparr>tp_queue := q\<rparr>))"
    using assms(1) q by (auto simp: good_pool_def task_finish_def task_Delete_def waiting_or_running_def)
  moreover have "good_pool h owner (p\<lparr>tp_queue := q, tp_running := Some (k, r), tp_active := Some r\<rparr>)"
    using assms(1) q by (simp add: good_pool_def waiting_or_running_def)
  ultimately show ?thesis
    using assms(2) q t by (auto simp: task_start_def abs_pool_def a_take_def abs_entry_def task_finish_def task_Delete_def)
qed

section \<open>The simulation\<close>

lemma gstep_refines:
  assumes "gstep act w w'" and "good w"
  shows "good w' \<and> (\<forall>o'. apool_of w' o' = aexec o' act (apool_of w o'))"
  using assms
proof (induction rule: gstep.induct)
  case (submit_backup accept owner b s w res w')
  then have "w' = w \<and> res \<noteq> Ret () \<or> addTask accept owner (b @ ''_'' @ s) (BackupTask b s) w = (res, w')"
    by (auto simp: AddBackupTask_def split: outcome.splits if_splits)
  then show ?case using submit_backup addTask_refines by (auto simp: outcome_action_def)
next
  case (submit_restore accept owner i w res w')
  then have "w' = w \<and> res \<noteq> Ret () \<or> addTask accept owner i (RestoreTask i) w = (res, w')"
    by (auto simp: AddRestoreTask_def split: if_splits)
  then show ?case using submit_restore addTask_refines by (auto simp: outcome_action_def)
next
  case (start w owner p p')
  with good_pool_start[OF good_pool_of[OF start(3,1)] start(2)] show ?case
    by (auto intro: good_set_pool simp: apool_of_set_pool) (simp add: apool_of_def)
next
  case (finish w owner p k r)
  with good_pool_finish[OF good_pool_of[OF finish(3,1)] finish(2)] show ?case
    by (auto intro: good_set_pool simp: apool_of_set_pool) (simp add: apool_of_def)
qed (blast intro: CancelBackup_marked CancelSnapshot_marked CancelRestore_marked marked_refines[THEN conjunct1]
       marked_refines[THEN conjunct2, rule_format])+

lemma gsteps_good: "gsteps acts w w' \<Longrightarrow> good w \<Longrightarrow> good w'"
  by (induction rule: gsteps.induct) (simp_all add: gstep_refines)

lemma gsteps_refine: "gsteps acts w w' \<Longrightarrow> good w \<Longrightarrow> apool_of w' o' = fold (aexec o') acts (apool_of w o')"
  by (induction rule: gsteps.induct) (simp_all add: gstep_refines gsteps_good)

text \<open>C1: the worker refines the specification of one queue per owner: along any sequence of
  submissions, cancellations, task starts and task ends from the empty worker, in which no task is
  submitted under an id that is still in the table, the waiting and running tasks of every owner are those
  of a first-in first-out queue whose jobs are cancelled in place and run one at a time.\<close>

theorem worker_refines_queues:
  assumes "gsteps acts NewWorkerPool w"
  shows "apool_of w owner = fold (aexec owner) acts apool_idle"
  using gsteps_refine[OF assms good_init, of owner] by (simp add: apool_of_def pool_of_def NewWorkerPool_def)

theorem worker_refines_queues_witness:
  "apool_of sample_worker ''alice'' = \<lparr>ap_waiting = [(BackupTask ''b1'' ''s1'', False)], ap_running = None\<rparr>"
proof -
  have "AddBackupTask (\<lambda>_. True) ''alice'' ''b1'' ''s1'' NewWorkerPool = (Ret (), sample_worker)"
    by (simp add: worker_eval)
  then have "gstep (outcome_action (Ret ()) (Submit ''alice'' (BackupTask ''b1'' ''s1''))) NewWorkerPool sample_worker"
    by (rule gstep.submit_backup) (simp add: fresh_task_def pool_of_def NewWorkerPool_def)
  from worker_refines_queues[OF gsteps.more[OF gsteps.none this], of "''alice''"] show ?thesis
    by (simp add: outcome_action_def a_submit_def apool_idle_def)
qed

end
