(* ===== verification/UrlJoin.thy ===== *)
theory UrlJoin
  imports RepoUrl
begin

text \<open>
  \<open>url.JoinPath\<close> of \<open>net/url\<close> and \<open>ReloadEnvDependantVars\<close> of \<open>pkg/constant/constant.go\<close>, which uses it to
  derive the address of Olares Space from the address of the remote service. Unlike \<open>url_Parse\<close>, the
  join keeps the parts of the address that the program does not look at (user, fragment, the
  spelling of the path), so they are taken from the text again.
\<close>

section \<open>Escaping\<close>

datatype emode = EncodePath | EncodeUser | EncodeHost | EncodeFragment

definition unreserved :: "char \<Rightarrow> bool" where
  "unreserved c \<longleftrightarrow> is_letter c \<or> is_digit c \<or> c \<in> set ''-_.~''"

definition should_escape :: "emode \<Rightarrow> char \<Rightarrow> bool" where
  "should_escape m c = (if unreserved c then False
     else if m = EncodeHost \<and> (c \<in> set ''!$&()*+,;=:[]<>'' \<or> c = CHR 0x27 \<or> c = dquote) then False
     else if c \<in> set ''$&+,/:;=?@'' then
       (case m of EncodePath \<Rightarrow> c = CHR ''?'' | EncodeUser \<Rightarrow> c \<in> set ''@/?:'' | EncodeHost \<Rightarrow> True | EncodeFragment \<Rightarrow> False)
     else \<not> (m = EncodeFragment \<and> c \<in> set ''!()*''))"

definition upper_hex :: "nat \<Rightarrow> char" where
  "upper_hex n = char_of (if n < 10 then 48 + n else 55 + n)"

definition escape :: "emode \<Rightarrow> string \<Rightarrow> string" where
  "escape m s = concat (map (\<lambda>c. if should_escape m c
     then [CHR ''%'', upper_hex (of_char c div 16), upper_hex (of_char c mod 16)] else [c]) s)"

text \<open>A spelling that is kept although it is not the one \<open>escape\<close> gives.\<close>

definition valid_encoded :: "emode \<Rightarrow> string \<Rightarrow> bool" where
  "valid_encoded m s = list_all (\<lambda>c. c \<in> set ''!$&()*+,;=:@[]%'' \<or> c = CHR 0x27 \<or> \<not> should_escape m c) s"

definition escaped_form :: "emode \<Rightarrow> string \<Rightarrow> string" where
  "escaped_form m raw = (if valid_encoded m raw then raw else escape m (the (unescape False raw)))"

section \<open>The parts of an address\<close>

record url_parts =
  up_Scheme :: string
  up_Opaque :: string
  up_User :: "string option"
  up_Host :: string
  up_Path :: string
  up_OmitHost :: bool
  up_Query :: "string option"
  up_Fragment :: string

text \<open>A query of a single question mark at the end is kept as an empty query.\<close>

definition split_query :: "string \<Rightarrow> string \<times> string option" where
  "split_query rest = (case index_of rest ''?'' of None \<Rightarrow> (rest, None)
     | Some i \<Rightarrow> (take i rest, Some (drop (Suc i) rest)))"

definition split_user :: "string \<Rightarrow> string option \<times> string" where
  "split_user a = (case index_of (rev a) ''@'' of None \<Rightarrow> (None, a)
     | Some i \<Rightarrow> (Some (take (length a - i - 1) a), drop (length a - i) a))"

definition parts_of :: "string \<Rightarrow> url_parts" where
  "parts_of raw = (let (s, frag) = cut_at raw ''#'';
       (scheme, rest0) = (if s = ''*'' then ([], s) else the (scan_scheme s [] s));
       (rest, query) = split_query rest0 in
     if \<not> prefix ''/'' rest \<and> scheme \<noteq> [] then
       \<lparr>up_Scheme = scheme, up_Opaque = rest, up_User = None, up_Host = [], up_Path = [], up_OmitHost = False,
         up_Query = query, up_Fragment = frag\<rparr>
     else if (scheme \<noteq> [] \<or> \<not> prefix ''///'' rest) \<and> prefix ''//'' rest then
       (let a = drop 2 rest; n = (case index_of a ''/'' of None \<Rightarrow> length a | Some i \<Rightarrow> i);
            (user, host) = split_user (take n a) in
        \<lparr>up_Scheme = scheme, up_Opaque = [], up_User = user, up_Host = host, up_Path = drop n a, up_OmitHost = False,
          up_Query = query, up_Fragment = frag\<rparr>)
     else
       \<lparr>up_Scheme = scheme, up_Opaque = [], up_User = None, up_Host = [], up_Path = rest, up_OmitHost = (scheme \<noteq> []),
         up_Query = query, up_Fragment = frag\<rparr>)"

definition user_string :: "string \<Rightarrow> string" where
  "user_string u = (let e = (\<lambda>s. escape EncodeUser (the (unescape False s))) in
     case index_of u '':'' of None \<Rightarrow> e u | Some i \<Rightarrow> e (take i u) @ '':'' @ e (drop (Suc i) u))"

text \<open>\<open>u.String()\<close>, for a path in its escaped form.\<close>

definition url_String :: "url_parts \<Rightarrow> string \<Rightarrow> string" where
  "url_String u p = (let
     sch = (if up_Scheme u \<noteq> [] then up_Scheme u @ '':'' else []);
     auth = (if (up_Scheme u \<noteq> [] \<or> up_Host u \<noteq> [] \<or> up_User u \<noteq> None)
               \<and> \<not> (up_OmitHost u \<and> up_Host u = [] \<and> up_User u = None)
             then (if up_Host u \<noteq> [] \<or> p \<noteq> [] \<or> up_User u \<noteq> None then ''//'' else [])
               @ (case up_User u of None \<Rightarrow> [] | Some n \<Rightarrow> user_string n @ ''@'')
               @ escape EncodeHost (up_Host u)
             else []);
     slash = (if p \<noteq> [] \<and> \<not> prefix ''/'' p \<and> up_Host u \<noteq> [] then ''/'' else []);
     dot = (if sch @ auth @ slash = [] \<and> Contains (fst (cut_at p ''/'')) '':'' then ''./'' else [])
     in (if up_Opaque u \<noteq> [] then sch @ up_Opaque u else sch @ auth @ slash @ dot @ p)
        @ (case up_Query u of None \<Rightarrow> [] | Some q \<Rightarrow> ''?'' @ q)
        @ (if up_Fragment u \<noteq> [] then ''#'' @ escaped_form EncodeFragment (up_Fragment u) else []))"

text \<open>The joined path, for an element of unreserved characters (the program joins \<open>space\<close>), whose result
  is its own escaped form.\<close>

definition join_elem :: "string \<Rightarrow> string \<Rightarrow> string" where
  "join_elem base elem = (let
     p = (if prefix ''/'' base then path_Join [base, elem] else drop 1 (path_Join [''/'' @ base, elem])) in
     if HasSuffix elem ''/'' \<and> \<not> HasSuffix p ''/'' then p @ ''/'' else p)"

definition url_JoinPath :: "string \<Rightarrow> string \<Rightarrow> string outcome" where
  "url_JoinPath base elem = bindO (url_Parse base) (\<lambda>_.
     let u = parts_of base in Ret (url_String u (join_elem (escaped_form EncodePath (up_Path u)) elem)))"

section \<open>The address of Olares Space\<close>

text \<open>The two variables of \<open>pkg/constant/constant.go\<close> that change while the process runs.\<close>

record service_vars =
  sv_OlaresRemoteService :: string
  sv_SyncServerURL :: string

definition DefaultSyncServerURL :: string where
  "DefaultSyncServerURL = ''https://api.olares.com''"

definition initial_vars :: service_vars where
  "initial_vars = \<lparr>sv_OlaresRemoteService = DefaultSyncServerURL, sv_SyncServerURL = []\<rparr>"

text \<open>The result of \<open>url.JoinPath\<close> is empty when it fails, and it is assigned all the same.\<close>

definition ReloadEnvDependantVars :: "(service_vars, unit) go" where
  "ReloadEnvDependantVars s = (case url_JoinPath (sv_OlaresRemoteService s) ''space'' of
      Ret u \<Rightarrow> (Ret (), s\<lparr>sv_SyncServerURL := u\<rparr>)
    | Fail e \<Rightarrow> (Fail e, s\<lparr>sv_SyncServerURL := []\<rparr>)
    | Panic m \<Rightarrow> (Panic m, s)
    | Diverge \<Rightarrow> (Diverge, s))"

section \<open>Plain addresses\<close>

lemma not_escaped_plain: "host_plain h \<Longrightarrow> escape EncodeHost h = h"
  by (induction h) (auto simp: escape_def should_escape_def unreserved_def)

lemma host_plain_no_sep:
  assumes "host_plain h"
  shows "CHR ''/'' \<notin> set h" "CHR ''?'' \<notin> set h" "CHR ''#'' \<notin> set h" "CHR ''@'' \<notin> set h"
  using host_plain_not[OF assms] by auto

text \<open>An https address of a plain host, with or without a slash at its end.\<close>

lemma parts_of_https:
  assumes "host_plain host" and "tail = [] \<or> tail = ''/''"
  shows "parts_of (''https://'' @ host @ tail) =
    \<lparr>up_Scheme = ''https'', up_Opaque = [], up_User = None, up_Host = host, up_Path = tail, up_OmitHost = False,
      up_Query = None, up_Fragment = []\<rparr>"
proof -
  let ?r = "''//'' @ host @ tail" and ?s = "''https://'' @ host @ tail"
  note sep = host_plain_no_sep[OF assms(1)]
  have c: "cut_at ?s ''#'' = (?s, [])" using sep assms(2) by (intro cut_at_fresh) auto
  have sch: "scan_scheme ?s [] ?s = Some (''https'', ?r)" by (simp add: is_letter_def ToLower_def)
  have q: "split_query ?r = (?r, None)"
    using sep assms(2) by (auto simp: split_query_def index_of_None_char)
  have i: "(case index_of (host @ tail) ''/'' of None \<Rightarrow> length (host @ tail) | Some i \<Rightarrow> i) = length host"
    using assms(2) index_of_append_fresh[OF sep(1), of "[]"] index_of_None_char[of "CHR ''/''" host] sep(1) by auto
  have u: "split_user host = (None, host)"
    using sep(4) by (simp add: split_user_def index_of_None_char)
  show ?thesis
    unfolding parts_of_def c using sch q i u by (simp add: Let_def)
qed

lemma url_Parse_https_host:
  assumes "host_plain host"
  shows "\<exists>u. url_Parse (''https://'' @ host) = Ret u"
proof -
  let ?r = "''//'' @ host" and ?s = "''https://'' @ host"
  note sep = host_plain_no_sep[OF assms]
  have pl: "url_plain ?s" using host_plain_url_plain[OF assms] by (simp add: ctl_byte_def)
  have c: "cut_at ?s ''#'' = (?s, [])" using sep by (intro cut_at_fresh) auto
  have q: "cut_at ?r ''?'' = (?r, [])" using sep by (intro cut_at_fresh) auto
  have sch: "scan_scheme ?s [] ?s = Some (''https'', ?r)" by (simp add: is_letter_def ToLower_def)
  have i: "index_of host ''/'' = None" using sep by (simp add: index_of_None_char)
  show ?thesis
    unfolding url_Parse_def c using url_plain_ctl[OF pl] sch q i parse_authority_plain[OF assms] by (simp add: Let_def)
qed

lemma space_joined: "Split ''//space'' ''/'' = [[], [], ''space'']"
  using Split_append_char[of "CHR ''/''" "[]" "''/space''"] Split_append_char[of "CHR ''/''" "[]" "''space''"]
    Split_fresh[of "CHR ''/''" "''space''"] by simp

lemma JoinPath_https:
  assumes "host_plain host" and "host \<noteq> []" and "tail = [] \<or> tail = ''/''"
  shows "url_JoinPath (''https://'' @ host @ tail) ''space'' = Ret (''https://'' @ host @ ''/space'')"
proof -
  have "\<exists>u. url_Parse (''https://'' @ host @ tail) = Ret u"
    using assms(3) url_Parse_https_host[OF assms(1)] url_Parse_https[OF assms(1), of "[]"] by auto
  moreover have "escaped_form EncodePath tail = tail"
    using assms(3) by (auto simp: escaped_form_def valid_encoded_def should_escape_def)
  moreover have "join_elem tail ''space'' = (if tail = [] then ''space'' else ''/space'')"
    using assms(3) space_joined by (auto simp: join_elem_def path_Join_def path_Clean_def HasSuffix_def suffix_to_prefix Let_def)
  ultimately show ?thesis
    using assms(2) parts_of_https[OF assms(1,3)] not_escaped_plain[OF assms(1)]
    by (auto simp: url_JoinPath_def url_String_def Let_def)
qed

end
