(* ===== verification/Watchers.thy ===== *)
theory Watchers
  imports UrlJoin
begin

text \<open>
  \<open>pkg/watchers\<close>: the informer events of watched resources (\<open>app.go\<close>), the work queue they go through
  and its worker, the age test of \<open>filters.go\<close>, and the subscriber of the \<open>SystemEnv\<close> resource
  (\<open>systemenv/systemenv.go\<close>), which sets the address of the remote service. The work queue and the
  filtering of events belong to client-go: the queue is the record \<open>workqueue\<close>, the filtering the argument
  \<open>deliver\<close>, and what their documentation promises is stated as \<open>queue_laws\<close> and \<open>filtering_law\<close>.
\<close>

section \<open>The work queue and its worker (app.go)\<close>

datatype Action = UNKNOWN | ADD | UPDATE | DELETE | SUSPEND

text \<open>An item of the queue is an \<open>interface{}\<close>: an \<open>EnqueueObj\<close> or a value of another type.\<close>

record ('s, 'o) EnqueueObj =
  eo_Obj :: 'o
  eo_Action :: Action
  eo_Subscribe :: 's

datatype 'e item = Enqueued 'e | OtherItem

text \<open>\<open>wq_Get\<close> gives \<open>None\<close> when the queue is shut down. \<open>wq_waiting\<close> is the view for the laws: the items
  that the queue still hands out, at once or after their delay.\<close>

record ('q, 'i) workqueue =
  wq_Add :: "'i \<Rightarrow> 'q \<Rightarrow> 'q"
  wq_Get :: "'q \<Rightarrow> 'i option \<times> 'q"
  wq_Done :: "'i \<Rightarrow> 'q \<Rightarrow> 'q"
  wq_AddAfter :: "'i \<Rightarrow> nat \<Rightarrow> 'q \<Rightarrow> 'q"
  wq_Forget :: "'i \<Rightarrow> 'q \<Rightarrow> 'q"
  wq_waiting :: "'q \<Rightarrow> 'i set"

definition queue_laws :: "('q, 'i) workqueue \<Rightarrow> bool" where
  "queue_laws q \<longleftrightarrow>
     (\<forall>i c. wq_waiting q (wq_Add q i c) = insert i (wq_waiting q c))
   \<and> (\<forall>i d c. wq_waiting q (wq_AddAfter q i d c) = insert i (wq_waiting q c))
   \<and> (\<forall>i c. wq_waiting q (wq_Done q i c) = wq_waiting q c)
   \<and> (\<forall>i c. wq_waiting q (wq_Forget q i c) = wq_waiting q c)
   \<and> (\<forall>i c c'. wq_Get q c = (Some i, c') \<longrightarrow> wq_waiting q c - {i} \<subseteq> wq_waiting q c')"

text \<open>15 seconds.\<close>

definition applicationQueueDelay :: nat where
  "applicationQueueDelay = 15000000000"

definition Enqueue :: "('q, 'e item) workqueue \<Rightarrow> 'e \<Rightarrow> 'q \<Rightarrow> 'q" where
  "Enqueue q obj = wq_Add q (Enqueued obj)"

type_synonym ('w, 's, 'o) subscribers = "'s \<Rightarrow> 'o \<Rightarrow> Action \<Rightarrow> ('w, unit) go"

text \<open>The world is what the subscribers act on, with the queue beside it. \<open>Done\<close> is deferred, so it also
  runs when the subscriber panics.\<close>

definition processNextWorkItem ::
  "('q, ('s, 'o) EnqueueObj item) workqueue \<Rightarrow> ('w, 's, 'o) subscribers \<Rightarrow> ('w \<times> 'q, bool) go" where
  "processNextWorkItem q Do = (\<lambda>(w, c). case wq_Get q c of
      (None, c1) \<Rightarrow> (Ret False, (w, c1))
    | (Some OtherItem, c1) \<Rightarrow> (Ret True, (w, wq_Done q OtherItem (wq_Forget q OtherItem c1)))
    | (Some (Enqueued e), c1) \<Rightarrow> (case Do (eo_Subscribe e) (eo_Obj e) (eo_Action e) w of
        (Ret _, w1) \<Rightarrow> (Ret True, (w1, wq_Done q (Enqueued e) (wq_Forget q (Enqueued e) c1)))
      | (Fail _, w1) \<Rightarrow> (Ret True, (w1, wq_Done q (Enqueued e) (wq_AddAfter q (Enqueued e) applicationQueueDelay c1)))
      | (Panic p, w1) \<Rightarrow> (Panic p, (w1, wq_Done q (Enqueued e) c1))
      | (Diverge, w1) \<Rightarrow> (Diverge, (w1, c1))))"

fun runWorker ::
  "nat \<Rightarrow> ('q, ('s, 'o) EnqueueObj item) workqueue \<Rightarrow> ('w, 's, 'o) subscribers \<Rightarrow> ('w \<times> 'q, unit) go" where
  "runWorker 0 q Do = (\<lambda>w. (Diverge, w))"
| "runWorker (Suc n) q Do = bindG (processNextWorkItem q Do) (\<lambda>go_on. if go_on then runWorker n q Do else ret ())"

text \<open>Whatever the subscribers keep as an invariant holds after every round of the worker.\<close>

lemma processNextWorkItem_invariant:
  assumes "\<And>s o' a w. P w \<Longrightarrow> P (snd (Do s o' a w))" and "P w"
  shows "P (fst (snd (processNextWorkItem q Do (w, c))))"
proof -
  obtain i c1 where g: "wq_Get q c = (i, c1)" by fastforce
  show ?thesis
  proof (cases i)
    case (Some it)
    then show ?thesis
    proof (cases it)
      case (Enqueued e)
      obtain r w1 where d: "Do (eo_Subscribe e) (eo_Obj e) (eo_Action e) w = (r, w1)" by fastforce
      have "P w1" using assms(1)[OF assms(2), of "eo_Subscribe e" "eo_Obj e" "eo_Action e"] d by simp
      then show ?thesis using g Some Enqueued d by (cases r) (simp_all add: processNextWorkItem_def)
    qed (use g assms(2) in \<open>simp add: processNextWorkItem_def\<close>)
  qed (use g assms(2) in \<open>simp add: processNextWorkItem_def\<close>)
qed

lemma runWorker_invariant:
  assumes "\<And>s o' a w. P w \<Longrightarrow> P (snd (Do s o' a w))"
  shows "P (fst w) \<Longrightarrow> P (fst (snd (runWorker n q Do w)))"
proof (induction n arbitrary: w)
  case (Suc n)
  obtain v c where w: "w = (v, c)" by fastforce
  obtain r w1 where p: "processNextWorkItem q Do w = (r, w1)" by (metis surj_pair)
  have "P v" using Suc.prems w by simp
  have "P (fst (snd (processNextWorkItem q Do (v, c))))" by (rule processNextWorkItem_invariant[OF assms \<open>P v\<close>])
  hence "P (fst w1)" using p w by simp
  then show ?case using Suc.IH[of w1] p by (cases r) (auto simp: bindG_apply)
qed simp

text \<open>An item that the queue hands out is in it until its subscriber has run without an error: an item whose
  subscriber fails is given back with the delay, and no other item is touched.\<close>

definition handled :: "('w, 's, 'o) subscribers \<Rightarrow> 'w \<Rightarrow> ('s, 'o) EnqueueObj item \<Rightarrow> bool" where
  "handled Do w i \<longleftrightarrow> (case i of OtherItem \<Rightarrow> True
     | Enqueued e \<Rightarrow> (case fst (Do (eo_Subscribe e) (eo_Obj e) (eo_Action e) w) of Ret _ \<Rightarrow> True | _ \<Rightarrow> False))"

lemma waiting_Get:
  "queue_laws q \<Longrightarrow> wq_Get q c = (Some i, c1) \<Longrightarrow> j \<in> wq_waiting q c \<Longrightarrow> j = i \<or> j \<in> wq_waiting q c1"
  unfolding queue_laws_def by blast

lemma unhandled_items_wait:
  assumes "queue_laws q" and "processNextWorkItem q Do (w, c) = (Ret True, (w', c'))"
    and "i \<in> wq_waiting q c" and "i \<notin> wq_waiting q c'"
  shows "fst (wq_Get q c) = Some i \<and> handled Do w i"
proof -
  have laws: "wq_waiting q (wq_Done q j d) = wq_waiting q d" "wq_waiting q (wq_Forget q j d) = wq_waiting q d"
    "wq_waiting q (wq_AddAfter q j n d) = insert j (wq_waiting q d)" for j d n
    using assms(1) by (simp_all add: queue_laws_def)
  obtain k c1 where g: "wq_Get q c = (Some k, c1)"
    using assms(2) by (cases "wq_Get q c"; cases "fst (wq_Get q c)") (auto simp: processNextWorkItem_def)
  from waiting_Get[OF assms(1) g assms(3)] have "i = k \<or> i \<in> wq_waiting q c1" .
  then show ?thesis
    using assms(2,4) laws g
    by (auto simp: processNextWorkItem_def handled_def split: item.splits outcome.splits prod.splits)
qed

section \<open>Informer events (app.go, AddToWatchers)\<close>

text \<open>What an informer hands to its handlers: an unstructured object or, for a deletion that was missed, the
  tombstone \<open>cache.DeletedFinalStateUnknown\<close>.\<close>

datatype 'u informer_obj = Unstructured 'u | Tombstone string

datatype 'o event = AddEvent 'o | UpdateEvent 'o 'o | DeleteEvent 'o

fun event_objs :: "'o event \<Rightarrow> 'o list" where
  "event_objs (AddEvent x) = [x]"
| "event_objs (UpdateEvent old new) = [new, old]"
| "event_objs (DeleteEvent x) = [x]"

text \<open>The handler a subscriber passes: with a filter, or plain functions, or of another type.\<close>

datatype ('r, 'w) handler =
    Filtering "'r \<Rightarrow> bool" "'r event \<Rightarrow> ('w, unit) go"
  | Funcs "'r event \<Rightarrow> ('w, unit) go"
  | OtherHandler

text \<open>The assertion \<open>obj.(*unstructured.Unstructured)\<close> has no second result; the conversion itself is the
  argument \<open>conv\<close>.\<close>

definition unstructured_panic :: string where
  "unstructured_panic = ''interface conversion: interface {} is not *unstructured.Unstructured''"

fun convert_obj :: "('u \<Rightarrow> 'r outcome) \<Rightarrow> 'u informer_obj \<Rightarrow> 'r outcome" where
  "convert_obj conv (Unstructured u) = conv u"
| "convert_obj conv (Tombstone _) = Panic unstructured_panic"

fun convert_event :: "('u \<Rightarrow> 'r outcome) \<Rightarrow> 'u informer_obj event \<Rightarrow> 'r event outcome" where
  "convert_event conv (AddEvent x) = bindO (convert_obj conv x) (\<lambda>r. Ret (AddEvent r))"
| "convert_event conv (UpdateEvent old new) =
     bindO (convert_obj conv new) (\<lambda>n. bindO (convert_obj conv old) (\<lambda>p. Ret (UpdateEvent p n)))"
| "convert_event conv (DeleteEvent x) = bindO (convert_obj conv x) (\<lambda>r. Ret (DeleteEvent r))"

fun filter_func :: "('u \<Rightarrow> 'r outcome) \<Rightarrow> ('r, 'w) handler \<Rightarrow> 'u informer_obj \<Rightarrow> bool outcome" where
  "filter_func conv (Filtering f g) x = (case convert_obj conv x of
      Ret r \<Rightarrow> Ret (f r) | Fail e \<Rightarrow> Ret False | Panic p \<Rightarrow> Panic p | Diverge \<Rightarrow> Diverge)"
| "filter_func conv h x = Ret True"

fun call_handler :: "('r, 'w) handler \<Rightarrow> 'r event \<Rightarrow> ('w, unit) go" where
  "call_handler (Filtering f g) ev = g ev"
| "call_handler (Funcs g) ev = g ev"
| "call_handler OtherHandler ev = ret ()"

definition forward :: "('u \<Rightarrow> 'r outcome) \<Rightarrow> ('r, 'w) handler \<Rightarrow> 'u informer_obj event \<Rightarrow> ('w, unit) go" where
  "forward conv h ev = tryG (liftO (convert_event conv ev)) (call_handler h) (\<lambda>e. ret ())"

text \<open>The registered handler: the filter sees every object of the event, then client-go delivers what is left
  of the event.\<close>

definition AddToWatchers ::
  "(('u informer_obj \<Rightarrow> bool) \<Rightarrow> 'u informer_obj event \<Rightarrow> 'u informer_obj event option) \<Rightarrow> ('u \<Rightarrow> 'r outcome) \<Rightarrow>
   ('r, 'w) handler option \<Rightarrow> 'u informer_obj event \<Rightarrow> ('w, unit) go" where
  "AddToWatchers deliver conv handler ev = (case handler of None \<Rightarrow> ret () | Some h \<Rightarrow>
     bindG (liftO (foldr (\<lambda>x k. bindO (filter_func conv h x) (\<lambda>_. k)) (event_objs ev) (Ret ()))) (\<lambda>_.
       case deliver (\<lambda>x. filter_func conv h x = Ret True) ev of None \<Rightarrow> ret () | Some ev' \<Rightarrow> forward conv h ev'))"

definition filtering_law :: "(('o \<Rightarrow> bool) \<Rightarrow> 'o event \<Rightarrow> 'o event option) \<Rightarrow> bool" where
  "filtering_law deliver \<longleftrightarrow> (\<forall>f.
     (\<forall>x. deliver f (AddEvent x) = (if f x then Some (AddEvent x) else None))
   \<and> (\<forall>x. deliver f (DeleteEvent x) = (if f x then Some (DeleteEvent x) else None))
   \<and> (\<forall>x y. deliver f (UpdateEvent x y) =
        (if f y then Some (if f x then UpdateEvent x y else AddEvent y)
         else if f x then Some (DeleteEvent x) else None)))"

section \<open>The age of a resource (filters.go)\<close>

text \<open>\<open>now\<close> and the two times are in nanoseconds.\<close>

definition ValidWatchDuration :: "timestamp \<Rightarrow> timestamp \<Rightarrow> timestamp option \<Rightarrow> bool" where
  "ValidWatchDuration now creation deletion \<longleftrightarrow> now - creation < 60000000000
     \<or> (case deletion of None \<Rightarrow> False | Some d \<Rightarrow> now - d < 60000000000)"

section \<open>The subscriber of SystemEnv (systemenv/systemenv.go)\<close>

type_synonym env_obj = "(string \<times> json) list"

definition EnvOlaresSystemRemoteService :: string where
  "EnvOlaresSystemRemoteService = ''OLARES_SYSTEM_REMOTE_SERVICE''"

definition str_key :: "env_obj \<Rightarrow> string \<Rightarrow> string option" where
  "str_key m k = (case map_of m k of Some (JStr s) \<Rightarrow> Some s | _ \<Rightarrow> None)"

definition env_filter :: "env_obj \<Rightarrow> bool" where
  "env_filter m \<longleftrightarrow> str_key m ''envName'' = Some EnvOlaresSystemRemoteService"

text \<open>The object of an item is a pointer, which can be nil.\<close>

definition env_handler ::
  "('q, (unit, env_obj option) EnqueueObj item) workqueue \<Rightarrow> (env_obj, 'w \<times> 'q) handler" where
  "env_handler q = Filtering env_filter (\<lambda>ev (w, c). (Ret (), (w, (case ev of
      AddEvent m \<Rightarrow> Enqueue q \<lparr>eo_Obj = Some m, eo_Action = ADD, eo_Subscribe = ()\<rparr> c
    | UpdateEvent _ m \<Rightarrow> Enqueue q \<lparr>eo_Obj = Some m, eo_Action = UPDATE, eo_Subscribe = ()\<rparr> c
    | DeleteEvent m \<Rightarrow> Enqueue q \<lparr>eo_Obj = Some m, eo_Action = DELETE, eo_Subscribe = ()\<rparr> c))))"

definition effective_value :: "env_obj \<Rightarrow> string" where
  "effective_value m = (case str_key m ''value'' of
      Some v \<Rightarrow> if v \<noteq> [] then v else (case str_key m ''default'' of Some d \<Rightarrow> d | None \<Rightarrow> [])
    | None \<Rightarrow> (case str_key m ''default'' of Some d \<Rightarrow> d | None \<Rightarrow> []))"

definition env_Do :: "(service_vars, unit, env_obj option) subscribers" where
  "env_Do _ obj action = (case obj of
      None \<Rightarrow> raise (Errorf ''invalid object type'')
    | Some m \<Rightarrow> (\<lambda>s. let newValue = effective_value m in
        if newValue = [] then (Ret (), s)
        else if sv_OlaresRemoteService s = newValue then (Ret (), s)
        else tryG ReloadEnvDependantVars ret (\<lambda>e. raise (Errorf (''reload env-dependent vars failed: '' @ err_text e)))
          (s\<lparr>sv_OlaresRemoteService := (if newValue = [] then DefaultSyncServerURL else newValue)\<rparr>)))"

end
