(* ===== verification/WatcherFacts.thy ===== *)
theory WatcherFacts
  imports Watchers Calendar
begin

text \<open>
  What the watchers guarantee: no item of the queue is lost, the address of Olares Space follows the
  \<open>SystemEnv\<close> resource as far as the subscriber applies it, and what it does not apply.
\<close>

section \<open>The address of Olares Space\<close>

lemma JoinPath_outcome: "(\<exists>u. url_JoinPath v e = Ret u) \<or> (\<exists>err. url_JoinPath v e = Fail err)"
  unfolding url_JoinPath_def url_Parse_def
  by (auto simp: Let_def split: prod.splits option.splits)

text \<open>The address is the joined one (empty, when the join fails), or nothing was applied since the start.\<close>

definition address_settled :: "service_vars \<Rightarrow> bool" where
  "address_settled s \<longleftrightarrow> s = initial_vars
     \<or> sv_SyncServerURL s = (case url_JoinPath (sv_OlaresRemoteService s) ''space'' of Ret u \<Rightarrow> u | _ \<Rightarrow> [])"

lemma Reload_cases:
  obtains u where "url_JoinPath (sv_OlaresRemoteService s) ''space'' = Ret u"
      "ReloadEnvDependantVars s = (Ret (), s\<lparr>sv_SyncServerURL := u\<rparr>)"
  | e where "url_JoinPath (sv_OlaresRemoteService s) ''space'' = Fail e"
      "ReloadEnvDependantVars s = (Fail e, s\<lparr>sv_SyncServerURL := []\<rparr>)"
  using JoinPath_outcome[of "sv_OlaresRemoteService s" "''space''"] by (auto simp: ReloadEnvDependantVars_def)

lemma env_Do_settled:
  assumes "address_settled s"
  shows "address_settled (snd (env_Do u obj a s))"
proof (cases obj)
  case (Some m)
  let ?v = "effective_value m" and ?s = "s\<lparr>sv_OlaresRemoteService := effective_value m\<rparr>"
  show ?thesis
  proof (cases "?v = [] \<or> sv_OlaresRemoteService s = ?v")
    case False
    then show ?thesis
      by (cases rule: Reload_cases[of ?s]) (simp_all add: env_Do_def Some Let_def tryG_def address_settled_def)
  qed (use assms Some in \<open>auto simp: env_Do_def Let_def\<close>)
qed (use assms in \<open>simp add: env_Do_def\<close>)

text \<open>C21: whatever events the worker of the watchers goes through, in whatever order the queue hands them
  out, the address of Olares Space is either still the empty one of the start, with the default remote
  service, or the join of the current remote service with \<open>space\<close>, and empty when that join fails.\<close>

theorem sync_address_invariant:
  assumes "address_settled s"
  shows "address_settled (fst (snd (runWorker fuel q env_Do (s, c))))"
  by (rule runWorker_invariant) (use assms env_Do_settled in auto)

text \<open>A value that is already the current one is not applied. So the default address, which the
  process starts with, never gives an address of Olares Space; and after a failed attempt the retry
  succeeds without doing anything, and the address stays empty.\<close>

theorem unchanged_value_not_applied:
  "(effective_value m = DefaultSyncServerURL \<longrightarrow>
      env_Do u (Some m) a initial_vars = (Ret (), initial_vars) \<and> sv_SyncServerURL initial_vars = [])
   \<and> (\<forall>e s'. env_Do u (Some m) a s = (Fail e, s') \<longrightarrow>
      sv_SyncServerURL s' = [] \<and> env_Do u (Some m) a s' = (Ret (), s'))"
proof (intro conjI allI impI)
  show "env_Do u (Some m) a initial_vars = (Ret (), initial_vars)" if "effective_value m = DefaultSyncServerURL"
    using that by (simp add: env_Do_def initial_vars_def DefaultSyncServerURL_def)
  show "sv_SyncServerURL initial_vars = []" by (simp add: initial_vars_def)
  fix e s' assume f: "env_Do u (Some m) a s = (Fail e, s')"
  let ?s = "s\<lparr>sv_OlaresRemoteService := effective_value m\<rparr>"
  have "effective_value m \<noteq> []" "sv_OlaresRemoteService s \<noteq> effective_value m"
    using f by (auto simp: env_Do_def Let_def split: if_splits)
  then have s': "s' = ?s\<lparr>sv_SyncServerURL := []\<rparr>"
    using f by (cases rule: Reload_cases[of ?s]) (auto simp: env_Do_def Let_def tryG_def)
  then show "sv_SyncServerURL s' = []" by simp
  show "env_Do u (Some m) a s' = (Ret (), s')" by (simp add: s' env_Do_def Let_def)
qed

section \<open>From the event to the address\<close>

lemma env_Do_https:
  assumes "effective_value m = ''https://'' @ host @ tail" "host_plain host" "host \<noteq> []" "tail = [] \<or> tail = ''/''"
    and "sv_OlaresRemoteService s \<noteq> effective_value m"
  shows "env_Do u (Some m) a s =
    (Ret (), \<lparr>sv_OlaresRemoteService = effective_value m, sv_SyncServerURL = ''https://'' @ host @ ''/space''\<rparr>)"
  using assms(5) JoinPath_https[OF assms(2,3,4)]
  by (cases s) (simp add: env_Do_def assms(1) Let_def tryG_def ReloadEnvDependantVars_def)

lemma delivered_to_env_handler:
  assumes "filtering_law deliver" "conv u = Ret m" "env_filter m"
    and "ev = AddEvent (Unstructured u) \<or> (\<exists>u0 m0. ev = UpdateEvent (Unstructured u0) (Unstructured u) \<and> conv u0 = Ret m0)"
  shows "\<exists>a. AddToWatchers deliver conv (Some (env_handler q)) ev (s, c) =
    (Ret (), (s, Enqueue q \<lparr>eo_Obj = Some m, eo_Action = a, eo_Subscribe = ()\<rparr> c))"
  using assms(4)
proof
  assume "ev = AddEvent (Unstructured u)"
  then show ?thesis
    using assms(1,2,3) by (auto simp: AddToWatchers_def env_handler_def filtering_law_def forward_def)
next
  assume "\<exists>u0 m0. ev = UpdateEvent (Unstructured u0) (Unstructured u) \<and> conv u0 = Ret m0"
  then obtain u0 m0 where ev: "ev = UpdateEvent (Unstructured u0) (Unstructured u)" "conv u0 = Ret m0" by blast
  then show ?thesis
    using assms(1,2,3)
    by (cases "env_filter m0") (auto simp: AddToWatchers_def env_handler_def filtering_law_def forward_def)
qed

text \<open>C20: when the \<open>SystemEnv\<close> resource of the remote service is created or updated with an https address
  other than the current one, the event passes the filter, goes through the queue, and the round of the
  worker that takes it sets the remote service to that address and the address of Olares Space to it with
  \<open>/space\<close> at the end, one slash at the end of the value or none.\<close>

theorem systemenv_event_applied:
  assumes "filtering_law deliver" "conv u = Ret m" "env_filter m"
    and "ev = AddEvent (Unstructured u) \<or> (\<exists>u0 m0. ev = UpdateEvent (Unstructured u0) (Unstructured u) \<and> conv u0 = Ret m0)"
    and "effective_value m = ''https://'' @ host @ tail" "host_plain host" "host \<noteq> []" "tail = [] \<or> tail = ''/''"
    and "sv_OlaresRemoteService s \<noteq> effective_value m"
    and taken: "\<And>e. \<exists>c1. wq_Get q (Enqueue q e c) = (Some (Enqueued e), c1)"
  shows "\<exists>c'. bindG (AddToWatchers deliver conv (Some (env_handler q)) ev) (\<lambda>_. processNextWorkItem q env_Do) (s, c) =
    (Ret True, (\<lparr>sv_OlaresRemoteService = effective_value m, sv_SyncServerURL = ''https://'' @ host @ ''/space''\<rparr>, c'))"
proof -
  obtain a where d: "AddToWatchers deliver conv (Some (env_handler q)) ev (s, c) =
      (Ret (), (s, Enqueue q \<lparr>eo_Obj = Some m, eo_Action = a, eo_Subscribe = ()\<rparr> c))"
    using delivered_to_env_handler[where conv = conv and q = q and s = s and c = c, OF assms(1-4)] by (rule exE)
  obtain c1 where "wq_Get q (Enqueue q \<lparr>eo_Obj = Some m, eo_Action = a, eo_Subscribe = ()\<rparr> c) =
      (Some (Enqueued \<lparr>eo_Obj = Some m, eo_Action = a, eo_Subscribe = ()\<rparr>), c1)"
    using taken by (rule exE)
  then show ?thesis
    using d env_Do_https[OF assms(5-9)] by (simp add: bindG_apply processNextWorkItem_def)
qed

section \<open>A queue in memory\<close>

text \<open>For the instances: a queue of the items that are due and a list of the delayed ones, and the filtering
  that the documentation of client-go describes.\<close>

definition mem_queue :: "('i list \<times> 'i list, 'i) workqueue" where
  "mem_queue = \<lparr>wq_Add = (\<lambda>i (r, d). (if i \<in> set r then r else r @ [i], d)),
     wq_Get = (\<lambda>(r, d). case r of [] \<Rightarrow> (None, ([], d)) | i # is \<Rightarrow> (Some i, (is, d))),
     wq_Done = (\<lambda>i c. c), wq_AddAfter = (\<lambda>i n (r, d). (r, d @ [i])), wq_Forget = (\<lambda>i c. c),
     wq_waiting = (\<lambda>(r, d). set r \<union> set d)\<rparr>"

lemma mem_queue_laws: "queue_laws mem_queue"
  by (auto simp: queue_laws_def mem_queue_def split: list.splits)

fun mem_deliver :: "('o \<Rightarrow> bool) \<Rightarrow> 'o event \<Rightarrow> 'o event option" where
  "mem_deliver f (AddEvent x) = (if f x then Some (AddEvent x) else None)"
| "mem_deliver f (DeleteEvent x) = (if f x then Some (DeleteEvent x) else None)"
| "mem_deliver f (UpdateEvent x y) =
     (if f y then Some (if f x then UpdateEvent x y else AddEvent y) else if f x then Some (DeleteEvent x) else None)"

lemma mem_deliver_law: "filtering_law mem_deliver"
  by (simp add: filtering_law_def)

definition demo_env :: "string \<Rightarrow> env_obj" where
  "demo_env v = [(''envName'', JStr EnvOlaresSystemRemoteService), (''value'', JStr v)]"

lemma demo_env_simps: "env_filter (demo_env v)" "v \<noteq> [] \<Longrightarrow> effective_value (demo_env v) = v"
  by (simp_all add: env_filter_def effective_value_def str_key_def demo_env_def)

theorem sync_address_invariant_witness:
  "address_settled (fst (snd (runWorker 3 mem_queue env_Do (initial_vars,
     ([Enqueued \<lparr>eo_Obj = Some (demo_env ''https://olares.cn''), eo_Action = ADD, eo_Subscribe = ()\<rparr>], [])))))"
  by (rule sync_address_invariant) (simp add: address_settled_def)

theorem unchanged_value_not_applied_witness:
  "env_Do () (Some (demo_env DefaultSyncServerURL)) ADD initial_vars = (Ret (), initial_vars) \<and> sv_SyncServerURL initial_vars = []
   \<and> (\<exists>e s'. env_Do () (Some (demo_env '':'')) ADD initial_vars = (Fail e, s') \<and>
        sv_SyncServerURL s' = [] \<and> env_Do () (Some (demo_env '':'')) ADD s' = (Ret (), s'))"
proof -
  have bad: "url_JoinPath '':'' ''space'' = Fail (url_error '':'')"
    by (simp add: url_JoinPath_def url_Parse_def cut_at_def Let_def ctl_byte_def index_of_None_char is_letter_def is_digit_def digit_val_def)
  have v: "effective_value (demo_env '':'') = '':''" by (simp add: demo_env_simps)
  obtain e s' where "env_Do () (Some (demo_env '':'')) ADD initial_vars = (Fail e, s')"
    using bad by (simp add: env_Do_def v Let_def tryG_def ReloadEnvDependantVars_def initial_vars_def DefaultSyncServerURL_def)
  moreover have "effective_value (demo_env DefaultSyncServerURL) = DefaultSyncServerURL"
    by (simp add: demo_env_simps DefaultSyncServerURL_def)
  ultimately show ?thesis using unchanged_value_not_applied by metis
qed

theorem systemenv_event_applied_witness:
  "\<exists>c'. bindG (AddToWatchers mem_deliver Ret (Some (env_handler mem_queue)) (AddEvent (Unstructured (demo_env ''https://olares.cn/''))))
     (\<lambda>_. processNextWorkItem mem_queue env_Do) (initial_vars, ([], [])) =
    (Ret True, (\<lparr>sv_OlaresRemoteService = ''https://olares.cn/'', sv_SyncServerURL = ''https://olares.cn/space''\<rparr>, c'))"
proof -
  have h: "host_plain ''olares.cn''" by (simp add: is_letter_def is_digit_def digit_val_def)
  have v: "effective_value (demo_env ''https://olares.cn/'') = ''https://'' @ ''olares.cn'' @ ''/''"
    by (simp add: demo_env_simps)
  have t: "\<exists>c1. wq_Get mem_queue (Enqueue mem_queue e ([], [])) = (Some (Enqueued e), c1)" for e :: "(unit, env_obj option) EnqueueObj"
    by (simp add: mem_queue_def Enqueue_def)
  show ?thesis
    using systemenv_event_applied[where conv = Ret and q = mem_queue and s = initial_vars,
        OF mem_deliver_law refl demo_env_simps(1) disjI1[OF refl] v h _ _ _ t]
    by (simp add: v initial_vars_def DefaultSyncServerURL_def)
qed

end
