(* ===== verification/Crontab.thy ===== *)
theory Crontab
  imports Services Calendar RestoreHandler
begin

text \<open>
  \<open>pkg/watchers/crontab.go\<close>: the daily job that removes old restores. \<open>k_client\<close> stands for the two
  calls that give the client. Every error is only logged. The clock is read for every restore; the
  process runs in UTC (a date moved by 15 days keeps its time of day).
\<close>

section \<open>The job\<close>

definition created_at :: "Restore \<Rightarrow> timestamp" where
  "created_at r = om_CreationTimestamp (re_meta r)"

text \<open>\<open>metav1.Now().Time.AddDate(0, 0, -15).After(creation)\<close>, on the scale of the calendar.\<close>

definition past_retention :: "timestamp \<Rightarrow> Restore \<Rightarrow> bool" where
  "past_retention now r \<longleftrightarrow> created_at r + unix_epoch * 1000000000 < AddDays (now + unix_epoch * 1000000000) (-15)"

definition clear_one :: "('w, 'm) kube_scheme \<Rightarrow> Restore \<Rightarrow> ('w, unit) go" where
  "clear_one k item = (\<lambda>w. if \<not> past_retention (k_now k w) item then (Ret (), w)
     else tryG (k_restore_delete k (re_Name item)) ret (\<lambda>e. ret ()) w)"

text \<open>The error of the list call is not looked at: the client then returns an empty list.\<close>

definition clearHistoryRestores :: "('w, 'm) kube_scheme \<Rightarrow> ('w, unit) go" where
  "clearHistoryRestores k = tryG (k_client k)
     (\<lambda>_. bindG (tryG (k_restore_list k []) ret (\<lambda>e. ret []))
        (\<lambda>items. if items = [] then ret () else forG (clear_one k) items))
     (\<lambda>e. ret ())"

section \<open>What it removes\<close>

lemma past_retention_iff: "past_retention now r \<longleftrightarrow> created_at r + 15 * ns_day < now"
  by (auto simp: past_retention_def)

lemma forG_clear:
  assumes "\<And>n w. k_now k (snd (k_restore_delete k n w)) = k_now k w"
  shows "forG (clear_one k) items w =
    forG (\<lambda>n. ignore_error (k_restore_delete k n)) (map re_Name (filter (\<lambda>r. created_at r + 15 * ns_day < k_now k w) items)) w"
proof (induction items arbitrary: w)
  case (Cons r items)
  obtain o' w' where d: "k_restore_delete k (re_Name r) w = (o', w')" by fastforce
  have "k_now k w' = k_now k w" using assms[of "re_Name r" w] d by simp
  then show ?case
    using Cons[of w] Cons[of w'] d
    by (cases o') (simp_all add: bindG_apply clear_one_def past_retention_iff ignore_error_def tryG_def)
qed simp

text \<open>C22: the daily job sends a delete for exactly the restores that are more than 15 days old, in the order
  of the list, and goes on whether or not a delete succeeds. (Over one sweep the clock stands still.)\<close>

theorem old_restores_deleted:
  assumes "\<And>n w. k_now k (snd (k_restore_delete k n w)) = k_now k w"
    and "k_client k w = (Ret (), w1)" and "k_restore_list k [] w1 = (Ret items, w2)"
  shows "clearHistoryRestores k w =
    forG (\<lambda>n. ignore_error (k_restore_delete k n)) [re_Name r. r \<leftarrow> items, created_at r + 15 * 86400000000000 < k_now k w2] w2"
proof -
  have "clearHistoryRestores k w = forG (clear_one k) items w2"
    using assms(2,3) by (simp add: clearHistoryRestores_def go_simps)
  moreover have "[re_Name r. r \<leftarrow> items, P r] = map re_Name (filter P items)" for P by (induction items) simp_all
  ultimately show ?thesis using forG_clear[of k items w2, OF assms(1)] by simp
qed

section \<open>An instance\<close>

definition aged_restore :: "string \<Rightarrow> timestamp \<Rightarrow> Restore" where
  "aged_restore n t = re_meta_update (\<lambda>m. m\<lparr>om_CreationTimestamp := t\<rparr>) (new_restore n 1 ''file'' sample_restore_type)"

definition aged_store :: store where
  "aged_store = \<lparr>st_backups = [], st_snapshots = [], st_restores = [aged_restore ''old'' 0, aged_restore ''new'' (20 * 86400000000000)],
     st_clock = 21 * 86400000000000, st_next = 1\<rparr>"

theorem old_restores_deleted_witness:
  "clearHistoryRestores mem_api aged_store = (Ret (), aged_store\<lparr>st_restores := [aged_restore ''new'' (20 * 86400000000000)]\<rparr>)"
proof -
  have l: "k_restore_list mem_api [] aged_store = (Ret [aged_restore ''old'' 0, aged_restore ''new'' (20 * 86400000000000)], aged_store)"
    by (simp add: mem_api_def label_match_def aged_store_def)
  show ?thesis
    by (subst old_restores_deleted[OF _ _ l])
       (simp_all add: mem_api_def created_at_def aged_store_def aged_restore_def new_restore_def ignore_error_def go_simps)
qed

end
