(* ===== verification/Notification.thy ===== *)
theory Notification
  imports Json StrConv Utils
begin

text \<open>
  \<open>pkg/watchers/notification\<close>: the client of the event service of a user (\<open>event.go\<close>) and the sender of state
  messages over NATS (\<open>notification.go\<close>). The HTTP client, \<open>bcrypt\<close>, the Kubernetes API and the NATS
  connection are fields of the record \<open>event_net\<close>. An HTTP answer is its status, its body as a text,
  and the value that the client decoded from it.
\<close>

section \<open>Messages (event_types.go, notification_types.go)\<close>

record PermissionRequire =
  pr_Group :: string
  pr_DataType :: string
  pr_Version :: string
  pr_Ops :: "string list"

record AccessTokenRequest =
  ar_AppKey :: string
  ar_Timestamp :: int
  ar_Token :: string
  ar_Perm :: PermissionRequire

record AccessTokenResp =
  at_Code :: int
  at_Message :: string
  at_AccessToken :: string

record EventResponse =
  er_Code :: int
  er_Message :: string

record Event =
  ev_Type :: string
  ev_Version :: string
  ev_Message :: string
  ev_Payload :: json

record ApplicationPermissionSpec =
  ap_Description :: string
  ap_App :: string
  ap_Appid :: string
  ap_Key :: string
  ap_Secret :: string

definition int_json :: "int \<Rightarrow> json" where
  "int_json n = JNum (Itoa n)"

definition permission_json :: "PermissionRequire \<Rightarrow> json" where
  "permission_json p = JObj [(''group'', JStr (pr_Group p)), (''dataType'', JStr (pr_DataType p)),
     (''version'', JStr (pr_Version p)), (''ops'', JArr (map JStr (pr_Ops p)))]"

definition token_request_json :: "AccessTokenRequest \<Rightarrow> json" where
  "token_request_json r = JObj [(''app_key'', JStr (ar_AppKey r)), (''timestamp'', int_json (ar_Timestamp r)),
     (''token'', JStr (ar_Token r)), (''perm'', permission_json (ar_Perm r))]"

definition event_json :: "Event \<Rightarrow> json" where
  "event_json e = JObj [(''type'', JStr (ev_Type e)), (''version'', JStr (ev_Version e)),
     (''data'', JObj [(''msg'', JStr (ev_Message e)), (''payload'', ev_Payload e)])]"

section \<open>The event client (event.go)\<close>

record 'w event_net =
  en_now_ms :: "'w \<Rightarrow> int"
  en_bcrypt :: "string \<Rightarrow> ('w, string) go"
  en_post_token :: "string \<Rightarrow> smap \<Rightarrow> string \<Rightarrow> ('w, int \<times> string \<times> AccessTokenResp) go"
  en_post_event :: "string \<Rightarrow> smap \<Rightarrow> string \<Rightarrow> ('w, int \<times> string \<times> EventResponse) go"
  en_dynamic :: "('w, unit) go"
  en_get_permission :: "string \<Rightarrow> string \<Rightarrow> ('w, json) go"
  en_convert :: "json \<Rightarrow> ApplicationPermissionSpec outcome"
  en_getenv :: "string \<Rightarrow> string"
  en_connect :: "string \<Rightarrow> ('w, nat) go"
  en_publish :: "nat \<Rightarrow> string \<Rightarrow> string \<Rightarrow> ('w, unit) go"

definition GroupID :: string where "GroupID = ''message-disptahcer.system-server''"
definition EventVersion :: string where "EventVersion = ''v1''"
definition AccessTokenHeader :: string where "AccessTokenHeader = ''X-Access-Token''"

record EventClient =
  ec_appKey :: string
  ec_appSecret :: string
  ec_eventServer :: string

definition NewEventClient :: "string \<Rightarrow> string \<Rightarrow> string \<Rightarrow> EventClient" where
  "NewEventClient key secret server = \<lparr>ec_appKey = key, ec_appSecret = secret, ec_eventServer = server\<rparr>"

definition json_header :: smap where
  "json_header = [(''Content-Type'', ''application/json'')]"

definition getAccessToken :: "'w event_net \<Rightarrow> EventClient \<Rightarrow> ('w, string) go" where
  "getAccessToken n c = (\<lambda>w. let now = en_now_ms n w div 1000 in
     bindG (en_bcrypt n (ec_appKey c @ Itoa now @ ec_appSecret c)) (\<lambda>encode.
       let perm = \<lparr>ar_AppKey = ec_appKey c, ar_Timestamp = now, ar_Token = encode,
             ar_Perm = \<lparr>pr_Group = GroupID, pr_DataType = ''event'', pr_Version = EventVersion, pr_Ops = [''Create'']\<rparr>\<rparr> in
       bindG (en_post_token n (''http://'' @ ec_eventServer c @ ''/permission/v1alpha1/access'') json_header
           (jrender (token_request_json perm))) (\<lambda>(status, body, token).
         if status \<noteq> 200 then raise (Errorf body)
         else if at_Code token \<noteq> 0 then raise (Errorf (at_Message token))
         else ret (at_AccessToken token))) w)"

definition CreateEvent :: "'w event_net \<Rightarrow> EventClient \<Rightarrow> string \<Rightarrow> string \<Rightarrow> json \<Rightarrow> ('w, unit) go" where
  "CreateEvent n c eventType msg data = bindG (getAccessToken n c) (\<lambda>token.
     bindG (en_post_event n (''http://'' @ ec_eventServer c @ ''/system-server/v1alpha1/event/message-disptahcer.system-server/v1'')
         (json_header @ [(AccessTokenHeader, token)])
         (jrender (event_json \<lparr>ev_Type = eventType, ev_Version = EventVersion, ev_Message = msg, ev_Payload = data\<rparr>)))
       (\<lambda>(status, body, response).
         if status \<noteq> 200 then raise (Errorf body)
         else if er_Code response \<noteq> 0 then raise (Errorf (er_Message response))
         else ret ()))"

section \<open>Notifications to a user (notification.go)\<close>

definition getUserAppKey :: "'w event_net \<Rightarrow> string \<Rightarrow> ('w, string \<times> string) go" where
  "getUserAppKey n user = bindG (en_dynamic n) (\<lambda>_.
     bindG (en_get_permission n (''user-system-'' @ user) ''bfl'') (\<lambda>data.
       bindG (liftO (en_convert n data)) (\<lambda>spec. ret (ap_Key spec, ap_Secret spec))))"

definition Notification_Send :: "'w event_net \<Rightarrow> string \<Rightarrow> string \<Rightarrow> string \<Rightarrow> json \<Rightarrow> ('w, unit) go" where
  "Notification_Send n eventType user msg data = bindG (getUserAppKey n user) (\<lambda>(appKey, appSecret).
     CreateEvent n (NewEventClient appKey appSecret (''system-server.user-system-'' @ user)) eventType msg data)"

section \<open>State messages (notification.go)\<close>

text \<open>The sender of the process: a nil pointer before \<open>NewSender\<close>; a connection is a number.\<close>

record dataSender =
  ds_conn :: "nat option"
  ds_subject :: string
  ds_enabled :: bool

definition nats_url :: "(string \<Rightarrow> string) \<Rightarrow> string" where
  "nats_url env = ''nats://'' @ GetEnvOrDefault env ''NATS_USERNAME'' [] @ '':'' @ GetEnvOrDefault env ''NATS_PASSWORD'' []
     @ ''@'' @ GetEnvOrDefault env ''NATS_HOST'' ''localhost'' @ '':'' @ GetEnvOrDefault env ''NATS_PORT'' ''4222''"

text \<open>The state is the world and the variable \<open>DataSender\<close>, which is set before the connection is made; a
  failed connection panics.\<close>

definition NewSender :: "'w event_net \<Rightarrow> ('w \<times> dataSender option, unit) go" where
  "NewSender n = (\<lambda>(w, _). case en_connect n (nats_url (en_getenv n)) w of
      (Ret conn, w1) \<Rightarrow> (Ret (), (w1, Some \<lparr>ds_conn = Some conn,
         ds_subject = GetEnvOrDefault (en_getenv n) ''NATS_SUBJECT_SYSTEM_BACKUP_STATE'' ''os.backup'', ds_enabled = True\<rparr>))
    | (Fail e, w1) \<Rightarrow> (Panic (err_text e), (w1, Some \<lparr>ds_conn = None, ds_subject = [], ds_enabled = False\<rparr>))
    | (Panic p, w1) \<Rightarrow> (Panic p, (w1, Some \<lparr>ds_conn = None, ds_subject = [], ds_enabled = False\<rparr>))
    | (Diverge, w1) \<Rightarrow> (Diverge, (w1, Some \<lparr>ds_conn = None, ds_subject = [], ds_enabled = False\<rparr>)))"

text \<open>An error of the broker is only logged.\<close>

definition dataSender_Send :: "'w event_net \<Rightarrow> dataSender option \<Rightarrow> string \<Rightarrow> json \<Rightarrow> ('w, unit) go" where
  "dataSender_Send n d user data = (case d of None \<Rightarrow> ret () | Some s \<Rightarrow> (case ds_conn s of None \<Rightarrow> ret ()
     | Some conn \<Rightarrow> tryG (en_publish n conn (ds_subject s @ ''.'' @ user) (jrender data)) ret (\<lambda>e. ret ())))"

section \<open>What a message guarantees\<close>

text \<open>Sending a state message never fails: neither a missing connection nor an error of the broker shows.\<close>

lemma dataSender_Send_no_Fail: "dataSender_Send n d user data w \<noteq> (Fail e, w')"
  by (auto simp: dataSender_Send_def tryG_def split: option.splits outcome.splits prod.splits)

lemma disconnected_sender_silent:
  "d = None \<or> ds_conn (the d) = None \<Longrightarrow> dataSender_Send n d user data w = (Ret (), w)"
  by (auto simp: dataSender_Send_def split: option.split)

lemma getAccessToken_Ret:
  assumes "getAccessToken n c w = (Ret tok, w')"
  shows "\<exists>body req answer w1. en_bcrypt n (ec_appKey c @ Itoa (en_now_ms n w div 1000) @ ec_appSecret c) w = (Ret req, w1)
     \<and> (\<exists>text. en_post_token n (''http://'' @ ec_eventServer c @ ''/permission/v1alpha1/access'') json_header text w1 =
          (Ret (200, body, answer), w')) \<and> at_Code answer = 0 \<and> at_AccessToken answer = tok"
  using assms by (auto simp: getAccessToken_def Let_def bindG_Ret_iff split: if_splits)

text \<open>A notification that is reported as sent went through the whole protocol of the user's event
  server: the key and the secret of the user were read, the server gave an access token (status 200 and
  code 0), and the event was accepted (status 200, code 0) in a request that carries this token.\<close>

theorem notification_sent_with_token:
  assumes "Notification_Send n ty user msg data w = (Ret (), w')"
  shows "\<exists>key secret w1 token w2 text body answer.
      getUserAppKey n user w = (Ret (key, secret), w1)
    \<and> getAccessToken n (NewEventClient key secret (''system-server.user-system-'' @ user)) w1 = (Ret token, w2)
    \<and> en_post_event n (''http://system-server.user-system-'' @ user @ ''/system-server/v1alpha1/event/message-disptahcer.system-server/v1'')
        (json_header @ [(AccessTokenHeader, token)]) text w2 = (Ret (200, body, answer), w')
    \<and> er_Code answer = 0"
  using assms unfolding Notification_Send_def CreateEvent_def NewEventClient_def bindG_Ret_iff
  by (fastforce simp: bindG_Ret_iff split: if_splits prod.splits)

text \<open>An event server that counts its requests.\<close>

definition demo_net :: "nat event_net" where
  "demo_net = \<lparr>en_now_ms = (\<lambda>_. 1700000000123), en_bcrypt = ret,
     en_post_token = (\<lambda>_ _ _ w. (Ret (200, [], \<lparr>at_Code = 0, at_Message = [], at_AccessToken = ''tok''\<rparr>), Suc w)),
     en_post_event = (\<lambda>_ h _ w. (Ret (if mget h AccessTokenHeader = ''tok'' then (200, [], \<lparr>er_Code = 0, er_Message = []\<rparr>)
         else (401, ''no token'', \<lparr>er_Code = 0, er_Message = []\<rparr>)), Suc w)),
     en_dynamic = ret (), en_get_permission = (\<lambda>_ _. ret JNull),
     en_convert = (\<lambda>_. Ret \<lparr>ap_Description = [], ap_App = ''bfl'', ap_Appid = [], ap_Key = ''k'', ap_Secret = ''s''\<rparr>),
     en_getenv = (\<lambda>_. []), en_connect = (\<lambda>_. ret 1), en_publish = (\<lambda>_ _ _. ret ())\<rparr>"

theorem notification_sent_with_token_witness:
  "\<exists>key secret w1 token w2 text body answer.
      getUserAppKey demo_net ''alice'' 0 = (Ret (key, secret), w1)
    \<and> getAccessToken demo_net (NewEventClient key secret (''system-server.user-system-'' @ ''alice'')) w1 = (Ret token, w2)
    \<and> en_post_event demo_net (''http://system-server.user-system-'' @ ''alice'' @ ''/system-server/v1alpha1/event/message-disptahcer.system-server/v1'')
        (json_header @ [(AccessTokenHeader, token)]) text w2 = (Ret (200, body, answer), 2)
    \<and> er_Code answer = 0"
  by (rule notification_sent_with_token[where ty = "''backup''" and msg = "''done''" and data = JNull])
     (simp add: Notification_Send_def getUserAppKey_def CreateEvent_def getAccessToken_def demo_net_def Let_def bindG_apply
        json_header_def AccessTokenHeader_def mget_def)

end
