(* ===== verification/Server.thy ===== *)
theory Server
  imports ApiRestores UrlJoin
begin

text \<open>
  The API server around the handlers: the address of the client (\<open>pkg/util/ip.go\<close>), the filters
  (\<open>pkg/apiserver/filters\<close>, \<open>pkg/apiserver/apiserver.go\<close>), the routes
  (\<open>pkg/modules/backup/v1/register.go\<close>) and the options of the command. The router and the decoding of the
  bodies belong to go-restful and are arguments. A body is kept as a JSON value. The access log is the
  second component of the state.
\<close>

section \<open>The address of the client (pkg/util/ip.go)\<close>

record http_request =
  rq_Method :: string
  rq_Path :: string
  rq_RemoteAddr :: string
  rq_Headers :: smap
  rq_Query :: smap
  rq_Body :: string

text \<open>Names of headers are compared without their case.\<close>

definition Header_Get :: "smap \<Rightarrow> string \<Rightarrow> string" where
  "Header_Get h name = (case find (\<lambda>kv. ToLower (fst kv) = ToLower name) h of None \<Rightarrow> [] | Some kv \<Rightarrow> snd kv)"

definition ipExtraHeaders :: "string list" where
  "ipExtraHeaders = [''X-Forwarded-For'', ''X-Real-IP'', ''X-Client-IP'']"

text \<open>\<open>net.SplitHostPort\<close>; the texts of its errors are not looked at.\<close>

definition SplitHostPort :: "string \<Rightarrow> (string \<times> string) option" where
  "SplitHostPort hp = (case index_of (rev hp) '':'' of
      None \<Rightarrow> None
    | Some r \<Rightarrow> let i = length hp - r - 1; port = drop (Suc i) hp in
        if prefix ''['' hp then
          (case index_of hp '']'' of
             None \<Rightarrow> None
           | Some e \<Rightarrow> if Suc e \<noteq> i then None
               else if CHR ''['' \<in> set (drop 1 hp) \<or> CHR '']'' \<in> set (drop (Suc e) hp) then None
               else Some (drop 1 (take e hp), port))
        else if CHR '':'' \<in> set (take i hp) then None
        else if CHR ''['' \<in> set hp \<or> CHR '']'' \<in> set hp then None
        else Some (take i hp, port))"

definition RealClientIP :: "http_request \<Rightarrow> string" where
  "RealClientIP rq = (let
     addr = foldl (\<lambda>a header. let ip = Header_Get (rq_Headers rq) header in if ip \<noteq> [] then ip else a) (rq_RemoteAddr rq) ipExtraHeaders;
     host = (if Contains addr '':'' then (case SplitHostPort addr of
               Some (ip, _) \<Rightarrow> if ip \<noteq> [] then ip else addr | None \<Rightarrow> addr) else addr)
     in if host = ''::1'' then ''127.0.0.1'' else host)"

section \<open>Responses and filters\<close>

datatype http_body = TextBody string | JsonBody json

record http_response =
  hr_Status :: int
  hr_Headers :: smap
  hr_Body :: http_body

record access_entry =
  ae_IP :: string
  ae_Method :: string
  ae_Path :: string
  ae_Status :: int

type_synonym 'w chain = "('w \<times> access_entry list, http_response) go"

text \<open>The headers of an answer are listed as the filter adds them; the JSON writer of go-restful then sets the
  \<open>Content-Type\<close> of a JSON body again, which is left to it.\<close>

definition cors_headers :: smap where
  "cors_headers = [(''Access-Control-Allow-Origin'', ''*''),
     (''Content-Type'', ''application/json, application/x-www-form-urlencoded''),
     (''Access-Control-Allow-Methods'', ''POST, GET, OPTIONS, PUT, PATCH, DELETE''),
     (''Access-Control-Allow-Headers'', ''Accept, Content-Type, Accept-Encoding, Authorization, X-Authorization'')]"

definition Cors :: "http_request \<Rightarrow> 'w chain \<Rightarrow> 'w chain" where
  "Cors rq chain = (if rq_Method rq = ''OPTIONS''
     then ret \<lparr>hr_Status = 200, hr_Headers = cors_headers, hr_Body = TextBody ''ok''\<rparr>
     else bindG chain (\<lambda>r. ret (r\<lparr>hr_Headers := cors_headers @ hr_Headers r\<rparr>)))"

definition LogRequestAndResponse :: "http_request \<Rightarrow> 'w chain \<Rightarrow> 'w chain" where
  "LogRequestAndResponse rq chain = bindG chain (\<lambda>r (w, log). (Ret r, (w,
     if RealClientIP rq = ''127.0.0.1'' then log
     else log @ [\<lparr>ae_IP = RealClientIP rq, ae_Method = rq_Method rq, ae_Path = rq_Path rq, ae_Status = hr_Status r\<rparr>])))"

text \<open>\<open>errHandle\<close>; no part of the program makes a \<open>TokenError\<close>, so the code is 1.\<close>

definition errHandle :: "int \<Rightarrow> string \<Rightarrow> http_response" where
  "errHandle statusCode text = \<lparr>hr_Status = statusCode, hr_Headers = [],
     hr_Body = JsonBody (JObj [(''code'', jint 1), (''message'', JStr text)])\<rparr>"

definition HandleInternalError :: "string \<Rightarrow> http_response" where
  "HandleInternalError text = errHandle 500 text"

text \<open>The filter of \<open>PrepareRun\<close> that recovers.\<close>

definition recover_filter :: "'w chain \<Rightarrow> 'w chain" where
  "recover_filter chain = recoverG chain (\<lambda>p. ret (HandleInternalError (''internal error: '' @ p)))"

definition Authenticate :: "'w chain \<Rightarrow> 'w chain" where
  "Authenticate chain = chain"

section \<open>Routes (register.go, runtime.go, options.go)\<close>

definition Complete :: "string \<Rightarrow> string" where
  "Complete routePrefix = (if routePrefix = [] then ''/'' else if routePrefix = ''/'' then routePrefix else TrimRight routePrefix ''/'')"

definition NewWebService :: "string \<Rightarrow> string" where
  "NewWebService routePrefix = (if routePrefix = ''/'' then ''/backup/v1'' else routePrefix @ ''/backup/v1'')"

datatype seg = Lit string | Par string

datatype endpoint = Ready | GetNode | GetSpaceRegions | AddBackup | UpdateBackup | ListBackup | GetBackup | GetBackupPlan
  | DeleteBackupPlan | EnabledBackupPlan | AddSnapshot | ListSnapshot | GetSnapshotDetail | GetSnapshotItem | CancelSnapshotTask
  | ListRestore | CheckBackupUrl | AddRestore | GetRestoreDetail | GetRestoreItem | CancelRestoreTask

definition routes :: "(string \<times> seg list \<times> endpoint) list" where
  "routes = [
    (''GET'', [Lit ''ready''], Ready),
    (''GET'', [Lit ''node''], GetNode),
    (''GET'', [Lit ''regions''], GetSpaceRegions),
    (''POST'', [Lit ''plans'', Lit ''backup''], AddBackup),
    (''PUT'', [Lit ''plans'', Lit ''backup'', Par ''id''], UpdateBackup),
    (''GET'', [Lit ''plans'', Lit ''backup''], ListBackup),
    (''GET'', [Lit ''plans'', Lit ''backup'', Par ''id''], GetBackup),
    (''GET'', [Lit ''plans'', Lit ''backup'', Lit ''one'', Par ''id''], GetBackupPlan),
    (''DELETE'', [Lit ''plans'', Lit ''backup'', Par ''id''], DeleteBackupPlan),
    (''POST'', [Lit ''plans'', Lit ''backup'', Par ''id''], EnabledBackupPlan),
    (''POST'', [Lit ''plans'', Lit ''backup'', Par ''id'', Lit ''snapshots''], AddSnapshot),
    (''GET'', [Lit ''plans'', Lit ''backup'', Par ''id'', Lit ''snapshots''], ListSnapshot),
    (''GET'', [Lit ''plans'', Lit ''backup'', Par ''id'', Lit ''snapshots'', Par ''snapshotId''], GetSnapshotDetail),
    (''GET'', [Lit ''plans'', Lit ''backup'', Par ''id'', Lit ''snapshots'', Lit ''one'', Par ''snapshotId''], GetSnapshotItem),
    (''DELETE'', [Lit ''plans'', Lit ''backup'', Par ''id'', Lit ''snapshots'', Par ''snapshotId''], CancelSnapshotTask),
    (''GET'', [Lit ''plans'', Lit ''restore''], ListRestore),
    (''POST'', [Lit ''plans'', Lit ''restore'', Lit ''checkurl''], CheckBackupUrl),
    (''POST'', [Lit ''plans'', Lit ''restore''], AddRestore),
    (''GET'', [Lit ''plans'', Lit ''restore'', Par ''id''], GetRestoreDetail),
    (''GET'', [Lit ''plans'', Lit ''restore'', Lit ''one'', Par ''id''], GetRestoreItem),
    (''DELETE'', [Lit ''plans'', Lit ''restore'', Par ''id''], CancelRestoreTask)]"

text \<open>The documented meaning of a route pattern: literal parts are equal, a parameter takes one part.\<close>

fun match_segs :: "seg list \<Rightarrow> string list \<Rightarrow> smap option" where
  "match_segs [] [] = Some []"
| "match_segs (Lit l # ss) (t # ts) = (if l = t then match_segs ss ts else None)"
| "match_segs (Par p # ss) (t # ts) = map_option (\<lambda>m. (p, t) # m) (match_segs ss ts)"
| "match_segs _ _ = None"

text \<open>The decoders of the bodies, one for each type that a handler reads.\<close>

record decoders =
  d_BackupCreate :: "string \<Rightarrow> BackupCreate outcome"
  d_event :: "string \<Rightarrow> string outcome"
  d_RestoreCreate :: "string \<Rightarrow> RestoreCreate outcome"
  d_CheckUrl :: "string \<Rightarrow> RestoreCheckBackupUrl outcome"

definition BflUserKey :: string where "BflUserKey = ''X-BFL-USER''"

definition call_endpoint :: "('w, 'm) api_scheme \<Rightarrow> decoders \<Rightarrow> endpoint \<Rightarrow> smap \<Rightarrow> http_request \<Rightarrow> ('w, response) go" where
  "call_endpoint v d e ps rq = (let
     owner = Header_Get (rq_Headers rq) BflUserKey; i = mget ps ''id''; sid = mget ps ''snapshotId'';
     limit = mget (rq_Query rq) ''limit''; offset = mget (rq_Query rq) ''offset''; body = rq_Body rq in
     case e of
       Ready \<Rightarrow> health
     | GetNode \<Rightarrow> getNode v
     | GetSpaceRegions \<Rightarrow> getSpaceRegions v owner
     | AddBackup \<Rightarrow> addBackup v (d_BackupCreate d body) owner
     | UpdateBackup \<Rightarrow> update_backup v (d_BackupCreate d body) i owner
     | ListBackup \<Rightarrow> listBackup v owner limit offset
     | GetBackup \<Rightarrow> get_backup v i
     | GetBackupPlan \<Rightarrow> getBackupPlan v i
     | DeleteBackupPlan \<Rightarrow> deleteBackupPlan v i
     | EnabledBackupPlan \<Rightarrow> enabledBackupPlan v (d_event d body) i
     | AddSnapshot \<Rightarrow> addSnapshot v (d_event d body) i
     | ListSnapshot \<Rightarrow> listSnapshots v i limit offset
     | GetSnapshotDetail \<Rightarrow> getSnapshot v sid
     | GetSnapshotItem \<Rightarrow> getSnapshotOne v sid
     | CancelSnapshotTask \<Rightarrow> cancelSnapshot v (d_event d body) i sid
     | ListRestore \<Rightarrow> listRestore v owner limit offset
     | CheckBackupUrl \<Rightarrow> checkBackupUrl v (d_CheckUrl d body) owner
     | AddRestore \<Rightarrow> addRestore v (d_RestoreCreate d body) owner
     | GetRestoreDetail \<Rightarrow> getRestore v i
     | GetRestoreItem \<Rightarrow> getRestoreOne v i
     | CancelRestoreTask \<Rightarrow> cancelRestore v (d_event d body) i)"

text \<open>The router: an endpoint with its parameters, or the status of a routing error with its text.\<close>

type_synonym router = "http_request \<Rightarrow> (endpoint \<times> smap) + (int \<times> string)"

definition dispatch :: "('w, 'm) api_scheme \<Rightarrow> router \<Rightarrow> decoders \<Rightarrow> http_request \<Rightarrow> 'w chain" where
  "dispatch v route d rq = (case route rq of
      Inr (status, text) \<Rightarrow> ret \<lparr>hr_Status = status, hr_Headers = [], hr_Body = TextBody text\<rparr>
    | Inl (e, ps) \<Rightarrow> (\<lambda>(w, log). case call_endpoint v d e ps rq w of
        (Ret r, w1) \<Rightarrow> (Ret \<lparr>hr_Status = 200, hr_Headers = [], hr_Body = JsonBody (response_json r)\<rparr>, (w1, log))
      | (Fail err, w1) \<Rightarrow> (Fail err, (w1, log))
      | (Panic p, w1) \<Rightarrow> (Panic p, (w1, log))
      | (Diverge, w1) \<Rightarrow> (Diverge, (w1, log))))"

definition serve :: "('w, 'm) api_scheme \<Rightarrow> router \<Rightarrow> decoders \<Rightarrow> http_request \<Rightarrow> 'w chain" where
  "serve v route d rq = Cors rq (LogRequestAndResponse rq (recover_filter (Authenticate (dispatch v route d rq))))"

end
