(* ===== verification/ServerFacts.thy ===== *)
theory ServerFacts
  imports Server ApiFacts
begin

text \<open>
  What the API server guarantees around the handlers: a handler never leaves a request with an error
  that is not answered, a panic is answered with status 500, and the routes are unambiguous.
\<close>

section \<open>Handlers answer\<close>

text \<open>A computation that does not end with an error: it answers, panics or runs on.\<close>

definition settled :: "'a outcome \<Rightarrow> bool" where
  "settled r \<longleftrightarrow> (\<forall>e. r \<noteq> Fail e)"

definition answers :: "('w, 'a) go \<Rightarrow> bool" where
  "answers m \<longleftrightarrow> (\<forall>w. settled (fst (m w)))"

named_theorems answering \<open>introduction rules for settled and answers\<close>

lemma settled_simps [simp]: "settled (Ret x)" "settled (Panic p)" "settled Diverge" "\<not> settled (Fail e)"
  by (simp_all add: settled_def)

lemma settled_bindO [answering]: "settled m \<Longrightarrow> (\<And>x. settled (f x)) \<Longrightarrow> settled (bindO m f)"
  by (cases m) simp_all

lemma settled_derefO [answering]: "settled (derefO p)"
  by (simp add: derefO_def split: option.split)

lemma settled_unix_of [answering]: "settled (unix_of t)"
  unfolding unix_of_def by (intro answering) simp

lemma settled_mapO [answering]: "(\<And>x. settled (f x)) \<Longrightarrow> settled (mapO f xs)"
  by (induction xs) (auto intro!: answering)

lemma settled_collectO [answering]: "(\<And>x. settled (f x)) \<Longrightarrow> settled (collectO f xs)"
  unfolding collectO_def by (intro answering) simp_all

lemma answers_Pair [simp]: "answers (Pair r) \<longleftrightarrow> settled r"
  by (simp add: answers_def)

lemma answers_ret [answering]: "answers (ret x)"
  by simp

lemma answers_liftO [answering]: "settled r \<Longrightarrow> answers (liftO r)"
  by (simp add: answers_def)

lemma answers_tryG [answering]: "(\<And>x. answers (f x)) \<Longrightarrow> (\<And>e. answers (h e)) \<Longrightarrow> answers (tryG m f h)"
  by (auto simp: answers_def tryG_def split: prod.split outcome.split)

lemma answers_bindG [answering]: "answers m \<Longrightarrow> (\<And>x. answers (f x)) \<Longrightarrow> answers (bindG m f)"
  unfolding bindG_def answers_def by (auto simp: tryG_def split: prod.split outcome.split) (metis fst_conv settled_simps(4))

text \<open>Computations that look at the world first.\<close>

lemma answers_world_tryG:
  "(\<And>w. answers (tryG (m w) (f w) (h w))) \<Longrightarrow> answers (\<lambda>w. tryG (m w) (f w) (h w) w)"
  by (simp add: answers_def)

lemma answers_pure: "(\<And>w. settled (f w)) \<Longrightarrow> answers (\<lambda>w. (f w, w))"
  by (simp add: answers_def)

lemma answers_if [answering]: "answers m \<Longrightarrow> answers n \<Longrightarrow> answers (if b then m else n)"
  by simp

lemma answers_derefG [answering]: "answers (derefG s p)"
  by (cases p) (simp_all add: answers_def)

lemma answers_handle_error [answering]: "answers (handle_error e)"
  by (simp add: handle_error_def answers_def split: option.split)

lemma answers_fail_with [answering]: "answers (fail_with e s)"
  by (simp add: fail_with_def answering)

lemma answers_answer [answering]: "settled j \<Longrightarrow> answers (answer j)"
  unfolding answer_def by (intro answering) simp_all

lemma answers_world_answer:
  fixes j :: "'w \<Rightarrow> json outcome"
  assumes "\<And>w. settled (j w)" shows "answers (\<lambda>w. answer (j w) w)"
proof -
  have a: "answers (answer (j w) :: ('w, response) go)" for w by (rule answers_answer[OF assms])
  show ?thesis unfolding answers_def
  proof
    fix w show "settled (fst (answer (j w) w))" using a[of w] unfolding answers_def by blast
  qed
qed

lemma answers_found [answering]: "(\<And>x. answers (f x)) \<Longrightarrow> answers (found m s t f)"
  unfolding found_def by (intro answering) simp_all

lemma answers_found_by_id [answering]:
  "(\<And>x. answers (f x)) \<Longrightarrow> answers (found_backup v i f)"
  "(\<And>x. answers (g x)) \<Longrightarrow> answers (found_snapshot v i s g)"
  "(\<And>x. answers (h x)) \<Longrightarrow> answers (found_restore v i h)"
  by (simp_all add: found_backup_def found_snapshot_def found_restore_def answering)

lemma answers_read_entity [answering]: "(\<And>x. answers (f x)) \<Longrightarrow> answers (read_entity body f)"
  unfolding read_entity_def by (intro answering) simp_all

lemma answers_CheckAppInstalled [answering]: "answers (CheckAppInstalled v n)"
  unfolding CheckAppInstalled_def by (intro answering)

section \<open>The parts of an answer\<close>

lemma settled_GetNextBackupTime [answering]: "settled (GetNextBackupTime f z n p)"
  by (auto simp: GetNextBackupTime_def getNextBackupTimeByHourly_def Let_def split: outcome.split option.split)

lemma settled_next_of [answering]: "settled (next_of v w p)"
  by (simp add: next_of_def Let_def answering)

lemma settled_GenericPager [answering]: "settled (GenericPager l f xs)"
  by (simp add: GenericPager_def Let_def)

lemma settled_GetRestoreAppName [answering]: "settled (GetRestoreAppName r)"
  by (simp add: GetRestoreAppName_def split: option.split json.split)

lemma settled_restore_app_name [answering]: "settled (restore_app_name t r)"
  by (simp add: restore_app_name_def answering)

lemma settled_str_member [answering]: "settled (str_member kvs k)"
  by (simp add: str_member_def split: option.split json.split)

lemma settled_completed_of [answering]: "settled (completed_of bs ss)"
  by (induction bs ss rule: completed_of.induct) (auto intro!: answering)

lemma settled_snapshot_item [answering]: "settled (snapshot_item s)"
  unfolding snapshot_item_def Let_def by (intro answering) simp

lemma settled_check_item [answering]: "settled (check_item s)"
  unfolding check_item_def Let_def by (intro answering) simp

lemma settled_snapshot_answers [answering]:
  "settled (parseResponseSnapshotList ss p c)" "settled (parseResponseSnapshotOne s)"
  unfolding parseResponseSnapshotList_def parseResponseSnapshotOne_def Let_def
  by (auto intro!: answering)

lemma settled_backup_item [answering]:
  assumes "\<And>p. settled (next p)" shows "settled (backup_item title next bs b)"
  using assms unfolding backup_item_def Let_def
  by (auto intro!: answering split: outcome.split prod.split option.split)

lemma settled_backup_answers [answering]:
  assumes "\<And>p. settled (next p)"
  shows "settled (parseResponseBackupList title next bs ss p)" "settled (parseResponseBackupCreate next b)"
  using assms unfolding parseResponseBackupList_def parseResponseBackupCreate_def Let_def
  by (auto intro!: answering split: outcome.split prod.split)

lemma settled_restore_item [answering]: "settled (restore_item r)"
  unfolding restore_item_def Let_def by (auto intro!: answering split: outcome.split)

lemma settled_restore_answers [answering]:
  "settled (parseResponseRestoreList rs p)" "settled (parseResponseRestoreCreate r b t s)"
  "settled (parseResponseRestoreOne z r a b t s u)"
  unfolding parseResponseRestoreList_def parseResponseRestoreCreate_def parseResponseRestoreOne_def Let_def
  by (auto intro!: answering)

lemma settled_restore_detail [answering]: "settled (parseResponseRestoreDetailFromBackupUrl r)"
  unfolding parseResponseRestoreDetailFromBackupUrl_def Let_def
  by (auto intro!: answering split: option.split json.split)

lemma settled_check_answers [answering]:
  "settled (SortSnapshotList f xs)" "settled (parseCheckBackupUrl ys b t a l u c p)"
  unfolding SortSnapshotList_def parseCheckBackupUrl_def by (auto intro!: answering split: list.split)

lemma answers_collect_snapshots [answering]: "answers (collect_snapshots v ls)"
  by (induction ls) (auto intro!: answering)

lemma answers_backup_page [answering]: "answers (backup_page v l f bs)"
  unfolding backup_page_def by (auto intro!: answering answers_pure split: prod.split)

section \<open>Every handler answers\<close>

lemma answers_plan_handlers:
  "answers (listBackup v owner limit offset)" "answers (get_backup v i)" "answers (update_backup v body i owner)"
  "answers (deleteBackupPlan v i)" "answers (enabledBackupPlan v ev i)"
  unfolding listBackup_def get_backup_def update_backup_def deleteBackupPlan_def enabledBackupPlan_def Let_def
  by (auto intro!: answering split: option.split list.split)

lemma answers_getBackupPlan: "answers (getBackupPlan v i)"
  unfolding getBackupPlan_def
  by (intro answers_found_by_id answers_bindG, (auto intro!: answering)[1], rule answers_world_tryG)
     (auto intro!: answering)

lemma answers_created: "answers (\<lambda>w. answer (parseResponseBackupCreate (next_of v w) b) w)"
  by (rule answers_world_answer) (auto intro!: answering)

lemma answers_addBackup: "answers (addBackup v body owner)"
  unfolding addBackup_def by (auto intro!: answering answers_created)

lemma answers_snapshot_handlers:
  "answers (addSnapshot v ev i)" "answers (listSnapshots v i l f)" "answers (getSnapshot v s)" "answers (getSnapshotOne v s)"
  "answers (cancelSnapshot v ev i s)"
  unfolding addSnapshot_def listSnapshots_def getSnapshot_def getSnapshotOne_def cancelSnapshot_def
  by (auto intro!: answering split: option.split)

lemma answers_system_handlers: "answers health" "answers (getNode v)" "answers (getSpaceRegions v owner)"
  unfolding health_def getNode_def getSpaceRegions_def by (auto intro!: answering)

lemma answers_restore_handlers:
  "answers (listRestore v owner l f)" "answers (checkBackupUrl v cb owner)" "answers (getRestore v i)"
  "answers (getRestoreOne v i)" "answers (cancelRestore v ev i)"
  unfolding listRestore_def checkBackupUrl_def getRestore_def getRestoreOne_def cancelRestore_def Let_def
  by (auto intro!: answering)

lemma answers_store_restore: "answers (store_restore v t n st mk)"
  unfolding store_restore_def Let_def by (rule answers_world_tryG) (auto intro!: answering)

lemma answers_create_url_restore: "answers (create_url_restore v b owner c u d s)"
  unfolding create_url_restore_def by (rule answers_store_restore)

lemma answers_addRestore: "answers (addRestore v body owner)"
  unfolding addRestore_def add_from_snapshot_def add_from_url_def Let_def
  by (auto intro!: answering answers_create_url_restore answers_store_restore split: option.split)

lemma answers_call_endpoint: "answers (call_endpoint v d e ps rq)"
  unfolding call_endpoint_def Let_def
  by (cases e) (simp_all add: answers_plan_handlers answers_getBackupPlan answers_addBackup answers_snapshot_handlers
    answers_system_handlers answers_restore_handlers answers_addRestore)

section \<open>Requests are answered\<close>

lemma dispatch_answers: "answers (dispatch v route d rq)"
proof -
  have "settled (fst (dispatch v route d rq (w, l)))" for w l
  proof (cases "route rq")
    case (Inl ep)
    obtain e ps where ep: "ep = (e, ps)" by fastforce
    obtain r w1 where c: "call_endpoint v d e ps rq w = (r, w1)" by fastforce
    have "settled r" using answers_call_endpoint[of v d e ps rq] c unfolding answers_def by (metis fst_conv)
    then show ?thesis using Inl ep c by (cases r) (simp_all add: dispatch_def)
  qed (auto simp: dispatch_def split: prod.split)
  then show ?thesis by (auto simp: answers_def)
qed

text \<open>The answer of the chain behind the logging filter.\<close>

lemma recovered_cases:
  obtains (answer) r s' where "recover_filter (Authenticate (dispatch v route d rq)) s = (Ret r, s')"
  | (diverge) s' where "recover_filter (Authenticate (dispatch v route d rq)) s = (Diverge, s')"
proof -
  obtain r s' where c: "dispatch v route d rq s = (r, s')" by (metis surj_pair)
  have "settled r" using dispatch_answers[of v route d rq] c unfolding answers_def by (metis fst_conv)
  then show ?thesis
    using c that by (cases r) (auto simp: recover_filter_def Authenticate_def recoverG_def)
qed

text \<open>C16: every request that does not run on for ever is answered, whatever the router, the bodies and the
  services do: no error of a handler gets past it and no panic gets past the recovering filter, and
  the answer carries the headers for cross-origin requests.\<close>

theorem server_answers_every_request:
  "(\<exists>r s'. serve v route d rq s = (Ret r, s') \<and> (\<exists>hs. hr_Headers r = cors_headers @ hs)) \<or> (\<exists>s'. serve v route d rq s = (Diverge, s'))"
proof (cases rule: recovered_cases[of v route d rq s])
  case (answer r s')
  then show ?thesis
    by (cases s') (auto simp: serve_def Cors_def LogRequestAndResponse_def bindG_apply)
next
  case (diverge s')
  then show ?thesis by (auto simp: serve_def Cors_def LogRequestAndResponse_def bindG_apply)
qed

text \<open>C17: the answer to a routed request: a response of the handler is sent with status 200, and a panic of
  the handler becomes status 500 with code 1 and its text; what the handler did to the world stays.\<close>

theorem routed_request_answer:
  assumes "rq_Method rq \<noteq> ''OPTIONS''" and "route rq = Inl (e, ps)"
    and "call_endpoint v d e ps rq w = (out, w1)"
  shows "\<exists>l'. (\<forall>r. out = Ret r \<longrightarrow> serve v route d rq (w, l) =
        (Ret \<lparr>hr_Status = 200, hr_Headers = cors_headers, hr_Body = JsonBody (response_json r)\<rparr>, (w1, l')))
    \<and> (\<forall>p. out = Panic p \<longrightarrow> serve v route d rq (w, l) =
        (Ret \<lparr>hr_Status = 500, hr_Headers = cors_headers,
           hr_Body = JsonBody (JObj [(''code'', jint 1), (''message'', JStr (''internal error: '' @ p))])\<rparr>, (w1, l')))
    \<and> (RealClientIP rq = ''127.0.0.1'' \<longrightarrow> l' = l)"
  using assms
  by (cases out)
     (auto simp: serve_def Cors_def LogRequestAndResponse_def recover_filter_def recoverG_def Authenticate_def dispatch_def
        bindG_apply HandleInternalError_def errHandle_def)

section \<open>The routes\<close>

fun overlap :: "seg list \<Rightarrow> seg list \<Rightarrow> bool" where
  "overlap [] [] = True"
| "overlap (Lit a # s) (Lit b # t) = (a = b \<and> overlap s t)"
| "overlap (x # s) (y # t) = overlap s t"
| "overlap s t = False"

lemma match_segs_iff:
  "match_segs [] ts = Some m \<longleftrightarrow> ts = [] \<and> m = []"
  "match_segs (Lit l # ss) ts = Some m \<longleftrightarrow> (\<exists>us. ts = l # us \<and> match_segs ss us = Some m)"
  "match_segs (Par p # ss) ts = Some m \<longleftrightarrow> (\<exists>t us n. ts = t # us \<and> match_segs ss us = Some n \<and> m = (p, t) # n)"
  by (cases ts; auto)+

lemma match_segs_Cons_Nil [simp]: "match_segs (x # s) [] = None"
  by (cases x) simp_all

lemma both_match: "match_segs s ts = Some a \<Longrightarrow> match_segs t ts = Some b \<Longrightarrow> overlap s t"
proof (induction ts arbitrary: s t a b)
  case Nil
  then show ?case by (cases s; cases t) auto
next
  case (Cons part parts)
  obtain x s' y t' where st: "s = x # s'" "t = y # t'" using Cons.prems by (cases s; cases t) auto
  obtain c d where m: "match_segs s' parts = Some c" "match_segs t' parts = Some d"
    using Cons.prems by (cases x; cases y) (auto simp: st split: if_splits)
  show ?case
    using Cons.prems Cons.IH[OF m] by (cases x; cases y) (auto simp: st split: if_splits)
qed

definition ambiguous :: "endpoint \<Rightarrow> endpoint \<Rightarrow> bool" where
  "ambiguous e f \<longleftrightarrow> e = GetBackupPlan \<and> f = ListSnapshot \<or> e = ListSnapshot \<and> f = GetBackupPlan"

lemma overlapping_routes:
  "\<forall>(m, s, e) \<in> set routes. \<forall>(m', s', e') \<in> set routes. m = m' \<and> overlap s s' \<longrightarrow> e = e' \<or> ambiguous e e'"
  by (simp add: routes_def ambiguous_def)

lemma ambiguous_routes:
  "(m, s, GetBackupPlan) \<in> set routes \<Longrightarrow> m = ''GET'' \<and> s = [Lit ''plans'', Lit ''backup'', Lit ''one'', Par ''id'']"
  "(m, s, ListSnapshot) \<in> set routes \<Longrightarrow> m = ''GET'' \<and> s = [Lit ''plans'', Lit ''backup'', Par ''id'', Lit ''snapshots'']"
  by (simp_all add: routes_def)

text \<open>No two routes take the same request, with one exception: \<open>GET /plans/backup/one/snapshots\<close> is
  both the plan with the id \<open>snapshots\<close> and the snapshots of a plan with the id \<open>one\<close>. (The ids of plans are
  UUIDs.)\<close>

theorem routes_unambiguous:
  assumes "(m, s, e) \<in> set routes" "(m, s', e') \<in> set routes" "e \<noteq> e'"
    and "match_segs s parts = Some a" "match_segs s' parts = Some b"
  shows "m = ''GET'' \<and> parts = [''plans'', ''backup'', ''one'', ''snapshots''] \<and> ambiguous e e'"
proof -
  have amb: "ambiguous e e'"
    using overlapping_routes both_match[OF assms(4,5)] assms(1,2,3) by fastforce
  obtain c d where "match_segs [Lit ''plans'', Lit ''backup'', Lit ''one'', Par ''id''] parts = Some c"
    "match_segs [Lit ''plans'', Lit ''backup'', Par ''id'', Lit ''snapshots''] parts = Some d" and m: "m = ''GET''"
    using amb assms(1,2,4,5) ambiguous_routes unfolding ambiguous_def by metis
  then have "parts = [''plans'', ''backup'', ''one'', ''snapshots'']" by (auto simp: match_segs_iff)
  then show ?thesis using amb m by simp
qed

theorem routes_unambiguous_witness:
  "ambiguous GetBackupPlan ListSnapshot \<and> ''GET'' = ''GET''"
  using routes_unambiguous[of "''GET''" "[Lit ''plans'', Lit ''backup'', Lit ''one'', Par ''id'']" GetBackupPlan
      "[Lit ''plans'', Lit ''backup'', Par ''id'', Lit ''snapshots'']" ListSnapshot
      "[''plans'', ''backup'', ''one'', ''snapshots'']"]
  by (simp add: routes_def)

section \<open>An instance\<close>

text \<open>Decoders that take the body for the event.\<close>

definition demo_decoders :: decoders where
  "demo_decoders = \<lparr>d_BackupCreate = (\<lambda>_. Fail json_error), d_event = Ret, d_RestoreCreate = (\<lambda>_. Fail json_error),
     d_CheckUrl = (\<lambda>_. Fail json_error)\<rparr>"

definition demo_request :: "string \<Rightarrow> http_request" where
  "demo_request body = \<lparr>rq_Method = ''POST'', rq_Path = ''/apis/backup/v1/plans/backup/b1'', rq_RemoteAddr = ''10.0.0.1'',
     rq_Headers = [(BflUserKey, ''alice'')], rq_Query = [], rq_Body = body\<rparr>"

text \<open>An event that is not known panics, which the client sees as an internal error.\<close>

theorem routed_request_answer_witness:
  "\<exists>l'. serve mem_web (\<lambda>_. Inl (EnabledBackupPlan, [(''id'', ''b1'')])) demo_decoders (demo_request ''stop'') (web_store, []) =
    (Ret \<lparr>hr_Status = 500, hr_Headers = cors_headers,
       hr_Body = JsonBody (JObj [(''code'', jint 1), (''message'', JStr (''internal error: '' @ nil_deref))])\<rparr>, (web_store, l'))"
proof -
  have "call_endpoint mem_web demo_decoders EnabledBackupPlan [(''id'', ''b1'')] (demo_request ''stop'') web_store = (Panic nil_deref, web_store)"
    by (simp add: call_endpoint_def Let_def enabledBackupPlan_def read_entity_def demo_decoders_def demo_request_def ToLower_def
        handle_error_def WithMessage_def)
  from routed_request_answer[where route = "\<lambda>_. Inl (EnabledBackupPlan, [(''id'', ''b1'')])" and l = "[]", OF _ _ this]
  show ?thesis by (auto simp: demo_request_def)
qed

text \<open>The address that is logged: the last of the forwarding headers that is set wins over the connection, and
  the IPv6 loopback with a port counts as the local host.\<close>

lemma RealClientIP_examples:
  "RealClientIP (demo_request b) = ''10.0.0.1''"
  "RealClientIP ((demo_request b)\<lparr>rq_RemoteAddr := ''[::1]:8082''\<rparr>) = ''127.0.0.1''"
  "RealClientIP ((demo_request b)\<lparr>rq_Headers := [(''x-forwarded-for'', ''1.2.3.4:80''), (''X-Real-IP'', ''5.6.7.8'')]\<rparr>) = ''5.6.7.8''"
  by (simp_all add: RealClientIP_def demo_request_def Header_Get_def ipExtraHeaders_def BflUserKey_def ToLower_def Contains_def
      SplitHostPort_def)

end
