(* ===== verification/CancelFlow.thy ===== *)
theory CancelFlow
  imports ApiFacts ControllersFacts WorkerRefine
begin

declare phase_String.simps [simp del]

text \<open>
  The way of a cancellation: from the request \<open>cancelSnapshot\<close> of the HTTP API over the phase in the stored
  snapshot and the reconciler of the controller to the flags of the worker's tasks, which decide whether a
  waiting task is still run.
\<close>

lemma CancelSnapshot_effect:
  assumes p: "pool_of w owner = Some p"
    and backup: "\<forall>a t. tp_active p = Some a \<longrightarrow> wp_heap w a = Some t \<longrightarrow> (\<exists>b i. bt_kind t = BackupTask b i)"
  shows "\<exists>m. CancelSnapshot owner s w = (Ret (), m) \<and> wp_pools m = wp_pools w
    \<and> (\<forall>r t. wp_heap w r = Some t \<longrightarrow> (\<exists>t'. wp_heap m r = Some t' \<and> bt_kind t' = bt_kind t
        \<and> (bt_canceled t' \<longleftrightarrow> bt_canceled t \<or> is_snapshot_task s t \<and> r \<in> snd ` set (tp_tasks p))
        \<and> (is_snapshot_task s t \<and> tp_active p = Some r \<longrightarrow> bt_ctx_done t')))"
proof (cases "\<exists>a t. tp_active p = Some a \<and> wp_heap w a = Some t")
  case True
  then obtain a t where a: "tp_active p = Some a" "wp_heap w a = Some t" by blast
  obtain b i where k: "bt_kind t = BackupTask b i" using backup a by blast
  show ?thesis
    using p a k by (auto simp: CancelSnapshot_def Let_def mark_canceled_def is_snapshot_task_def cancel_ctx_def send_event_def split: TaskKind.splits)
next
  case False
  thus ?thesis
    using p by (cases "tp_active p") (auto simp: CancelSnapshot_def Let_def mark_canceled_def is_snapshot_task_def split: option.splits)
qed

lemma cancelled_head_dropped:
  assumes "wp_heap m r = Some t" and "bt_canceled t" and "tp_running P = None" and "tp_queue P = (k, r) # q"
  shows "\<exists>P'. task_start (wp_heap m) P = Some P' \<and> tp_active P' = None \<and> tp_queue P' = q \<and> tp_tasks P' = mdel (tp_tasks P) k"
  using assms by (simp add: task_start_def task_finish_def task_Delete_def)

text \<open>The reconciliation of a cancelled snapshot cancels its tasks and touches nothing else of the node.\<close>

lemma Reconcile_cancelled:
  assumes seen: "k_client v w4 = (Ret (), w5)" "k_snapshot_get v s w5 = (Ret S', w6)" "sn_Name S' = s"
      "ss_Phase (sn_Spec S') = Some (phase_String Canceled)"
    and owner: "backup_GetById v (ss_BackupId (sn_Spec S')) w6 = (Ret B', w7)"
    and cancel: "CancelSnapshot (bs_Owner (bk_Spec B')) s (nd_worker n) = (Ret (), m)"
    and reported: "notifySnapshotResult v dec B' S' w7 = (r1, w8)" "settles r1" "UpdateNotifyResultState v S' w8 = (r2, w9)" "settles r2"
  shows "\<exists>res wf. Reconcile_Snapshot v dec accept started s (w4, n) = (Ret res, (wf, n\<lparr>nd_worker := m\<rparr>))"
proof -
  have w: "in_worker (CancelSnapshot (bs_Owner (bk_Spec B')) (sn_Name S')) (w7, n) = (Ret (), (w7, n\<lparr>nd_worker := m\<rparr>))"
    using cancel seen(3) by (simp add: in_worker_def)
  have x: "up (notifySnapshotResult v dec B' S') (w7, n\<lparr>nd_worker := m\<rparr>) = (r1, (w8, n\<lparr>nd_worker := m\<rparr>))"
    using reported(1) by (simp add: up_def)
  have eq: "Reconcile_Snapshot v dec accept started s (w4, n) =
    tryG (up (notifySnapshotResult v dec B' S'))
      (\<lambda>_. bindG (up (ignore_error (UpdateNotifyResultState v S'))) (\<lambda>_. ret (no_requeue, None)))
      (\<lambda>e. ret (requeue 5, Some (Errorf (''notify snapshot error: '' @ err_text e)))) (w7, n\<lparr>nd_worker := m\<rparr>)"
    unfolding Reconcile_Snapshot_phase[OF seen(1,2,4) owner]
    using w by (simp add: reconcile_phase_def bindG_Ret)
  show ?thesis
    using eq x reported(2)
    by (cases r1) (simp_all add: settles_def tryG_Ret tryG_Fail up_ignore_settles[of "UpdateNotifyResultState v S'", OF reported(3,4)])
qed

text \<open>A request to cancel a snapshot writes its phase, and the event of the write passes the filter of the controller.\<close>

lemma cancel_request:
  assumes "backup_GetById v b w = (Ret B, w1)" "snapshot_GetById v s w1 = (Ret S, w2)"
    and ph: "ss_Phase (sn_Spec S) = Some ph" "ph \<notin> {phase_String Failed, phase_String Completed, phase_String Canceled}"
    and "snapshot_UpdatePhase v s (phase_String Canceled) MessageTaskCanceled w2 = (Ret (), w3)"
  shows "cancelSnapshot v (Ret ''cancel'') b s w = (Ret (Ok None), w3)"
    and "ss_Phase (sn_Spec S') = Some (phase_String Canceled) \<Longrightarrow> not_notified S' = Ret True \<Longrightarrow> snapshot_update_event S S' = Ret True"
proof -
  show "cancelSnapshot v (Ret ''cancel'') b s w = (Ret (Ok None), w3)"
    using assms by (simp add: cancelSnapshot_def read_entity_def found_backup_def found_def tryG_def ListContains_iff bindG_apply)
  assume new: "ss_Phase (sn_Spec S') = Some (phase_String Canceled)" "not_notified S' = Ret True"
  have "\<not> snapshot_spec_equal (sn_Spec S) (sn_Spec S')"
  proof
    assume "snapshot_spec_equal (sn_Spec S) (sn_Spec S')"
    hence "ss_Phase ((sn_Spec S)\<lparr>ss_Extra := None\<rparr>) = ss_Phase ((sn_Spec S')\<lparr>ss_Extra := None\<rparr>)"
      by (simp only: snapshot_spec_equal_def)
    thus False using ph new(1) by simp
  qed
  thus "snapshot_update_event S S' = Ret True"
    using ph(1) new by (simp add: snapshot_update_event_def isRunningProgress_def)
qed

text \<open>C6: a cancelled snapshot is not run: a cancel request for a snapshot that is neither completed nor failed is
  answered with success; the event of the updated snapshot passes the filter of the controller as long
  as its result has not been reported; and when the controller reconciles it - while no restore of the owner is running - every
  task of this snapshot in the owner's table is such that the pool, when it takes the task from its queue,
  drops it without running it, and a task of the snapshot that is running has its context cancelled.
  No queue, table or active task is changed.\<close>

theorem cancelled_snapshot_is_dropped:
  assumes request: "backup_GetById v b w = (Ret B, w1)" "snapshot_GetById v s w1 = (Ret S, w2)"
      "ss_Phase (sn_Spec S) = Some ph" "ph \<notin> {phase_String Failed, phase_String Completed, phase_String Canceled}"
      "snapshot_UpdatePhase v s (phase_String Canceled) MessageTaskCanceled w2 = (Ret (), w3)"
    and seen: "k_client v w4 = (Ret (), w5)" "k_snapshot_get v s w5 = (Ret S', w6)" "sn_Name S' = s"
      "ss_Phase (sn_Spec S') = Some (phase_String Canceled)" "not_notified S' = Ret True"
    and owner: "backup_GetById v (ss_BackupId (sn_Spec S')) w6 = (Ret B', w7)" "pool_of (nd_worker n) (bs_Owner (bk_Spec B')) = Some p"
    and reported: "notifySnapshotResult v dec B' S' w7 = (r1, w8)" "settles r1" "UpdateNotifyResultState v S' w8 = (r2, w9)" "settles r2"
    and backup: "\<forall>a t. tp_active p = Some a \<longrightarrow> wp_heap (nd_worker n) a = Some t \<longrightarrow> (\<exists>b i. bt_kind t = BackupTask b i)"
  shows "cancelSnapshot v (Ret ''cancel'') b s w = (Ret (Ok None), w3) \<and> snapshot_update_event S S' = Ret True
    \<and> (\<exists>res wf m. Reconcile_Snapshot v dec accept started s (w4, n) = (Ret res, (wf, n\<lparr>nd_worker := m\<rparr>))
        \<and> wp_pools m = wp_pools (nd_worker n)
        \<and> (\<forall>k r t. (k, r) \<in> set (tp_tasks p) \<longrightarrow> wp_heap (nd_worker n) r = Some t \<longrightarrow> is_snapshot_task s t \<longrightarrow>
             (\<forall>P q. tp_running P = None \<longrightarrow> tp_queue P = (k, r) # q \<longrightarrow>
                (\<exists>P'. task_start (wp_heap m) P = Some P' \<and> tp_active P' = None \<and> tp_queue P' = q \<and> tp_tasks P' = mdel (tp_tasks P) k))
           \<and> (tp_active p = Some r \<longrightarrow> (\<exists>t'. wp_heap m r = Some t' \<and> bt_ctx_done t'))))"
proof (intro conjI)
  show "cancelSnapshot v (Ret ''cancel'') b s w = (Ret (Ok None), w3)" by (rule cancel_request(1)[OF request])
  show "snapshot_update_event S S' = Ret True" by (rule cancel_request(2)[OF request seen(4,5)])
  from CancelSnapshot_effect[OF owner(2) backup, of s]
  obtain m where c: "CancelSnapshot (bs_Owner (bk_Spec B')) s (nd_worker n) = (Ret (), m)" "wp_pools m = wp_pools (nd_worker n)"
    and h: "\<forall>r t. wp_heap (nd_worker n) r = Some t \<longrightarrow> (\<exists>t'. wp_heap m r = Some t' \<and> bt_kind t' = bt_kind t
        \<and> (bt_canceled t' \<longleftrightarrow> bt_canceled t \<or> is_snapshot_task s t \<and> r \<in> snd ` set (tp_tasks p))
        \<and> (is_snapshot_task s t \<and> tp_active p = Some r \<longrightarrow> bt_ctx_done t'))"
    by (elim exE conjE)
  have tasks: "(\<forall>P q. tp_running P = None \<longrightarrow> tp_queue P = (k, r) # q \<longrightarrow>
        (\<exists>P'. task_start (wp_heap m) P = Some P' \<and> tp_active P' = None \<and> tp_queue P' = q \<and> tp_tasks P' = mdel (tp_tasks P) k))
      \<and> (tp_active p = Some r \<longrightarrow> (\<exists>t'. wp_heap m r = Some t' \<and> bt_ctx_done t'))"
    if t: "(k, r) \<in> set (tp_tasks p)" "wp_heap (nd_worker n) r = Some t" "is_snapshot_task s t" for k r t
  proof -
    obtain t' where "wp_heap m r = Some t'" "bt_canceled t'" "tp_active p = Some r \<longrightarrow> bt_ctx_done t'"
      using h[rule_format, OF t(2)] t by force
    thus ?thesis using cancelled_head_dropped by blast
  qed
  show "\<exists>res wf m. Reconcile_Snapshot v dec accept started s (w4, n) = (Ret res, (wf, n\<lparr>nd_worker := m\<rparr>))
        \<and> wp_pools m = wp_pools (nd_worker n)
        \<and> (\<forall>k r t. (k, r) \<in> set (tp_tasks p) \<longrightarrow> wp_heap (nd_worker n) r = Some t \<longrightarrow> is_snapshot_task s t \<longrightarrow>
             (\<forall>P q. tp_running P = None \<longrightarrow> tp_queue P = (k, r) # q \<longrightarrow>
                (\<exists>P'. task_start (wp_heap m) P = Some P' \<and> tp_active P' = None \<and> tp_queue P' = q \<and> tp_tasks P' = mdel (tp_tasks P) k))
           \<and> (tp_active p = Some r \<longrightarrow> (\<exists>t'. wp_heap m r = Some t' \<and> bt_ctx_done t')))"
    using Reconcile_cancelled[OF seen(1-4) owner(1) c(1) reported, of accept started] c(2) tasks by blast
qed

text \<open>A plan whose snapshot waits in the queue of its owner.\<close>

definition waiting_node :: "(nat \<times> (nat \<times> backupJob) list) node" where
  "waiting_node = demo_node\<lparr>nd_worker := \<lparr>wp_pools = [(''alice'', \<lparr>tp_queue = [(''t'', 0)], tp_running = None, tp_tasks = [(''t'', 0)], tp_active = None\<rparr>)],
     wp_heap = [0 \<mapsto> \<lparr>bt_id = ''t'', bt_owner = ''alice'', bt_kind = BackupTask ''b1'' ''s1'', bt_canceled = False, bt_ctx_done = False\<rparr>], wp_next = 1, wp_events = []\<rparr>\<rparr>"

theorem cancelled_snapshot_is_dropped_witness:
  "\<forall>dec accept. \<exists>w3 res wf m P'. cancelSnapshot mem_web (Ret ''cancel'') ''b1'' ''s1'' (snap_node_store (sample_snapshot ''s1'' Pending)) = (Ret (Ok None), w3)
    \<and> Reconcile_Snapshot mem_web dec accept 50 ''s1'' (snap_node_store (sample_snapshot ''s1'' Canceled), waiting_node) =
        (Ret res, (wf, waiting_node\<lparr>nd_worker := m\<rparr>))
    \<and> task_start (wp_heap m) (the (pool_of m ''alice'')) = Some P' \<and> tp_active P' = None \<and> tp_queue P' = []"
proof (intro allI)
  fix dec :: sdk_decode and accept :: "TaskPool \<Rightarrow> bool"
  let ?S = "sample_snapshot ''s1'' Pending" and ?S' = "sample_snapshot ''s1'' Canceled" and ?b = "demo_plan demo_policy"
  have b: "backup_GetById mem_web ''b1'' (snap_node_store s) = (Ret ?b, snap_node_store s)" for s
    by (simp add: backup_GetById_def mem_web_sel mem_get_def find_by_def snap_node_store_def plan_store_def go_simps)
  have g: "k_snapshot_get mem_web ''s1'' (snap_node_store s) = (Ret s, snap_node_store s)"
      "snapshot_GetById mem_web ''s1'' (snap_node_store s) = (Ret s, snap_node_store s)" if "sn_Name s = ''s1''" for s
    using that by (simp_all add: snapshot_GetById_def mem_web_sel mem_get_def find_by_def snap_node_store_def plan_store_def go_simps)
  have s: "sn_Name ?S = ''s1''" "sn_Name ?S' = ''s1''" "ss_BackupId (sn_Spec ?S') = ''b1''"
    "ss_Phase (sn_Spec ?S) = Some (phase_String Pending)" "ss_Phase (sn_Spec ?S') = Some (phase_String Canceled)"
    by (simp_all add: sample_snapshot_def new_snapshot_def sample_backup_def)
  obtain w3 where u: "snapshot_UpdatePhase mem_web ''s1'' (phase_String Canceled) MessageTaskCanceled (snap_node_store ?S) = (Ret (), w3)"
    using s(1) by (fastforce simp: mem_web_sel mem_get_def find_by_def snap_node_store_def plan_store_def
      snapshot_UpdatePhase_def snapshot_GetById_def snapshot_update_def mem_update_def go_simps eval_nat_numeral)
  have k: "k_client mem_web w = (Ret (), w)" for w by (simp add: mem_web_sel)
  have nn: "not_notified ?S' = Ret True"
    by (simp add: not_notified_def CheckSnapshotNotifyState_def sample_snapshot_def new_snapshot_def)
  have "bs_Location (bk_Spec ?b) = Some []" by (simp add: demo_plan_def sample_backup_def sample_spec_def)
  hence nt: "notifySnapshotResult mem_web dec ?b ?S' (snap_node_store ?S') = (Ret (), snap_node_store ?S')"
    by (simp add: notifySnapshotResult_def location_config0_def GetBackupLocationConfig_def lookup0_def mget_def)
  obtain w9 where un: "UpdateNotifyResultState mem_web ?S' (snap_node_store ?S') = (Ret (), w9)"
    by (fastforce simp: UpdateNotifyResultState_def sample_snapshot_def new_snapshot_def snapshot_update_def mem_web_sel
          go_simps mem_update_def find_by_def snap_node_store_def plan_store_def eval_nat_numeral)
  have o': "bs_Owner (bk_Spec ?b) = ''alice''" by simp
  have st: "settles (Ret () :: unit outcome)" by (simp add: settles_def)
  let ?p = "the (pool_of (nd_worker waiting_node) ''alice'')"
  have p: "pool_of (nd_worker waiting_node) (bs_Owner (bk_Spec ?b)) = Some ?p" "tp_active ?p = None" "tp_queue ?p = [(''t'', 0)]"
    "tp_running ?p = None" "tp_tasks ?p = [(''t'', 0)]"
    by (simp_all add: waiting_node_def pool_of_def)
  have ph: "phase_String Pending \<notin> {phase_String Failed, phase_String Completed, phase_String Canceled}"
    by (simp add: phase_String.simps)
  have act: "\<forall>a t. tp_active ?p = Some a \<longrightarrow> wp_heap (nd_worker waiting_node) a = Some t \<longrightarrow> (\<exists>b i. bt_kind t = BackupTask b i)"
    using p(2) by simp
  from cancelled_snapshot_is_dropped[where dec = dec and accept = accept and started = 50, OF b g(2)[OF s(1)] s(4) ph u k g(1)[OF s(2)] s(2,5) nn
      b[of ?S', folded s(3)] p(1) nt st un st act]
  obtain res wf m where r: "cancelSnapshot mem_web (Ret ''cancel'') ''b1'' ''s1'' (snap_node_store ?S) = (Ret (Ok None), w3)"
      "Reconcile_Snapshot mem_web dec accept 50 ''s1'' (snap_node_store ?S', waiting_node) = (Ret res, (wf, waiting_node\<lparr>nd_worker := m\<rparr>))"
      "wp_pools m = wp_pools (nd_worker waiting_node)"
    and d: "\<forall>k r t. (k, r) \<in> set (tp_tasks ?p) \<longrightarrow> wp_heap (nd_worker waiting_node) r = Some t \<longrightarrow> is_snapshot_task ''s1'' t \<longrightarrow>
             (\<forall>P q. tp_running P = None \<longrightarrow> tp_queue P = (k, r) # q \<longrightarrow>
                (\<exists>P'. task_start (wp_heap m) P = Some P' \<and> tp_active P' = None \<and> tp_queue P' = q \<and> tp_tasks P' = mdel (tp_tasks P) k))"
    by blast
  have "\<exists>t. wp_heap (nd_worker waiting_node) 0 = Some t \<and> is_snapshot_task ''s1'' t"
    by (simp add: waiting_node_def is_snapshot_task_def)
  hence "\<exists>P'. task_start (wp_heap m) ?p = Some P' \<and> tp_active P' = None \<and> tp_queue P' = []"
    using d[rule_format, of "''t''" 0 _ ?p "[]"] p(3-5) by auto
  moreover have "the (pool_of m ''alice'') = ?p" using r(3) by (simp add: pool_of_def)
  ultimately show "\<exists>w3 res wf m P'. cancelSnapshot mem_web (Ret ''cancel'') ''b1'' ''s1'' (snap_node_store ?S) = (Ret (Ok None), w3)
    \<and> Reconcile_Snapshot mem_web dec accept 50 ''s1'' (snap_node_store ?S', waiting_node) = (Ret res, (wf, waiting_node\<lparr>nd_worker := m\<rparr>))
    \<and> task_start (wp_heap m) (the (pool_of m ''alice'')) = Some P' \<and> tp_active P' = None \<and> tp_queue P' = []"
    using r(1,2) by metis
qed

end
