(* ===== verification/RestoreFlow.thy ===== *)
theory RestoreFlow
  imports ApiFacts ControllersFacts
begin

declare phase_String.simps [simp del]

text \<open>
  The way of a restore: from the last step of a request to restore from a backup URL over the stored resource
  and the create event of the controller to the queue of the worker.
\<close>

section \<open>Adding a task\<close>

lemma addTask_queues:
  assumes "\<forall>p. accept p"
  shows "\<exists>w' p r. addTask accept owner i kind w = (Ret (), w') \<and> pool_of w' owner = Some p
    \<and> tp_queue p = (case pool_of w owner of None \<Rightarrow> [] | Some q \<Rightarrow> tp_queue q) @ [(i, r)]
    \<and> wp_heap w' r = Some \<lparr>bt_id = i, bt_owner = owner, bt_kind = kind, bt_canceled = False, bt_ctx_done = False\<rparr>
    \<and> (\<forall>x. x \<noteq> owner \<longrightarrow> pool_of w' x = pool_of w x)"
  using assms
  by (cases "pool_of w owner")
     (auto simp: addTask_def GetOrCreateUserPool_def Let_def pool_of_def set_pool_def task_Store_def new_pool_def)

section \<open>The stored restore\<close>

text \<open>\<open>stored_restore name t n rt r\<close>: the event carries the object that was created, with the metadata of the server.\<close>

definition stored_restore :: "string \<Rightarrow> timestamp \<Rightarrow> string \<Rightarrow> RestoreType \<Rightarrow> Restore \<Rightarrow> bool" where
  "stored_restore name t n rt r \<longleftrightarrow> re_Name r = name \<and> re_Spec r = re_Spec (new_restore name t n rt)"

lemma stored_restore_reads:
  assumes "stored_restore name t n rt r" and "restore_type_ok rt"
  shows "ParseRestoreType n r = Ret (Some rt)" "rs_Phase (re_Spec r) = Some (phase_String Pending)"
    "rs_Owner (re_Spec r) = rt_Owner rt" "rs_CreateAt (re_Spec r) = Some t"
    "n \<in> {BackupTypeFile, BackupTypeApp} \<Longrightarrow> GetRestoreType r = Ret n"
    "\<exists>a. GetRestoreAppName r = Ret a"
proof -
  have s: "re_Spec r = re_Spec (new_restore name t n rt)" using assms(1) by (simp add: stored_restore_def)
  show "ParseRestoreType n r = Ret (Some rt)"
    using new_restore_type[OF assms(2), of n name t] by (simp add: ParseRestoreType_def s)
  show "rs_Phase (re_Spec r) = Some (phase_String Pending)" "rs_Owner (re_Spec r) = rt_Owner rt" "rs_CreateAt (re_Spec r) = Some t"
    by (simp_all add: s new_restore_def)
  show "GetRestoreType r = Ret n" if "n \<in> {BackupTypeFile, BackupTypeApp}"
    using that by (auto simp: GetRestoreType_def s new_restore_def lookup_def)
  have "json_parse (ToJSON (restore_type_json rt)) = Some (restore_type_json rt)"
    using assms(2) by (intro json_parse_ToJSON)
      (auto simp: restore_type_json_def restore_type_ok_def url_detail_json_def split: option.splits)
  thus "\<exists>a. GetRestoreAppName r = Ret a"
    by (simp add: GetRestoreAppName_def s new_restore_def lookup_def restore_type_json_def)
qed

text \<open>The event of a restore that is new to this process queues it and reconciles nothing.\<close>

lemma create_event_queues:
  assumes r: "stored_restore name t n rt r" "restore_type_ok rt" "n \<in> {BackupTypeFile, BackupTypeApp}"
    and "started < om_CreationTimestamp (re_meta r)" and "AddRestoreTask accept (rt_Owner rt) name (nd_worker m) = (Ret (), p)"
  shows "restore_create_event v accept started r (w, m) = (Ret False, (w, m\<lparr>nd_worker := p\<rparr>))"
  using stored_restore_reads[OF r(1,2)] r(1,3) assms(4,5)
  by (simp add: restore_create_event_def Let_def tryG_def in_worker_def stored_restore_def bindG_apply derefG_def)

text \<open>C3: a restore from a backup URL that is requested over the HTTP API reaches the worker. It is shown for a
  repository snapshot whose tag \<open>backup-type\<close> is file or app (one of any other kind is accepted but never queued,
  see \<open>unknown_kind_is_never_queued\<close>) and for request data in ASCII with its numbers in the range of \<open>int64\<close>. Once
  the URL has been resolved, and the calls of the API server succeed, the restore is stored and the request
  answered with success; the create event of the stored restore, created after the controller started, puts one
  job for it at the end of the queue of its owner - while the pool accepts tasks - and leaves the other owners'
  pools and the schedule as they are; and what the job reads as its restore type is the request.\<close>

theorem requested_restore_is_queued:
  fixes v :: "('w, 'm) api_scheme" and b u d s owner clusterId w
  defines "rt \<equiv> url_restore_type (k_now v w div 1000000000) b owner clusterId u d s" and "n \<equiv> GetBackupTypeFromTags (ks_Tags s)"
  assumes kind: "n \<in> {BackupTypeFile, BackupTypeApp}" and ok: "restore_type_ok rt"
    and made: "k_client v w = (Ret (), wa)" "k_uuid v wa = (name, wb)"
      "k_restore_create v (new_restore name (k_now v wa) n rt) wb = (Ret r0, w2)" "stored_restore name (k_now v wa) n rt r0"
    and seen: "stored_restore name (k_now v wa) n rt r" "started < om_CreationTimestamp (re_meta r)"
    and free: "name \<noteq> []" "\<forall>p. accept p"
  shows "(\<exists>data. create_url_restore v b owner clusterId u d s w = (Ret (Ok data), w2))
    \<and> (\<exists>p ref m. restore_create_event v accept started r (w3, c) = (Ret False, (w3, c\<lparr>nd_worker := m\<rparr>))
        \<and> pool_of m owner = Some p
        \<and> tp_queue p = (case pool_of (nd_worker c) owner of None \<Rightarrow> [] | Some q \<Rightarrow> tp_queue q) @ [(name, ref)]
        \<and> wp_heap m ref = Some \<lparr>bt_id = name, bt_owner = owner, bt_kind = RestoreTask name, bt_canceled = False, bt_ctx_done = False\<rparr>
        \<and> (\<forall>x. x \<noteq> owner \<longrightarrow> pool_of m x = pool_of (nd_worker c) x))
    \<and> ParseRestoreType n r = Ret (Some rt)"
proof (intro conjI)
  have o': "rt_Owner rt = owner" by (simp add: rt_def url_restore_type_def Let_def)
  have create: "CreateRestore v n rt w = (Ret r0, w2)" using made(1-3) by (simp add: CreateRestore_def go_simps)
  have "\<exists>data. parseResponseRestoreCreate r0 bn st path = Ret data" for bn st path
    using stored_restore_reads[OF made(4) ok] kind
    by (auto simp: parseResponseRestoreCreate_def Let_def restore_type_of_def restore_app_name_def unix_of_def derefO_def)
  then obtain data where "parseResponseRestoreCreate r0 (rd_backupName d) (rd_snapshotTime d) (rt_Path rt) = Ret data" by blast
  with create show "\<exists>data. create_url_restore v b owner clusterId u d s w = (Ret (Ok data), w2)"
    by (simp add: create_url_restore_def store_restore_def Let_def rt_def[symmetric] n_def[symmetric] tryG_def answer_def bindG_apply)
  have "\<exists>m p ref. AddRestoreTask accept owner name (nd_worker c) = (Ret (), m) \<and> pool_of m owner = Some p
    \<and> tp_queue p = (case pool_of (nd_worker c) owner of None \<Rightarrow> [] | Some q \<Rightarrow> tp_queue q) @ [(name, ref)]
    \<and> wp_heap m ref = Some \<lparr>bt_id = name, bt_owner = owner, bt_kind = RestoreTask name, bt_canceled = False, bt_ctx_done = False\<rparr>
    \<and> (\<forall>x. x \<noteq> owner \<longrightarrow> pool_of m x = pool_of (nd_worker c) x)"
    using addTask_queues[OF free(2)] free(1) by (simp add: AddRestoreTask_def)
  thus "\<exists>p ref m. restore_create_event v accept started r (w3, c) = (Ret False, (w3, c\<lparr>nd_worker := m\<rparr>))
        \<and> pool_of m owner = Some p
        \<and> tp_queue p = (case pool_of (nd_worker c) owner of None \<Rightarrow> [] | Some q \<Rightarrow> tp_queue q) @ [(name, ref)]
        \<and> wp_heap m ref = Some \<lparr>bt_id = name, bt_owner = owner, bt_kind = RestoreTask name, bt_canceled = False, bt_ctx_done = False\<rparr>
        \<and> (\<forall>x. x \<noteq> owner \<longrightarrow> pool_of m x = pool_of (nd_worker c) x)"
    using create_event_queues[OF seen(1) ok kind seen(2)] o' by metis
  show "ParseRestoreType n r = Ret (Some rt)" by (rule stored_restore_reads(1)[OF seen(1) ok])
qed

definition asked_restore :: RestoreCreate where
  "asked_restore = \<lparr>rc_BackupUrl = [], rc_Password = ''pw'', rc_SnapshotId = [], rc_Path = ''/Files/Home/'', rc_SubPath = ''docs''\<rparr>"

definition resolved_url :: BackupUrlType where
  "resolved_url = \<lparr>bu_Schema = ''s3'', bu_Host = ''bucket'', bu_Path = [], bu_Values = [], bu_Location = ''awss3'', bu_Endpoint = ''https://s3'', bu_BackupId = ''b1'',
     bu_BackupName = ''docs'', bu_PvcPath = [], bu_CloudName = [], bu_Region = [], bu_Bucket = ''bucket'', bu_Prefix = [], bu_OlaresSuffix = [], bu_FilesystemPath = []\<rparr>"

definition resolved_detail :: RestoreUrlInfo where
  "resolved_detail = \<lparr>rd_storage = \<lparr>ud_CloudName = [], ud_RegionId = [], ud_Bucket = ''bucket'', ud_Prefix = [], ud_OlaresSuffix = [], ud_FilesystemPath = []\<rparr>,
     rd_backupName = ''docs'', rd_backupId = ''b1'', rd_resticSnapshotId = ''deadbeef'', rd_snapshotTime = ''1700000000'', rd_location = ''awss3''\<rparr>"

definition found_snapshot_data :: sdk_snapshot where
  "found_snapshot_data = \<lparr>ks_Id = ''deadbeef'', ks_Tags = [], ks_Paths = [], ks_BackupStart = [], ks_TotalBytesProcessed = 4096\<rparr>"

definition asked_restores :: store where
  "asked_restores = \<lparr>st_backups = [], st_snapshots = [], st_restores = [], st_clock = 7, st_next = 3\<rparr>"

theorem requested_restore_is_queued_witness:
  "\<exists>data w2 r p ref m. create_url_restore mem_web asked_restore ''alice'' ''cluster'' resolved_url resolved_detail found_snapshot_data asked_restores = (Ret (Ok data), w2)
    \<and> restore_create_event mem_web (\<lambda>_. True) 50 r (w2, demo_node) = (Ret False, (w2, demo_node\<lparr>nd_worker := m\<rparr>))
    \<and> pool_of m ''alice'' = Some p \<and> tp_queue p = [(''id-3'', ref)]"
proof -
  let ?rt = "url_restore_type (k_now mem_web asked_restores div 1000000000) asked_restore ''alice'' ''cluster'' resolved_url resolved_detail found_snapshot_data"
  let ?n = "GetBackupTypeFromTags (ks_Tags found_snapshot_data)"
  let ?r = "new_restore ''id-3'' (k_now mem_web asked_restores) ?n ?rt"
  let ?r' = "?r\<lparr>re_meta := (re_meta ?r)\<lparr>om_CreationTimestamp := 60\<rparr>\<rparr>"
  have n: "?n \<in> {BackupTypeFile, BackupTypeApp}" by (simp add: found_snapshot_data_def GetBackupTypeFromTags_def)
  have p: "TrimSpace ''pw'' = ''pw''" "TrimSpace ''docs'' = ''docs''" "Base64encode ''pw'' = ''cHc=''"
    by (simp add: TrimSpace_def decode_rune_ascii IsSpace_def trim_space_right.simps decode_last_rune_def,
        simp add: TrimSpace_def decode_rune_ascii IsSpace_def trim_space_right.simps decode_last_rune_def, code_simp)
  have ok: "restore_type_ok ?rt"
    by (simp add: url_restore_type_def Let_def p asked_restore_def resolved_url_def resolved_detail_def found_snapshot_data_def
        GetBackupTypeFromTags_def GetBackupTypeFilePath_def decode_tag_def restore_type_ok_def i64_range_def mem_web_sel asked_restores_def)
  have k: "k_client mem_web asked_restores = (Ret (), asked_restores)" "k_uuid mem_web asked_restores = (''id-3'', asked_restores\<lparr>st_next := 4\<rparr>)"
    by (simp_all add: mem_web_sel asked_restores_def nat_digits.simps digit_char_def char_eq_nat)
  have c: "k_restore_create mem_web ?r (asked_restores\<lparr>st_next := 4\<rparr>) = (Ret ?r, asked_restores\<lparr>st_next := 4, st_restores := [?r]\<rparr>)"
    by (simp add: mem_web_sel asked_restores_def)
  have s: "stored_restore ''id-3'' (k_now mem_web asked_restores) ?n ?rt ?r" "stored_restore ''id-3'' (k_now mem_web asked_restores) ?n ?rt ?r'"
    by (simp_all add: stored_restore_def new_restore_def)
  have t: "50 < om_CreationTimestamp (re_meta ?r')" "''id-3'' \<noteq> []" "\<forall>p. (\<lambda>_. True) (p :: TaskPool)" by simp_all
  have "pool_of (nd_worker demo_node) ''alice'' = None" by (simp add: demo_node_def NewWorkerPool_def pool_of_def)
  with requested_restore_is_queued[OF n ok k c s t, of "asked_restores\<lparr>st_next := 4, st_restores := [?r]\<rparr>" demo_node] show ?thesis
    by fastforce
qed

text \<open>A snapshot whose tag names another kind of backup: its restore is stored under that kind, which the
  controller cannot read, so the restore is never queued and stays Pending.\<close>

lemma unknown_kind_is_never_queued:
  assumes "stored_restore name t n rt r" and "n \<notin> {BackupTypeFile, BackupTypeApp}"
  shows "restore_create_event v accept started r (w, c) = (Ret False, (w, c))"
proof -
  have "\<exists>e. GetRestoreType r = Fail e"
    using assms by (auto simp: GetRestoreType_def stored_restore_def new_restore_def lookup_def errf_def)
  thus ?thesis by (auto simp: restore_create_event_def Let_def tryG_def)
qed

end
