(* ===== verification/Files.thy ===== *)
theory Files
  imports BackupRunFacts
begin

text \<open>
  The functions of \<open>pkg/util\<close> that look at the file system (\<open>DirSize\<close>, \<open>IsExist\<close>, \<open>FilePathExists\<close>,
  \<open>GetDiskFreeSpace\<close>) over a tree of files, \<open>FormatBytes\<close>, and what the disk check of a backup says about the
  files it is going to back up.
\<close>

section \<open>Walking a directory (util.go)\<close>

text \<open>What \<open>filepath.Walk\<close> meets below a path: a file with its size, a directory with its entries in the
  order of their names, a directory that cannot be read and an entry whose \<open>Lstat\<close> fails.\<close>

datatype fnode = Leaf nat | Dir "(string \<times> fnode) list" | Unreadable gerr | NoStat gerr

text \<open>The callback adds the size of what is not a directory and returns the error it is given, which ends the walk.\<close>

fun walk_size :: "fnode \<Rightarrow> int \<Rightarrow> gerr option \<times> int"
  and walk_entries :: "(string \<times> fnode) list \<Rightarrow> int \<Rightarrow> gerr option \<times> int" where
  "walk_size (Leaf n) acc = (None, i64 (acc + int n))"
| "walk_size (Dir es) acc = walk_entries es acc"
| "walk_size (Unreadable e) acc = (Some e, acc)"
| "walk_size (NoStat e) acc = (Some e, acc)"
| "walk_entries [] acc = (None, acc)"
| "walk_entries ((_, t) # es) acc = (case walk_size t acc of
      (Some e, acc') \<Rightarrow> (Some e, acc')
    | (None, acc') \<Rightarrow> walk_entries es acc')"

definition DirSize :: "fnode \<Rightarrow> u64 \<times> gerr option" where
  "DirSize t = (case walk_size t 0 of (err, acc) \<Rightarrow> (word_of_int acc, err))"

text \<open>The callers look at the error first.\<close>

definition dir_outcome :: "fnode \<Rightarrow> u64 outcome" where
  "dir_outcome t = (case DirSize t of (n, None) \<Rightarrow> Ret n | (n, Some e) \<Rightarrow> Fail e)"

fun total :: "fnode \<Rightarrow> nat" where
  "total (Leaf n) = n"
| "total (Dir es) = sum_list (map (total \<circ> snd) es)"
| "total (Unreadable e) = 0"
| "total (NoStat e) = 0"

fun readable :: "fnode \<Rightarrow> bool" where
  "readable (Leaf n) \<longleftrightarrow> True"
| "readable (Dir es) \<longleftrightarrow> (\<forall>e \<in> set es. readable (snd e))"
| "readable (Unreadable e) \<longleftrightarrow> False"
| "readable (NoStat e) \<longleftrightarrow> False"

lemma word_of_int_i64 [simp]: "(word_of_int (i64 x) :: 64 word) = word_of_int x"
  by (rule bit_word_eqI) (simp add: i64_def bit_signed_take_bit_iff bit_of_int_iff)

text \<open>The walk ends without an error exactly when everything below the path can be read. The sum wraps
  around in \<open>int64\<close>, but the conversion to \<open>uint64\<close> at the end makes this harmless.\<close>

lemma walk_correct:
  "(fst (walk_size t acc) = None \<longleftrightarrow> readable t)
    \<and> (readable t \<longrightarrow> (word_of_int (snd (walk_size t acc)) :: 64 word) = word_of_int (acc + int (total t)))"
  "(fst (walk_entries es acc) = None \<longleftrightarrow> readable (Dir es))
    \<and> (readable (Dir es) \<longrightarrow> (word_of_int (snd (walk_entries es acc)) :: 64 word) = word_of_int (acc + int (total (Dir es))))"
proof (induction t acc and es acc rule: walk_size_walk_entries.induct)
  case (6 n t es acc)
  obtain e z where w: "walk_size t acc = (e, z)" by fastforce
  show ?case
  proof (cases e)
    case None
    with w 6 have z: "(word_of_int z :: 64 word) = word_of_int (acc + int (total t))" "readable t" by auto
    from None w 6(2)[of None z] have i: "fst (walk_entries es z) = None \<longleftrightarrow> readable (Dir es)"
      "readable (Dir es) \<Longrightarrow> (word_of_int (snd (walk_entries es z)) :: 64 word) = word_of_int (z + int (total (Dir es)))" by simp_all
    have "(word_of_int (z + x) :: 64 word) = word_of_int (acc + int (total t) + x)" for x
      using z(1) by (metis wi_hom_add)
    thus ?thesis using None w i z(2) by (simp add: algebra_simps)
  next
    case (Some a)
    thus ?thesis using w 6(1) by auto
  qed
qed auto

theorem DirSize_correct:
  "snd (DirSize t) = None \<longleftrightarrow> readable t"
  "readable t \<Longrightarrow> fst (DirSize t) = of_nat (total t)"
  using walk_correct(1)[of t 0] by (auto simp: DirSize_def split: prod.splits)

lemma dir_outcome_Ret: "dir_outcome t = Ret n \<longleftrightarrow> readable t \<and> n = of_nat (total t)"
  using DirSize_correct[of t] by (auto simp: dir_outcome_def split: prod.splits option.splits)

section \<open>Existence and free space\<close>

text \<open>The classes of the error of \<open>os.Stat\<close>.\<close>

datatype stat_result = StatOk | StatExist | StatNotExist | StatOther

definition IsExist :: "stat_result \<Rightarrow> bool" where
  "IsExist r = (if r \<noteq> StatOk then (if r = StatExist then True else if r = StatNotExist then False else False) else True)"

definition FilePathExists :: "stat_result \<Rightarrow> bool" where
  "FilePathExists r = (if r \<noteq> StatOk \<and> r = StatNotExist then False else True)"

text \<open>The two disagree exactly on a path that cannot be looked at.\<close>

lemma exists_disagree: "IsExist r \<noteq> FilePathExists r \<longleftrightarrow> r = StatOther"
  by (cases r) (simp_all add: IsExist_def FilePathExists_def)

definition GetDiskFreeSpace :: "(u64 \<times> int) outcome \<Rightarrow> u64 outcome" where
  "GetDiskFreeSpace statfs = bindO statfs (\<lambda>(bavail, bsize). Ret (bavail * word_of_int bsize))"

lemma GetDiskFreeSpace_exact:
  assumes "0 \<le> bsize" and "uint bavail * bsize < 2 ^ 64"
  shows "\<exists>n. GetDiskFreeSpace (Ret (bavail, bsize)) = Ret n \<and> uint n = uint bavail * bsize"
proof -
  have "uint (bavail * word_of_int bsize) = uint bavail * bsize mod 2 ^ 64"
    by (simp add: uint_word_ariths uint_word_of_int mod_mult_right_eq)
  thus ?thesis using assms by (simp add: GetDiskFreeSpace_def)
qed

section \<open>Sizes as text\<close>

text \<open>\<open>%.2f\<close> of a number that is not negative.\<close>

definition fixed2 :: "rat \<Rightarrow> string" where
  "fixed2 r = (let n = round_even (r * 100) in Itoa (n div 100) @ ''.'' @ fmt_2d (n mod 100))"

definition FormatBytes :: "u64 \<Rightarrow> string" where
  "FormatBytes bytes = (let b = uint bytes; x = f64 (of_int b) in
     if 2 ^ 40 \<le> b then fixed2 (x / 2 ^ 40) @ '' TB''
     else if 2 ^ 30 \<le> b then fixed2 (x / 2 ^ 30) @ '' GB''
     else if 2 ^ 20 \<le> b then fixed2 (x / 2 ^ 20) @ '' MB''
     else if 2 ^ 10 \<le> b then fixed2 (x / 2 ^ 10) @ '' KB''
     else Itoa b @ '' Byte'')"

definition EncodeStringToBase64 :: "string \<Rightarrow> string" where
  "EncodeStringToBase64 s = Base64encode s"

definition DecodeBase64ToString :: "string \<Rightarrow> string" where
  "DecodeBase64ToString s = (case Base64decode s of None \<Rightarrow> [CHR 0x27] | Some ou \<Rightarrow> ou)"

lemma DecodeBase64ToString_Encode: "DecodeBase64ToString (EncodeStringToBase64 s) = s"
  by (simp add: DecodeBase64ToString_def EncodeStringToBase64_def)

section \<open>The disk check and the files\<close>

text \<open>C26: the disk check of a file backup speaks about the files: over any file system, if the check passes for a backup to the local
  file system, every directory below the path could be read, at most 85 percent of the target disk are
  used and - below 4 PiB - the free space is at least the sum of the sizes of all files that are to be backed up.\<close>

theorem disk_check_counts_files:
  assumes "checkDiskSize v (w, s) = (Ret (), (w', s'))"
    and "sb_BackupType s \<noteq> ''app''" "sb_Params s = Some p" "mget (pa_Location p) ''location'' = ''filesystem''"
    and dir: "\<forall>w. v_DirSize v (pa_Path p) w = (dir_outcome (files w), w)"
  shows "\<exists>used free. v_disk_usage v (mget (pa_Location p) ''path'') w = (Ret (used, free), w') \<and> used \<le> 85
    \<and> readable (files w') \<and> (total (files w') < 2 ^ 52 \<longrightarrow> total (files w') \<le> unat free)"
proof -
  obtain used free n w1 where u: "v_disk_usage v (mget (pa_Location p) ''path'') w = (Ret (used, free), w1)"
    "v_DirSize v (pa_Path p) w1 = (Ret n, w')" "used \<le> 85" "uint n < 2 ^ 52 \<longrightarrow> n \<le> free"
    using checkDiskSize_leaves_room[OF assms(1-4)] by blast
  hence r: "readable (files w')" "n = of_nat (total (files w'))" "w1 = w'"
    using dir dir_outcome_Ret[of "files w1" n] by auto
  have "total (files w') \<le> unat free" if t: "total (files w') < 2 ^ 52"
  proof -
    have n: "unat n = total (files w')" using t by (simp add: r(2) unat_of_nat)
    hence "n \<le> free" using t u(4) by (simp add: uint_nat)
    thus ?thesis using n by (simp add: word_le_nat_alt)
  qed
  thus ?thesis using u r by blast
qed

definition demo_files :: fnode where
  "demo_files = Dir [(''notes.txt'', Leaf 60), (''photos'', Dir [(''a.jpg'', Leaf 40), (''b'', Dir [])])]"

theorem disk_check_counts_files_witness:
  "\<exists>used free. v_disk_usage mem_services ''/target'' sample_store = (Ret (used, free), sample_store) \<and> total demo_files \<le> unat free \<and> total demo_files = 100"
proof -
  let ?s = "sample_run\<lparr>sb_Params := Some sample_params\<rparr>"
  have t: "total demo_files = 100" "dir_outcome demo_files = Ret 100"
    by (simp_all add: demo_files_def dir_outcome_Ret)
  have d: "\<forall>w. v_DirSize mem_services (pa_Path sample_params) w = (dir_outcome demo_files, w)"
    by (simp add: t mem_services_sel)
  have s: "sb_BackupType ?s \<noteq> ''app''" "sb_Params ?s = Some sample_params" "mget (pa_Location sample_params) ''location'' = ''filesystem''"
    "mget (pa_Location sample_params) ''path'' = ''/target''"
    by (simp_all add: sample_run_def sample_params_def mget_def)
  from disk_check_counts_files[where files = "\<lambda>_. demo_files", OF checkDiskSize_leaves_room_witness[THEN conjunct1] s(1-3) d]
  show ?thesis using t s(4) by auto
qed

end
