(* ===== verification/Pointers.thy ===== *)
theory Pointers
  imports Complex_Main ApiTypes
begin

text \<open>
  The helpers for pointers (\<open>pkg/util/pointer\<close>) over an explicit memory: a constructor moves its argument
  to a cell of its own and returns the address, a nil pointer is \<open>None\<close>. Comparison is the one of Go's \<open>==\<close>, which
  for floating point numbers is not reflexive.
\<close>

section \<open>Memory\<close>

record 'a mem =
  mm_cells :: "nat \<Rightarrow> 'a option"
  mm_next :: nat

definition load :: "'a mem \<Rightarrow> nat \<Rightarrow> 'a" where
  "load m a = the (mm_cells m a)"

definition store_at :: "nat \<Rightarrow> 'a \<Rightarrow> 'a mem \<Rightarrow> 'a mem" where
  "store_at a x m = m\<lparr>mm_cells := (mm_cells m)(a \<mapsto> x)\<rparr>"

text \<open>\<open>Pointer\<close>: the parameter escapes to a new cell.\<close>

definition Pointer :: "'a \<Rightarrow> 'a mem \<Rightarrow> nat option \<times> 'a mem" where
  "Pointer v m = (Some (mm_next m), \<lparr>mm_cells = (mm_cells m)(mm_next m \<mapsto> v), mm_next = Suc (mm_next m)\<rparr>)"

definition deref_or :: "nat option \<Rightarrow> 'a \<Rightarrow> 'a mem \<Rightarrow> 'a" where
  "deref_or ptr dflt m = (case ptr of Some a \<Rightarrow> load m a | None \<Rightarrow> dflt)"

definition PointerEqual :: "('a \<Rightarrow> 'a \<Rightarrow> bool) \<Rightarrow> nat option \<Rightarrow> nat option \<Rightarrow> 'a mem \<Rightarrow> bool" where
  "PointerEqual eq a b m = (
     if (a = None) \<noteq> (b = None) then False
     else if a = None then True
     else eq (load m (the a)) (load m (the b)))"

section \<open>Floating point numbers\<close>

datatype gofloat = NaN | PosInf | NegInf | NegZero | Finite rat

fun float_eq :: "gofloat \<Rightarrow> gofloat \<Rightarrow> bool" where
  "float_eq NaN _ \<longleftrightarrow> False"
| "float_eq _ NaN \<longleftrightarrow> False"
| "float_eq NegZero (Finite r) \<longleftrightarrow> r = 0"
| "float_eq (Finite r) NegZero \<longleftrightarrow> r = 0"
| "float_eq x y \<longleftrightarrow> x = y"

section \<open>The functions\<close>

type_synonym 'a constructor = "'a \<Rightarrow> 'a mem \<Rightarrow> nat option \<times> 'a mem"

definition IntPtr :: "int constructor" where "IntPtr i m = Pointer i m"
definition Int32Ptr :: "32 word constructor" where "Int32Ptr i m = Pointer i m"
definition Int64Ptr :: "64 word constructor" where "Int64Ptr i m = Pointer i m"
definition UInt64Ptr :: "64 word constructor" where "UInt64Ptr i m = Pointer i m"
definition BoolPtr :: "bool constructor" where "BoolPtr b m = Pointer b m"
definition StringPtr :: "string constructor" where "StringPtr s m = Pointer s m"
definition Float32Ptr :: "gofloat constructor" where "Float32Ptr i m = Pointer i m"
definition Float64Ptr :: "gofloat constructor" where "Float64Ptr i m = Pointer i m"

text \<open>\<open>Time\<close> points to the current time.\<close>

definition Time :: "timestamp \<Rightarrow> timestamp mem \<Rightarrow> nat option \<times> timestamp mem" where
  "Time now m = Pointer now m"

definition IntDeref :: "nat option \<Rightarrow> int \<Rightarrow> int mem \<Rightarrow> int" where
  "IntDeref ptr dflt m = (if ptr \<noteq> None then load m (the ptr) else dflt)"

definition Int32Deref :: "nat option \<Rightarrow> 32 word \<Rightarrow> 32 word mem \<Rightarrow> 32 word" where
  "Int32Deref ptr dflt m = (if ptr \<noteq> None then load m (the ptr) else dflt)"

definition Int64Deref :: "nat option \<Rightarrow> 64 word \<Rightarrow> 64 word mem \<Rightarrow> 64 word" where
  "Int64Deref ptr dflt m = (if ptr \<noteq> None then load m (the ptr) else dflt)"

definition BoolDeref :: "nat option \<Rightarrow> bool \<Rightarrow> bool mem \<Rightarrow> bool" where
  "BoolDeref ptr dflt m = (if ptr \<noteq> None then load m (the ptr) else dflt)"

definition StringDeref :: "nat option \<Rightarrow> string \<Rightarrow> string mem \<Rightarrow> string" where
  "StringDeref ptr dflt m = (if ptr \<noteq> None then load m (the ptr) else dflt)"

definition StringDerefJoin :: "nat option \<Rightarrow> string \<Rightarrow> string mem \<Rightarrow> string" where
  "StringDerefJoin ptr dflt m = (if ptr \<noteq> None then load m (the ptr) @ '', '' @ dflt else dflt)"

definition Float32Deref :: "nat option \<Rightarrow> gofloat \<Rightarrow> gofloat mem \<Rightarrow> gofloat" where
  "Float32Deref ptr dflt m = (if ptr \<noteq> None then load m (the ptr) else dflt)"

definition Float64Deref :: "nat option \<Rightarrow> gofloat \<Rightarrow> gofloat mem \<Rightarrow> gofloat" where
  "Float64Deref ptr dflt m = (if ptr \<noteq> None then load m (the ptr) else dflt)"

definition Int32Equal :: "nat option \<Rightarrow> nat option \<Rightarrow> 32 word mem \<Rightarrow> bool" where
  "Int32Equal = PointerEqual (=)"

definition Int64Equal :: "nat option \<Rightarrow> nat option \<Rightarrow> 64 word mem \<Rightarrow> bool" where
  "Int64Equal = PointerEqual (=)"

definition BoolEqual :: "nat option \<Rightarrow> nat option \<Rightarrow> bool mem \<Rightarrow> bool" where
  "BoolEqual = PointerEqual (=)"

definition StringEqual :: "nat option \<Rightarrow> nat option \<Rightarrow> string mem \<Rightarrow> bool" where
  "StringEqual = PointerEqual (=)"

definition Float32Equal :: "nat option \<Rightarrow> nat option \<Rightarrow> gofloat mem \<Rightarrow> bool" where
  "Float32Equal = PointerEqual float_eq"

definition Float64Equal :: "nat option \<Rightarrow> nat option \<Rightarrow> gofloat mem \<Rightarrow> bool" where
  "Float64Equal = PointerEqual float_eq"

text \<open>What reflection sees of a value: the fields of a struct, of which only the pointers matter.\<close>

datatype rfield = PtrField "nat option" | OtherField

datatype rvalue = InvalidValue | NilPtr | PtrTo rvalue | StructValue "rfield list" | OtherKind

fun fields_nil :: "rfield list \<Rightarrow> bool" where
  "fields_nil [] \<longleftrightarrow> True"
| "fields_nil (PtrField (Some a) # fs) \<longleftrightarrow> False"
| "fields_nil (_ # fs) \<longleftrightarrow> fields_nil fs"

definition num_field_panic :: string where
  "num_field_panic = ''reflect: call of reflect.Value.NumField on a value that is not a struct''"

definition AllPtrFieldsNil :: "rvalue \<Rightarrow> bool outcome" where
  "AllPtrFieldsNil v = (let loop = (\<lambda>v. case v of StructValue fs \<Rightarrow> Ret (fields_nil fs) | _ \<Rightarrow> Panic num_field_panic) in
     case v of
       InvalidValue \<Rightarrow> Panic ''reflect.ValueOf() produced a non-valid Value''
     | NilPtr \<Rightarrow> Ret True
     | PtrTo v \<Rightarrow> loop v
     | _ \<Rightarrow> loop v)"

section \<open>Laws\<close>

text \<open>A new pointer is none of the pointers there were, and they keep their values.\<close>

definition points :: "'a mem \<Rightarrow> nat option \<Rightarrow> bool" where
  "points m p \<longleftrightarrow> (\<forall>a. p = Some a \<longrightarrow> a < mm_next m)"

lemma Pointer_fresh:
  assumes "Pointer v m = (p, m')" and "points m q"
  shows "p \<noteq> None" "p \<noteq> q" "deref_or p d m' = v" "deref_or q d m' = deref_or q d m" "points m' q" "points m' p"
  using assms by (auto simp: Pointer_def points_def deref_or_def load_def split: option.splits)

text \<open>Writing through a new pointer is seen through no other.\<close>

lemma Pointer_own_cell:
  assumes "Pointer v m = (Some a, m')" and "points m q"
  shows "deref_or q d (store_at a x m') = deref_or q d m"
  using assms by (auto simp: Pointer_def points_def deref_or_def load_def store_at_def split: option.splits)

locale comparison =
  fixes eq :: "'a \<Rightarrow> 'a \<Rightarrow> bool"
  assumes sym: "eq x y \<Longrightarrow> eq y x"
    and trans: "eq x y \<Longrightarrow> eq y z \<Longrightarrow> eq x z"
begin

lemma Equal_sym: "PointerEqual eq a b m \<Longrightarrow> PointerEqual eq b a m"
  by (auto simp: PointerEqual_def intro: sym split: if_splits)

lemma Equal_trans: "PointerEqual eq a b m \<Longrightarrow> PointerEqual eq b c m \<Longrightarrow> PointerEqual eq a c m"
  by (auto simp: PointerEqual_def intro: trans split: if_splits)

lemma Equal_refl_iff: "PointerEqual eq p p m \<longleftrightarrow> (\<forall>a. p = Some a \<longrightarrow> eq (load m a) (load m a))"
  by (cases p) (auto simp: PointerEqual_def)

end

locale equality = comparison +
  assumes eq_iff: "eq x y \<longleftrightarrow> x = y"
begin

text \<open>Two pointers are equal exactly when no default tells them apart.\<close>

lemma Equal_iff_deref:
  assumes "\<exists>x y :: 'a. x \<noteq> y"
  shows "PointerEqual eq a b m \<longleftrightarrow> (\<forall>d. deref_or a d m = deref_or b d m)"
proof (cases a; cases b)
  fix i assume "a = None" "b = Some i"
  moreover obtain d where "load m i \<noteq> d \<and> d \<noteq> load m i" using assms by metis
  ultimately show ?thesis by (auto simp: PointerEqual_def deref_or_def)
next
  fix i assume "a = Some i" "b = None"
  moreover obtain d where "load m i \<noteq> d \<and> d \<noteq> load m i" using assms by metis
  ultimately show ?thesis by (auto simp: PointerEqual_def deref_or_def)
qed (auto simp: PointerEqual_def deref_or_def eq_iff)

lemma Equal_of_new: "Pointer v m = (p, m') \<Longrightarrow> Pointer v m' = (q, m'') \<Longrightarrow> p \<noteq> q \<and> PointerEqual eq p q m''"
  by (auto simp: Pointer_def PointerEqual_def load_def eq_iff)

end

lemma float_eq_sym: "float_eq x y \<Longrightarrow> float_eq y x"
  by (cases x; cases y) auto

lemma float_eq_trans: "float_eq x y \<Longrightarrow> float_eq y z \<Longrightarrow> float_eq x z"
  by (cases x; cases y; cases z) auto

lemma float_eq_refl_iff: "float_eq x x \<longleftrightarrow> x \<noteq> NaN"
  by (cases x) auto

interpretation words32: equality "(=) :: 32 word \<Rightarrow> _" by unfold_locales simp_all
interpretation words64: equality "(=) :: 64 word \<Rightarrow> _" by unfold_locales simp_all
interpretation bools: equality "(=) :: bool \<Rightarrow> _" by unfold_locales simp_all
interpretation texts: equality "(=) :: string \<Rightarrow> _" by unfold_locales simp_all
interpretation floats: comparison float_eq by unfold_locales (rule float_eq_sym, assumption, rule float_eq_trans)

lemma StringEqual_iff_deref: "StringEqual a b m \<longleftrightarrow> (\<forall>d. StringDeref a d m = StringDeref b d m)"
proof -
  have "StringDeref p d m = deref_or p d m" for p d by (cases p) (simp_all add: StringDeref_def deref_or_def)
  moreover have "\<exists>x y :: string. x \<noteq> y" by (intro exI[of _ "[]"] exI[of _ "''x''"]) simp
  ultimately show ?thesis using texts.Equal_iff_deref[of a b m] by (simp add: StringEqual_def)
qed

text \<open>A pointer to a number that is not one is not equal to itself.\<close>

lemma Float64Equal_refl_iff: "Float64Equal p p m \<longleftrightarrow> (\<forall>a. p = Some a \<longrightarrow> load m a \<noteq> NaN)"
  by (simp add: Float64Equal_def floats.Equal_refl_iff float_eq_refl_iff)

lemma Float64Equal_zeros:
  assumes "Float64Ptr NegZero m = (p, m1)" and "Float64Ptr (Finite 0) m1 = (q, m2)"
  shows "Float64Equal p q m2"
  using assms by (auto simp: Float64Ptr_def Float64Equal_def Pointer_def PointerEqual_def load_def)

lemma fields_nil_iff: "fields_nil fs \<longleftrightarrow> (\<forall>a. PtrField (Some a) \<notin> set fs)"
  by (induction fs rule: fields_nil.induct) auto

lemma AllPtrFieldsNil_struct:
  "AllPtrFieldsNil (StructValue fs) = Ret (\<forall>a. PtrField (Some a) \<notin> set fs)"
  "AllPtrFieldsNil (PtrTo (StructValue fs)) = Ret (\<forall>a. PtrField (Some a) \<notin> set fs)"
  by (simp_all add: AllPtrFieldsNil_def fields_nil_iff)

end
