(* ===== verification/DeepCopy.thy ===== *)
theory DeepCopy
  imports ApiTypes
begin

text \<open>
  The copy functions of \<open>zz_generated.deepcopy.go\<close>. The rest of the development takes a resource as a
  value; here its memory is explicit. A pointer or a map is an address (or nil), a struct holds the
  addresses of its pointer fields, and a slice is the address of its array. \<open>new\<close> reserves an address;
  that \<open>new(T)\<close> also writes the zero value is left out, since every user writes the whole
  struct before anyone reads it. \<open>ObjectMeta\<close> and \<open>ListMeta\<close> belong to the Kubernetes library, which
  copies them: \<open>mcopy\<close> and \<open>lcopy\<close> are arguments, with the contracts \<open>deep_copier\<close> and \<open>copier\<close> as their laws.
\<close>

section \<open>Memory\<close>

type_synonym addr = nat

record ptypemeta =
  pt_Kind :: string
  pt_APIVersion :: string

record pmeta =
  pm_Name :: string
  pm_Labels :: "addr option"
  pm_ResourceVersion :: string
  pm_CreationTimestamp :: timestamp

record plistmeta =
  pl_ResourceVersion :: string
  pl_Continue :: string
  pl_RemainingItemCount :: "addr option"

record pBackupSpec =
  pbs_Name :: string
  pbs_Owner :: string
  pbs_Location :: "addr option"
  pbs_BackupPolicy :: "addr option"
  pbs_BackupType :: "addr option"
  pbs_Size :: "addr option"
  pbs_RestoreSize :: "addr option"
  pbs_CreateAt :: "addr option"
  pbs_Notified :: bool
  pbs_Deleted :: bool
  pbs_Extra :: "addr option"

record pBackupStatus =
  pbt_State :: string
  pbt_UpdateTime :: timestamp

record pBackup =
  pb_TypeMeta :: ptypemeta
  pb_ObjectMeta :: pmeta
  pb_Spec :: pBackupSpec
  pb_Status :: pBackupStatus

record pBackupList =
  pbl_TypeMeta :: ptypemeta
  pbl_ListMeta :: plistmeta
  pbl_Items :: "addr option"

record pSnapshotSpec =
  pss_BackupId :: string
  pss_Location :: string
  pss_SnapshotType :: "addr option"
  pss_SnapshotId :: "addr option"
  pss_Size :: "addr option"
  pss_CreateAt :: "addr option"
  pss_StartAt :: "addr option"
  pss_EndAt :: "addr option"
  pss_Progress :: int
  pss_Phase :: "addr option"
  pss_Message :: "addr option"
  pss_ResticPhase :: "addr option"
  pss_ResticMessage :: "addr option"
  pss_Extra :: "addr option"

record pSnapshot =
  ps_TypeMeta :: ptypemeta
  ps_ObjectMeta :: pmeta
  ps_Spec :: pSnapshotSpec
  ps_Status :: unit

record pSnapshotList =
  psl_TypeMeta :: ptypemeta
  psl_ListMeta :: plistmeta
  psl_Items :: "addr option"

record pRestoreSpec =
  prs_Owner :: string
  prs_RestoreType :: "addr option"
  prs_CreateAt :: "addr option"
  prs_StartAt :: "addr option"
  prs_EndAt :: "addr option"
  prs_Size :: "addr option"
  prs_Progress :: int
  prs_Phase :: "addr option"
  prs_Message :: "addr option"
  prs_ResticPhase :: "addr option"
  prs_ResticMessage :: "addr option"
  prs_Extra :: "addr option"

record pRestore =
  pr_TypeMeta :: ptypemeta
  pr_ObjectMeta :: pmeta
  pr_Spec :: pRestoreSpec
  pr_Status :: unit

record pRestoreList =
  prl_TypeMeta :: ptypemeta
  prl_ListMeta :: plistmeta
  prl_Items :: "addr option"

text \<open>A cell holds a value of one type; the selectors read it at that type.\<close>

datatype cell =
    CInt int | CString string | CUint64 u64 | CTime timestamp | CMap smap | CPolicy BackupPolicy
  | CBackup pBackup | CBackupSpec pBackupSpec | CBackupStatus pBackupStatus | CBackups "pBackup list" | CBackupList pBackupList
  | CSnapshot pSnapshot | CSnapshotSpec pSnapshotSpec | CSnapshotStatus unit | CSnapshots "pSnapshot list" | CSnapshotList pSnapshotList
  | CRestore pRestore | CRestoreSpec pRestoreSpec | CRestoreStatus unit | CRestores "pRestore list" | CRestoreList pRestoreList

definition un_Int :: "cell \<Rightarrow> int option" where "un_Int c = (case c of CInt x \<Rightarrow> Some x | _ \<Rightarrow> None)"
definition un_String :: "cell \<Rightarrow> string option" where "un_String c = (case c of CString x \<Rightarrow> Some x | _ \<Rightarrow> None)"
definition un_Uint64 :: "cell \<Rightarrow> u64 option" where "un_Uint64 c = (case c of CUint64 x \<Rightarrow> Some x | _ \<Rightarrow> None)"
definition un_Time :: "cell \<Rightarrow> timestamp option" where "un_Time c = (case c of CTime x \<Rightarrow> Some x | _ \<Rightarrow> None)"
definition un_Map :: "cell \<Rightarrow> smap option" where "un_Map c = (case c of CMap x \<Rightarrow> Some x | _ \<Rightarrow> None)"
definition un_Policy :: "cell \<Rightarrow> BackupPolicy option" where "un_Policy c = (case c of CPolicy x \<Rightarrow> Some x | _ \<Rightarrow> None)"
definition un_Backup :: "cell \<Rightarrow> pBackup option" where "un_Backup c = (case c of CBackup x \<Rightarrow> Some x | _ \<Rightarrow> None)"
definition un_BackupSpec :: "cell \<Rightarrow> pBackupSpec option" where "un_BackupSpec c = (case c of CBackupSpec x \<Rightarrow> Some x | _ \<Rightarrow> None)"
definition un_BackupStatus :: "cell \<Rightarrow> pBackupStatus option" where "un_BackupStatus c = (case c of CBackupStatus x \<Rightarrow> Some x | _ \<Rightarrow> None)"
definition un_Backups :: "cell \<Rightarrow> (pBackup list) option" where "un_Backups c = (case c of CBackups x \<Rightarrow> Some x | _ \<Rightarrow> None)"
definition un_BackupList :: "cell \<Rightarrow> pBackupList option" where "un_BackupList c = (case c of CBackupList x \<Rightarrow> Some x | _ \<Rightarrow> None)"
definition un_Snapshot :: "cell \<Rightarrow> pSnapshot option" where "un_Snapshot c = (case c of CSnapshot x \<Rightarrow> Some x | _ \<Rightarrow> None)"
definition un_SnapshotSpec :: "cell \<Rightarrow> pSnapshotSpec option" where "un_SnapshotSpec c = (case c of CSnapshotSpec x \<Rightarrow> Some x | _ \<Rightarrow> None)"
definition un_SnapshotStatus :: "cell \<Rightarrow> unit option" where "un_SnapshotStatus c = (case c of CSnapshotStatus x \<Rightarrow> Some x | _ \<Rightarrow> None)"
definition un_Snapshots :: "cell \<Rightarrow> (pSnapshot list) option" where "un_Snapshots c = (case c of CSnapshots x \<Rightarrow> Some x | _ \<Rightarrow> None)"
definition un_SnapshotList :: "cell \<Rightarrow> pSnapshotList option" where "un_SnapshotList c = (case c of CSnapshotList x \<Rightarrow> Some x | _ \<Rightarrow> None)"
definition un_Restore :: "cell \<Rightarrow> pRestore option" where "un_Restore c = (case c of CRestore x \<Rightarrow> Some x | _ \<Rightarrow> None)"
definition un_RestoreSpec :: "cell \<Rightarrow> pRestoreSpec option" where "un_RestoreSpec c = (case c of CRestoreSpec x \<Rightarrow> Some x | _ \<Rightarrow> None)"
definition un_RestoreStatus :: "cell \<Rightarrow> unit option" where "un_RestoreStatus c = (case c of CRestoreStatus x \<Rightarrow> Some x | _ \<Rightarrow> None)"
definition un_Restores :: "cell \<Rightarrow> (pRestore list) option" where "un_Restores c = (case c of CRestores x \<Rightarrow> Some x | _ \<Rightarrow> None)"
definition un_RestoreList :: "cell \<Rightarrow> pRestoreList option" where "un_RestoreList c = (case c of CRestoreList x \<Rightarrow> Some x | _ \<Rightarrow> None)"

lemma un_simps [simp]:
  "un_Int (CInt x0) = Some x0"
  "un_String (CString x1) = Some x1"
  "un_Uint64 (CUint64 x2) = Some x2"
  "un_Time (CTime x3) = Some x3"
  "un_Map (CMap x4) = Some x4"
  "un_Policy (CPolicy x5) = Some x5"
  "un_Backup (CBackup x6) = Some x6"
  "un_BackupSpec (CBackupSpec x7) = Some x7"
  "un_BackupStatus (CBackupStatus x8) = Some x8"
  "un_Backups (CBackups x9) = Some x9"
  "un_BackupList (CBackupList x10) = Some x10"
  "un_Snapshot (CSnapshot x11) = Some x11"
  "un_SnapshotSpec (CSnapshotSpec x12) = Some x12"
  "un_SnapshotStatus (CSnapshotStatus x13) = Some x13"
  "un_Snapshots (CSnapshots x14) = Some x14"
  "un_SnapshotList (CSnapshotList x15) = Some x15"
  "un_Restore (CRestore x16) = Some x16"
  "un_RestoreSpec (CRestoreSpec x17) = Some x17"
  "un_RestoreStatus (CRestoreStatus x18) = Some x18"
  "un_Restores (CRestores x19) = Some x19"
  "un_RestoreList (CRestoreList x20) = Some x20"
  by (simp_all add: un_Int_def un_String_def un_Uint64_def un_Time_def un_Map_def un_Policy_def un_Backup_def un_BackupSpec_def un_BackupStatus_def un_Backups_def un_BackupList_def un_Snapshot_def un_SnapshotSpec_def un_SnapshotStatus_def un_Snapshots_def un_SnapshotList_def un_Restore_def un_RestoreSpec_def un_RestoreStatus_def un_Restores_def un_RestoreList_def)

record heap =
  hp_cells :: "addr \<Rightarrow> cell option"
  hp_next :: addr

definition new :: "heap \<Rightarrow> addr \<times> heap" where
  "new h = (hp_next h, h\<lparr>hp_next := Suc (hp_next h)\<rparr>)"

definition put :: "addr \<Rightarrow> cell \<Rightarrow> heap \<Rightarrow> heap" where
  "put a c h = h\<lparr>hp_cells := (hp_cells h)(a \<mapsto> c)\<rparr>"

definition rd :: "(cell \<Rightarrow> 'a option) \<Rightarrow> heap \<Rightarrow> addr option \<Rightarrow> 'a option" where
  "rd un h p = (case p of None \<Rightarrow> None | Some a \<Rightarrow> Option.bind (hp_cells h a) un)"

text \<open>\<open>m[k] = v\<close> for a map of the memory; on a nil map it panics.\<close>

definition map_assign :: "addr option \<Rightarrow> string \<Rightarrow> string \<Rightarrow> (heap, unit) go" where
  "map_assign p k v h = (case p of
      None \<Rightarrow> (Panic ''assignment to entry in nil map'', h)
    | Some a \<Rightarrow> (Ret (), put a (CMap (mput (entries (rd un_Map h (Some a))) k v)) h))"

text \<open>\<open>grows h h'\<close>: nothing that was allocated has changed.\<close>

definition grows :: "heap \<Rightarrow> heap \<Rightarrow> bool" where
  "grows h h' \<longleftrightarrow> hp_next h \<le> hp_next h' \<and> (\<forall>a < hp_next h. hp_cells h' a = hp_cells h a)"

lemma grows_refl [simp]: "grows h h"
  by (simp add: grows_def)

lemma grows_trans: "grows h h' \<Longrightarrow> grows h' h'' \<Longrightarrow> grows h h''"
  by (auto simp: grows_def)

lemma rd_simps [simp]: "rd un h None = None" "rd un h (Some a) = Option.bind (hp_cells h a) un"
  by (simp_all add: rd_def)

lemma rd_local: "(\<And>a. p = Some a \<Longrightarrow> hp_cells h' a = hp_cells h a) \<Longrightarrow> rd un h' p = rd un h p"
  by (cases p) auto

lemma new_simps [simp]: "fst (new h) = hp_next h" "hp_cells (snd (new h)) = hp_cells h" "hp_next (snd (new h)) = Suc (hp_next h)"
  by (simp_all add: new_def)

lemma put_simps [simp]: "hp_next (put a c h) = hp_next h" "hp_cells (put a c h) b = (if b = a then Some c else hp_cells h b)"
  by (simp_all add: put_def)

lemma grows_new [simp]: "grows h (snd (new h))"
  by (simp add: grows_def)

lemma grows_put: "grows h h' \<Longrightarrow> hp_next h \<le> a \<Longrightarrow> grows h (put a c h')"
  by (auto simp: grows_def)

section \<open>The values behind the addresses\<close>

definition view_meta :: "heap \<Rightarrow> pmeta \<Rightarrow> objmeta" where
  "view_meta h m = \<lparr>om_Name = pm_Name m, om_Labels = entries (rd un_Map h (pm_Labels m)),
     om_ResourceVersion = pm_ResourceVersion m, om_CreationTimestamp = pm_CreationTimestamp m\<rparr>"

definition view_listmeta :: "heap \<Rightarrow> plistmeta \<Rightarrow> string \<times> string \<times> int option" where
  "view_listmeta h m = (pl_ResourceVersion m, pl_Continue m, rd un_Int h (pl_RemainingItemCount m))"

definition view_BackupSpec :: "heap \<Rightarrow> pBackupSpec \<Rightarrow> BackupSpec" where
  "view_BackupSpec h s = \<lparr>bs_Name = pbs_Name s, bs_Owner = pbs_Owner s, bs_Location = rd un_Map h (pbs_Location s),
     bs_BackupPolicy = rd un_Policy h (pbs_BackupPolicy s), bs_BackupType = rd un_Map h (pbs_BackupType s),
     bs_Size = rd un_Uint64 h (pbs_Size s), bs_RestoreSize = rd un_Uint64 h (pbs_RestoreSize s),
     bs_CreateAt = rd un_Time h (pbs_CreateAt s), bs_Notified = pbs_Notified s, bs_Deleted = pbs_Deleted s,
     bs_Extra = rd un_Map h (pbs_Extra s)\<rparr>"

definition view_SnapshotSpec :: "heap \<Rightarrow> pSnapshotSpec \<Rightarrow> SnapshotSpec" where
  "view_SnapshotSpec h s = \<lparr>ss_BackupId = pss_BackupId s, ss_Location = pss_Location s,
     ss_SnapshotType = rd un_Int h (pss_SnapshotType s), ss_SnapshotId = rd un_String h (pss_SnapshotId s),
     ss_Size = rd un_Uint64 h (pss_Size s), ss_CreateAt = rd un_Time h (pss_CreateAt s), ss_StartAt = rd un_Time h (pss_StartAt s),
     ss_EndAt = rd un_Time h (pss_EndAt s), ss_Progress = pss_Progress s, ss_Phase = rd un_String h (pss_Phase s),
     ss_Message = rd un_String h (pss_Message s), ss_ResticPhase = rd un_String h (pss_ResticPhase s),
     ss_ResticMessage = rd un_String h (pss_ResticMessage s), ss_Extra = rd un_Map h (pss_Extra s)\<rparr>"

definition view_RestoreSpec :: "heap \<Rightarrow> pRestoreSpec \<Rightarrow> RestoreSpec" where
  "view_RestoreSpec h s = \<lparr>rs_Owner = prs_Owner s, rs_RestoreType = rd un_Map h (prs_RestoreType s),
     rs_CreateAt = rd un_Time h (prs_CreateAt s), rs_StartAt = rd un_Time h (prs_StartAt s), rs_EndAt = rd un_Time h (prs_EndAt s),
     rs_Size = rd un_Uint64 h (prs_Size s), rs_Progress = prs_Progress s, rs_Phase = rd un_String h (prs_Phase s),
     rs_Message = rd un_String h (prs_Message s), rs_ResticPhase = rd un_String h (prs_ResticPhase s),
     rs_ResticMessage = rd un_String h (prs_ResticMessage s), rs_Extra = rd un_Map h (prs_Extra s)\<rparr>"

definition view_Backup :: "heap \<Rightarrow> pBackup \<Rightarrow> Backup" where
  "view_Backup h b = \<lparr>bk_meta = view_meta h (pb_ObjectMeta b), bk_Spec = view_BackupSpec h (pb_Spec b)\<rparr>"

definition view_Snapshot :: "heap \<Rightarrow> pSnapshot \<Rightarrow> Snapshot" where
  "view_Snapshot h s = \<lparr>sn_meta = view_meta h (ps_ObjectMeta s), sn_Spec = view_SnapshotSpec h (ps_Spec s)\<rparr>"

definition view_Restore :: "heap \<Rightarrow> pRestore \<Rightarrow> Restore" where
  "view_Restore h r = \<lparr>re_meta = view_meta h (pr_ObjectMeta r), re_Spec = view_RestoreSpec h (pr_Spec r)\<rparr>"

text \<open>The addresses a struct holds.\<close>

definition ptrs :: "addr option list \<Rightarrow> addr set" where
  "ptrs ps = \<Union> (set_option ` set ps)"

definition reach_BackupSpec :: "pBackupSpec \<Rightarrow> addr set" where
  "reach_BackupSpec s = ptrs [pbs_Location s, pbs_BackupPolicy s, pbs_BackupType s, pbs_Size s, pbs_RestoreSize s,
     pbs_CreateAt s, pbs_Extra s]"

definition reach_SnapshotSpec :: "pSnapshotSpec \<Rightarrow> addr set" where
  "reach_SnapshotSpec s = ptrs [pss_SnapshotType s, pss_SnapshotId s, pss_Size s, pss_CreateAt s, pss_StartAt s,
     pss_EndAt s, pss_Phase s, pss_Message s, pss_ResticPhase s, pss_ResticMessage s, pss_Extra s]"

definition reach_RestoreSpec :: "pRestoreSpec \<Rightarrow> addr set" where
  "reach_RestoreSpec s = ptrs [prs_RestoreType s, prs_CreateAt s, prs_StartAt s, prs_EndAt s, prs_Size s, prs_Phase s,
     prs_Message s, prs_ResticPhase s, prs_ResticMessage s, prs_Extra s]"

definition reach_meta :: "pmeta \<Rightarrow> addr set" where
  "reach_meta m = ptrs [pm_Labels m]"

definition reach_listmeta :: "plistmeta \<Rightarrow> addr set" where
  "reach_listmeta m = ptrs [pl_RemainingItemCount m]"

definition reach_Backup :: "pBackup \<Rightarrow> addr set" where
  "reach_Backup b = reach_meta (pb_ObjectMeta b) \<union> reach_BackupSpec (pb_Spec b)"

definition reach_Snapshot :: "pSnapshot \<Rightarrow> addr set" where
  "reach_Snapshot s = reach_meta (ps_ObjectMeta s) \<union> reach_SnapshotSpec (ps_Spec s)"

definition reach_Restore :: "pRestore \<Rightarrow> addr set" where
  "reach_Restore r = reach_meta (pr_ObjectMeta r) \<union> reach_RestoreSpec (pr_Spec r)"

definition live :: "heap \<Rightarrow> addr set \<Rightarrow> bool" where
  "live h A \<longleftrightarrow> A \<subseteq> {..<hp_next h}"

lemma ptrs_simps [simp]: "ptrs [] = {}" "ptrs (p # ps) = set_option p \<union> ptrs ps"
  by (simp_all add: ptrs_def)

lemma live_grows: "live h A \<Longrightarrow> grows h h' \<Longrightarrow> live h' A"
  by (auto simp: live_def grows_def)

lemma live_same: "live h A \<Longrightarrow> grows h h' \<Longrightarrow> \<forall>a\<in>A. hp_cells h' a = hp_cells h a"
  by (auto simp: live_def grows_def)

text \<open>A view depends on nothing but the cells of these addresses.\<close>

lemma view_meta_local:
  "\<forall>a\<in>reach_meta m. hp_cells h' a = hp_cells h a \<Longrightarrow> view_meta h' m = view_meta h m"
  by (auto simp: view_meta_def reach_meta_def intro!: arg_cong[where f = entries] rd_local)

lemma view_listmeta_local:
  "\<forall>a\<in>reach_listmeta m. hp_cells h' a = hp_cells h a \<Longrightarrow> view_listmeta h' m = view_listmeta h m"
  by (auto simp: view_listmeta_def reach_listmeta_def intro!: rd_local)

lemma view_BackupSpec_local:
  "\<forall>a\<in>reach_BackupSpec s. hp_cells h' a = hp_cells h a \<Longrightarrow> view_BackupSpec h' s = view_BackupSpec h s"
  by (auto simp: view_BackupSpec_def reach_BackupSpec_def intro!: rd_local)

lemma view_SnapshotSpec_local:
  "\<forall>a\<in>reach_SnapshotSpec s. hp_cells h' a = hp_cells h a \<Longrightarrow> view_SnapshotSpec h' s = view_SnapshotSpec h s"
  by (auto simp: view_SnapshotSpec_def reach_SnapshotSpec_def intro!: rd_local)

lemma view_RestoreSpec_local:
  "\<forall>a\<in>reach_RestoreSpec s. hp_cells h' a = hp_cells h a \<Longrightarrow> view_RestoreSpec h' s = view_RestoreSpec h s"
  by (auto simp: view_RestoreSpec_def reach_RestoreSpec_def intro!: rd_local)

lemmas views_local = view_meta_local view_BackupSpec_local view_SnapshotSpec_local view_RestoreSpec_local

section \<open>The contract of a copy function\<close>

fun copy_all :: "('a \<Rightarrow> heap \<Rightarrow> 'a \<times> heap) \<Rightarrow> 'a list \<Rightarrow> heap \<Rightarrow> 'a list \<times> heap" where
  "copy_all copy [] h = ([], h)"
| "copy_all copy (x # xs) h = (let (y, h1) = copy x h; (ys, h2) = copy_all copy xs h1 in (y # ys, h2))"

text \<open>\<open>DeepCopy\<close>: a nil receiver gives nil; else the copy is written to a new address.\<close>

definition DeepCopy_of :: "('a \<Rightarrow> cell) \<Rightarrow> (cell \<Rightarrow> 'a option) \<Rightarrow> ('a \<Rightarrow> heap \<Rightarrow> 'a \<times> heap) \<Rightarrow> addr option \<Rightarrow> (heap, addr option) go" where
  "DeepCopy_of mk un into p h = (case p of
      None \<Rightarrow> (Ret None, h)
    | Some a \<Rightarrow> (case rd un h (Some a) of
        None \<Rightarrow> (Panic ''invalid memory address'', h)
      | Some x \<Rightarrow> let (out, h1) = new h; (y, h2) = into x h1 in (Ret (Some out), put out (mk y) h2)))"

text \<open>
  A copy function leaves allocated memory alone, gives a struct with the same values, and that struct
  holds no address but those of the original and fresh ones.
\<close>

locale copier =
  fixes copy :: "'a \<Rightarrow> heap \<Rightarrow> 'a \<times> heap"
    and view :: "heap \<Rightarrow> 'a \<Rightarrow> 'v"
    and reach :: "heap \<Rightarrow> 'a \<Rightarrow> addr set"
  assumes copy_grows: "copy x h = (y, h') \<Longrightarrow> grows h h'"
    and copy_reach: "live h (reach h x) \<Longrightarrow> copy x h = (y, h') \<Longrightarrow> reach h' y \<subseteq> reach h x \<union> {hp_next h..<hp_next h'}"
    and copy_view: "live h (reach h x) \<Longrightarrow> copy x h = (y, h') \<Longrightarrow> view h' y = view h x"
    and view_local: "\<forall>a\<in>reach h x. hp_cells h' a = hp_cells h a \<Longrightarrow> view h' x = view h x"
    and reach_local: "\<forall>a\<in>reach h x. hp_cells h' a = hp_cells h a \<Longrightarrow> reach h' x = reach h x"
begin

lemma grown: "live h (reach h x) \<Longrightarrow> grows h h' \<Longrightarrow> view h' x = view h x \<and> reach h' x = reach h x \<and> live h' (reach h x)"
  using view_local[OF live_same] reach_local[OF live_same] live_grows by metis

lemma copy_live: "live h (reach h x) \<Longrightarrow> copy x h = (y, h') \<Longrightarrow> live h' (reach h' y)"
  using copy_grows[of x h y h'] copy_reach[of h x y h'] unfolding live_def grows_def by fastforce

lemma copy_all_grows: "copy_all copy xs h = (ys, h') \<Longrightarrow> grows h h'"
  by (induction xs arbitrary: ys h) (auto split: prod.splits dest: copy_grows intro: grows_trans)

lemma copy_all_copies:
  "copy_all copy xs h = (ys, h') \<Longrightarrow> \<forall>x\<in>set xs. live h (reach h x) \<Longrightarrow>
    map (view h') ys = map (view h) xs \<and> (\<Union>y\<in>set ys. reach h' y) \<subseteq> (\<Union>x\<in>set xs. reach h x) \<union> {hp_next h..<hp_next h'}"
proof (induction xs arbitrary: ys h)
  case (Cons x xs)
  obtain y h1 zs where c: "copy x h = (y, h1)" "copy_all copy xs h1 = (zs, h')" "ys = y # zs"
    using Cons.prems(1) by (auto split: prod.splits)
  note g = copy_grows[OF c(1)] and g' = copy_all_grows[OF c(2)]
  have n: "hp_next h \<le> hp_next h1" "hp_next h1 \<le> hp_next h'" using g g' by (simp_all add: grows_def)
  have x: "live h (reach h x)" using Cons.prems(2) by simp
  have xs: "\<forall>z\<in>set xs. view h1 z = view h z \<and> reach h1 z = reach h z \<and> live h1 (reach h1 z)"
    using Cons.prems(2) grown[OF _ g] by simp
  have y: "view h' y = view h x" "reach h' y \<subseteq> reach h x \<union> {hp_next h..<hp_next h1}"
    using grown[OF copy_live[OF x c(1)] g'] copy_view[OF x c(1)] copy_reach[OF x c(1)] by simp_all
  have "\<forall>z\<in>set xs. live h1 (reach h1 z)" using xs by blast
  note I = Cons.IH[OF c(2) this]
  moreover have "map (view h1) xs = map (view h) xs" "(\<Union>z\<in>set xs. reach h1 z) = (\<Union>z\<in>set xs. reach h z)" using xs by auto
  ultimately have "map (view h') zs = map (view h) xs"
    and "(\<Union>y\<in>set zs. reach h' y) \<subseteq> (\<Union>x\<in>set xs. reach h x) \<union> {hp_next h1..<hp_next h'}" by simp_all
  moreover have "{hp_next h..<hp_next h1} \<union> {hp_next h1..<hp_next h'} = {hp_next h..<hp_next h'}"
    using n by (simp add: ivl_disj_un)
  ultimately show ?case using y c(3) by auto
qed simp

lemma DeepCopy_of_Some:
  assumes mk: "\<And>y. un (mk y) = Some y" and x: "rd un h (Some a) = Some x" "live h (reach h x)"
  shows "\<exists>y h'. DeepCopy_of mk un copy (Some a) h = (Ret (Some (hp_next h)), h') \<and> grows h h'
    \<and> rd un h' (Some (hp_next h)) = Some y \<and> view h' y = view h x
    \<and> y = fst (copy x (snd (new h))) \<and> reach h' y \<subseteq> reach h x \<union> {Suc (hp_next h)..<hp_next h'}"
proof -
  obtain y h2 where c: "copy x (snd (new h)) = (y, h2)" by fastforce
  let ?h' = "put (hp_next h) (mk y) h2"
  have g: "grows (snd (new h)) h2" using copy_grows[OF c] .
  hence gh: "grows h ?h'" by (auto simp: grows_def)
  have n: "reach (snd (new h)) x = reach h x" "view (snd (new h)) x = view h x" "live (snd (new h)) (reach (snd (new h)) x)"
    using grown[OF x(2) grows_new] by simp_all
  have r: "reach h2 y \<subseteq> reach h x \<union> {Suc (hp_next h)..<hp_next h2}" using copy_reach[OF n(3) c] n(1) by simp
  hence "hp_next h \<notin> reach h2 y" using x(2) by (auto simp: live_def)
  hence "\<forall>a\<in>reach h2 y. hp_cells ?h' a = hp_cells h2 a" by auto
  from view_local[OF this] reach_local[OF this]
  have "view ?h' y = view h x" "reach ?h' y = reach h2 y" using copy_view[OF n(3) c] n(2) by simp_all
  moreover have "rd un ?h' (Some (hp_next h)) = Some y" using mk by simp
  moreover have "DeepCopy_of mk un copy (Some a) h = (Ret (Some (hp_next h)), ?h')"
    using c x(1) by (simp add: DeepCopy_of_def new_def)
  ultimately show ?thesis using gh r c by (intro exI[of _ y] exI[of _ ?h']) simp
qed

end

text \<open>A copy is deep when it holds fresh addresses only; then no write through it reaches the original.\<close>

locale deep_copier = copier +
  assumes copy_deep: "live h (reach h x) \<Longrightarrow> copy x h = (y, h') \<Longrightarrow> reach h' y \<subseteq> {hp_next h..<hp_next h'}"
begin

lemma write_isolated:
  assumes "copy x h = (y, h')" and "live h (reach h x)" and "a \<in> reach h' y"
  shows "view (put a c h') x = view h x"
proof -
  have "hp_next h \<le> a" using copy_deep[OF assms(2,1)] assms(3) by auto
  hence "a \<notin> reach h x" using assms(2) by (auto simp: live_def)
  hence "\<forall>b\<in>reach h x. hp_cells (put a c h') b = hp_cells h b"
    using live_same[OF assms(2) copy_grows[OF assms(1)]] by auto
  thus ?thesis by (rule view_local)
qed

end

section \<open>Copies of a part, of a pair and of a slice\<close>

text \<open>A function that copies one part of a struct and keeps the rest satisfies the contract when the copy of the part does.\<close>

lemma copier_part:
  assumes c: "copier c v r" and upd: "\<And>p x. part (upd p x) = p"
    and view: "\<And>h x. view h x = G (w h x) (v h (part x))" and w: "\<And>h p x. w h (upd p x) = w h x"
    and reach: "\<And>h x. reach h x = r h (part x) \<union> R x" and R: "\<And>p x. R (upd p x) = R x"
    and w_local: "\<And>h h' x. \<forall>a\<in>R x. hp_cells h' a = hp_cells h a \<Longrightarrow> w h' x = w h x"
    and copy: "\<And>x h. copy x h = (upd (fst (c (part x) h)) x, snd (c (part x) h))"
  shows "copier copy view reach"
proof
  fix x y and h h' :: heap
  { assume "copy x h = (y, h')"
    then obtain p where p: "c (part x) h = (p, h')" "y = upd p x" using copy by (metis fst_conv snd_conv prod.collapse)
    show g: "grows h h'" using copier.copy_grows[OF c p(1)] .
    { assume l: "live h (reach h x)"
      hence lr: "live h (r h (part x))" "live h (R x)" by (simp_all add: reach live_def)
      show "reach h' y \<subseteq> reach h x \<union> {hp_next h..<hp_next h'}"
        using copier.copy_reach[OF c lr(1) p(1)] p(2) by (auto simp: reach upd R)
      show "view h' y = view h x"
        using copier.copy_view[OF c lr(1) p(1)] w_local[OF live_same[OF lr(2) g]] p(2) by (simp add: view upd w) } }
  { assume "\<forall>a\<in>reach h x. hp_cells h' a = hp_cells h a"
    hence "\<forall>a\<in>r h (part x). hp_cells h' a = hp_cells h a" "\<forall>a\<in>R x. hp_cells h' a = hp_cells h a" by (simp_all add: reach)
    from copier.view_local[OF c this(1)] copier.reach_local[OF c this(1)] w_local[OF this(2)]
    show "view h' x = view h x" "reach h' x = reach h x" by (simp_all add: view reach) }
qed

lemma copier_pair:
  assumes c: "copier c1 v1 r1" "copier c2 v2 r2"
  shows "copier (\<lambda>p h. let (x, h1) = c1 (fst p) h; (y, h2) = c2 (snd p) h1 in ((x, y), h2))
    (\<lambda>h p. (v1 h (fst p), v2 h (snd p))) (\<lambda>h p. r1 h (fst p) \<union> r2 h (snd p))"
proof
  fix p q and h h' :: heap
  { assume "(let (x, h1) = c1 (fst p) h; (y, h2) = c2 (snd p) h1 in ((x, y), h2)) = (q, h')"
    then obtain x y h1 where q: "c1 (fst p) h = (x, h1)" "c2 (snd p) h1 = (y, h')" "q = (x, y)" by (auto split: prod.splits)
    note g = copier.copy_grows[OF c(1) q(1)] copier.copy_grows[OF c(2) q(2)]
    show "grows h h'" using grows_trans[OF g] .
    have n: "hp_next h \<le> hp_next h1" "hp_next h1 \<le> hp_next h'" using g by (simp_all add: grows_def)
    { assume "live h (r1 h (fst p) \<union> r2 h (snd p))"
      hence l: "live h (r1 h (fst p))" "live h (r2 h (snd p))" by (simp_all add: live_def)
      note l2 = copier.grown[OF c(2) l(2) g(1)] and x = copier.grown[OF c(1) copier.copy_live[OF c(1) l(1) q(1)] g(2)]
      have "live h1 (r2 h1 (snd p))" using l2 by simp
      note y = copier.copy_reach[OF c(2) this q(2)] copier.copy_view[OF c(2) this q(2)]
      show "r1 h' (fst q) \<union> r2 h' (snd q) \<subseteq> r1 h (fst p) \<union> r2 h (snd p) \<union> {hp_next h..<hp_next h'}"
        using x y(1) l2 copier.copy_reach[OF c(1) l(1) q(1)] n q(3) by fastforce
      show "(v1 h' (fst q), v2 h' (snd q)) = (v1 h (fst p), v2 h (snd p))"
        using x y(2) l2 copier.copy_view[OF c(1) l(1) q(1)] q(3) by simp } }
  { assume "\<forall>a\<in>r1 h (fst p) \<union> r2 h (snd p). hp_cells h' a = hp_cells h a"
    hence e: "\<forall>a\<in>r1 h (fst p). hp_cells h' a = hp_cells h a" "\<forall>a\<in>r2 h (snd p). hp_cells h' a = hp_cells h a" by simp_all
    from copier.view_local[OF c(1) e(1)] copier.view_local[OF c(2) e(2)] copier.reach_local[OF c(1) e(1)] copier.reach_local[OF c(2) e(2)]
    show "(v1 h' (fst p), v2 h' (snd p)) = (v1 h (fst p), v2 h (snd p))" "r1 h' (fst p) \<union> r2 h' (snd p) = r1 h (fst p) \<union> r2 h (snd p)"
      by simp_all }
qed

text \<open>
  \<open>if in.Items != nil { *out = make([]T, len(*in)); for i := range *in { (*in)[i].DeepCopyInto(&(*out)[i]) } }\<close>
\<close>

definition copy_slice :: "('a list \<Rightarrow> cell) \<Rightarrow> (cell \<Rightarrow> 'a list option) \<Rightarrow> ('a \<Rightarrow> heap \<Rightarrow> 'a \<times> heap) \<Rightarrow> addr option \<Rightarrow> heap \<Rightarrow> addr option \<times> heap" where
  "copy_slice mk un copy p h = (case rd un h p of
      None \<Rightarrow> (p, h)
    | Some xs \<Rightarrow> let (items, h1) = new h; (ys, h2) = copy_all copy xs h1 in (Some items, put items (mk ys) h2))"

definition view_slice :: "(cell \<Rightarrow> 'a list option) \<Rightarrow> (heap \<Rightarrow> 'a \<Rightarrow> 'v) \<Rightarrow> heap \<Rightarrow> addr option \<Rightarrow> 'v list option" where
  "view_slice un view h p = map_option (map (view h)) (rd un h p)"

definition reach_slice :: "(cell \<Rightarrow> 'a list option) \<Rightarrow> (heap \<Rightarrow> 'a \<Rightarrow> addr set) \<Rightarrow> heap \<Rightarrow> addr option \<Rightarrow> addr set" where
  "reach_slice un reach h p = set_option p \<union> (\<Union>x\<in>set (case rd un h p of None \<Rightarrow> [] | Some xs \<Rightarrow> xs). reach h x)"

context copier
begin

lemma slice:
  assumes mk: "\<And>ys. un (mk ys) = Some ys"
  shows "copier (copy_slice mk un copy) (view_slice un view) (reach_slice un reach)"
proof
  fix p q and h h' :: heap
  { assume q: "copy_slice mk un copy p h = (q, h')"
    have *: "rd un h p = None \<and> q = p \<and> h' = h \<or> (\<exists>xs ys h2. rd un h p = Some xs \<and> copy_all copy xs (snd (new h)) = (ys, h2)
        \<and> q = Some (hp_next h) \<and> h' = put (hp_next h) (mk ys) h2)"
      using q by (auto simp: copy_slice_def new_def split: option.splits prod.splits)
    show "grows h h'" using * copy_all_grows by (fastforce simp: grows_def)
    assume "live h (reach_slice un reach h p)"
    hence l: "\<forall>x\<in>set xs. live h (reach h x)" if "rd un h p = Some xs" for xs
      using that by (auto simp: reach_slice_def live_def)
    have "reach_slice un reach h' q \<subseteq> reach_slice un reach h p \<union> {hp_next h..<hp_next h'} \<and> view_slice un view h' q = view_slice un view h p"
    proof (cases "rd un h p")
      case None
      thus ?thesis using * by (auto simp: reach_slice_def view_slice_def)
    next
      case (Some xs)
      then obtain ys h2 where c: "copy_all copy xs (snd (new h)) = (ys, h2)" "q = Some (hp_next h)" "h' = put (hp_next h) (mk ys) h2"
        using * by auto
      have n: "\<forall>x\<in>set xs. view (snd (new h)) x = view h x \<and> reach (snd (new h)) x = reach h x \<and> live (snd (new h)) (reach h x)"
        using l[OF Some] grown[OF _ grows_new] by blast
      hence "\<forall>x\<in>set xs. live (snd (new h)) (reach (snd (new h)) x)" by simp
      note y = copy_all_copies[OF c(1) this]
      have rs: "(\<Union>x\<in>set xs. reach (snd (new h)) x) = (\<Union>x\<in>set xs. reach h x)" "map (view (snd (new h))) xs = map (view h) xs"
        using n by auto
      have y1: "(\<Union>y\<in>set ys. reach h2 y) \<subseteq> (\<Union>x\<in>set xs. reach h x) \<union> {Suc (hp_next h)..<hp_next h2}"
        using y unfolding rs by simp
      moreover have "(\<Union>x\<in>set xs. reach h x) \<subseteq> {..<hp_next h}" using l[OF Some] by (auto simp: live_def)
      ultimately have "\<forall>y\<in>set ys. hp_next h \<notin> reach h2 y" by fastforce
      hence "\<forall>y\<in>set ys. \<forall>a\<in>reach h2 y. hp_cells h' a = hp_cells h2 a" using c(3) by auto
      hence k: "\<forall>y\<in>set ys. view h' y = view h2 y \<and> reach h' y = reach h2 y" using view_local reach_local by blast
      have "Suc (hp_next h) \<le> hp_next h2" using copy_all_grows[OF c(1)] by (simp add: grows_def)
      hence "reach_slice un reach h' q \<subseteq> insert (hp_next h) ((\<Union>x\<in>set xs. reach h x) \<union> {hp_next h..<hp_next h'})"
        using y1 k c mk by (fastforce simp: reach_slice_def)
      moreover have "map (view h') ys = map (view h2) ys" using k by simp
      hence "map (view h') ys = map (view h) xs" using y rs(2) by argo
      ultimately show ?thesis using c mk Some \<open>Suc (hp_next h) \<le> hp_next h2\<close> by (auto simp: reach_slice_def view_slice_def)
    qed
    thus "reach_slice un reach h' q \<subseteq> reach_slice un reach h p \<union> {hp_next h..<hp_next h'}"
      "view_slice un view h' q = view_slice un view h p" by blast+
  }
  { assume e: "\<forall>a\<in>reach_slice un reach h p. hp_cells h' a = hp_cells h a"
    hence r: "rd un h' p = rd un h p" by (intro rd_local) (simp add: reach_slice_def)
    have "\<forall>x\<in>set (case rd un h p of None \<Rightarrow> [] | Some xs \<Rightarrow> xs). \<forall>a\<in>reach h x. hp_cells h' a = hp_cells h a"
      using e unfolding reach_slice_def by blast
    hence "\<forall>x\<in>set (case rd un h p of None \<Rightarrow> [] | Some xs \<Rightarrow> xs). view h' x = view h x \<and> reach h' x = reach h x"
      using view_local reach_local by blast
    thus "view_slice un view h' p = view_slice un view h p" "reach_slice un reach h' p = reach_slice un reach h p"
      by (cases "rd un h p", simp_all add: view_slice_def reach_slice_def r)+ }
qed

end

text \<open>The copy function of the library for \<open>ObjectMeta\<close>, on the fields of the model: the labels are copied.\<close>

definition copy_labels :: "pmeta \<Rightarrow> heap \<Rightarrow> pmeta \<times> heap" where
  "copy_labels m h = (case pm_Labels m of
      None \<Rightarrow> (m, h)
    | Some a \<Rightarrow> let (b, h1) = new h in (m\<lparr>pm_Labels := Some b\<rparr>, put b (CMap (entries (rd un_Map h (Some a)))) h1))"

interpretation labels: deep_copier copy_labels view_meta "\<lambda>_. reach_meta"
proof
  fix x y h h'
  assume "copy_labels x h = (y, h')"
  thus "grows h h'" and "reach_meta y \<subseteq> reach_meta x \<union> {hp_next h..<hp_next h'}" and "reach_meta y \<subseteq> {hp_next h..<hp_next h'}"
    and "view_meta h' y = view_meta h x"
    by (auto simp: copy_labels_def new_def grows_def reach_meta_def view_meta_def split: option.splits)
qed (simp_all add: view_meta_local)

definition copy_count :: "plistmeta \<Rightarrow> heap \<Rightarrow> plistmeta \<times> heap" where
  "copy_count m h = (case rd un_Int h (pl_RemainingItemCount m) of
      None \<Rightarrow> (m, h)
    | Some n \<Rightarrow> let (b, h1) = new h in (m\<lparr>pl_RemainingItemCount := Some b\<rparr>, put b (CInt n) h1))"

interpretation count: copier copy_count view_listmeta "\<lambda>_. reach_listmeta"
proof
  fix x y h h'
  assume "copy_count x h = (y, h')"
  thus "grows h h'" and "reach_listmeta y \<subseteq> reach_listmeta x \<union> {hp_next h..<hp_next h'}" and "view_listmeta h' y = view_listmeta h x"
    by (auto simp: copy_count_def new_def grows_def reach_listmeta_def view_listmeta_def split: option.splits)
qed (simp_all add: view_listmeta_local)

section \<open>The generated functions\<close>

definition Backup_DeepCopyInto :: "(pmeta \<Rightarrow> heap \<Rightarrow> pmeta \<times> heap) \<Rightarrow> pBackup \<Rightarrow> heap \<Rightarrow> pBackup \<times> heap" where
  "Backup_DeepCopyInto mcopy inp h = (let
      out = inp;
      out = out\<lparr>pb_TypeMeta := pb_TypeMeta inp\<rparr>;
      (m, h1) = mcopy (pb_ObjectMeta inp) h;
      out = out\<lparr>pb_ObjectMeta := m\<rparr>;
      out = out\<lparr>pb_Spec := pb_Spec inp\<rparr>;
      out = out\<lparr>pb_Status := pb_Status inp\<rparr>
    in (out, h1))"

definition Backup_DeepCopy :: "(pmeta \<Rightarrow> heap \<Rightarrow> pmeta \<times> heap) \<Rightarrow> addr option \<Rightarrow> (heap, addr option) go" where
  "Backup_DeepCopy mcopy = DeepCopy_of CBackup un_Backup (Backup_DeepCopyInto mcopy)"

definition Backup_DeepCopyObject :: "(pmeta \<Rightarrow> heap \<Rightarrow> pmeta \<times> heap) \<Rightarrow> addr option \<Rightarrow> (heap, addr option) go" where
  "Backup_DeepCopyObject mcopy inp = bindG (Backup_DeepCopy mcopy inp) (\<lambda>c. case c of Some a \<Rightarrow> ret (Some a) | None \<Rightarrow> ret None)"

definition BackupList_DeepCopyInto :: "(pmeta \<Rightarrow> heap \<Rightarrow> pmeta \<times> heap) \<Rightarrow> (plistmeta \<Rightarrow> heap \<Rightarrow> plistmeta \<times> heap) \<Rightarrow> pBackupList \<Rightarrow> heap \<Rightarrow> pBackupList \<times> heap" where
  "BackupList_DeepCopyInto mcopy lcopy inp h = (let
      out = inp;
      out = out\<lparr>pbl_TypeMeta := pbl_TypeMeta inp\<rparr>;
      (m, h1) = lcopy (pbl_ListMeta inp) h;
      out = out\<lparr>pbl_ListMeta := m\<rparr>
    in if pbl_Items inp \<noteq> None
       then let (items, h2) = copy_slice CBackups un_Backups (Backup_DeepCopyInto mcopy) (pbl_Items inp) h1 in (out\<lparr>pbl_Items := items\<rparr>, h2)
       else (out, h1))"

definition BackupList_DeepCopy :: "(pmeta \<Rightarrow> heap \<Rightarrow> pmeta \<times> heap) \<Rightarrow> (plistmeta \<Rightarrow> heap \<Rightarrow> plistmeta \<times> heap) \<Rightarrow> addr option \<Rightarrow> (heap, addr option) go" where
  "BackupList_DeepCopy mcopy lcopy = DeepCopy_of CBackupList un_BackupList (BackupList_DeepCopyInto mcopy lcopy)"

definition BackupList_DeepCopyObject :: "(pmeta \<Rightarrow> heap \<Rightarrow> pmeta \<times> heap) \<Rightarrow> (plistmeta \<Rightarrow> heap \<Rightarrow> plistmeta \<times> heap) \<Rightarrow> addr option \<Rightarrow> (heap, addr option) go" where
  "BackupList_DeepCopyObject mcopy lcopy inp = bindG (BackupList_DeepCopy mcopy lcopy inp) (\<lambda>c. case c of Some a \<Rightarrow> ret (Some a) | None \<Rightarrow> ret None)"

definition BackupSpec_DeepCopyInto :: "pBackupSpec \<Rightarrow> heap \<Rightarrow> pBackupSpec \<times> heap" where
  "BackupSpec_DeepCopyInto inp h = (inp, h)"

definition BackupSpec_DeepCopy :: "addr option \<Rightarrow> (heap, addr option) go" where
  "BackupSpec_DeepCopy = DeepCopy_of CBackupSpec un_BackupSpec BackupSpec_DeepCopyInto"

definition BackupStatus_DeepCopyInto :: "pBackupStatus \<Rightarrow> heap \<Rightarrow> pBackupStatus \<times> heap" where
  "BackupStatus_DeepCopyInto inp h = (inp, h)"

definition BackupStatus_DeepCopy :: "addr option \<Rightarrow> (heap, addr option) go" where
  "BackupStatus_DeepCopy = DeepCopy_of CBackupStatus un_BackupStatus BackupStatus_DeepCopyInto"

definition Snapshot_DeepCopyInto :: "(pmeta \<Rightarrow> heap \<Rightarrow> pmeta \<times> heap) \<Rightarrow> pSnapshot \<Rightarrow> heap \<Rightarrow> pSnapshot \<times> heap" where
  "Snapshot_DeepCopyInto mcopy inp h = (let
      out = inp;
      out = out\<lparr>ps_TypeMeta := ps_TypeMeta inp\<rparr>;
      (m, h1) = mcopy (ps_ObjectMeta inp) h;
      out = out\<lparr>ps_ObjectMeta := m\<rparr>;
      out = out\<lparr>ps_Spec := ps_Spec inp\<rparr>;
      out = out\<lparr>ps_Status := ps_Status inp\<rparr>
    in (out, h1))"

definition Snapshot_DeepCopy :: "(pmeta \<Rightarrow> heap \<Rightarrow> pmeta \<times> heap) \<Rightarrow> addr option \<Rightarrow> (heap, addr option) go" where
  "Snapshot_DeepCopy mcopy = DeepCopy_of CSnapshot un_Snapshot (Snapshot_DeepCopyInto mcopy)"

definition Snapshot_DeepCopyObject :: "(pmeta \<Rightarrow> heap \<Rightarrow> pmeta \<times> heap) \<Rightarrow> addr option \<Rightarrow> (heap, addr option) go" where
  "Snapshot_DeepCopyObject mcopy inp = bindG (Snapshot_DeepCopy mcopy inp) (\<lambda>c. case c of Some a \<Rightarrow> ret (Some a) | None \<Rightarrow> ret None)"

definition SnapshotList_DeepCopyInto :: "(pmeta \<Rightarrow> heap \<Rightarrow> pmeta \<times> heap) \<Rightarrow> (plistmeta \<Rightarrow> heap \<Rightarrow> plistmeta \<times> heap) \<Rightarrow> pSnapshotList \<Rightarrow> heap \<Rightarrow> pSnapshotList \<times> heap" where
  "SnapshotList_DeepCopyInto mcopy lcopy inp h = (let
      out = inp;
      out = out\<lparr>psl_TypeMeta := psl_TypeMeta inp\<rparr>;
      (m, h1) = lcopy (psl_ListMeta inp) h;
      out = out\<lparr>psl_ListMeta := m\<rparr>
    in if psl_Items inp \<noteq> None
       then let (items, h2) = copy_slice CSnapshots un_Snapshots (Snapshot_DeepCopyInto mcopy) (psl_Items inp) h1 in (out\<lparr>psl_Items := items\<rparr>, h2)
       else (out, h1))"

definition SnapshotList_DeepCopy :: "(pmeta \<Rightarrow> heap \<Rightarrow> pmeta \<times> heap) \<Rightarrow> (plistmeta \<Rightarrow> heap \<Rightarrow> plistmeta \<times> heap) \<Rightarrow> addr option \<Rightarrow> (heap, addr option) go" where
  "SnapshotList_DeepCopy mcopy lcopy = DeepCopy_of CSnapshotList un_SnapshotList (SnapshotList_DeepCopyInto mcopy lcopy)"

definition SnapshotList_DeepCopyObject :: "(pmeta \<Rightarrow> heap \<Rightarrow> pmeta \<times> heap) \<Rightarrow> (plistmeta \<Rightarrow> heap \<Rightarrow> plistmeta \<times> heap) \<Rightarrow> addr option \<Rightarrow> (heap, addr option) go" where
  "SnapshotList_DeepCopyObject mcopy lcopy inp = bindG (SnapshotList_DeepCopy mcopy lcopy inp) (\<lambda>c. case c of Some a \<Rightarrow> ret (Some a) | None \<Rightarrow> ret None)"

definition SnapshotSpec_DeepCopyInto :: "pSnapshotSpec \<Rightarrow> heap \<Rightarrow> pSnapshotSpec \<times> heap" where
  "SnapshotSpec_DeepCopyInto inp h = (inp, h)"

definition SnapshotSpec_DeepCopy :: "addr option \<Rightarrow> (heap, addr option) go" where
  "SnapshotSpec_DeepCopy = DeepCopy_of CSnapshotSpec un_SnapshotSpec SnapshotSpec_DeepCopyInto"

definition SnapshotStatus_DeepCopyInto :: "unit \<Rightarrow> heap \<Rightarrow> unit \<times> heap" where
  "SnapshotStatus_DeepCopyInto inp h = (inp, h)"

definition SnapshotStatus_DeepCopy :: "addr option \<Rightarrow> (heap, addr option) go" where
  "SnapshotStatus_DeepCopy = DeepCopy_of CSnapshotStatus un_SnapshotStatus SnapshotStatus_DeepCopyInto"

definition Restore_DeepCopyInto :: "(pmeta \<Rightarrow> heap \<Rightarrow> pmeta \<times> heap) \<Rightarrow> pRestore \<Rightarrow> heap \<Rightarrow> pRestore \<times> heap" where
  "Restore_DeepCopyInto mcopy inp h = (let
      out = inp;
      out = out\<lparr>pr_TypeMeta := pr_TypeMeta inp\<rparr>;
      (m, h1) = mcopy (pr_ObjectMeta inp) h;
      out = out\<lparr>pr_ObjectMeta := m\<rparr>;
      out = out\<lparr>pr_Spec := pr_Spec inp\<rparr>;
      out = out\<lparr>pr_Status := pr_Status inp\<rparr>
    in (out, h1))"

definition Restore_DeepCopy :: "(pmeta \<Rightarrow> heap \<Rightarrow> pmeta \<times> heap) \<Rightarrow> addr option \<Rightarrow> (heap, addr option) go" where
  "Restore_DeepCopy mcopy = DeepCopy_of CRestore un_Restore (Restore_DeepCopyInto mcopy)"

definition Restore_DeepCopyObject :: "(pmeta \<Rightarrow> heap \<Rightarrow> pmeta \<times> heap) \<Rightarrow> addr option \<Rightarrow> (heap, addr option) go" where
  "Restore_DeepCopyObject mcopy inp = bindG (Restore_DeepCopy mcopy inp) (\<lambda>c. case c of Some a \<Rightarrow> ret (Some a) | None \<Rightarrow> ret None)"

definition RestoreList_DeepCopyInto :: "(pmeta \<Rightarrow> heap \<Rightarrow> pmeta \<times> heap) \<Rightarrow> (plistmeta \<Rightarrow> heap \<Rightarrow> plistmeta \<times> heap) \<Rightarrow> pRestoreList \<Rightarrow> heap \<Rightarrow> pRestoreList \<times> heap" where
  "RestoreList_DeepCopyInto mcopy lcopy inp h = (let
      out = inp;
      out = out\<lparr>prl_TypeMeta := prl_TypeMeta inp\<rparr>;
      (m, h1) = lcopy (prl_ListMeta inp) h;
      out = out\<lparr>prl_ListMeta := m\<rparr>
    in if prl_Items inp \<noteq> None
       then let (items, h2) = copy_slice CRestores un_Restores (Restore_DeepCopyInto mcopy) (prl_Items inp) h1 in (out\<lparr>prl_Items := items\<rparr>, h2)
       else (out, h1))"

definition RestoreList_DeepCopy :: "(pmeta \<Rightarrow> heap \<Rightarrow> pmeta \<times> heap) \<Rightarrow> (plistmeta \<Rightarrow> heap \<Rightarrow> plistmeta \<times> heap) \<Rightarrow> addr option \<Rightarrow> (heap, addr option) go" where
  "RestoreList_DeepCopy mcopy lcopy = DeepCopy_of CRestoreList un_RestoreList (RestoreList_DeepCopyInto mcopy lcopy)"

definition RestoreList_DeepCopyObject :: "(pmeta \<Rightarrow> heap \<Rightarrow> pmeta \<times> heap) \<Rightarrow> (plistmeta \<Rightarrow> heap \<Rightarrow> plistmeta \<times> heap) \<Rightarrow> addr option \<Rightarrow> (heap, addr option) go" where
  "RestoreList_DeepCopyObject mcopy lcopy inp = bindG (RestoreList_DeepCopy mcopy lcopy inp) (\<lambda>c. case c of Some a \<Rightarrow> ret (Some a) | None \<Rightarrow> ret None)"

definition RestoreSpec_DeepCopyInto :: "pRestoreSpec \<Rightarrow> heap \<Rightarrow> pRestoreSpec \<times> heap" where
  "RestoreSpec_DeepCopyInto inp h = (inp, h)"

definition RestoreSpec_DeepCopy :: "addr option \<Rightarrow> (heap, addr option) go" where
  "RestoreSpec_DeepCopy = DeepCopy_of CRestoreSpec un_RestoreSpec RestoreSpec_DeepCopyInto"

definition RestoreStatus_DeepCopyInto :: "unit \<Rightarrow> heap \<Rightarrow> unit \<times> heap" where
  "RestoreStatus_DeepCopyInto inp h = (inp, h)"

definition RestoreStatus_DeepCopy :: "addr option \<Rightarrow> (heap, addr option) go" where
  "RestoreStatus_DeepCopy = DeepCopy_of CRestoreStatus un_RestoreStatus RestoreStatus_DeepCopyInto"

section \<open>The generated functions satisfy the contract\<close>

definition view_BackupList :: "heap \<Rightarrow> pBackupList \<Rightarrow> (string \<times> string \<times> int option) \<times> Backup list option" where
  "view_BackupList h l = (view_listmeta h (pbl_ListMeta l), view_slice un_Backups view_Backup h (pbl_Items l))"

definition reach_BackupList :: "heap \<Rightarrow> pBackupList \<Rightarrow> addr set" where
  "reach_BackupList h l = reach_listmeta (pbl_ListMeta l) \<union> reach_slice un_Backups (\<lambda>_. reach_Backup) h (pbl_Items l)"

lemma Backup_DeepCopyInto_copier:
  assumes "copier mcopy view_meta (\<lambda>_. reach_meta)"
  shows "copier (Backup_DeepCopyInto mcopy) view_Backup (\<lambda>_. reach_Backup)"
  by (rule copier_part[where part = pb_ObjectMeta and upd = "\<lambda>m x. x\<lparr>pb_ObjectMeta := m\<rparr>"
        and w = "\<lambda>h x. view_BackupSpec h (pb_Spec x)" and R = "\<lambda>x. reach_BackupSpec (pb_Spec x)"
        and G = "\<lambda>s m. \<lparr>bk_meta = m, bk_Spec = s\<rparr>", OF assms])
     (simp_all add: view_Backup_def reach_Backup_def view_BackupSpec_local Backup_DeepCopyInto_def split: prod.split)

lemma BackupList_DeepCopyInto_copier:
  assumes "copier mcopy view_meta (\<lambda>_. reach_meta)" and "copier lcopy view_listmeta (\<lambda>_. reach_listmeta)"
  shows "copier (BackupList_DeepCopyInto mcopy lcopy) view_BackupList reach_BackupList"
  by (rule copier_part[where part = "\<lambda>l. (pbl_ListMeta l, pbl_Items l)"
        and upd = "\<lambda>p l. l\<lparr>pbl_ListMeta := fst p, pbl_Items := snd p\<rparr>"
        and w = "\<lambda>h x. ()" and R = "\<lambda>x. {}" and G = "\<lambda>_ p. p",
        OF copier_pair[OF assms(2) copier.slice[OF Backup_DeepCopyInto_copier[OF assms(1)], of un_Backups CBackups]]])
     (auto simp: view_BackupList_def reach_BackupList_def BackupList_DeepCopyInto_def copy_slice_def Let_def split: prod.split option.split)

definition view_SnapshotList :: "heap \<Rightarrow> pSnapshotList \<Rightarrow> (string \<times> string \<times> int option) \<times> Snapshot list option" where
  "view_SnapshotList h l = (view_listmeta h (psl_ListMeta l), view_slice un_Snapshots view_Snapshot h (psl_Items l))"

definition reach_SnapshotList :: "heap \<Rightarrow> pSnapshotList \<Rightarrow> addr set" where
  "reach_SnapshotList h l = reach_listmeta (psl_ListMeta l) \<union> reach_slice un_Snapshots (\<lambda>_. reach_Snapshot) h (psl_Items l)"

lemma Snapshot_DeepCopyInto_copier:
  assumes "copier mcopy view_meta (\<lambda>_. reach_meta)"
  shows "copier (Snapshot_DeepCopyInto mcopy) view_Snapshot (\<lambda>_. reach_Snapshot)"
  by (rule copier_part[where part = ps_ObjectMeta and upd = "\<lambda>m x. x\<lparr>ps_ObjectMeta := m\<rparr>"
        and w = "\<lambda>h x. view_SnapshotSpec h (ps_Spec x)" and R = "\<lambda>x. reach_SnapshotSpec (ps_Spec x)"
        and G = "\<lambda>s m. \<lparr>sn_meta = m, sn_Spec = s\<rparr>", OF assms])
     (simp_all add: view_Snapshot_def reach_Snapshot_def view_SnapshotSpec_local Snapshot_DeepCopyInto_def split: prod.split)

lemma SnapshotList_DeepCopyInto_copier:
  assumes "copier mcopy view_meta (\<lambda>_. reach_meta)" and "copier lcopy view_listmeta (\<lambda>_. reach_listmeta)"
  shows "copier (SnapshotList_DeepCopyInto mcopy lcopy) view_SnapshotList reach_SnapshotList"
  by (rule copier_part[where part = "\<lambda>l. (psl_ListMeta l, psl_Items l)"
        and upd = "\<lambda>p l. l\<lparr>psl_ListMeta := fst p, psl_Items := snd p\<rparr>"
        and w = "\<lambda>h x. ()" and R = "\<lambda>x. {}" and G = "\<lambda>_ p. p",
        OF copier_pair[OF assms(2) copier.slice[OF Snapshot_DeepCopyInto_copier[OF assms(1)], of un_Snapshots CSnapshots]]])
     (auto simp: view_SnapshotList_def reach_SnapshotList_def SnapshotList_DeepCopyInto_def copy_slice_def Let_def split: prod.split option.split)

definition view_RestoreList :: "heap \<Rightarrow> pRestoreList \<Rightarrow> (string \<times> string \<times> int option) \<times> Restore list option" where
  "view_RestoreList h l = (view_listmeta h (prl_ListMeta l), view_slice un_Restores view_Restore h (prl_Items l))"

definition reach_RestoreList :: "heap \<Rightarrow> pRestoreList \<Rightarrow> addr set" where
  "reach_RestoreList h l = reach_listmeta (prl_ListMeta l) \<union> reach_slice un_Restores (\<lambda>_. reach_Restore) h (prl_Items l)"

lemma Restore_DeepCopyInto_copier:
  assumes "copier mcopy view_meta (\<lambda>_. reach_meta)"
  shows "copier (Restore_DeepCopyInto mcopy) view_Restore (\<lambda>_. reach_Restore)"
  by (rule copier_part[where part = pr_ObjectMeta and upd = "\<lambda>m x. x\<lparr>pr_ObjectMeta := m\<rparr>"
        and w = "\<lambda>h x. view_RestoreSpec h (pr_Spec x)" and R = "\<lambda>x. reach_RestoreSpec (pr_Spec x)"
        and G = "\<lambda>s m. \<lparr>re_meta = m, re_Spec = s\<rparr>", OF assms])
     (simp_all add: view_Restore_def reach_Restore_def view_RestoreSpec_local Restore_DeepCopyInto_def split: prod.split)

lemma RestoreList_DeepCopyInto_copier:
  assumes "copier mcopy view_meta (\<lambda>_. reach_meta)" and "copier lcopy view_listmeta (\<lambda>_. reach_listmeta)"
  shows "copier (RestoreList_DeepCopyInto mcopy lcopy) view_RestoreList reach_RestoreList"
  by (rule copier_part[where part = "\<lambda>l. (prl_ListMeta l, prl_Items l)"
        and upd = "\<lambda>p l. l\<lparr>prl_ListMeta := fst p, prl_Items := snd p\<rparr>"
        and w = "\<lambda>h x. ()" and R = "\<lambda>x. {}" and G = "\<lambda>_ p. p",
        OF copier_pair[OF assms(2) copier.slice[OF Restore_DeepCopyInto_copier[OF assms(1)], of un_Restores CRestores]]])
     (auto simp: view_RestoreList_def reach_RestoreList_def RestoreList_DeepCopyInto_def copy_slice_def Let_def split: prod.split option.split)

interpretation backups: copier "Backup_DeepCopyInto copy_labels" view_Backup "\<lambda>_. reach_Backup"
  by (rule Backup_DeepCopyInto_copier) (rule labels.copier_axioms)

interpretation snapshots: copier "Snapshot_DeepCopyInto copy_labels" view_Snapshot "\<lambda>_. reach_Snapshot"
  by (rule Snapshot_DeepCopyInto_copier) (rule labels.copier_axioms)

interpretation restores: copier "Restore_DeepCopyInto copy_labels" view_Restore "\<lambda>_. reach_Restore"
  by (rule Restore_DeepCopyInto_copier) (rule labels.copier_axioms)

text \<open>C23: the generated copy of a listing holds the same values as the listing: for every memory and every
  list of snapshots in it, \<open>DeepCopyObject\<close> returns a new object whose metadata and items read the same,
  and nothing that was allocated before has changed.\<close>

theorem list_copy_same_values:
  assumes meta: "copier mcopy view_meta (\<lambda>_. reach_meta)" "copier lcopy view_listmeta (\<lambda>_. reach_listmeta)"
    and l: "rd un_SnapshotList h (Some a) = Some l" "live h (reach_SnapshotList h l)"
  shows "\<exists>c l' h'. SnapshotList_DeepCopyObject mcopy lcopy (Some a) h = (Ret (Some c), h') \<and> hp_next h \<le> c \<and> grows h h'
    \<and> rd un_SnapshotList h' (Some c) = Some l' \<and> view_SnapshotList h' l' = view_SnapshotList h l"
proof -
  from copier.DeepCopy_of_Some[OF SnapshotList_DeepCopyInto_copier[OF meta], of un_SnapshotList CSnapshotList h a l] l
  obtain y h' where c: "SnapshotList_DeepCopy mcopy lcopy (Some a) h = (Ret (Some (hp_next h)), h')" "grows h h'"
    "rd un_SnapshotList h' (Some (hp_next h)) = Some y" "view_SnapshotList h' y = view_SnapshotList h l"
    by (auto simp: SnapshotList_DeepCopy_def)
  hence "SnapshotList_DeepCopyObject mcopy lcopy (Some a) h = (Ret (Some (hp_next h)), h')"
    by (simp add: SnapshotList_DeepCopyObject_def bindG_Ret)
  thus ?thesis using c by blast
qed

text \<open>C38: the generated copy is not deep: only the metadata of the copy is its own. The copy of a snapshot
  holds the very addresses of the original's \<open>Spec\<close>, so assigning an entry of \<open>Extra\<close> through the copy (as
  \<open>UpdateNotifyResultState\<close> does) changes the original, while assigning a label of the copy does not.\<close>

theorem copy_shares_the_spec:
  assumes meta: "deep_copier mcopy view_meta (\<lambda>_. reach_meta)"
    and s: "rd un_Snapshot h (Some a) = Some s" "live h (insert a (reach_Snapshot s))"
    and e: "pss_Extra (ps_Spec s) = Some e" "rd un_Map h (Some e) = Some m"
  shows "\<exists>c s' h1 h2. Snapshot_DeepCopy mcopy (Some a) h = (Ret (Some c), h1) \<and> c \<noteq> a
    \<and> rd un_Snapshot h1 (Some c) = Some s' \<and> view_Snapshot h1 s' = view_Snapshot h s
    \<and> map_assign (pss_Extra (ps_Spec s')) k v h1 = (Ret (), h2) \<and> rd un_Snapshot h2 (Some a) = Some s
    \<and> ss_Extra (sn_Spec (view_Snapshot h2 s)) = Some (mput m k v)
    \<and> (\<forall>h3. map_assign (pm_Labels (ps_ObjectMeta s')) k v h1 = (Ret (), h3) \<longrightarrow> view_Snapshot h3 s = view_Snapshot h s)"
proof -
  note into = Snapshot_DeepCopyInto_copier[OF deep_copier.axioms(1)[OF meta]]
  have l: "live h (reach_Snapshot s)" "a < hp_next h" "e \<in> reach_Snapshot s"
    using s(2) e(1) by (simp_all add: live_def reach_Snapshot_def reach_SnapshotSpec_def)
  from copier.DeepCopy_of_Some[OF into, of un_Snapshot CSnapshot h a s] s(1) l(1)
  obtain y h1 where c: "Snapshot_DeepCopy mcopy (Some a) h = (Ret (Some (hp_next h)), h1)" "grows h h1"
    "rd un_Snapshot h1 (Some (hp_next h)) = Some y" "view_Snapshot h1 y = view_Snapshot h s"
    "y = fst (Snapshot_DeepCopyInto mcopy s (snd (new h)))"
    by (auto simp: Snapshot_DeepCopy_def)
  have spec: "ps_Spec y = ps_Spec s" and lab: "ps_ObjectMeta y = fst (mcopy (ps_ObjectMeta s) (snd (new h)))"
    by (simp_all add: c(5) Snapshot_DeepCopyInto_def split: prod.split)
  have h1: "hp_cells h1 a = hp_cells h a" "rd un_Map h1 (Some e) = Some m" "\<forall>b\<in>reach_Snapshot s. hp_cells h1 b = hp_cells h b"
    using live_same[OF s(2) c(2)] l(3) e(2) by simp_all
  have "e \<noteq> a" using s(1) e(2) by (cases "hp_cells h a") (auto simp: un_Snapshot_def un_Map_def split: cell.splits)
  have "live (snd (new h)) (reach_meta (ps_ObjectMeta s))" using l(1) by (auto simp: live_def reach_Snapshot_def)
  from deep_copier.copy_deep[OF meta this surjective_pairing]
  have fresh: "b \<notin> reach_Snapshot s" if "pm_Labels (ps_ObjectMeta y) = Some b" for b
    using that l(1) unfolding lab by (auto simp: reach_meta_def live_def)
  have "view_Snapshot h3 s = view_Snapshot h s" if w: "map_assign (pm_Labels (ps_ObjectMeta y)) k v h1 = (Ret (), h3)" for h3
  proof -
    obtain b d where "pm_Labels (ps_ObjectMeta y) = Some b" "h3 = put b d h1"
      using w by (cases "pm_Labels (ps_ObjectMeta y)") (auto simp: map_assign_def)
    thus ?thesis using h1(3) fresh by (intro snapshots.view_local) auto
  qed
  moreover have "map_assign (pss_Extra (ps_Spec y)) k v h1 = (Ret (), put e (CMap (mput m k v)) h1)"
    using h1(2) by (simp add: map_assign_def spec e(1))
  moreover have "ss_Extra (sn_Spec (view_Snapshot (put e (CMap (mput m k v)) h1) s)) = Some (mput m k v)"
    by (simp add: view_Snapshot_def view_SnapshotSpec_def e(1))
  ultimately show ?thesis
    using c l(2) h1(1) s(1) \<open>e \<noteq> a\<close> by (intro exI[of _ "hp_next h"] exI[of _ y] exI[of _ h1] exI) auto
qed

definition demo_snapshot :: pSnapshot where
  "demo_snapshot = \<lparr>ps_TypeMeta = \<lparr>pt_Kind = ''Snapshot'', pt_APIVersion = ''v1''\<rparr>,
     ps_ObjectMeta = \<lparr>pm_Name = ''s1'', pm_Labels = Some 1, pm_ResourceVersion = ''7'', pm_CreationTimestamp = 5\<rparr>,
     ps_Spec = \<lparr>pss_BackupId = ''b1'', pss_Location = ''space'', pss_SnapshotType = None, pss_SnapshotId = None, pss_Size = None,
       pss_CreateAt = None, pss_StartAt = None, pss_EndAt = None, pss_Progress = 0, pss_Phase = None, pss_Message = None,
       pss_ResticPhase = None, pss_ResticMessage = None, pss_Extra = Some 0\<rparr>, ps_Status = ()\<rparr>"

definition demo_list :: pSnapshotList where
  "demo_list = \<lparr>psl_TypeMeta = \<lparr>pt_Kind = ''SnapshotList'', pt_APIVersion = ''v1''\<rparr>,
     psl_ListMeta = \<lparr>pl_ResourceVersion = ''9'', pl_Continue = [], pl_RemainingItemCount = None\<rparr>, psl_Items = Some 3\<rparr>"

definition demo_heap :: heap where
  "demo_heap = \<lparr>hp_cells = (\<lambda>_. None)(0 \<mapsto> CMap [(''push'', ''{}'')], 1 \<mapsto> CMap [(''owner'', ''alice'')],
     2 \<mapsto> CSnapshot demo_snapshot, 3 \<mapsto> CSnapshots [demo_snapshot], 4 \<mapsto> CSnapshotList demo_list), hp_next = 5\<rparr>"

theorem list_copy_same_values_witness:
  "\<exists>c l' h'. SnapshotList_DeepCopyObject copy_labels copy_count (Some 4) demo_heap = (Ret (Some c), h') \<and> 5 \<le> c
    \<and> rd un_SnapshotList h' (Some c) = Some l' \<and> view_SnapshotList h' l' = view_SnapshotList demo_heap demo_list"
proof -
  have "rd un_SnapshotList demo_heap (Some 4) = Some demo_list" "hp_next demo_heap = 5" by (simp_all add: demo_heap_def)
  moreover have "live demo_heap (reach_SnapshotList demo_heap demo_list)"
    by (simp add: live_def reach_SnapshotList_def reach_slice_def reach_listmeta_def reach_Snapshot_def reach_meta_def
        reach_SnapshotSpec_def demo_list_def demo_snapshot_def demo_heap_def)
  ultimately show ?thesis
    using list_copy_same_values[OF labels.copier_axioms count.copier_axioms, of demo_heap 4 demo_list] by metis
qed

theorem copy_shares_the_spec_witness:
  "\<exists>c s' h1 h2. Snapshot_DeepCopy copy_labels (Some 2) demo_heap = (Ret (Some c), h1) \<and> c \<noteq> 2
    \<and> rd un_Snapshot h1 (Some c) = Some s' \<and> map_assign (pss_Extra (ps_Spec s')) ''push'' ''{result}'' h1 = (Ret (), h2)
    \<and> ss_Extra (sn_Spec (view_Snapshot demo_heap demo_snapshot)) = Some [(''push'', ''{}'')]
    \<and> ss_Extra (sn_Spec (view_Snapshot h2 demo_snapshot)) = Some [(''push'', ''{result}'')]"
proof -
  have s: "rd un_Snapshot demo_heap (Some 2) = Some demo_snapshot" "rd un_Map demo_heap (Some 0) = Some [(''push'', ''{}'')]"
    by (simp_all add: demo_heap_def)
  have l: "live demo_heap (insert 2 (reach_Snapshot demo_snapshot))" and e: "pss_Extra (ps_Spec demo_snapshot) = Some 0"
    by (simp_all add: live_def reach_Snapshot_def reach_meta_def reach_SnapshotSpec_def demo_snapshot_def demo_heap_def)
  have "ss_Extra (sn_Spec (view_Snapshot demo_heap demo_snapshot)) = Some [(''push'', ''{}'')]"
    by (simp add: view_Snapshot_def view_SnapshotSpec_def e s(2)[simplified])
  moreover have "mput [(''push'', ''{}'')] ''push'' ''{result}'' = [(''push'', ''{result}'')]" by simp
  ultimately show ?thesis
    using copy_shares_the_spec[OF labels.deep_copier_axioms s(1) l e s(2), of "''push''" "''{result}''"] by metis
qed

end
