(* ===== verification/Clientset.thy ===== *)
theory Clientset
  imports Kube
begin

text \<open>
  The generated client of the custom resources (\<open>pkg/generated/clientset/versioned\<close>): the construction of
  the clients from a configuration and the typed methods of \<open>backups\<close>, \<open>snapshots\<close> and \<open>restores\<close>, each of
  which is one REST request. The REST client of client-go (\<open>Do\<close>, \<open>Watch\<close>) is an argument; a request is a record
  of what the builder calls set, in place of the URL it becomes. Options other than those of a listing are their
  query parameters.
\<close>

section \<open>Requests\<close>

datatype robject =
    BackupObj Backup | BackupListObj "Backup list"
  | SnapshotObj Snapshot | SnapshotListObj "Snapshot list"
  | RestoreObj Restore | RestoreListObj "Restore list"
  | RawObj string | DeleteOptionsObj smap | StatusObj

record ListOptions =
  lo_LabelSelector :: string
  lo_FieldSelector :: string
  lo_TimeoutSeconds :: "int option"
  lo_Watch :: bool

datatype params = NoParams | Params smap | ListParams ListOptions

datatype verb = Get | Post | Put | Delete | Patch string

record rest_request =
  rq_Verb :: verb
  rq_Namespace :: string
  rq_Resource :: string
  rq_Name :: "string option"
  rq_SubResource :: "string list"
  rq_Params :: params
  rq_Timeout :: int
  rq_Body :: "robject option"

text \<open>The REST client: \<open>Do\<close> sends a request and gives the object the server answers with, \<open>Watch\<close> opens a watch.\<close>

record ('w, 'x) rest_client =
  rest_Do :: "rest_request \<Rightarrow> ('w, robject) go"
  rest_Watch :: "rest_request \<Rightarrow> ('w, 'x) go"

definition request :: "verb \<Rightarrow> string \<Rightarrow> string \<Rightarrow> rest_request" where
  "request v ns res = \<lparr>rq_Verb = v, rq_Namespace = ns, rq_Resource = res, rq_Name = None, rq_SubResource = [],
     rq_Params = NoParams, rq_Timeout = 0, rq_Body = None\<rparr>"

text \<open>\<open>time.Duration(*opts.TimeoutSeconds) * time.Second\<close>, in the arithmetic of \<open>int64\<close>.\<close>

definition list_timeout :: "ListOptions \<Rightarrow> int" where
  "list_timeout opts = (case lo_TimeoutSeconds opts of None \<Rightarrow> 0 | Some s \<Rightarrow> i64 (s * 1000000000))"

definition wrong_kind :: gerr where
  "wrong_kind = Errorf ''no kind match for the object of the response''"

section \<open>Construction (clientset.go, sys.bytetrade.io_client.go)\<close>

record 'c rest_config =
  rc_Burst :: int
  rc_QPS :: int
  rc_UserAgent :: string
  rc_RateLimiter :: "(int \<times> int) option"
  rc_GroupVersion :: string
  rc_APIPath :: string
  rc_rest :: 'c

text \<open>The calls of client-go: the transport, the REST client and the discovery client of a configuration.\<close>

record ('w, 'x, 'c, 'h) client_lib =
  cl_HTTPClientFor :: "'c rest_config \<Rightarrow> ('w, 'h) go"
  cl_RESTClient :: "'c rest_config \<Rightarrow> 'h \<Rightarrow> ('w, ('w, 'x) rest_client) go"
  cl_Discovery :: "'c rest_config \<Rightarrow> 'h \<Rightarrow> ('w, unit) go"
  cl_DefaultUserAgent :: string

definition setConfigDefaults :: "('w, 'x, 'c, 'h) client_lib \<Rightarrow> 'c rest_config \<Rightarrow> 'c rest_config" where
  "setConfigDefaults l config = (let
      config = config\<lparr>rc_GroupVersion := ''sys.bytetrade.io/v1''\<rparr>;
      config = config\<lparr>rc_APIPath := ''/apis''\<rparr>
    in if rc_UserAgent config = [] then config\<lparr>rc_UserAgent := cl_DefaultUserAgent l\<rparr> else config)"

definition SysV1_NewForConfigAndClient :: "('w, 'x, 'c, 'h) client_lib \<Rightarrow> 'c rest_config \<Rightarrow> 'h \<Rightarrow> ('w, ('w, 'x) rest_client) go" where
  "SysV1_NewForConfigAndClient l c h = cl_RESTClient l (setConfigDefaults l c) h"

definition SysV1_NewForConfig :: "('w, 'x, 'c, 'h) client_lib \<Rightarrow> 'c rest_config \<Rightarrow> ('w, ('w, 'x) rest_client) go" where
  "SysV1_NewForConfig l c = (let config = setConfigDefaults l c in
     bindG (cl_HTTPClientFor l config) (\<lambda>h. SysV1_NewForConfigAndClient l config h))"

text \<open>A clientset is the client of the one group it has.\<close>

definition NewForConfigAndClient :: "('w, 'x, 'c, 'h) client_lib \<Rightarrow> 'c rest_config \<Rightarrow> 'h \<Rightarrow> ('w, ('w, 'x) rest_client) go" where
  "NewForConfigAndClient l c h =
     (let make = (\<lambda>c. bindG (SysV1_NewForConfigAndClient l c h) (\<lambda>cs. bindG (cl_Discovery l c h) (\<lambda>_. ret cs))) in
      if rc_RateLimiter c = None \<and> rc_QPS c > 0 then
        if rc_Burst c \<le> 0
        then raise (Errorf ''burst is required to be greater than 0 when RateLimiter is not set and QPS is set to greater than 0'')
        else make (c\<lparr>rc_RateLimiter := Some (rc_QPS c, rc_Burst c)\<rparr>)
      else make c)"

definition NewForConfig :: "('w, 'x, 'c, 'h) client_lib \<Rightarrow> 'c rest_config \<Rightarrow> ('w, ('w, 'x) rest_client) go" where
  "NewForConfig l c = (let c = if rc_UserAgent c = [] then c\<lparr>rc_UserAgent := cl_DefaultUserAgent l\<rparr> else c in
     bindG (cl_HTTPClientFor l c) (\<lambda>h. NewForConfigAndClient l c h))"

definition NewForConfigOrDie :: "('w, 'x, 'c, 'h) client_lib \<Rightarrow> 'c rest_config \<Rightarrow> ('w, ('w, 'x) rest_client) go" where
  "NewForConfigOrDie l c = tryG (NewForConfig l c) ret (\<lambda>e. panicG (err_text e))"

section \<open>The typed clients (backup.go, snapshot.go, restore.go)\<close>

text \<open>\<open>Into\<close>: the answer must be of the expected kind.\<close>

definition into_Backup :: "robject \<Rightarrow> Backup outcome" where
  "into_Backup r = (case r of BackupObj x \<Rightarrow> Ret x | _ \<Rightarrow> Fail wrong_kind)"

definition into_BackupList :: "robject \<Rightarrow> Backup list outcome" where
  "into_BackupList r = (case r of BackupListObj xs \<Rightarrow> Ret xs | _ \<Rightarrow> Fail wrong_kind)"

definition into_Snapshot :: "robject \<Rightarrow> Snapshot outcome" where
  "into_Snapshot r = (case r of SnapshotObj x \<Rightarrow> Ret x | _ \<Rightarrow> Fail wrong_kind)"

definition into_SnapshotList :: "robject \<Rightarrow> Snapshot list outcome" where
  "into_SnapshotList r = (case r of SnapshotListObj xs \<Rightarrow> Ret xs | _ \<Rightarrow> Fail wrong_kind)"

definition into_Restore :: "robject \<Rightarrow> Restore outcome" where
  "into_Restore r = (case r of RestoreObj x \<Rightarrow> Ret x | _ \<Rightarrow> Fail wrong_kind)"

definition into_RestoreList :: "robject \<Rightarrow> Restore list outcome" where
  "into_RestoreList r = (case r of RestoreListObj xs \<Rightarrow> Ret xs | _ \<Rightarrow> Fail wrong_kind)"

record ('w, 'x) typed_client =
  tc_client :: "('w, 'x) rest_client"
  tc_ns :: string

definition newBackups :: "('w, 'x) rest_client \<Rightarrow> string \<Rightarrow> ('w, 'x) typed_client" where
  "newBackups c namespace = \<lparr>tc_client = c, tc_ns = namespace\<rparr>"

definition backups_Get :: "('w, 'x) typed_client \<Rightarrow> string \<Rightarrow> smap \<Rightarrow> ('w, Backup) go" where
  "backups_Get c name options = bindG (rest_Do (tc_client c)
     ((request Get (tc_ns c) ''backups'')\<lparr>rq_Name := Some name, rq_Params := Params options\<rparr>)) (\<lambda>r. liftO (into_Backup r))"

definition backups_List :: "('w, 'x) typed_client \<Rightarrow> ListOptions \<Rightarrow> ('w, Backup list) go" where
  "backups_List c opts = bindG (rest_Do (tc_client c)
     ((request Get (tc_ns c) ''backups'')\<lparr>rq_Params := ListParams opts, rq_Timeout := list_timeout opts\<rparr>)) (\<lambda>r. liftO (into_BackupList r))"

definition backups_Watch :: "('w, 'x) typed_client \<Rightarrow> ListOptions \<Rightarrow> ('w, 'x) go" where
  "backups_Watch c opts = rest_Watch (tc_client c)
     ((request Get (tc_ns c) ''backups'')\<lparr>rq_Params := ListParams (opts\<lparr>lo_Watch := True\<rparr>), rq_Timeout := list_timeout opts\<rparr>)"

definition backups_Create :: "('w, 'x) typed_client \<Rightarrow> Backup \<Rightarrow> smap \<Rightarrow> ('w, Backup) go" where
  "backups_Create c b opts = bindG (rest_Do (tc_client c)
     ((request Post (tc_ns c) ''backups'')\<lparr>rq_Params := Params opts, rq_Body := Some (BackupObj b)\<rparr>)) (\<lambda>r. liftO (into_Backup r))"

definition backups_Update :: "('w, 'x) typed_client \<Rightarrow> Backup \<Rightarrow> smap \<Rightarrow> ('w, Backup) go" where
  "backups_Update c b opts = bindG (rest_Do (tc_client c)
     ((request Put (tc_ns c) ''backups'')\<lparr>rq_Name := Some (bk_Name b), rq_Params := Params opts, rq_Body := Some (BackupObj b)\<rparr>))
     (\<lambda>r. liftO (into_Backup r))"

definition backups_UpdateStatus :: "('w, 'x) typed_client \<Rightarrow> Backup \<Rightarrow> smap \<Rightarrow> ('w, Backup) go" where
  "backups_UpdateStatus c b opts = bindG (rest_Do (tc_client c)
     ((request Put (tc_ns c) ''backups'')\<lparr>rq_Name := Some (bk_Name b), rq_SubResource := [''status''], rq_Params := Params opts,
        rq_Body := Some (BackupObj b)\<rparr>)) (\<lambda>r. liftO (into_Backup r))"

definition backups_Delete :: "('w, 'x) typed_client \<Rightarrow> string \<Rightarrow> smap \<Rightarrow> ('w, unit) go" where
  "backups_Delete c name opts = bindG (rest_Do (tc_client c)
     ((request Delete (tc_ns c) ''backups'')\<lparr>rq_Name := Some name, rq_Body := Some (DeleteOptionsObj opts)\<rparr>)) (\<lambda>_. ret ())"

definition backups_DeleteCollection :: "('w, 'x) typed_client \<Rightarrow> smap \<Rightarrow> ListOptions \<Rightarrow> ('w, unit) go" where
  "backups_DeleteCollection c opts listOpts = bindG (rest_Do (tc_client c)
     ((request Delete (tc_ns c) ''backups'')\<lparr>rq_Params := ListParams listOpts, rq_Timeout := list_timeout listOpts,
        rq_Body := Some (DeleteOptionsObj opts)\<rparr>)) (\<lambda>_. ret ())"

definition backups_Patch :: "('w, 'x) typed_client \<Rightarrow> string \<Rightarrow> string \<Rightarrow> string \<Rightarrow> smap \<Rightarrow> string list \<Rightarrow> ('w, Backup) go" where
  "backups_Patch c name pt data opts subresources = bindG (rest_Do (tc_client c)
     ((request (Patch pt) (tc_ns c) ''backups'')\<lparr>rq_Name := Some name, rq_SubResource := subresources, rq_Params := Params opts,
        rq_Body := Some (RawObj data)\<rparr>)) (\<lambda>r. liftO (into_Backup r))"

definition newSnapshots :: "('w, 'x) rest_client \<Rightarrow> string \<Rightarrow> ('w, 'x) typed_client" where
  "newSnapshots c namespace = \<lparr>tc_client = c, tc_ns = namespace\<rparr>"

definition snapshots_Get :: "('w, 'x) typed_client \<Rightarrow> string \<Rightarrow> smap \<Rightarrow> ('w, Snapshot) go" where
  "snapshots_Get c name options = bindG (rest_Do (tc_client c)
     ((request Get (tc_ns c) ''snapshots'')\<lparr>rq_Name := Some name, rq_Params := Params options\<rparr>)) (\<lambda>r. liftO (into_Snapshot r))"

definition snapshots_List :: "('w, 'x) typed_client \<Rightarrow> ListOptions \<Rightarrow> ('w, Snapshot list) go" where
  "snapshots_List c opts = bindG (rest_Do (tc_client c)
     ((request Get (tc_ns c) ''snapshots'')\<lparr>rq_Params := ListParams opts, rq_Timeout := list_timeout opts\<rparr>)) (\<lambda>r. liftO (into_SnapshotList r))"

definition snapshots_Watch :: "('w, 'x) typed_client \<Rightarrow> ListOptions \<Rightarrow> ('w, 'x) go" where
  "snapshots_Watch c opts = rest_Watch (tc_client c)
     ((request Get (tc_ns c) ''snapshots'')\<lparr>rq_Params := ListParams (opts\<lparr>lo_Watch := True\<rparr>), rq_Timeout := list_timeout opts\<rparr>)"

definition snapshots_Create :: "('w, 'x) typed_client \<Rightarrow> Snapshot \<Rightarrow> smap \<Rightarrow> ('w, Snapshot) go" where
  "snapshots_Create c s opts = bindG (rest_Do (tc_client c)
     ((request Post (tc_ns c) ''snapshots'')\<lparr>rq_Params := Params opts, rq_Body := Some (SnapshotObj s)\<rparr>)) (\<lambda>r. liftO (into_Snapshot r))"

definition snapshots_Update :: "('w, 'x) typed_client \<Rightarrow> Snapshot \<Rightarrow> smap \<Rightarrow> ('w, Snapshot) go" where
  "snapshots_Update c s opts = bindG (rest_Do (tc_client c)
     ((request Put (tc_ns c) ''snapshots'')\<lparr>rq_Name := Some (sn_Name s), rq_Params := Params opts, rq_Body := Some (SnapshotObj s)\<rparr>))
     (\<lambda>r. liftO (into_Snapshot r))"

definition snapshots_UpdateStatus :: "('w, 'x) typed_client \<Rightarrow> Snapshot \<Rightarrow> smap \<Rightarrow> ('w, Snapshot) go" where
  "snapshots_UpdateStatus c s opts = bindG (rest_Do (tc_client c)
     ((request Put (tc_ns c) ''snapshots'')\<lparr>rq_Name := Some (sn_Name s), rq_SubResource := [''status''], rq_Params := Params opts,
        rq_Body := Some (SnapshotObj s)\<rparr>)) (\<lambda>r. liftO (into_Snapshot r))"

definition snapshots_Delete :: "('w, 'x) typed_client \<Rightarrow> string \<Rightarrow> smap \<Rightarrow> ('w, unit) go" where
  "snapshots_Delete c name opts = bindG (rest_Do (tc_client c)
     ((request Delete (tc_ns c) ''snapshots'')\<lparr>rq_Name := Some name, rq_Body := Some (DeleteOptionsObj opts)\<rparr>)) (\<lambda>_. ret ())"

definition snapshots_DeleteCollection :: "('w, 'x) typed_client \<Rightarrow> smap \<Rightarrow> ListOptions \<Rightarrow> ('w, unit) go" where
  "snapshots_DeleteCollection c opts listOpts = bindG (rest_Do (tc_client c)
     ((request Delete (tc_ns c) ''snapshots'')\<lparr>rq_Params := ListParams listOpts, rq_Timeout := list_timeout listOpts,
        rq_Body := Some (DeleteOptionsObj opts)\<rparr>)) (\<lambda>_. ret ())"

definition snapshots_Patch :: "('w, 'x) typed_client \<Rightarrow> string \<Rightarrow> string \<Rightarrow> string \<Rightarrow> smap \<Rightarrow> string list \<Rightarrow> ('w, Snapshot) go" where
  "snapshots_Patch c name pt data opts subresources = bindG (rest_Do (tc_client c)
     ((request (Patch pt) (tc_ns c) ''snapshots'')\<lparr>rq_Name := Some name, rq_SubResource := subresources, rq_Params := Params opts,
        rq_Body := Some (RawObj data)\<rparr>)) (\<lambda>r. liftO (into_Snapshot r))"

definition newRestores :: "('w, 'x) rest_client \<Rightarrow> string \<Rightarrow> ('w, 'x) typed_client" where
  "newRestores c namespace = \<lparr>tc_client = c, tc_ns = namespace\<rparr>"

definition restores_Get :: "('w, 'x) typed_client \<Rightarrow> string \<Rightarrow> smap \<Rightarrow> ('w, Restore) go" where
  "restores_Get c name options = bindG (rest_Do (tc_client c)
     ((request Get (tc_ns c) ''restores'')\<lparr>rq_Name := Some name, rq_Params := Params options\<rparr>)) (\<lambda>r. liftO (into_Restore r))"

definition restores_List :: "('w, 'x) typed_client \<Rightarrow> ListOptions \<Rightarrow> ('w, Restore list) go" where
  "restores_List c opts = bindG (rest_Do (tc_client c)
     ((request Get (tc_ns c) ''restores'')\<lparr>rq_Params := ListParams opts, rq_Timeout := list_timeout opts\<rparr>)) (\<lambda>r. liftO (into_RestoreList r))"

definition restores_Watch :: "('w, 'x) typed_client \<Rightarrow> ListOptions \<Rightarrow> ('w, 'x) go" where
  "restores_Watch c opts = rest_Watch (tc_client c)
     ((request Get (tc_ns c) ''restores'')\<lparr>rq_Params := ListParams (opts\<lparr>lo_Watch := True\<rparr>), rq_Timeout := list_timeout opts\<rparr>)"

definition restores_Create :: "('w, 'x) typed_client \<Rightarrow> Restore \<Rightarrow> smap \<Rightarrow> ('w, Restore) go" where
  "restores_Create c r opts = bindG (rest_Do (tc_client c)
     ((request Post (tc_ns c) ''restores'')\<lparr>rq_Params := Params opts, rq_Body := Some (RestoreObj r)\<rparr>)) (\<lambda>r. liftO (into_Restore r))"

definition restores_Update :: "('w, 'x) typed_client \<Rightarrow> Restore \<Rightarrow> smap \<Rightarrow> ('w, Restore) go" where
  "restores_Update c r opts = bindG (rest_Do (tc_client c)
     ((request Put (tc_ns c) ''restores'')\<lparr>rq_Name := Some (re_Name r), rq_Params := Params opts, rq_Body := Some (RestoreObj r)\<rparr>))
     (\<lambda>r. liftO (into_Restore r))"

definition restores_UpdateStatus :: "('w, 'x) typed_client \<Rightarrow> Restore \<Rightarrow> smap \<Rightarrow> ('w, Restore) go" where
  "restores_UpdateStatus c r opts = bindG (rest_Do (tc_client c)
     ((request Put (tc_ns c) ''restores'')\<lparr>rq_Name := Some (re_Name r), rq_SubResource := [''status''], rq_Params := Params opts,
        rq_Body := Some (RestoreObj r)\<rparr>)) (\<lambda>r. liftO (into_Restore r))"

definition restores_Delete :: "('w, 'x) typed_client \<Rightarrow> string \<Rightarrow> smap \<Rightarrow> ('w, unit) go" where
  "restores_Delete c name opts = bindG (rest_Do (tc_client c)
     ((request Delete (tc_ns c) ''restores'')\<lparr>rq_Name := Some name, rq_Body := Some (DeleteOptionsObj opts)\<rparr>)) (\<lambda>_. ret ())"

definition restores_DeleteCollection :: "('w, 'x) typed_client \<Rightarrow> smap \<Rightarrow> ListOptions \<Rightarrow> ('w, unit) go" where
  "restores_DeleteCollection c opts listOpts = bindG (rest_Do (tc_client c)
     ((request Delete (tc_ns c) ''restores'')\<lparr>rq_Params := ListParams listOpts, rq_Timeout := list_timeout listOpts,
        rq_Body := Some (DeleteOptionsObj opts)\<rparr>)) (\<lambda>_. ret ())"

definition restores_Patch :: "('w, 'x) typed_client \<Rightarrow> string \<Rightarrow> string \<Rightarrow> string \<Rightarrow> smap \<Rightarrow> string list \<Rightarrow> ('w, Restore) go" where
  "restores_Patch c name pt data opts subresources = bindG (rest_Do (tc_client c)
     ((request (Patch pt) (tc_ns c) ''restores'')\<lparr>rq_Name := Some name, rq_SubResource := subresources, rq_Params := Params opts,
        rq_Body := Some (RawObj data)\<rparr>)) (\<lambda>r. liftO (into_Restore r))"

section \<open>What a client guarantees\<close>

text \<open>A typed client built from a configuration is one whose transport was made for \<open>/apis\<close> and the group of the program.\<close>

lemma NewForConfigAndClient_Ret:
  assumes "NewForConfigAndClient l c h w = (Ret cs, w')"
  shows "\<exists>c' w2. cl_RESTClient l (setConfigDefaults l c') h w = (Ret cs, w2)
    \<and> (rc_RateLimiter c = None \<and> 0 < rc_QPS c \<longrightarrow> rc_RateLimiter c' = Some (rc_QPS c, rc_Burst c) \<and> 0 < rc_Burst c)"
proof (cases "rc_RateLimiter c = None \<and> 0 < rc_QPS c")
  case True
  thus ?thesis using assms
    by (intro exI[of _ "c\<lparr>rc_RateLimiter := Some (rc_QPS c, rc_Burst c)\<rparr>"])
       (auto simp: NewForConfigAndClient_def SysV1_NewForConfigAndClient_def bindG_Ret_iff split: if_splits)
next
  case False
  thus ?thesis using assms
    by (intro exI[of _ c]) (auto simp: NewForConfigAndClient_def SysV1_NewForConfigAndClient_def bindG_Ret_iff split: if_splits)
qed

lemma setConfigDefaults_group:
  "rc_APIPath (setConfigDefaults l c) = ''/apis''" "rc_GroupVersion (setConfigDefaults l c) = ''sys.bytetrade.io/v1''"
  "rc_RateLimiter (setConfigDefaults l c) = rc_RateLimiter c"
  by (simp_all add: setConfigDefaults_def Let_def)

text \<open>The time-out of a listing wraps around: from 9223372037 seconds on it is no longer the one asked for.\<close>

lemma list_timeout_exact:
  "lo_TimeoutSeconds p = Some s \<Longrightarrow> 0 \<le> s \<Longrightarrow> s \<le> 9223372036 \<Longrightarrow> list_timeout p = s * 1000000000"
  by (simp add: list_timeout_def)

lemma list_timeout_wraps:
  "list_timeout \<lparr>lo_LabelSelector = [], lo_FieldSelector = [], lo_TimeoutSeconds = Some 9223372037, lo_Watch = False\<rparr> < 0"
  by (simp add: list_timeout_def i64_def signed_take_bit_def take_bit_eq_mod bit_iff_odd)

end
