(* ===== verification/Informers.thy ===== *)
theory Informers
  imports Clientset
begin

text \<open>
  The generated informers and listers (\<open>pkg/generated/informers\<close>, \<open>pkg/generated/listers\<close>): the factory that shares one
  informer per type and starts and stops them, the typed informers over the typed clients, and the listers over
  the cache of an informer. \<open>SharedIndexInformer\<close> of client-go is the record of what it is made from, the
  cache (\<open>Indexer\<close>) an argument. The factory with its goroutines is a step relation.
\<close>

section \<open>The typed informers (backup.go, snapshot.go, restore.go, interface.go)\<close>

text \<open>The type of an object, as \<open>reflect.TypeOf\<close> tells it.\<close>

datatype kind = BackupKind | SnapshotKind | RestoreKind

record ('w, 'x) informer =
  in_List :: "ListOptions \<Rightarrow> ('w, robject) go"
  in_Watch :: "ListOptions \<Rightarrow> ('w, 'x) go"
  in_Type :: kind
  in_Resync :: int
  in_Indexers :: "string list"

type_synonym tweak = "(ListOptions \<Rightarrow> ListOptions) option"

definition tweaked :: "tweak \<Rightarrow> ListOptions \<Rightarrow> ListOptions" where
  "tweaked t opts = (case t of None \<Rightarrow> opts | Some f \<Rightarrow> f opts)"

text \<open>\<open>backupInformer\<close>, \<open>snapshotInformer\<close> and \<open>restoreInformer\<close>; their factory is the state of the calls.\<close>

record type_informer =
  ti_namespace :: string
  ti_tweakListOptions :: tweak

definition NewFilteredBackupInformer ::
  "('w, 'x) rest_client \<Rightarrow> string \<Rightarrow> int \<Rightarrow> string list \<Rightarrow> tweak \<Rightarrow> ('w, 'x) informer" where
  "NewFilteredBackupInformer client namespace resyncPeriod indexers tweakListOptions =
    \<lparr>in_List = (\<lambda>opts. bindG (backups_List (newBackups client namespace) (tweaked tweakListOptions opts)) (\<lambda>l. ret (BackupListObj l))),
     in_Watch = (\<lambda>opts. backups_Watch (newBackups client namespace) (tweaked tweakListOptions opts)),
     in_Type = BackupKind, in_Resync = resyncPeriod, in_Indexers = indexers\<rparr>"

definition NewBackupInformer :: "('w, 'x) rest_client \<Rightarrow> string \<Rightarrow> int \<Rightarrow> string list \<Rightarrow> ('w, 'x) informer" where
  "NewBackupInformer client namespace resyncPeriod indexers = NewFilteredBackupInformer client namespace resyncPeriod indexers None"

definition backup_defaultInformer :: "type_informer \<Rightarrow> ('w, 'x) rest_client \<Rightarrow> int \<Rightarrow> ('w, 'x) informer" where
  "backup_defaultInformer f client resyncPeriod =
     NewFilteredBackupInformer client (ti_namespace f) resyncPeriod [''namespace''] (ti_tweakListOptions f)"

definition NewFilteredSnapshotInformer ::
  "('w, 'x) rest_client \<Rightarrow> string \<Rightarrow> int \<Rightarrow> string list \<Rightarrow> tweak \<Rightarrow> ('w, 'x) informer" where
  "NewFilteredSnapshotInformer client namespace resyncPeriod indexers tweakListOptions =
    \<lparr>in_List = (\<lambda>opts. bindG (snapshots_List (newSnapshots client namespace) (tweaked tweakListOptions opts)) (\<lambda>l. ret (SnapshotListObj l))),
     in_Watch = (\<lambda>opts. snapshots_Watch (newSnapshots client namespace) (tweaked tweakListOptions opts)),
     in_Type = SnapshotKind, in_Resync = resyncPeriod, in_Indexers = indexers\<rparr>"

definition NewSnapshotInformer :: "('w, 'x) rest_client \<Rightarrow> string \<Rightarrow> int \<Rightarrow> string list \<Rightarrow> ('w, 'x) informer" where
  "NewSnapshotInformer client namespace resyncPeriod indexers = NewFilteredSnapshotInformer client namespace resyncPeriod indexers None"

definition snapshot_defaultInformer :: "type_informer \<Rightarrow> ('w, 'x) rest_client \<Rightarrow> int \<Rightarrow> ('w, 'x) informer" where
  "snapshot_defaultInformer f client resyncPeriod =
     NewFilteredSnapshotInformer client (ti_namespace f) resyncPeriod [''namespace''] (ti_tweakListOptions f)"

definition NewFilteredRestoreInformer ::
  "('w, 'x) rest_client \<Rightarrow> string \<Rightarrow> int \<Rightarrow> string list \<Rightarrow> tweak \<Rightarrow> ('w, 'x) informer" where
  "NewFilteredRestoreInformer client namespace resyncPeriod indexers tweakListOptions =
    \<lparr>in_List = (\<lambda>opts. bindG (restores_List (newRestores client namespace) (tweaked tweakListOptions opts)) (\<lambda>l. ret (RestoreListObj l))),
     in_Watch = (\<lambda>opts. restores_Watch (newRestores client namespace) (tweaked tweakListOptions opts)),
     in_Type = RestoreKind, in_Resync = resyncPeriod, in_Indexers = indexers\<rparr>"

definition NewRestoreInformer :: "('w, 'x) rest_client \<Rightarrow> string \<Rightarrow> int \<Rightarrow> string list \<Rightarrow> ('w, 'x) informer" where
  "NewRestoreInformer client namespace resyncPeriod indexers = NewFilteredRestoreInformer client namespace resyncPeriod indexers None"

definition restore_defaultInformer :: "type_informer \<Rightarrow> ('w, 'x) rest_client \<Rightarrow> int \<Rightarrow> ('w, 'x) informer" where
  "restore_defaultInformer f client resyncPeriod =
     NewFilteredRestoreInformer client (ti_namespace f) resyncPeriod [''namespace''] (ti_tweakListOptions f)"

section \<open>The factory (factory.go)\<close>

record ('w, 'x) sharedInformerFactory =
  sf_client :: "('w, 'x) rest_client"
  sf_namespace :: string
  sf_tweakListOptions :: tweak
  sf_defaultResync :: int
  sf_customResync :: "kind \<Rightarrow> int option"
  sf_informers :: "kind \<Rightarrow> ('w, 'x) informer option"
  sf_startedInformers :: "kind \<Rightarrow> bool"
  sf_wg :: nat
  sf_shuttingDown :: bool

type_synonym ('w, 'x) SharedInformerOption = "('w, 'x) sharedInformerFactory \<Rightarrow> ('w, 'x) sharedInformerFactory"

text \<open>The map of resync periods is a list in the order of its iteration, each key with the type of its object.\<close>

definition WithCustomResyncConfig :: "(kind \<times> int) list \<Rightarrow> ('w, 'x) SharedInformerOption" where
  "WithCustomResyncConfig resyncConfig factory = factory\<lparr>sf_customResync :=
     fold (\<lambda>(k, v) m. m(k \<mapsto> v)) resyncConfig (sf_customResync factory)\<rparr>"

definition WithTweakListOptions :: "tweak \<Rightarrow> ('w, 'x) SharedInformerOption" where
  "WithTweakListOptions t factory = factory\<lparr>sf_tweakListOptions := t\<rparr>"

definition WithNamespace :: "string \<Rightarrow> ('w, 'x) SharedInformerOption" where
  "WithNamespace namespace factory = factory\<lparr>sf_namespace := namespace\<rparr>"

definition NewSharedInformerFactoryWithOptions ::
  "('w, 'x) rest_client \<Rightarrow> int \<Rightarrow> ('w, 'x) SharedInformerOption list \<Rightarrow> ('w, 'x) sharedInformerFactory" where
  "NewSharedInformerFactoryWithOptions client defaultResync options = fold (\<lambda>opt factory. opt factory) options
    \<lparr>sf_client = client, sf_namespace = [], sf_tweakListOptions = None, sf_defaultResync = defaultResync,
     sf_customResync = (\<lambda>_. None), sf_informers = (\<lambda>_. None), sf_startedInformers = (\<lambda>_. False), sf_wg = 0, sf_shuttingDown = False\<rparr>"

definition NewSharedInformerFactory :: "('w, 'x) rest_client \<Rightarrow> int \<Rightarrow> ('w, 'x) sharedInformerFactory" where
  "NewSharedInformerFactory client defaultResync = NewSharedInformerFactoryWithOptions client defaultResync []"

definition NewFilteredSharedInformerFactory :: "('w, 'x) rest_client \<Rightarrow> int \<Rightarrow> string \<Rightarrow> tweak \<Rightarrow> ('w, 'x) sharedInformerFactory" where
  "NewFilteredSharedInformerFactory client defaultResync namespace t =
     NewSharedInformerFactoryWithOptions client defaultResync [WithNamespace namespace, WithTweakListOptions t]"

definition InformerFor :: "kind \<Rightarrow> (('w, 'x) rest_client \<Rightarrow> int \<Rightarrow> ('w, 'x) informer) \<Rightarrow> ('w, 'x) sharedInformerFactory \<Rightarrow>
    ('w, 'x) informer \<times> ('w, 'x) sharedInformerFactory" where
  "InformerFor informerType newFunc f = (case sf_informers f informerType of
      Some informer \<Rightarrow> (informer, f)
    | None \<Rightarrow> let resyncPeriod = (case sf_customResync f informerType of Some r \<Rightarrow> r | None \<Rightarrow> sf_defaultResync f);
          informer = newFunc (sf_client f) resyncPeriod
        in (informer, f\<lparr>sf_informers := (sf_informers f)(informerType \<mapsto> informer)\<rparr>))"

text \<open>The loop of \<open>Start\<close> over the map of informers, in the order of its iteration; it gives the types whose
  goroutines it starts.\<close>

fun start_loop :: "kind list \<Rightarrow> ('w, 'x) sharedInformerFactory \<Rightarrow> kind list \<times> ('w, 'x) sharedInformerFactory" where
  "start_loop [] f = ([], f)"
| "start_loop (informerType # types) f =
    (if sf_informers f informerType \<noteq> None \<and> \<not> sf_startedInformers f informerType
     then let (started, f') = start_loop types (f\<lparr>sf_wg := Suc (sf_wg f), sf_startedInformers := (sf_startedInformers f)(informerType := True)\<rparr>)
          in (informerType # started, f')
     else start_loop types f)"

definition Start :: "kind list \<Rightarrow> ('w, 'x) sharedInformerFactory \<Rightarrow> kind list \<times> ('w, 'x) sharedInformerFactory" where
  "Start order f = (if sf_shuttingDown f then ([], f) else start_loop order f)"

text \<open>The first part of \<open>Shutdown\<close>; then it waits until \<open>wg\<close> is zero.\<close>

definition Shutdown_begin :: "('w, 'x) sharedInformerFactory \<Rightarrow> ('w, 'x) sharedInformerFactory" where
  "Shutdown_begin f = f\<lparr>sf_shuttingDown := True\<rparr>"

definition WaitForCacheSync :: "(kind \<Rightarrow> bool) \<Rightarrow> ('w, 'x) sharedInformerFactory \<Rightarrow> kind \<Rightarrow> bool option" where
  "WaitForCacheSync synced f informType =
     (if sf_informers f informType \<noteq> None \<and> sf_startedInformers f informType then Some (synced informType) else None)"

text \<open>\<open>Sys().V1()\<close> hands the namespace and the filter of the factory on.\<close>

definition V1 :: "('w, 'x) sharedInformerFactory \<Rightarrow> type_informer" where
  "V1 f = \<lparr>ti_namespace = sf_namespace f, ti_tweakListOptions = sf_tweakListOptions f\<rparr>"

definition backup_Informer :: "type_informer \<Rightarrow> ('w, 'x) sharedInformerFactory \<Rightarrow> ('w, 'x) informer \<times> ('w, 'x) sharedInformerFactory" where
  "backup_Informer i = InformerFor BackupKind (backup_defaultInformer i)"

definition snapshot_Informer :: "type_informer \<Rightarrow> ('w, 'x) sharedInformerFactory \<Rightarrow> ('w, 'x) informer \<times> ('w, 'x) sharedInformerFactory" where
  "snapshot_Informer i = InformerFor SnapshotKind (snapshot_defaultInformer i)"

definition restore_Informer :: "type_informer \<Rightarrow> ('w, 'x) sharedInformerFactory \<Rightarrow> ('w, 'x) informer \<times> ('w, 'x) sharedInformerFactory" where
  "restore_Informer i = InformerFor RestoreKind (restore_defaultInformer i)"

definition ForResource :: "string \<Rightarrow> (('w, 'x) sharedInformerFactory, ('w, 'x) informer) go" where
  "ForResource resource f = (
     if resource = ''sys.bytetrade.io/v1, Resource=backups'' then (case backup_Informer (V1 f) f of (i, f') \<Rightarrow> (Ret i, f'))
     else if resource = ''sys.bytetrade.io/v1, Resource=restores'' then (case restore_Informer (V1 f) f of (i, f') \<Rightarrow> (Ret i, f'))
     else if resource = ''sys.bytetrade.io/v1, Resource=snapshots'' then (case snapshot_Informer (V1 f) f of (i, f') \<Rightarrow> (Ret i, f'))
     else (Fail (Errorf (''no informer found for '' @ resource)), f))"

section \<open>The listers\<close>

text \<open>The cache of an informer: \<open>ListAll\<close> and \<open>ListAllByNamespace\<close> with a selector, \<open>GetByKey\<close>.\<close>

record indexer =
  ix_ListAll :: "string \<Rightarrow> robject list outcome"
  ix_ListAllByNamespace :: "string \<Rightarrow> string \<Rightarrow> robject list outcome"
  ix_GetByKey :: "string \<Rightarrow> robject option outcome"

definition not_found :: "string \<Rightarrow> string \<Rightarrow> gerr" where
  "not_found resource name = \<lparr>err_kind = ENotFound, err_text = resource @ ''s.sys.bytetrade.io \"'' @ name @ ''\" not found''\<rparr>"

definition conversion :: string where
  "conversion = ''interface conversion: the object has another type''"

fun append_Backup :: "robject list \<Rightarrow> Backup list outcome" where
  "append_Backup [] = Ret []"
| "append_Backup (BackupObj b # ms) = bindO (append_Backup ms) (\<lambda>bs. Ret (b # bs))"
| "append_Backup (m # ms) = Panic conversion"

definition backupLister_List :: "indexer \<Rightarrow> string \<Rightarrow> Backup list outcome" where
  "backupLister_List ix selector = bindO (ix_ListAll ix selector) append_Backup"

definition backupNamespaceLister_List :: "indexer \<Rightarrow> string \<Rightarrow> string \<Rightarrow> Backup list outcome" where
  "backupNamespaceLister_List ix namespace selector = bindO (ix_ListAllByNamespace ix namespace selector) append_Backup"

definition backupNamespaceLister_Get :: "indexer \<Rightarrow> string \<Rightarrow> string \<Rightarrow> Backup outcome" where
  "backupNamespaceLister_Get ix namespace name = bindO (ix_GetByKey ix (namespace @ ''/'' @ name)) (\<lambda>obj. case obj of
      None \<Rightarrow> Fail (not_found ''backup'' name)
    | Some (BackupObj b) \<Rightarrow> Ret b
    | Some _ \<Rightarrow> Panic conversion)"

fun append_Snapshot :: "robject list \<Rightarrow> Snapshot list outcome" where
  "append_Snapshot [] = Ret []"
| "append_Snapshot (SnapshotObj b # ms) = bindO (append_Snapshot ms) (\<lambda>bs. Ret (b # bs))"
| "append_Snapshot (m # ms) = Panic conversion"

definition snapshotLister_List :: "indexer \<Rightarrow> string \<Rightarrow> Snapshot list outcome" where
  "snapshotLister_List ix selector = bindO (ix_ListAll ix selector) append_Snapshot"

definition snapshotNamespaceLister_List :: "indexer \<Rightarrow> string \<Rightarrow> string \<Rightarrow> Snapshot list outcome" where
  "snapshotNamespaceLister_List ix namespace selector = bindO (ix_ListAllByNamespace ix namespace selector) append_Snapshot"

definition snapshotNamespaceLister_Get :: "indexer \<Rightarrow> string \<Rightarrow> string \<Rightarrow> Snapshot outcome" where
  "snapshotNamespaceLister_Get ix namespace name = bindO (ix_GetByKey ix (namespace @ ''/'' @ name)) (\<lambda>obj. case obj of
      None \<Rightarrow> Fail (not_found ''snapshot'' name)
    | Some (SnapshotObj b) \<Rightarrow> Ret b
    | Some _ \<Rightarrow> Panic conversion)"

fun append_Restore :: "robject list \<Rightarrow> Restore list outcome" where
  "append_Restore [] = Ret []"
| "append_Restore (RestoreObj b # ms) = bindO (append_Restore ms) (\<lambda>bs. Ret (b # bs))"
| "append_Restore (m # ms) = Panic conversion"

definition restoreLister_List :: "indexer \<Rightarrow> string \<Rightarrow> Restore list outcome" where
  "restoreLister_List ix selector = bindO (ix_ListAll ix selector) append_Restore"

definition restoreNamespaceLister_List :: "indexer \<Rightarrow> string \<Rightarrow> string \<Rightarrow> Restore list outcome" where
  "restoreNamespaceLister_List ix namespace selector = bindO (ix_ListAllByNamespace ix namespace selector) append_Restore"

definition restoreNamespaceLister_Get :: "indexer \<Rightarrow> string \<Rightarrow> string \<Rightarrow> Restore outcome" where
  "restoreNamespaceLister_Get ix namespace name = bindO (ix_GetByKey ix (namespace @ ''/'' @ name)) (\<lambda>obj. case obj of
      None \<Rightarrow> Fail (not_found ''restore'' name)
    | Some (RestoreObj b) \<Rightarrow> Ret b
    | Some _ \<Rightarrow> Panic conversion)"

section \<open>The factory and its goroutines\<close>

text \<open>\<open>fp_running\<close>: the types whose goroutine runs; \<open>fp_ran\<close>: all that were ever started. \<open>fp_stop\<close>: the channel given
  to \<open>Start\<close> is closed. \<open>fp_returned\<close>: a call of \<open>Shutdown\<close> has returned.\<close>

record ('w, 'x) factory_process =
  fp_factory :: "('w, 'x) sharedInformerFactory"
  fp_running :: "kind list"
  fp_ran :: "kind list"
  fp_stop :: bool
  fp_returned :: bool

definition fresh_factory :: "('w, 'x) sharedInformerFactory \<Rightarrow> bool" where
  "fresh_factory f \<longleftrightarrow> sf_informers f = (\<lambda>_. None) \<and> sf_startedInformers f = (\<lambda>_. False) \<and> sf_wg f = 0 \<and> \<not> sf_shuttingDown f"

inductive fstep :: "('w, 'x) factory_process \<Rightarrow> ('w, 'x) factory_process \<Rightarrow> bool" where
  ask: "InformerFor k new_informer (fp_factory s) = (i, f) \<Longrightarrow> fstep s (s\<lparr>fp_factory := f\<rparr>)"
| start_call: "Start order (fp_factory s) = (ks, f) \<Longrightarrow>
    fstep s (s\<lparr>fp_factory := f, fp_running := fp_running s @ ks, fp_ran := fp_ran s @ ks\<rparr>)"
| stop: "fstep s (s\<lparr>fp_stop := True\<rparr>)"
| run_ends: "fp_stop s \<Longrightarrow> k \<in> set (fp_running s) \<Longrightarrow> fp_factory s = f \<Longrightarrow>
    fstep s (s\<lparr>fp_running := remove1 k (fp_running s), fp_factory := f\<lparr>sf_wg := sf_wg f - 1\<rparr>\<rparr>)"
| shutdown: "fstep s (s\<lparr>fp_factory := Shutdown_begin (fp_factory s)\<rparr>)"
| shutdown_returns: "sf_shuttingDown (fp_factory s) \<Longrightarrow> sf_wg (fp_factory s) = 0 \<Longrightarrow> fstep s (s\<lparr>fp_returned := True\<rparr>)"

inductive freach :: "('w, 'x) factory_process \<Rightarrow> bool" where
  init: "fresh_factory f \<Longrightarrow> freach \<lparr>fp_factory = f, fp_running = [], fp_ran = [], fp_stop = False, fp_returned = False\<rparr>"
| step: "freach s \<Longrightarrow> fstep s s' \<Longrightarrow> freach s'"

inductive_cases fstepE: "fstep s s'"

lemma fresh_options:
  assumes "\<forall>opt \<in> set options. \<forall>f. fresh_factory f \<longrightarrow> fresh_factory (opt f)"
  shows "fresh_factory (NewSharedInformerFactoryWithOptions client resync options)"
proof -
  have "fresh_factory f \<Longrightarrow> fresh_factory (fold (\<lambda>opt f. opt f) options f)" for f
    using assms by (induction options arbitrary: f) auto
  thus ?thesis by (simp add: NewSharedInformerFactoryWithOptions_def fresh_factory_def)
qed

lemma fresh_filtered: "fresh_factory (NewFilteredSharedInformerFactory client resync namespace t)"
  unfolding NewFilteredSharedInformerFactory_def
  by (rule fresh_options) (auto simp: WithNamespace_def WithTweakListOptions_def fresh_factory_def)

text \<open>What one call of \<open>Start\<close> does: exactly the informers of the order that are not started are started, once each.\<close>

lemma start_loop_spec:
  assumes "start_loop order f = (ks, f')"
  shows "distinct ks \<and> set ks = {k \<in> set order. sf_informers f k \<noteq> None \<and> \<not> sf_startedInformers f k}
    \<and> sf_informers f' = sf_informers f \<and> sf_startedInformers f' = (\<lambda>k. sf_startedInformers f k \<or> k \<in> set ks)
    \<and> sf_wg f' = sf_wg f + length ks \<and> sf_shuttingDown f' = sf_shuttingDown f"
  using assms
proof (induction order arbitrary: f ks f')
  case (Cons k order)
  show ?case
  proof (cases "sf_informers f k \<noteq> None \<and> \<not> sf_startedInformers f k")
    case True
    let ?g = "f\<lparr>sf_wg := Suc (sf_wg f), sf_startedInformers := (sf_startedInformers f)(k := True)\<rparr>"
    obtain ks' where "start_loop order ?g = (ks', f')" "ks = k # ks'"
      using Cons.prems True by (auto split: prod.splits)
    with Cons.IH[OF this(1)] True show ?thesis by (auto simp: fun_eq_iff)
  next
    case False
    thus ?thesis using Cons.IH[of f ks f'] Cons.prems by auto
  qed
qed (auto simp: fun_eq_iff)

definition factory_inv :: "('w, 'x) factory_process \<Rightarrow> bool" where
  "factory_inv s \<longleftrightarrow> sf_wg (fp_factory s) = length (fp_running s) \<and> distinct (fp_ran s)
    \<and> (\<forall>k. k \<in> set (fp_ran s) \<longleftrightarrow> sf_startedInformers (fp_factory s) k)
    \<and> (\<forall>k. sf_startedInformers (fp_factory s) k \<longrightarrow> sf_informers (fp_factory s) k \<noteq> None)
    \<and> (fp_returned s \<longrightarrow> sf_shuttingDown (fp_factory s) \<and> fp_running s = [])"

lemma factory_inv_start:
  assumes "factory_inv s" and "Start order (fp_factory s) = (ks, f)"
  shows "factory_inv (s\<lparr>fp_factory := f, fp_running := fp_running s @ ks, fp_ran := fp_ran s @ ks\<rparr>)"
proof (cases "sf_shuttingDown (fp_factory s)")
  case True
  thus ?thesis using assms by (auto simp: Start_def)
next
  case False
  with assms(2) start_loop_spec[of order "fp_factory s" ks f] assms(1) show ?thesis
    by (auto simp: Start_def factory_inv_def)
qed

lemma factory_inv_ask: "factory_inv s \<Longrightarrow> InformerFor k n (fp_factory s) = (i, f) \<Longrightarrow> factory_inv (s\<lparr>fp_factory := f\<rparr>)"
  by (auto simp: factory_inv_def InformerFor_def Let_def split: option.splits)

lemma factory_inv_step: "factory_inv s \<Longrightarrow> fstep s s' \<Longrightarrow> factory_inv s'"
proof (erule fstepE, goal_cases)
  case (1 k n i f)
  thus ?case by (simp add: factory_inv_ask)
next
  case (2 order ks f)
  thus ?case by (simp add: factory_inv_start)
qed (auto simp: factory_inv_def Shutdown_begin_def length_remove1)

lemma freach_inv: "freach s \<Longrightarrow> factory_inv s"
proof (induction rule: freach.induct)
  case (init f)
  thus ?case by (simp add: factory_inv_def fresh_factory_def)
qed (rule factory_inv_step)

text \<open>Every informer is run at most once, and the one that was asked for first is the one that is shared.\<close>

theorem informers_run_once: "freach s \<Longrightarrow> distinct (fp_ran s) \<and> (\<forall>k \<in> set (fp_ran s). sf_informers (fp_factory s) k \<noteq> None)"
  using freach_inv unfolding factory_inv_def by blast

lemma informer_shared: "fstep s s' \<Longrightarrow> sf_informers (fp_factory s) k = Some i \<Longrightarrow> sf_informers (fp_factory s') k = Some i"
  by (erule fstepE) (auto simp: InformerFor_def Let_def Start_def Shutdown_begin_def dest!: start_loop_spec split: option.splits if_splits)

lemma fstep_returned: "fstep s s' \<Longrightarrow> fp_returned s \<Longrightarrow> fp_returned s'"
  by (erule fstepE) auto

text \<open>Once a call of \<open>Shutdown\<close> has returned, no informer of the factory runs, whatever is called afterwards.\<close>

theorem nothing_runs_after_shutdown:
  assumes "freach s" and "fp_returned s" and "fstep\<^sup>*\<^sup>* s s'"
  shows "fp_running s' = []"
proof -
  have "freach s' \<and> fp_returned s'"
    using assms(3,1,2) by (induction rule: rtranclp_induct) (auto intro: freach.step fstep_returned)
  thus ?thesis using freach_inv unfolding factory_inv_def by blast
qed

section \<open>What a factory gives out\<close>

text \<open>A generic informer is the one the factory keeps for its type, with the resync period of that type.\<close>

lemma ForResource_informer:
  assumes "fresh_factory f" and "ForResource resource f = (Ret i, f')"
  shows "sf_informers f' (in_Type i) = Some i \<and> in_Resync i = (case sf_customResync f (in_Type i) of Some r \<Rightarrow> r | None \<Rightarrow> sf_defaultResync f)"
  using assms
  by (auto simp: ForResource_def backup_Informer_def snapshot_Informer_def restore_Informer_def InformerFor_def Let_def fresh_factory_def
      backup_defaultInformer_def snapshot_defaultInformer_def restore_defaultInformer_def
      NewFilteredBackupInformer_def NewFilteredSnapshotInformer_def NewFilteredRestoreInformer_def split: if_splits)

section \<open>What a lister finds\<close>

text \<open>A lister does not panic exactly when the cache holds nothing but objects of its kind, and then lists all of them.\<close>

lemma append_kinds:
  "append_Backup ms = Ret bs \<longleftrightarrow> ms = map BackupObj bs"
  "append_Snapshot ms = Ret ss \<longleftrightarrow> ms = map SnapshotObj ss"
  "append_Restore ms = Ret rs \<longleftrightarrow> ms = map RestoreObj rs"
proof -
  show "append_Backup ms = Ret bs \<longleftrightarrow> ms = map BackupObj bs"
    by (induction ms arbitrary: bs rule: append_Backup.induct) (auto simp: bindO_Ret_iff map_eq_Cons_conv Cons_eq_map_conv)
  show "append_Snapshot ms = Ret ss \<longleftrightarrow> ms = map SnapshotObj ss"
    by (induction ms arbitrary: ss rule: append_Snapshot.induct) (auto simp: bindO_Ret_iff map_eq_Cons_conv Cons_eq_map_conv)
  show "append_Restore ms = Ret rs \<longleftrightarrow> ms = map RestoreObj rs"
    by (induction ms arbitrary: rs rule: append_Restore.induct) (auto simp: bindO_Ret_iff map_eq_Cons_conv Cons_eq_map_conv)
qed

lemma lister_lists_its_kind:
  "backupLister_List ix sel = Ret bs \<longleftrightarrow> ix_ListAll ix sel = Ret (map BackupObj bs)"
  "snapshotNamespaceLister_List ix ns sel = Ret ss \<longleftrightarrow> ix_ListAllByNamespace ix ns sel = Ret (map SnapshotObj ss)"
  by (auto simp: backupLister_List_def snapshotNamespaceLister_List_def bindO_Ret_iff append_kinds)

lemma lister_Get_Fail:
  assumes "ix_GetByKey ix (ns @ ''/'' @ name) = Ret m"
  shows "IsNotFound e \<and> snapshotNamespaceLister_Get ix ns name = Fail e \<longrightarrow> m = None"
  using assms by (auto simp: snapshotNamespaceLister_Get_def split: option.splits robject.splits)

end
