(* ===== verification/Startup.thy ===== *)
theory Startup
  imports Notification Server Watchers Worker Clientset
begin

text \<open>
  The start of the two processes: the client factory (\<open>pkg/client\<close>), the options and the \<open>run\<close> functions of
  the commands (\<open>cmd/backup-server\<close>), the preparation of the API server (\<open>pkg/apiserver\<close>), the container of
  the handlers (\<open>handlers.go\<close>) and the logger's level. The variables of the packages are one record
  \<open>process\<close>; the state of a computation is the world and this record. The client libraries, the manager of
  controller-runtime and \<open>ListenAndServe\<close> are arguments.
\<close>

section \<open>The client factory (factory.go, client.go)\<close>

record ('c, 'd) factory =
  fac_config :: "'c rest_config"
  fac_client :: 'd

record ('w, 'c, 'd, 'x, 'h) kube_lib =
  kl_GetConfig :: "('w, 'c rest_config) go"
  kl_dynamic :: "'c rest_config \<Rightarrow> ('w, 'd) go"
  kl_kubernetes :: "'c rest_config \<Rightarrow> ('w, unit) go"
  kl_client :: "('w, 'x, 'c, 'h) client_lib"

definition NewFactory :: "('w, 'c, 'd, 'x, 'h) kube_lib \<Rightarrow> ('w, ('c, 'd) factory) go" where
  "NewFactory k = tryG (kl_GetConfig k)
     (\<lambda>config. let config = config\<lparr>rc_Burst := 15, rc_QPS := 50\<rparr> in
        tryG (kl_dynamic k config) (\<lambda>client. ret \<lparr>fac_config = config, fac_client = client\<rparr>)
          (\<lambda>e. raise (Errorf (''new dynamic client: '' @ err_text e))))
     (\<lambda>e. raise (Errorf (''new rest kubeconfig: '' @ err_text e)))"

text \<open>The factory is an interface value: a call on the nil interface panics.\<close>

definition nil_factory :: string where
  "nil_factory = ''invalid memory address or nil pointer dereference''"

definition ClientConfig :: "('c, 'd) factory option \<Rightarrow> ('w, 'c rest_config) go" where
  "ClientConfig f = (case f of None \<Rightarrow> panicG nil_factory | Some f \<Rightarrow> ret (fac_config f))"

definition DynamicClient :: "('c, 'd) factory option \<Rightarrow> ('w, 'd) go" where
  "DynamicClient f = (case f of None \<Rightarrow> panicG nil_factory | Some f \<Rightarrow> ret (fac_client f))"

definition KubeClient :: "('w, 'c, 'd, 'x, 'h) kube_lib \<Rightarrow> ('c, 'd) factory option \<Rightarrow> ('w, unit) go" where
  "KubeClient k f = (case f of None \<Rightarrow> panicG nil_factory | Some f \<Rightarrow> kl_kubernetes k (fac_config f))"

definition Sysv1Client :: "('w, 'c, 'd, 'x, 'h) kube_lib \<Rightarrow> ('c, 'd) factory option \<Rightarrow> ('w, ('w, 'x) rest_client) go" where
  "Sysv1Client k f = (case f of None \<Rightarrow> panicG nil_factory | Some f \<Rightarrow> NewForConfig (kl_client k) (fac_config f))"

text \<open>The client of a factory passes the check of its rate: it is limited to 50 requests per second, in bursts of 15.\<close>

lemma factory_client_rate:
  assumes "NewFactory k w0 = (Ret f, w)" and "kl_GetConfig k w0 = (Ret c, w1)" and "rc_RateLimiter c = None"
    and "Sysv1Client k (Some f) w = (Ret cs, w')"
  shows "\<exists>c' h w1 w2. cl_RESTClient (kl_client k) c' h w1 = (Ret cs, w2) \<and> rc_RateLimiter c' = Some (50, 15) \<and> rc_APIPath c' = ''/apis''"
proof -
  have f: "rc_RateLimiter (fac_config f) = None" "rc_QPS (fac_config f) = 50" "rc_Burst (fac_config f) = 15"
    using assms(1-3) by (auto simp: NewFactory_def tryG_def Let_def split: prod.splits outcome.splits)
  define c1 where "c1 = (if rc_UserAgent (fac_config f) = [] then (fac_config f)\<lparr>rc_UserAgent := cl_DefaultUserAgent (kl_client k)\<rparr> else fac_config f)"
  have c1: "rc_RateLimiter c1 = None" "rc_QPS c1 = 50" "rc_Burst c1 = 15" using f by (simp_all add: c1_def)
  have "bindG (cl_HTTPClientFor (kl_client k) c1) (NewForConfigAndClient (kl_client k) c1) w = (Ret cs, w')"
    using assms(4) by (simp add: Sysv1Client_def NewForConfig_def Let_def c1_def)
  then obtain h w2 where "NewForConfigAndClient (kl_client k) c1 h w2 = (Ret cs, w')" unfolding bindG_Ret_iff by blast
  from NewForConfigAndClient_Ret[OF this] c1 show ?thesis
    by (metis setConfigDefaults_group(1) setConfigDefaults_group(3) zero_less_numeral)
qed

section \<open>The level of the logger (log.go)\<close>

datatype Level = LevelDebug | LevelInfo | LevelWarn | LevelError | LevelDpanic | LevelPanic | LevelFatal

fun level_number :: "Level \<Rightarrow> int" where
  "level_number LevelDebug = -1"
| "level_number LevelInfo = 0"
| "level_number LevelWarn = 1"
| "level_number LevelError = 2"
| "level_number LevelDpanic = 3"
| "level_number LevelPanic = 4"
| "level_number LevelFatal = 5"

definition getLevel :: "string \<Rightarrow> Level" where
  "getLevel level = (
     if level = ''debug'' then LevelDebug else if level = ''info'' then LevelInfo
     else if level = ''warn'' then LevelWarn else if level = ''error'' then LevelError
     else if level = ''panic'' then LevelPanic else if level = ''fatal'' then LevelFatal else LevelInfo)"

text \<open>The argument is an \<open>any\<close>: of another type than these two, the level is the zero value.\<close>

datatype any_level = LevelText string | LevelLog Level | LevelOther

fun InitLog :: "any_level \<Rightarrow> Level" where
  "InitLog (LevelText v) = getLevel v"
| "InitLog (LevelLog v) = v"
| "InitLog LevelOther = LevelInfo"

section \<open>The handlers (handlers.go)\<close>

record 'f handlers =
  hd_Notification :: 'f
  hd_Backup :: 'f
  hd_Snapshot :: 'f
  hd_Restore :: 'f

text \<open>A handler is the factory it holds and the struct of all of them, which it points back to.\<close>

definition NewHandler :: "'f \<Rightarrow> 'f \<Rightarrow> 'f handlers" where
  "NewHandler f notification = \<lparr>hd_Notification = notification, hd_Backup = f, hd_Snapshot = f, hd_Restore = f\<rparr>"

section \<open>The variables of the process\<close>

record 'f IntegrationService =
  is_Factory :: 'f
  is_debug :: bool

record ('c, 'd) process =
  pv_logger :: "Level option"
  pv_once :: bool
  pv_clientFactory :: "('c, 'd) factory option"
  pv_integration :: "('c, 'd) factory option IntegrationService option"
  pv_sender :: "dataSender option"
  pv_workers :: "(WorkerPool \<times> ('c, 'd) factory option handlers) option"
  pv_crontabs :: "string list"
  pv_controllers :: "(string \<times> ('c, 'd) factory option handlers) list"
  pv_routes :: "(string \<times> ('c, 'd) factory option handlers) option"
  pv_watched :: "string list"
  pv_goroutines :: "string list"
  pv_started :: bool

definition fresh_process :: "('c, 'd) process" where
  "fresh_process = \<lparr>pv_logger = None, pv_once = False, pv_clientFactory = None, pv_integration = None, pv_sender = None,
     pv_workers = None, pv_crontabs = [], pv_controllers = [], pv_routes = None, pv_watched = [], pv_goroutines = [], pv_started = False\<rparr>"

type_synonym ('w, 'c, 'd, 'a) start = "('w \<times> ('c, 'd) process, 'a) go"

definition lib :: "('w, 'a) go \<Rightarrow> ('w, 'c, 'd, 'a) start" where
  "lib m = (\<lambda>(w, p). case m w of (r, w') \<Rightarrow> (r, (w', p)))"

definition setv :: "(('c, 'd) process \<Rightarrow> ('c, 'd) process) \<Rightarrow> ('w, 'c, 'd, unit) start" where
  "setv f = (\<lambda>(w, p). (Ret (), (w, f p)))"

definition getv :: "(('c, 'd) process \<Rightarrow> 'a) \<Rightarrow> ('w, 'c, 'd, 'a) start" where
  "getv f = (\<lambda>(w, p). (Ret (f p), (w, p)))"

definition sender :: "('w \<times> dataSender option, unit) go \<Rightarrow> ('w, 'c, 'd, unit) start" where
  "sender m = (\<lambda>(w, p). case m (w, pv_sender p) of (r, (w', d)) \<Rightarrow> (r, (w', p\<lparr>pv_sender := d\<rparr>)))"

text \<open>\<open>once.Do\<close> runs its argument in the first call only.\<close>

definition Init :: "('w, 'c, 'd, 'x, 'h) kube_lib \<Rightarrow> ('w, 'c, 'd, unit) start" where
  "Init k = bindG (lib (NewFactory k)) (\<lambda>f.
     setv (\<lambda>p. if pv_once p then p else p\<lparr>pv_once := True, pv_clientFactory := Some f\<rparr>))"

text \<open>The service starts with empty token maps, which are the caches of the theory \<open>Integration\<close>; here it is the factory and
  the debug flag of its HTTP client.\<close>

definition NewIntegrationManager :: "(string \<Rightarrow> string) \<Rightarrow> ('c, 'd) factory option \<Rightarrow> ('w, 'c, 'd, unit) start" where
  "NewIntegrationManager getenv f = setv (\<lambda>p. p\<lparr>pv_integration :=
     Some \<lparr>is_Factory = f, is_debug = (getenv ''BACKUP_INTEGRATION_DEBUG'' = ''1'')\<rparr>\<rparr>)"

definition StartWorkerPool :: "('c, 'd) factory option handlers \<Rightarrow> ('w, 'c, 'd, unit) start" where
  "StartWorkerPool h = setv (\<lambda>p. p\<lparr>pv_workers := Some (NewWorkerPool, h)\<rparr>)"

text \<open>\<open>add\<close> is \<open>AddFunc\<close> of the cron library for \<open>10 0 * * *\<close>; its error is logged.\<close>

definition InitCrontabs :: "('w, unit) go \<Rightarrow> ('w, 'c, 'd, unit) start" where
  "InitCrontabs add = tryG (lib add) (\<lambda>_. setv (\<lambda>p. p\<lparr>pv_crontabs := pv_crontabs p @ [''clearHistoryRestores'']\<rparr>)) (\<lambda>e. ret ())"

text \<open>\<open>NewForConfigOrDie\<close> panics when the client cannot be made.\<close>

definition or_die :: "('w, 'a) go \<Rightarrow> ('w, 'a) go" where
  "or_die m = tryG m ret (\<lambda>e. panicG (err_text e))"

definition NewWatchers :: "('w, 'c, 'd, 'x, 'h) kube_lib \<Rightarrow> 'c rest_config \<Rightarrow> ('w, 'c, 'd, unit) start" where
  "NewWatchers k config = bindG (lib (or_die (kl_dynamic k config))) (\<lambda>_. setv (\<lambda>p. p\<lparr>pv_watched := []\<rparr>))"

definition watch :: "string \<Rightarrow> ('w, 'c, 'd, unit) start" where
  "watch gvr = setv (\<lambda>p. p\<lparr>pv_watched := pv_watched p @ [gvr]\<rparr>)"

definition spawn :: "string \<Rightarrow> ('w, 'c, 'd, unit) start" where
  "spawn f = setv (\<lambda>p. p\<lparr>pv_goroutines := pv_goroutines p @ [f]\<rparr>)"

definition systemenv_GVR :: string where
  "systemenv_GVR = ''sys.bytetrade.io/v1alpha1, Resource=systemenvs''"

section \<open>The API server (options.go, pkg/apiserver, cmd/backup-server/apiserver)\<close>

record ServerRunOptions =
  so_LogLevel :: string
  so_SkipKubeClient :: bool
  so_ListenAddr :: string
  so_APIRoutePrefix :: string

text \<open>\<open>flags\<close> are the flags of the command line.\<close>

definition flag :: "smap \<Rightarrow> string \<Rightarrow> string \<Rightarrow> string" where
  "flag flags name dflt = (case map_of flags name of None \<Rightarrow> dflt | Some v \<Rightarrow> v)"

definition AddFlags :: "smap \<Rightarrow> ServerRunOptions \<Rightarrow> ServerRunOptions" where
  "AddFlags flags s = s\<lparr>so_LogLevel := flag flags ''log-level'' ''debug'', so_ListenAddr := flag flags ''listen-address'' '':8082'',
     so_APIRoutePrefix := flag flags ''api-route-prefix'' ''/apis''\<rparr>"

record Config =
  cfg_ListenAddr :: string
  cfg_APIRoutePrefix :: string

definition NewAPIServer :: "ServerRunOptions \<Rightarrow> ('w, 'c, 'd, Config) start" where
  "NewAPIServer s = bindG (setv (\<lambda>p. p\<lparr>pv_logger := Some (InitLog (LevelText (so_LogLevel s)))\<rparr>)) (\<lambda>_.
     ret \<lparr>cfg_ListenAddr = so_ListenAddr s, cfg_APIRoutePrefix = so_APIRoutePrefix s\<rparr>)"

definition AddContainer :: "'w event_net \<Rightarrow> Config \<Rightarrow> ('w, 'c, 'd, unit) start" where
  "AddContainer n cfg = bindG (getv pv_clientFactory) (\<lambda>f. bindG (sender (NewSender n)) (\<lambda>_.
     setv (\<lambda>p. p\<lparr>pv_routes := Some (NewWebService (cfg_APIRoutePrefix cfg), NewHandler f f)\<rparr>)))"

text \<open>\<open>Must\<close> panics on an error.\<close>

definition PrepareRun :: "'w event_net \<Rightarrow> Config \<Rightarrow> ('w, 'c, 'd, unit) start" where
  "PrepareRun n cfg = tryG (AddContainer n cfg) ret (\<lambda>e. panicG (err_text e))"

definition Wrapf :: "gerr \<Rightarrow> string \<Rightarrow> gerr" where
  "Wrapf e msg = Errorf (msg @ '': '' @ err_text e)"

definition ErrServerClosed :: gerr where
  "ErrServerClosed = Errorf ''http: Server closed''"

text \<open>The goroutine that closes the listener when the context ends is an event of the theory \<open>Shutdown\<close>.\<close>

definition APIServer_Run :: "(string \<Rightarrow> ('w, unit) go) \<Rightarrow> Config \<Rightarrow> ('w, 'c, 'd, unit) start" where
  "APIServer_Run ListenAndServe cfg = bindG (setv (\<lambda>p. p\<lparr>pv_started := True\<rparr>)) (\<lambda>_.
     tryG (lib (ListenAndServe (cfg_ListenAddr cfg))) ret (\<lambda>e. raise (Wrapf e ''http.server listen'')))"

definition serve :: "(string \<Rightarrow> ('w, unit) go) \<Rightarrow> Config \<Rightarrow> ('w, 'c, 'd, unit) start" where
  "serve ListenAndServe cfg = tryG (APIServer_Run ListenAndServe cfg) ret (\<lambda>e. if e = ErrServerClosed then ret () else raise e)"

definition run_apiserver :: "('w, 'c, 'd, 'x, 'h) kube_lib \<Rightarrow> 'w event_net \<Rightarrow> (string \<Rightarrow> string) \<Rightarrow> (string \<Rightarrow> ('w, unit) go) \<Rightarrow>
    ServerRunOptions \<Rightarrow> ('w, 'c, 'd, unit) start" where
  "run_apiserver k n getenv ListenAndServe s =
     bindG (NewAPIServer s) (\<lambda>cfg.
     bindG (if so_SkipKubeClient s then ret () else Init k) (\<lambda>_.
     bindG (getv pv_clientFactory) (\<lambda>f.
     bindG (NewIntegrationManager getenv f) (\<lambda>_.
     bindG (ClientConfig f) (\<lambda>config.
     bindG (NewWatchers k config) (\<lambda>_.
     bindG (watch systemenv_GVR) (\<lambda>_.
     bindG (spawn ''watchers'') (\<lambda>_.
     tryG (PrepareRun n cfg)
       (\<lambda>_. serve ListenAndServe cfg)
       (\<lambda>e. raise (Errorf (''apiserver prepare run: '' @ err_text e)))))))))))"

section \<open>The controller (cmd/backup-server/controller)\<close>

record ManagerOptions =
  mo_MetricsBindAddress :: string
  mo_Port :: int
  mo_HealthProbeBindAddress :: string
  mo_LeaderElection :: bool
  mo_LeaderElectionID :: string

record ('w, 'c) manager_lib =
  ml_NewManager :: "'c rest_config \<Rightarrow> ManagerOptions \<Rightarrow> ('w, unit) go"
  ml_AddHealthzCheck :: "string \<Rightarrow> ('w, unit) go"
  ml_AddReadyzCheck :: "string \<Rightarrow> ('w, unit) go"
  ml_Build :: "string \<Rightarrow> ('w, unit) go"
  ml_Start :: "('w, unit) go"

definition addFlags :: "smap \<Rightarrow> ManagerOptions" where
  "addFlags flags = \<lparr>mo_MetricsBindAddress = flag flags ''metrics-bind-address'' '':8080'', mo_Port = 9443,
     mo_HealthProbeBindAddress = flag flags ''health-probe-bind-address'' '':8081'',
     mo_LeaderElection = (flag flags ''leader-elect'' ''false'' = ''true''), mo_LeaderElectionID = ''326b4914.bytetrade.io''\<rparr>"

definition labelled :: "string \<Rightarrow> ('w, 'a) go \<Rightarrow> ('w, 'a) go" where
  "labelled msg m = tryG m ret (\<lambda>e. raise (Errorf (msg @ err_text e)))"

definition SetupWithManager :: "('w, 'c) manager_lib \<Rightarrow> string \<Rightarrow> ('c, 'd) factory option handlers \<Rightarrow> ('w, 'c, 'd, unit) start" where
  "SetupWithManager m name h = bindG (lib (ml_Build m name)) (\<lambda>_. setv (\<lambda>p. p\<lparr>pv_controllers := pv_controllers p @ [(name, h)]\<rparr>))"

definition run_controller :: "('w, 'c, 'd, 'x, 'h) kube_lib \<Rightarrow> 'w event_net \<Rightarrow> (string \<Rightarrow> string) \<Rightarrow> ('w, unit) go \<Rightarrow> ('w, 'c) manager_lib \<Rightarrow>
    ManagerOptions \<Rightarrow> ('c, 'd) factory option \<Rightarrow> ('w, 'c, 'd, unit) start" where
  "run_controller k n getenv add_cron m opts f =
     bindG (ClientConfig f) (\<lambda>c.
     bindG (labelled ''unable to start manager: '' (lib (ml_NewManager m c opts))) (\<lambda>_.
     bindG (labelled ''unable to set up health check: '' (lib (ml_AddHealthzCheck m ''healthz''))) (\<lambda>_.
     bindG (labelled ''unable to setup ready check: '' (lib (ml_AddReadyzCheck m ''readyz''))) (\<lambda>_.
     bindG (ClientConfig f) (\<lambda>config.
     bindG (NewWatchers k config) (\<lambda>_.
     bindG (watch systemenv_GVR) (\<lambda>_.
     bindG (spawn ''watchers'') (\<lambda>_.
     bindG (NewIntegrationManager getenv f) (\<lambda>_.
     bindG (sender (NewSender n)) (\<lambda>_.
     let handler = NewHandler f f in
     bindG (StartWorkerPool handler) (\<lambda>_.
     bindG (InitCrontabs add_cron) (\<lambda>_.
     bindG (labelled ''unable to create backup controller: '' (SetupWithManager m ''backup_controller'' handler)) (\<lambda>_.
     bindG (labelled ''unable to create snapshot controller: '' (SetupWithManager m ''snapshot_controller'' handler)) (\<lambda>_.
     bindG (labelled ''unable to create restore controller: '' (SetupWithManager m ''restore_controller'' handler)) (\<lambda>_.
     bindG (setv (\<lambda>p. p\<lparr>pv_started := True\<rparr>)) (\<lambda>_.
     labelled ''start manager: '' (lib (ml_Start m))))))))))))))))))"

definition Run_controller :: "('w, 'c, 'd, 'x, 'h) kube_lib \<Rightarrow> 'w event_net \<Rightarrow> (string \<Rightarrow> string) \<Rightarrow> ('w, unit) go \<Rightarrow> ('w, 'c) manager_lib \<Rightarrow>
    smap \<Rightarrow> ('w, 'c, 'd, unit) start" where
  "Run_controller k n getenv add_cron m flags =
     bindG (setv (\<lambda>p. p\<lparr>pv_logger := Some (InitLog (LevelText ''debug''))\<rparr>)) (\<lambda>_.
     bindG (lib (NewFactory k)) (\<lambda>f. run_controller k n getenv add_cron m (addFlags flags) (Some f)))"

section \<open>Reasoning about the start\<close>

text \<open>
  \<open>leads P m R\<close>: from a process with \<open>P\<close>, whatever \<open>m\<close> answers, \<open>R\<close> holds after it. \<open>est P m Q\<close> is a step
  of the start: a return gives \<open>Q\<close>, everything else leaves the process not started.
\<close>

definition leads :: "(('c, 'd) process \<Rightarrow> bool) \<Rightarrow> ('w, 'c, 'd, 'a) start \<Rightarrow> (('c, 'd) process \<Rightarrow> bool) \<Rightarrow> bool" where
  "leads P m R \<longleftrightarrow> (\<forall>w p r w' p'. P p \<longrightarrow> m (w, p) = (r, (w', p')) \<longrightarrow> R p')"

definition est :: "(('c, 'd) process \<Rightarrow> bool) \<Rightarrow> ('w, 'c, 'd, 'a) start \<Rightarrow> ('a \<Rightarrow> ('c, 'd) process \<Rightarrow> bool) \<Rightarrow> bool" where
  "est P m Q \<longleftrightarrow> (\<forall>w p r w' p'. P p \<longrightarrow> m (w, p) = (r, (w', p')) \<longrightarrow> (case r of Ret x \<Rightarrow> Q x p' | _ \<Rightarrow> \<not> pv_started p'))"

abbreviation idle :: "(('c, 'd) process \<Rightarrow> bool) \<Rightarrow> bool" where
  "idle P \<equiv> (\<forall>p. P p \<longrightarrow> \<not> pv_started p)"

lemma leads_bind:
  assumes m: "est P m Q" and f: "\<And>x. leads (Q x) (f x) R" and R: "\<forall>p. \<not> pv_started p \<longrightarrow> R p"
  shows "leads P (bindG m f) R"
  unfolding leads_def
proof (intro allI impI)
  fix w p r w' p'
  assume "P p" and "bindG m f (w, p) = (r, (w', p'))"
  moreover obtain r1 w1 p1 where "m (w, p) = (r1, (w1, p1))" by (metis prod.exhaust)
  ultimately show "R p'" using m f R
    by (cases r1) (fastforce simp: est_def leads_def bindG_apply)+
qed

lemma est_lib: "idle P \<Longrightarrow> est P (lib m) (\<lambda>_. P)"
  by (auto simp: est_def lib_def split: prod.splits outcome.splits)

lemma est_labelled: "est P m Q \<Longrightarrow> est P (labelled msg m) Q"
  unfolding est_def labelled_def tryG_def by (fastforce split: prod.splits outcome.splits)

lemma est_setv: "(\<And>p. P p \<Longrightarrow> Q (g p)) \<Longrightarrow> est P (setv g) (\<lambda>_. Q)"
  by (auto simp: est_def setv_def)

lemma est_getv: "est P (getv g) (\<lambda>x p. P p \<and> x = g p)"
  by (auto simp: est_def getv_def)

lemma est_bind: "est P m Q \<Longrightarrow> (\<And>x. est (Q x) (f x) R) \<Longrightarrow> est P (bindG m f) R"
  unfolding est_def bindG_apply by (fastforce split: prod.splits outcome.splits)

lemma est_sender:
  assumes "idle P" and "\<And>p d. P p \<Longrightarrow> ds_conn d \<noteq> None \<Longrightarrow> Q (p\<lparr>pv_sender := Some d\<rparr>)"
  shows "est P (sender (NewSender n)) (\<lambda>_. Q)"
  unfolding est_def
proof (intro allI impI)
  fix w p r w' p'
  assume p: "P p" and s: "sender (NewSender n) (w, p) = (r, (w', p'))"
  obtain r1 w1 where "en_connect n (nats_url (en_getenv n)) w = (r1, w1)" by fastforce
  with p s assms show "case r of Ret x \<Rightarrow> Q p' | _ \<Rightarrow> \<not> pv_started p'"
    by (cases r1) (auto simp: sender_def NewSender_def)
qed

lemma est_ClientConfig: "idle P \<Longrightarrow> est P (ClientConfig (Some f)) (\<lambda>_. P)"
  by (auto simp: est_def ClientConfig_def)

lemma est_InitCrontabs:
  assumes "idle P" and "\<And>p c. P p \<Longrightarrow> P (p\<lparr>pv_crontabs := c\<rparr>)"
  shows "est P (InitCrontabs add) (\<lambda>_. P)"
  unfolding est_def
proof (intro allI impI)
  fix w p r w' p'
  assume p: "P p" and s: "InitCrontabs add (w, p) = (r, (w', p'))"
  obtain r1 w1 where "add w = (r1, w1)" by fastforce
  with p s assms show "case r of Ret x \<Rightarrow> P p' | _ \<Rightarrow> \<not> pv_started p'"
    by (cases r1) (auto simp: InitCrontabs_def lib_def tryG_def setv_def)
qed

lemma leads_end: "(\<And>w p r w' p'. m (w, p) = (r, (w', p')) \<Longrightarrow> p' = p) \<Longrightarrow> (\<forall>p. P p \<longrightarrow> R p) \<Longrightarrow> leads P m R"
  unfolding leads_def by metis

lemma labelled_lib_keeps: "labelled msg (lib m) (w, p) = (r, (w', p')) \<Longrightarrow> p' = p"
  by (auto simp: labelled_def lib_def tryG_def split: prod.splits outcome.splits)

section \<open>The controller starts with everything in place\<close>

definition enabled_controllers :: "string list" where
  "enabled_controllers = [''backup_controller'', ''snapshot_controller'', ''restore_controller'']"

definition ready :: "('c, 'd) process \<Rightarrow> bool" where
  "ready p \<longleftrightarrow> (\<exists>f s. map_option is_Factory (pv_integration p) = Some (Some f) \<and> pv_sender p = Some s \<and> ds_conn s \<noteq> None
    \<and> pv_workers p = Some (NewWorkerPool, NewHandler (Some f) (Some f))
    \<and> pv_controllers p = map (\<lambda>n. (n, NewHandler (Some f) (Some f))) enabled_controllers
    \<and> pv_watched p = [systemenv_GVR] \<and> pv_goroutines p = [''watchers''])"

text \<open>\<open>stage i f\<close>: the first \<open>i\<close> of the eight steps that set a variable are done.\<close>

definition stage :: "nat \<Rightarrow> ('c, 'd) factory \<Rightarrow> ('c, 'd) process \<Rightarrow> bool" where
  "stage i f p \<longleftrightarrow> \<not> pv_started p
    \<and> pv_watched p = (if i < 1 then [] else [systemenv_GVR])
    \<and> pv_goroutines p = (if i < 2 then [] else [''watchers''])
    \<and> (3 \<le> i \<longrightarrow> map_option is_Factory (pv_integration p) = Some (Some f))
    \<and> (4 \<le> i \<longrightarrow> (\<exists>s. pv_sender p = Some s \<and> ds_conn s \<noteq> None))
    \<and> (5 \<le> i \<longrightarrow> pv_workers p = Some (NewWorkerPool, NewHandler (Some f) (Some f)))
    \<and> pv_controllers p = map (\<lambda>n. (n, NewHandler (Some f) (Some f))) (take (i - 5) enabled_controllers)"

lemma stage_idle: "idle (stage i f)"
  by (simp add: stage_def)

lemma stage_lib: "est (stage i f) (labelled msg (lib m)) (\<lambda>_. stage i f)"
  by (rule est_labelled) (rule est_lib[OF stage_idle])

lemma stage_setup:
  "est (stage 5 f) (labelled msg (SetupWithManager m ''backup_controller'' (NewHandler (Some f) (Some f)))) (\<lambda>_. stage 6 f)"
  "est (stage 6 f) (labelled msg (SetupWithManager m ''snapshot_controller'' (NewHandler (Some f) (Some f)))) (\<lambda>_. stage 7 f)"
  "est (stage 7 f) (labelled msg (SetupWithManager m ''restore_controller'' (NewHandler (Some f) (Some f)))) (\<lambda>_. stage 8 f)"
  unfolding SetupWithManager_def
  by (rule est_labelled, rule est_bind, rule est_lib[OF stage_idle], rule est_setv, force simp: stage_def enabled_controllers_def)+

lemma stage_vars:
  "est (stage 0 f) (NewWatchers k c) (\<lambda>_. stage 0 f)"
  "est (stage 0 f) (watch systemenv_GVR) (\<lambda>_. stage 1 f)"
  "est (stage 1 f) (spawn ''watchers'') (\<lambda>_. stage 2 f)"
  "est (stage 2 f) (NewIntegrationManager getenv (Some f)) (\<lambda>_. stage 3 f)"
  "est (stage 3 f) (sender (NewSender n)) (\<lambda>_. stage 4 f)"
  "est (stage 4 f) (StartWorkerPool (NewHandler (Some f) (Some f))) (\<lambda>_. stage 5 f)"
  "est (stage 5 f) (InitCrontabs add) (\<lambda>_. stage 5 f)"
  unfolding NewWatchers_def watch_def spawn_def NewIntegrationManager_def StartWorkerPool_def
  by (auto intro!: est_bind[OF est_lib] est_setv est_sender est_InitCrontabs simp: stage_def)

lemma stage_ready: "stage 8 f p \<Longrightarrow> ready (p\<lparr>pv_started := True\<rparr>)"
  by (auto simp: stage_def ready_def enabled_controllers_def)

lemma leads_mono: "leads P m R \<Longrightarrow> (\<And>p. P' p \<Longrightarrow> P p) \<Longrightarrow> leads P' m R"
  unfolding leads_def by blast

lemma stage_bind:
  "est P m (\<lambda>_. Q) \<Longrightarrow> (\<And>x. leads Q (f x) (\<lambda>p. pv_started p \<longrightarrow> ready p)) \<Longrightarrow> leads P (bindG m f) (\<lambda>p. pv_started p \<longrightarrow> ready p)"
  by (rule leads_bind) auto

lemma stage_start: "leads (stage 8 f) (bindG (setv (\<lambda>p. p\<lparr>pv_started := True\<rparr>)) (\<lambda>_. labelled msg (lib m))) (\<lambda>p. pv_started p \<longrightarrow> ready p)"
proof (rule stage_bind[where Q = ready])
  show "est (stage 8 f) (setv (\<lambda>p. p\<lparr>pv_started := True\<rparr>)) (\<lambda>_. ready)" by (rule est_setv) (rule stage_ready)
  show "leads ready (labelled msg (lib m)) (\<lambda>p. pv_started p \<longrightarrow> ready p)" by (rule leads_end[OF labelled_lib_keeps]) auto
qed

lemmas stage_chain = stage_bind[OF est_ClientConfig[OF stage_idle]] stage_bind[OF stage_lib] stage_start
  stage_vars[THEN stage_bind]
  stage_setup[THEN stage_bind]

lemma run_controller_stages: "leads (stage 0 f) (run_controller k n getenv add_cron m opts (Some f)) (\<lambda>p. pv_started p \<longrightarrow> ready p)"
  unfolding run_controller_def Let_def
  by (rule stage_chain)+

text \<open>C18: when the manager of the controller process is started, everything its reconcilers use is in place:
  the integration service, the worker pool and the handlers hold the same non-nil factory, the NATS
  sender is connected, all three controllers are registered and the \<open>SystemEnv\<close> resource is watched; an
  error or panic before that point leaves the manager unstarted.\<close>

theorem controller_starts_ready:
  assumes "Run_controller k n getenv add_cron m flags (w, fresh_process) = (r, (w', p))" and "pv_started p"
  shows "ready p"
proof -
  have "leads (\<lambda>p. p = fresh_process) (Run_controller k n getenv add_cron m flags) (\<lambda>p. pv_started p \<longrightarrow> ready p)"
    unfolding Run_controller_def
  proof (rule stage_bind)
    show "est (\<lambda>p. p = fresh_process) (setv (\<lambda>p. p\<lparr>pv_logger := Some (InitLog (LevelText ''debug''))\<rparr>)) (\<lambda>_ p. \<forall>f. stage 0 f p)"
      by (rule est_setv) (simp add: stage_def fresh_process_def)
    show "leads (\<lambda>p. \<forall>f. stage 0 f p) (bindG (lib (NewFactory k)) (\<lambda>f. run_controller k n getenv add_cron m (addFlags flags) (Some f)))
        (\<lambda>p. pv_started p \<longrightarrow> ready p)"
      by (rule stage_bind, rule est_lib) (auto simp: stage_def intro: leads_mono[OF run_controller_stages])
  qed
  thus ?thesis using assms unfolding leads_def by blast
qed

text \<open>Libraries that answer every call, for the witnesses.\<close>

definition demo_kube :: "(nat, nat, nat, unit, unit) kube_lib" where
  "demo_kube = \<lparr>kl_GetConfig = ret \<lparr>rc_Burst = 0, rc_QPS = 0, rc_UserAgent = [], rc_RateLimiter = None, rc_GroupVersion = [], rc_APIPath = [], rc_rest = 7\<rparr>, kl_dynamic = (\<lambda>c. ret (rc_rest c)),
     kl_kubernetes = (\<lambda>_. ret ()), 
     kl_client = \<lparr>cl_HTTPClientFor = (\<lambda>_. ret ()), cl_RESTClient = (\<lambda>_ _. ret \<lparr>rest_Do = (\<lambda>_. ret StatusObj), rest_Watch = (\<lambda>_. ret ())\<rparr>),
       cl_Discovery = (\<lambda>_ _. ret ()), cl_DefaultUserAgent = ''backup-server''\<rparr>\<rparr>"

definition demo_manager :: "(nat, nat) manager_lib" where
  "demo_manager = \<lparr>ml_NewManager = (\<lambda>_ _. ret ()), ml_AddHealthzCheck = (\<lambda>_. ret ()), ml_AddReadyzCheck = (\<lambda>_. ret ()),
     ml_Build = (\<lambda>_. ret ()), ml_Start = ret ()\<rparr>"

lemmas start_defs = NewFactory_def lib_def setv_def getv_def sender_def NewSender_def ClientConfig_def NewWatchers_def or_die_def
  watch_def spawn_def NewIntegrationManager_def StartWorkerPool_def InitCrontabs_def SetupWithManager_def labelled_def Init_def

theorem controller_starts_ready_witness:
  "\<exists>w p. Run_controller demo_kube demo_net (\<lambda>_. []) (ret ()) demo_manager [] (0, fresh_process) = (Ret (), (w, p)) \<and> pv_started p \<and> ready p"
proof -
  obtain r w p where run: "Run_controller demo_kube demo_net (\<lambda>_. []) (ret ()) demo_manager [] (0, fresh_process) = (r, (w, p))"
    by (metis prod.exhaust)
  have "r = Ret () \<and> pv_started p"
    using run by (auto simp: Run_controller_def run_controller_def start_defs demo_kube_def demo_manager_def demo_net_def
        bindG_apply tryG_def Let_def split: prod.splits)
  thus ?thesis using run controller_starts_ready[OF run] by blast
qed

section \<open>What the API server's run answers\<close>

text \<open>The documentation of \<open>ListenAndServe\<close>: it always returns a non-nil error.\<close>

definition listen_law :: "(string \<Rightarrow> ('w, unit) go) \<Rightarrow> bool" where
  "listen_law L \<longleftrightarrow> (\<forall>a w. \<exists>e w'. L a w = (Fail e, w'))"

lemma Wrapf_not_closed: "Wrapf e ''http.server listen'' \<noteq> ErrServerClosed"
  by (simp add: Wrapf_def ErrServerClosed_def)

lemma APIServer_Run_fails:
  assumes "listen_law L"
  shows "\<exists>e w' p'. APIServer_Run L cfg (w, p) = (Fail (Wrapf e ''http.server listen''), (w', p'))"
proof -
  obtain e w' where "L (cfg_ListenAddr cfg) w = (Fail e, w')" using assms unfolding listen_law_def by blast
  thus ?thesis by (auto simp: APIServer_Run_def setv_def lib_def bindG_apply tryG_def)
qed

definition never_nil :: "('w, unit) go \<Rightarrow> bool" where
  "never_nil m \<longleftrightarrow> (\<forall>w. fst (m w) \<noteq> Ret ())"

lemma never_nil_bind: "(\<And>x. never_nil (f x)) \<Longrightarrow> never_nil (bindG m f)"
  by (auto simp: never_nil_def bindG_apply split: prod.splits outcome.splits)

lemma never_nil_try: "(\<And>x. never_nil (f x)) \<Longrightarrow> never_nil (tryG m f (\<lambda>e. raise (h e)))"
  by (auto simp: never_nil_def tryG_def split: prod.splits outcome.splits)

lemma serve_fails:
  assumes "listen_law L"
  shows "\<exists>e w' p'. serve L cfg (w, p) = (Fail (Wrapf e ''http.server listen''), (w', p'))"
proof -
  obtain e w' p' where "APIServer_Run L cfg (w, p) = (Fail (Wrapf e ''http.server listen''), (w', p'))"
    using APIServer_Run_fails[OF assms] by metis
  thus ?thesis by (auto simp: serve_def tryG_def Wrapf_not_closed)
qed

lemma never_nil_serve:
  assumes "listen_law L"
  shows "never_nil (serve L cfg)"
  unfolding never_nil_def split_paired_All using serve_fails[OF assms, of cfg] by (metis fst_conv outcome.distinct(1))

text \<open>The API server never ends without an error, not even after a graceful shutdown: \<open>pkg/apiserver\<close>
  wraps the error of \<open>ListenAndServe\<close>, so the command's comparison with \<open>http.ErrServerClosed\<close> is never
  true and \<open>run\<close> does not return nil in any start, whatever the libraries answer.\<close>

theorem run_apiserver_never_nil:
  assumes "listen_law L"
  shows "fst (run_apiserver k n getenv L s (w, p)) \<noteq> Ret ()"
proof -
  have "never_nil (run_apiserver k n getenv L s)"
    unfolding run_apiserver_def by (intro never_nil_bind never_nil_try never_nil_serve assms)
  thus ?thesis by (simp add: never_nil_def)
qed

definition closing_listener :: "string \<Rightarrow> (nat, unit) go" where
  "closing_listener = (\<lambda>_ w. (Fail ErrServerClosed, Suc w))"

theorem run_apiserver_never_nil_witness:
  "fst (run_apiserver demo_kube demo_net (\<lambda>_. []) closing_listener
     (AddFlags [] \<lparr>so_LogLevel = [], so_SkipKubeClient = False, so_ListenAddr = [], so_APIRoutePrefix = []\<rparr>) (0, fresh_process)) \<noteq> Ret ()"
  by (rule run_apiserver_never_nil) (simp add: listen_law_def closing_listener_def)

text \<open>The API server cannot run without a Kubernetes client: with \<open>--skip-kubeclient\<close> the factory stays nil,
  and asking it for the client configuration panics before any route is installed or any address listened
  on.\<close>

theorem skip_kube_client_panics:
  assumes "so_SkipKubeClient s" and "pv_clientFactory p = None"
  shows "\<exists>p'. run_apiserver k n getenv L s (w, p) = (Panic nil_factory, (w, p'))
    \<and> pv_routes p' = pv_routes p \<and> pv_started p' = pv_started p"
  using assms by (simp add: run_apiserver_def NewAPIServer_def start_defs bindG_apply tryG_def)

theorem skip_kube_client_panics_witness:
  "\<exists>p'. run_apiserver demo_kube demo_net (\<lambda>_. []) closing_listener
     (AddFlags [] \<lparr>so_LogLevel = [], so_SkipKubeClient = True, so_ListenAddr = [], so_APIRoutePrefix = []\<rparr>) (0, fresh_process)
     = (Panic nil_factory, (0, p')) \<and> \<not> pv_started p'"
proof -
  let ?s = "AddFlags [] \<lparr>so_LogLevel = [], so_SkipKubeClient = True, so_ListenAddr = [], so_APIRoutePrefix = []\<rparr>"
  have "so_SkipKubeClient ?s" "pv_clientFactory fresh_process = None" "\<not> pv_started fresh_process"
    by (simp_all add: AddFlags_def fresh_process_def)
  thus ?thesis using skip_kube_client_panics[of ?s fresh_process demo_kube demo_net "\<lambda>_. []" closing_listener 0] by metis
qed

end
