(* ===== verification/Shutdown.thy ===== *)
theory Shutdown
  imports Startup
begin

text \<open>
  The end of the API server process: the signal handler (\<open>pkg/signals\<close>), \<open>Run\<close> of the command
  (\<open>cmd/backup-server/apiserver\<close>) with its channel of errors, the goroutine that serves and the one that
  shuts the listener down (\<open>pkg/apiserver\<close>), and \<open>main\<close>. The process is a state and a function that performs
  one event when it is enabled; the schedule is a list of events.
\<close>

section \<open>Signals (signals.go)\<close>

text \<open>\<open>sg_onlyOne\<close>: the channel \<open>onlyOneSignalHandler\<close> is closed. \<open>sg_handler\<close>: the number of signals in the
  channel \<open>shutdownHandler\<close>, which has room for two; \<open>None\<close> is the nil channel.\<close>

record signal_state =
  sg_onlyOne :: bool
  sg_handler :: "nat option"

definition SetupSignalContext :: "(signal_state, unit) go" where
  "SetupSignalContext s = (if sg_onlyOne s then (Panic ''close of closed channel'', s)
     else (Ret (), s\<lparr>sg_onlyOne := True, sg_handler := Some 0\<rparr>))"

definition SetupSignalHandler :: "(signal_state, unit) go" where
  "SetupSignalHandler = SetupSignalContext"

definition RequestShutdown :: "signal_state \<Rightarrow> bool \<times> signal_state" where
  "RequestShutdown s = (case sg_handler s of
      None \<Rightarrow> (False, s)
    | Some n \<Rightarrow> if n < 2 then (True, s\<lparr>sg_handler := Some (Suc n)\<rparr>) else (False, s))"

text \<open>The handler goroutine takes one signal out of the channel.\<close>

definition take_signal :: "signal_state \<Rightarrow> signal_state option" where
  "take_signal s = (case sg_handler s of Some (Suc n) \<Rightarrow> Some (s\<lparr>sg_handler := Some n\<rparr>) | _ \<Rightarrow> None)"

lemma SetupSignalContext_once: "SetupSignalContext s = (Ret (), s') \<Longrightarrow> fst (SetupSignalContext s') = Panic ''close of closed channel''"
  by (auto simp: SetupSignalContext_def split: if_splits)

section \<open>The process\<close>

datatype main_state = Waiting | Returned "gerr option"

datatype run_state = Preparing | Serving | Sending gerr | Ended

text \<open>\<open>ap_got\<close> counts the signals sent to the process. Exit code 2 is the one of a panic.\<close>

record api_process =
  ap_sig :: signal_state
  ap_got :: nat
  ap_ctx :: bool
  ap_ictx :: bool
  ap_main :: main_state
  ap_run :: run_state
  ap_closed :: bool
  ap_exit :: "nat option"

definition api_start :: api_process where
  "api_start = \<lparr>ap_sig = \<lparr>sg_onlyOne = True, sg_handler = Some 0\<rparr>, ap_got = 0, ap_ctx = False, ap_ictx = False, ap_main = Waiting,
     ap_run = Preparing, ap_closed = False, ap_exit = None\<rparr>"

datatype api_event =
    Deliver
  | HandleSignal
  | Prepared "unit outcome"
  | ListenReturns gerr
  | CloseListener
  | ContextDone
  | ReceiveError
  | SendOnClosed
  | MainExits

text \<open>What \<open>run\<close> returns after \<open>ListenAndServe\<close> has returned \<open>e\<close>.\<close>

definition serve_answer :: "gerr \<Rightarrow> gerr option" where
  "serve_answer e = (case fst (serve (\<lambda>_ w. (Fail e, w)) \<lparr>cfg_ListenAddr = [], cfg_APIRoutePrefix = []\<rparr> ((), fresh_process :: (unit, unit) process)) of
      Fail e' \<Rightarrow> Some e' | _ \<Rightarrow> None)"

text \<open>\<open>errCh <- err\<close> waits until \<open>Run\<close> receives; a send on the channel that \<open>Run\<close> has closed panics.\<close>

definition run_returns :: "gerr option \<Rightarrow> api_process \<Rightarrow> api_process" where
  "run_returns e s = s\<lparr>ap_run := (case e of None \<Rightarrow> Ended | Some e \<Rightarrow> Sending e)\<rparr>"

fun api_do :: "api_event \<Rightarrow> api_process \<Rightarrow> api_process option" where
  "api_do Deliver s = (if ap_exit s \<noteq> None then None
     else Some (s\<lparr>ap_sig := snd (RequestShutdown (ap_sig s)), ap_got := Suc (ap_got s)\<rparr>))"
| "api_do HandleSignal s = (if ap_exit s \<noteq> None then None else case take_signal (ap_sig s) of
      None \<Rightarrow> None
    | Some c \<Rightarrow> Some (if ap_ctx s then s\<lparr>ap_sig := c, ap_exit := Some 1\<rparr> else s\<lparr>ap_sig := c, ap_ctx := True\<rparr>))"
| "api_do (Prepared r) s = (if ap_exit s \<noteq> None \<or> ap_run s \<noteq> Preparing then None else case r of
      Ret _ \<Rightarrow> Some (s\<lparr>ap_run := Serving\<rparr>)
    | Fail e \<Rightarrow> Some (run_returns (Some e) s)
    | Panic _ \<Rightarrow> Some (s\<lparr>ap_exit := Some 2\<rparr>)
    | Diverge \<Rightarrow> None)"
| "api_do (ListenReturns e) s = (if ap_exit s \<noteq> None \<or> ap_run s \<noteq> Serving \<or> (e = ErrServerClosed \<and> \<not> ap_closed s) then None
     else Some (run_returns (serve_answer e) s))"
| "api_do CloseListener s = (if ap_exit s \<noteq> None \<or> \<not> ap_ictx s \<or> ap_run s = Preparing then None else Some (s\<lparr>ap_closed := True\<rparr>))"
| "api_do ContextDone s = (if ap_exit s \<noteq> None \<or> ap_main s \<noteq> Waiting \<or> \<not> ap_ctx s then None
     else Some (s\<lparr>ap_ictx := True, ap_main := Returned None\<rparr>))"
| "api_do ReceiveError s = (if ap_exit s \<noteq> None \<or> ap_main s \<noteq> Waiting then None else case ap_run s of
      Sending e \<Rightarrow> Some (s\<lparr>ap_run := Ended, ap_ictx := True, ap_main := Returned (Some e)\<rparr>)
    | _ \<Rightarrow> None)"
| "api_do SendOnClosed s = (if ap_exit s \<noteq> None \<or> ap_main s = Waiting then None else case ap_run s of
      Sending e \<Rightarrow> Some (s\<lparr>ap_exit := Some 2\<rparr>)
    | _ \<Rightarrow> None)"
| "api_do MainExits s = (if ap_exit s \<noteq> None then None else case ap_main s of
      Returned None \<Rightarrow> Some (s\<lparr>ap_exit := Some 0\<rparr>)
    | Returned (Some e) \<Rightarrow> Some (s\<lparr>ap_exit := Some 1\<rparr>)
    | Waiting \<Rightarrow> None)"

fun api_run :: "api_event list \<Rightarrow> api_process \<Rightarrow> api_process option" where
  "api_run [] s = Some s"
| "api_run (e # es) s = Option.bind (api_do e s) (api_run es)"

inductive api_reachable :: "api_process \<Rightarrow> bool" where
  start: "api_reachable api_start"
| step: "api_reachable s \<Longrightarrow> api_do e s = Some s' \<Longrightarrow> api_reachable s'"

lemma api_run_reachable: "api_run es s = Some s' \<Longrightarrow> api_reachable s \<Longrightarrow> api_reachable s'"
  by (induction es arbitrary: s) (auto split: Option.bind_splits intro: api_reachable.step)

lemma serve_answer_Some: "serve_answer e = Some (Wrapf e ''http.server listen'')"
  by (simp add: serve_answer_def serve_def APIServer_Run_def setv_def lib_def bindG_apply tryG_def Wrapf_not_closed)

lemma run_returns_simps [simp]:
  "ap_run (run_returns e s) = (case e of None \<Rightarrow> Ended | Some e \<Rightarrow> Sending e)"
  "ap_main (run_returns e s) = ap_main s" "ap_exit (run_returns e s) = ap_exit s" "ap_got (run_returns e s) = ap_got s"
  "ap_ctx (run_returns e s) = ap_ctx s" "ap_ictx (run_returns e s) = ap_ictx s" "ap_sig (run_returns e s) = ap_sig s"
  "ap_closed (run_returns e s) = ap_closed s"
  by (simp_all add: run_returns_def)

section \<open>Exit codes\<close>

definition exit_inv :: "api_process \<Rightarrow> bool" where
  "exit_inv s \<longleftrightarrow> (\<exists>n. sg_handler (ap_sig s) = Some n \<and> n + (if ap_ctx s then 1 else 0) \<le> ap_got s)
    \<and> (ap_main s = Returned None \<longrightarrow> ap_ctx s)
    \<and> (\<forall>e. ap_main s = Returned (Some e) \<longrightarrow> ap_run s = Ended)
    \<and> (ap_exit s = Some 0 \<longrightarrow> ap_main s = Returned None)
    \<and> (ap_exit s = Some 1 \<longrightarrow> 2 \<le> ap_got s \<or> (\<exists>e. ap_main s = Returned (Some e)))
    \<and> (ap_exit s = Some 2 \<longrightarrow> ap_run s = Preparing \<or> ap_main s = Returned None)"

lemma exit_inv_start: "exit_inv api_start"
  by (simp add: exit_inv_def api_start_def)

lemma exit_inv_signals:
  "exit_inv s \<Longrightarrow> api_do Deliver s = Some s' \<Longrightarrow> exit_inv s'"
  "exit_inv s \<Longrightarrow> api_do HandleSignal s = Some s' \<Longrightarrow> exit_inv s'"
  by (auto simp: exit_inv_def RequestShutdown_def take_signal_def split: if_splits option.splits nat.splits)

lemma exit_inv_server:
  "exit_inv s \<Longrightarrow> api_do (Prepared r) s = Some s' \<Longrightarrow> exit_inv s'"
  "exit_inv s \<Longrightarrow> api_do (ListenReturns e) s = Some s' \<Longrightarrow> exit_inv s'"
  "exit_inv s \<Longrightarrow> api_do CloseListener s = Some s' \<Longrightarrow> exit_inv s'"
  by (auto simp: exit_inv_def serve_answer_Some split: if_splits outcome.splits)

lemma exit_inv_main:
  "exit_inv s \<Longrightarrow> api_do ContextDone s = Some s' \<Longrightarrow> exit_inv s'"
  "exit_inv s \<Longrightarrow> api_do ReceiveError s = Some s' \<Longrightarrow> exit_inv s'"
  "exit_inv s \<Longrightarrow> api_do MainExits s = Some s' \<Longrightarrow> exit_inv s'"
  by (auto simp: exit_inv_def split: if_splits run_state.splits main_state.splits option.splits)

lemma exit_inv_send: "exit_inv s \<Longrightarrow> api_do SendOnClosed s = Some s' \<Longrightarrow> exit_inv s'"
  by (cases "ap_main s") (auto simp: exit_inv_def split: if_splits run_state.splits)

lemma exit_inv_step: "exit_inv s \<Longrightarrow> api_do e s = Some s' \<Longrightarrow> exit_inv s'"
  using exit_inv_signals exit_inv_server exit_inv_main exit_inv_send by (cases e) blast+

lemma exit_inv_reachable: "api_reachable s \<Longrightarrow> exit_inv s"
  by (induction rule: api_reachable.induct) (auto intro: exit_inv_start exit_inv_step)

text \<open>C19: the exit codes of the API server process: in every interleaving of signals, goroutines and \<open>main\<close>, it
  ends with 0 only after a signal; with 1 only when \<open>Run\<close> returned an error or two signals came; and it
  crashes only while it is being prepared or after a signal.\<close>

theorem api_exit_codes:
  assumes "api_reachable s" and "ap_exit s = Some c"
  shows "(c = 0 \<longrightarrow> 1 \<le> ap_got s) \<and> (c = 1 \<longrightarrow> 2 \<le> ap_got s \<or> (\<exists>e. ap_main s = Returned (Some e)))
    \<and> (c = 2 \<longrightarrow> ap_run s = Preparing \<or> 1 \<le> ap_got s)"
  using exit_inv_reachable[OF assms(1)] assms(2) by (auto simp: exit_inv_def)

definition terminated_schedule :: "api_event list" where
  "terminated_schedule = [Prepared (Ret ()), Deliver, HandleSignal, ContextDone, CloseListener, ListenReturns ErrServerClosed]"

theorem api_exit_codes_witness:
  "\<exists>s. api_run (terminated_schedule @ [MainExits]) api_start = Some s \<and> ap_exit s = Some 0 \<and> 1 \<le> ap_got s"
proof -
  obtain s where s: "api_run (terminated_schedule @ [MainExits]) api_start = Some s" and x: "ap_exit s = Some 0"
    by (simp add: terminated_schedule_def api_start_def RequestShutdown_def take_signal_def serve_answer_Some run_returns_def)
  from api_exit_codes[OF api_run_reachable[OF s api_reachable.start] x] s x show ?thesis by auto
qed

text \<open>C39: a graceful shutdown of the API server may crash: after one signal, once the listener has been closed, it
  depends on who is scheduled next whether the process ends with 0 or panics on sending to the channel
  that \<open>Run\<close> has closed; the error sent is the wrapped \<open>http.ErrServerClosed\<close>.\<close>

theorem graceful_shutdown_may_crash:
  "\<exists>s. api_run terminated_schedule api_start = Some s \<and> ap_got s = 1
    \<and> ap_run s = Sending (Wrapf ErrServerClosed ''http.server listen'')
    \<and> map_option ap_exit (api_do MainExits s) = Some (Some 0) \<and> map_option ap_exit (api_do SendOnClosed s) = Some (Some 2)"
  by (simp add: terminated_schedule_def api_start_def RequestShutdown_def take_signal_def serve_answer_Some run_returns_def)

end
