(* ===== verification/Spec2Isabelle.thy ===== *)
theory Spec2Isabelle
  imports Prelude GoStrings StrConv Json ApiTypes Utils SyncMap Kube Helpers BackupHandler SnapshotHandler
    RestoreHandler Worker Calendar NextBackup RepoUrl Pager Integration Float64 Services AppService
    BackupRun BackupRunFacts RestoreRun RestoreRunFacts Controllers ControllersFacts
    ApiModel ApiPlan ApiHandlers ApiRestores ApiFacts WorkerRefine
    UrlJoin Watchers WatcherFacts Crontab Notification Server ServerFacts
    CancelFlow RestoreFlow Files Pointers DeepCopy Clientset Informers Startup Shutdown
begin

text \<open>
  A verification development for the backup server of Olares (\<open>olares.com/backup-server\<close>, Go).

  The program. Two processes are built from the repository. The API server (\<open>pkg/apiserver\<close>,
  \<open>pkg/modules/backup/v1\<close>) lets a user create backup plans, ask for snapshots and restores and read
  their state; it stores them as the custom resources \<open>Backup\<close> (a plan), \<open>Snapshot\<close> (one run of a plan)
  and \<open>Restore\<close>. The controller process (\<open>pkg/controllers\<close>) reconciles these resources: it keeps one
  cron job per enabled plan, whose job creates a snapshot, and puts new snapshots and restores into the
  pool of their owner (\<open>pkg/worker\<close>), which runs one task at a time. A task runs \<open>pkg/storage\<close>: it
  checks the plan, asks an application or the file system for the data, hands the work to the backup SDK
  (restic), reports the progress and writes the result into the resource. The handlers of the resources
  (\<open>pkg/handlers\<close>), the accounts and tokens (\<open>pkg/integration\<close>), the messages to Olares Space
  (\<open>pkg/notify\<close>) and the watchers (\<open>pkg/watchers\<close>) serve both.

  Conventions. A Go function that can fail is a function into \<open>outcome\<close> (\<open>Ret\<close>, \<open>Fail\<close> an error,
  \<open>Panic\<close>, \<open>Diverge\<close> a loop out of fuel); one with effects is a \<open>go\<close>, a function from the world to an
  outcome and the world after it (theory \<open>Prelude\<close>). The world is abstract: what the program calls
  outside itself is a field of a record of services (\<open>kube\<close>, \<open>services\<close>, \<open>api\<close>, \<open>backup_sdk\<close>,
  \<open>restore_sdk\<close>, \<open>cron_lib\<close>, \<open>workqueue\<close>, \<open>event_net\<close>, \<open>client_lib\<close>, \<open>kube_lib\<close>, \<open>manager_lib\<close>), and the laws a theorem needs of it are its
  hypotheses. Witnesses run on \<open>mem_api\<close>, an API server in memory with resource versions and conflicts,
  and its extensions \<open>mem_services\<close> and \<open>mem_web\<close>. Pointers are options, a nil dereference is a panic, \<open>int64\<close> arithmetic is
  \<open>i64\<close> around \<open>int\<close>, \<open>uint64\<close> is \<open>64 word\<close>, \<open>float64\<close> products are rounded rationals, strings are
  lists of bytes and JSON texts are parsed and printed as \<open>encoding/json\<close> does.

  Theories and the code they model.

    \<^item> Language and library: \<open>Prelude\<close>; \<open>GoStrings\<close>, \<open>StrConv\<close>, \<open>Json\<close> (with the round trip of printing and
      parsing), \<open>SyncMap\<close> (\<open>pkg/cache\<close>), \<open>Calendar\<close> (civil dates in UTC), \<open>Float64\<close>, \<open>UrlJoin\<close>.
    \<^item> Data: \<open>ApiTypes\<close> (\<open>pkg/apis\<close>, \<open>pkg/constant\<close>), \<open>Utils\<close> and \<open>Files\<close> (\<open>pkg/util\<close>; the size of a tree of files).
    \<^item> Handlers: \<open>Kube\<close> (services, the loop that retries on a conflict, the contract \<open>api_writer\<close> of its users),
      \<open>Helpers\<close>, \<open>Pager\<close>, \<open>NextBackup\<close>, \<open>RepoUrl\<close> (\<open>helper.go\<close>, \<open>pkg/util/repo\<close>), \<open>BackupHandler\<close>,
      \<open>SnapshotHandler\<close>, \<open>RestoreHandler\<close> (\<open>handler_backup.go\<close>, \<open>handler_snapshot.go\<close>,
      \<open>handler_restore.go\<close>), \<open>AppService\<close> (\<open>handler_app.go\<close>, \<open>pkg/notify\<close>).
    \<^item> Worker: \<open>Worker\<close> (\<open>pkg/worker\<close>: tables, queues and flags over a heap of tasks, a step relation) and
      \<open>WorkerRefine\<close> (its specification: one queue of jobs per owner).
    \<^item> Accounts: \<open>Integration\<close> (\<open>pkg/integration\<close>, the two token caches).
    \<^item> Runs: \<open>Services\<close>, \<open>BackupRun\<close>, \<open>RestoreRun\<close> (\<open>pkg/storage\<close>) with \<open>BackupRunFacts\<close>, \<open>RestoreRunFacts\<close>.
    \<^item> Controllers: \<open>Controllers\<close>, \<open>ControllersFacts\<close> (\<open>pkg/controllers\<close>: reconcilers and event filters).
    \<^item> HTTP API: \<open>ApiModel\<close> (\<open>model.go\<close>), \<open>ApiPlan\<close> (\<open>backup_schedule.go\<close>), \<open>ApiHandlers\<close> and
      \<open>ApiRestores\<close> (\<open>handler.go\<close>), \<open>ApiFacts\<close>.
    \<^item> Server: \<open>Server\<close>, \<open>ServerFacts\<close> (\<open>register.go\<close>, \<open>pkg/apiserver\<close>: routes, filters, recovery).
    \<^item> Watchers: \<open>Watchers\<close>, \<open>WatcherFacts\<close> (\<open>pkg/watchers\<close>, the \<open>SystemEnv\<close> subscriber), \<open>Crontab\<close>,
      \<open>Notification\<close> (\<open>pkg/watchers/notification\<close>).
    \<^item> Clients: \<open>Clientset\<close> (\<open>pkg/generated/clientset\<close>: construction and typed methods as REST requests),
      \<open>Informers\<close> (\<open>pkg/generated/informers\<close>, \<open>pkg/generated/listers\<close>: the factory and its goroutines),
      \<open>DeepCopy\<close> (\<open>zz_generated.deepcopy.go\<close> over a memory of cells; the contract \<open>copier\<close>),
      \<open>Pointers\<close> (\<open>pkg/util/pointer\<close>).
    \<^item> Processes: \<open>Startup\<close> (\<open>cmd/backup-server\<close>, \<open>pkg/client\<close>, \<open>handlers.go\<close>: flags, the variables of the process
      and the order in which they are set), \<open>Shutdown\<close> (\<open>pkg/signals\<close>, the goroutines and channels of the API
      server as a step relation).
    \<^item> \<open>CancelFlow\<close>, \<open>RestoreFlow\<close> and this theory: the way of a cancelled snapshot, a requested restore and a
      requested snapshot through API, controller and worker.

  What the lemmas show, by group.

    \<^item> State: the tables of the worker are well formed and a plan has at most one task that is not
      cancelled; the pools refine queues; a cancelled task never starts, also when the cancellation comes
      from the API; the schedule has exactly the job of the enabled plan; the controllers start with every
      variable they use in place; the address of Olares Space is the one derived from the remote service;
      an informer runs once and none runs after the shutdown of its factory.
    \<^item> Results: a run that gets through its preparation records what its execution answered, and nothing
      once its context is over; a run that may not start records a failure; a failed restore is cleaned up; progress stays in its bounds
      and only moves while the snapshot runs; incremental snapshots follow a completed one; the disk check
      of a backup counts every file below its path.
    \<^item> Data: what is written for a location, a restore, a policy or JSON is read back; the two spellings
      of a bucket address are one repository, unless the name of the bucket has a dot; pages tile the listing; next backup times of valid policies
      are in the future (weekly and monthly ones for hours before 16); a policy given as a timestamp has
      a cron text with its fields in range; the copy of a listing reads the same, but shares its specs.
    \<^item> Loops: the conflict loop ends after the conflicts of the server and never on a stale object; the
      month loop ends for every date that exists and never for the others (a wrong time of day is accepted by
      the API); a Space backup whose
      token keeps being refused is retried for ever.
    \<^item> Errors: refused requests leave no plan behind; open snapshots of an earlier process are failed; a
      second snapshot of a busy plan is refused; no error or panic of a handler gets past the server;
      the API server exits with 0 only after a signal, and may crash after one.
    \<^item> Deviations of the code from what it means to do are theorems about the code as it is; they are
      named in the findings of the manifest.

  Fuel. \<open>retry_conflict\<close> takes as many turns as conflicts and one more (\<open>retry_conflict_enough\<close>). The search
  for the next month needs at most two turns for a date that exists (theory \<open>NextBackup\<close>). \<open>space_loop\<close> and
  \<open>poll\<close> take the fuel of the services; \<open>runWorker\<close> takes the number of items. JSON is parsed
  with twice the length of the text and two, which the round trip shows to be enough.

  Not modelled: the backup SDK, restic and the object storage; the generated fakes, which are for tests;
  HTTP transport, DNS and TLS; the output of the logger; cobra and the manager of controller-runtime; the
  functions of \<open>pkg/util\<close> that only call the operating system or are used nowhere (hashes, the external address, the table of resource kinds); interleavings inside one exported method
  of the worker (each is one step) and the delivery order of Kubernetes events, which the
  theorems leave arbitrary.
\<close>

section \<open>From a request to the queue\<close>

declare phase_String.simps [simp del]

lemma AddBackupTask_queues:
  assumes "ExistsTask owner b w = Ret ()" "b \<noteq> []" "s \<noteq> []" "\<forall>p. accept p"
  shows "\<exists>w' p r. AddBackupTask accept owner b s w = (Ret (), w') \<and> pool_of w' owner = Some p
    \<and> tp_queue p = (case pool_of w owner of None \<Rightarrow> [] | Some q \<Rightarrow> tp_queue q) @ [(b @ ''_'' @ s, r)]
    \<and> wp_heap w' r = Some \<lparr>bt_id = b @ ''_'' @ s, bt_owner = owner, bt_kind = BackupTask b s, bt_canceled = False, bt_ctx_done = False\<rparr>
    \<and> (\<forall>x. x \<noteq> owner \<longrightarrow> pool_of w' x = pool_of w x)"
  using assms(1-3) addTask_queues[OF assms(4), of owner "b @ ''_'' @ s" "BackupTask b s" w] by (simp add: AddBackupTask_def)

text \<open>C2: a snapshot that is requested over the HTTP API, for a plan that is not marked as deleted, reaches the
  worker: the request is answered with success, the event of the stored snapshot passes the filter of the
  controller, and when the controller, started before the snapshot was created, reconciles it - while no task
  of the plan is waiting or running and the pool accepts tasks - exactly one
  job for this plan and this snapshot is put at the end of the queue of the owner; the schedule and the
  pools of the other owners stay as they are.\<close>

theorem requested_snapshot_is_queued:
  assumes plan: "backup_GetById v i w = (Ret b, w1)" "\<not> bs_Deleted (bk_Spec b)" "i \<noteq> []"
    and made: "k_client v w1 = (Ret (), wa)" "k_uuid v wa = (name, wb)"
      "k_snapshot_create v (new_snapshot name (k_now v wa) b (first_location b)) wb = (Ret s0, w2)"
    and seen: "k_client v w3 = (Ret (), w4)" "k_snapshot_get v name w4 = (Ret s, w5)"
      "sn_Spec s = sn_Spec (new_snapshot name (k_now v wa) b (first_location b))" "sn_Name s = name"
      "started < om_CreationTimestamp (sn_meta s)"
    and owner: "backup_GetById v (bk_Name b) w5 = (Ret b', w6)" "bk_Name b' = bk_Name b"
    and notified: "notifySnapshot v b' s (phase_String Pending) w6 = (r, w7)" "settles r"
    and free: "ExistsTask (bs_Owner (bk_Spec b')) (bk_Name b) (nd_worker n) = Ret ()" "bk_Name b \<noteq> []" "name \<noteq> []" "\<forall>p. accept p"
  shows "addSnapshot v (Ret ''create'') i w = (Ret (Ok None), w2) \<and> snapshot_create_event s = Ret True
    \<and> (\<exists>p ref m. Reconcile_Snapshot v dec accept started name (w3, n) = (Ret (no_requeue, None), (w7, n\<lparr>nd_worker := m\<rparr>))
        \<and> pool_of m (bs_Owner (bk_Spec b')) = Some p
        \<and> tp_queue p = (case pool_of (nd_worker n) (bs_Owner (bk_Spec b')) of None \<Rightarrow> [] | Some q \<Rightarrow> tp_queue q) @ [(bk_Name b @ ''_'' @ name, ref)]
        \<and> wp_heap m ref = Some \<lparr>bt_id = bk_Name b @ ''_'' @ name, bt_owner = bs_Owner (bk_Spec b'), bt_kind = BackupTask (bk_Name b) name,
             bt_canceled = False, bt_ctx_done = False\<rparr>
        \<and> (\<forall>x. x \<noteq> bs_Owner (bk_Spec b') \<longrightarrow> pool_of m x = pool_of (nd_worker n) x))"
proof (intro conjI)
  have "snapshot_Create v b (first_location b) w1 = (Ret s0, w2)"
    using made by (simp add: snapshot_Create_def go_simps)
  thus "addSnapshot v (Ret ''create'') i w = (Ret (Ok None), w2)"
    using plan by (simp add: addSnapshot_def read_entity_def found_backup_def found_def tryG_def)
  have ph: "ss_Phase (sn_Spec s) = Some (phase_String Pending)" and bid: "ss_BackupId (sn_Spec s) = bk_Name b"
    using seen(3) by (simp_all add: new_snapshot_def)
  show "snapshot_create_event s = Ret True" by (simp add: snapshot_create_event_def ph final_phases_def phase_String.simps)
  let ?o = "bs_Owner (bk_Spec b')"
  obtain m p ref where add: "AddBackupTask accept ?o (bk_Name b) name (nd_worker n) = (Ret (), m)"
    and m: "pool_of m ?o = Some p"
      "tp_queue p = (case pool_of (nd_worker n) ?o of None \<Rightarrow> [] | Some q \<Rightarrow> tp_queue q) @ [(bk_Name b @ ''_'' @ name, ref)]"
      "wp_heap m ref = Some \<lparr>bt_id = bk_Name b @ ''_'' @ name, bt_owner = ?o, bt_kind = BackupTask (bk_Name b) name,
         bt_canceled = False, bt_ctx_done = False\<rparr>" "\<forall>x. x \<noteq> ?o \<longrightarrow> pool_of m x = pool_of (nd_worker n) x"
    using AddBackupTask_queues[OF free] by (elim exE conjE) (rule that)
  have "addToWorkerManager v accept b' s (w6, n) = (Ret (), (w7, n\<lparr>nd_worker := m\<rparr>))"
    using add owner(2) seen(4)
    by (simp add: addToWorkerManager_def in_worker_def
        up_ignore_settles[of "notifySnapshot v b' s (phase_String Pending)", OF notified])
  hence "Reconcile_Snapshot v dec accept started name (w3, n) = (Ret (no_requeue, None), (w7, n\<lparr>nd_worker := m\<rparr>))"
    unfolding Reconcile_Snapshot_phase[OF seen(1,2) ph owner(1)[folded bid]]
    using seen(5) by (simp add: reconcile_phase_def tryG_Ret Let_def)
  thus "\<exists>p ref m. Reconcile_Snapshot v dec accept started name (w3, n) = (Ret (no_requeue, None), (w7, n\<lparr>nd_worker := m\<rparr>))
        \<and> pool_of m ?o = Some p
        \<and> tp_queue p = (case pool_of (nd_worker n) ?o of None \<Rightarrow> [] | Some q \<Rightarrow> tp_queue q) @ [(bk_Name b @ ''_'' @ name, ref)]
        \<and> wp_heap m ref = Some \<lparr>bt_id = bk_Name b @ ''_'' @ name, bt_owner = ?o, bt_kind = BackupTask (bk_Name b) name,
             bt_canceled = False, bt_ctx_done = False\<rparr>
        \<and> (\<forall>x. x \<noteq> ?o \<longrightarrow> pool_of m x = pool_of (nd_worker n) x)"
    using m by blast
qed

definition asked_store :: store where
  "asked_store = \<lparr>st_backups = [sample_backup ''b1'' 10 False], st_snapshots = [], st_restores = [], st_clock = 7, st_next = 3\<rparr>"

definition asked_snapshot :: Snapshot where
  "asked_snapshot = new_snapshot ''id-3'' 7 (sample_backup ''b1'' 10 False) []"

theorem requested_snapshot_is_queued_witness:
  "\<forall>dec. \<exists>w2 p ref m. addSnapshot mem_web (Ret ''create'') ''b1'' asked_store = (Ret (Ok None), w2)
    \<and> Reconcile_Snapshot mem_web dec (\<lambda>_. True) (-1) ''id-3'' (w2, demo_node) = (Ret (no_requeue, None), (w2, demo_node\<lparr>nd_worker := m\<rparr>))
    \<and> pool_of m ''alice'' = Some p \<and> tp_queue p = [(''b1_id-3'', ref)]"
proof
  fix dec
  let ?b = "sample_backup ''b1'' 10 False" and ?w2 = "asked_store\<lparr>st_next := 4, st_snapshots := [asked_snapshot]\<rparr>"
  have b: "backup_GetById mem_web ''b1'' asked_store = (Ret ?b, asked_store)" "backup_GetById mem_web (bk_Name ?b) ?w2 = (Ret ?b, ?w2)"
    by (simp_all add: backup_GetById_def mem_web_sel mem_get_def find_by_def go_simps asked_store_def sample_backup_def)
  have "first_location ?b = []" by (simp add: first_location_def sample_backup_def sample_spec_def)
  hence c: "k_snapshot_create mem_web (new_snapshot ''id-3'' (k_now mem_web asked_store) ?b (first_location ?b)) (asked_store\<lparr>st_next := 4\<rparr>) =
      (Ret asked_snapshot, ?w2)"
    by (simp add: mem_web_sel asked_store_def asked_snapshot_def)
  have g: "k_snapshot_get mem_web ''id-3'' ?w2 = (Ret asked_snapshot, ?w2)"
    by (simp add: mem_web_sel mem_get_def find_by_def asked_snapshot_def new_snapshot_def)
  have n: "notifySnapshot mem_web ?b asked_snapshot (phase_String Pending) ?w2 = (Ret (), ?w2)"
    by (simp add: notifySnapshot_def location_config0_def GetBackupLocationConfig_def sample_backup_def sample_spec_def lookup0_def mget_def)
  have k: "k_client mem_web w = (Ret (), w)" "k_uuid mem_web asked_store = (''id-3'', asked_store\<lparr>st_next := 4\<rparr>)" for w
    by (simp_all add: mem_web_sel asked_store_def nat_digits.simps digit_char_def char_eq_nat)
  have s: "sn_Spec asked_snapshot = sn_Spec (new_snapshot ''id-3'' (k_now mem_web asked_store) ?b (first_location ?b))"
    using \<open>first_location ?b = []\<close> by (simp add: asked_snapshot_def mem_web_sel asked_store_def)
  have e: "sn_Name asked_snapshot = ''id-3''" "- 1 < om_CreationTimestamp (sn_meta asked_snapshot)"
    "\<not> bs_Deleted (bk_Spec ?b)" "bk_Name ?b = ''b1''" "bs_Owner (bk_Spec ?b) = ''alice''"
    by (simp_all add: asked_snapshot_def new_snapshot_def sample_backup_def sample_spec_def)
  have x: "ExistsTask (bs_Owner (bk_Spec ?b)) (bk_Name ?b) (nd_worker demo_node) = Ret ()" "pool_of (nd_worker demo_node) ''alice'' = None"
    by (simp_all add: ExistsTask_def demo_node_def NewWorkerPool_def pool_of_def)
  have "settles (Ret () :: unit outcome)" by (simp add: settles_def)
  from requested_snapshot_is_queued[where dec = dec and accept = "\<lambda>_. True",
      OF b(1) e(3) _ k(1) k(2) c k(1) g s e(1,2) b(2) refl n this x(1)] e(4,5) x(2)
  show "\<exists>w2 p ref m. addSnapshot mem_web (Ret ''create'') ''b1'' asked_store = (Ret (Ok None), w2)
    \<and> Reconcile_Snapshot mem_web dec (\<lambda>_. True) (-1) ''id-3'' (w2, demo_node) = (Ret (no_requeue, None), (w2, demo_node\<lparr>nd_worker := m\<rparr>))
    \<and> pool_of m ''alice'' = Some p \<and> tp_queue p = [(''b1_id-3'', ref)]"
    by fastforce
qed

end
